(* ===== verification/Prelude.thy ===== *)
theory Prelude
  imports Main "HOL-Library.AList" "HOL-Library.Multiset"
begin

text \<open>
  Shared ground of the development: what the Go sources take from the language and its
  standard library, and the generic lemmas the component theories rely on.

  \<^item> Go strings are byte strings, here \<open>string\<close> (a list of 8-bit characters), with the
    functions of \<open>strings\<close>, \<open>strconv\<close>, \<open>fmt\<close> and \<open>net\<close> that the sources call.
  \<^item> Go \<open>error\<close> values are the datatype \<open>error\<close>: plain messages, wrapped errors
    (\<open>fmt.Errorf\<close> with a trailing \<open>%w\<close>), gRPC statuses, context errors, joined errors
    and the sentinel \<open>store.ErrNotFound\<close>. \<open>errors.Is\<close> and \<open>status.Code\<close> walk the chain.
  \<^item> A call that can return a value, return an error or panic has a result of type
    \<open>'a go\<close>; a call that cannot panic has a result of type \<open>error + 'a\<close>.
  \<^item> Go maps are association lists with distinct keys; the unspecified iteration order of a
    \<open>range\<close> over a map is a function argument that permutes the entries.
  \<^item> \<open>int64\<close> arithmetic is integer arithmetic wrapped by \<open>wrap64\<close>.
\<close>

section \<open>Fact collections\<close>

named_theorems go_string "facts about the Go string functions"
named_theorems wf_intro "introduction rules for well-formedness invariants"
named_theorems step_simps "functional descriptions of operations, one per branch"

section \<open>Errors and results\<close>

datatype code =
    CodeOK | CodeCanceled | CodeUnknown | CodeInvalidArgument | CodeDeadlineExceeded
  | CodeNotFound | CodeAlreadyExists | CodePermissionDenied | CodeAborted | CodeUnavailable
  | CodeInternal

datatype error =
    ENew string                \<comment> \<open>\<open>errors.New\<close>, or \<open>fmt.Errorf\<close> without \<open>%w\<close>\<close>
  | EWrap string error         \<comment> \<open>\<open>fmt.Errorf("<prefix>: %w", err)\<close>\<close>
  | ENotFound                  \<comment> \<open>\<open>store.ErrNotFound\<close>\<close>
  | EStatus code string        \<comment> \<open>\<open>status.Error(code, msg)\<close>\<close>
  | ECanceled                  \<comment> \<open>\<open>context.Canceled\<close>\<close>
  | EDeadline                  \<comment> \<open>\<open>context.DeadlineExceeded\<close>\<close>
  | EJoin "error list"         \<comment> \<open>\<open>errors.Join\<close>\<close>

datatype 'a go = Ok 'a | Err error | Panic

fun code_name :: "code \<Rightarrow> string" where
  "code_name CodeOK = ''OK''"
| "code_name CodeCanceled = ''Canceled''"
| "code_name CodeUnknown = ''Unknown''"
| "code_name CodeInvalidArgument = ''InvalidArgument''"
| "code_name CodeDeadlineExceeded = ''DeadlineExceeded''"
| "code_name CodeNotFound = ''NotFound''"
| "code_name CodeAlreadyExists = ''AlreadyExists''"
| "code_name CodePermissionDenied = ''PermissionDenied''"
| "code_name CodeAborted = ''Aborted''"
| "code_name CodeUnavailable = ''Unavailable''"
| "code_name CodeInternal = ''Internal''"

text \<open>The text of an error, Go's \<open>err.Error()\<close>.\<close>

fun err_msg :: "error \<Rightarrow> string"
and err_msgs :: "error list \<Rightarrow> string" where
  "err_msg (ENew s) = s"
| "err_msg (EWrap p e) = p @ '': '' @ err_msg e"
| "err_msg ENotFound = ''resource not found''"
| "err_msg (EStatus c m) = ''rpc error: code = '' @ code_name c @ '' desc = '' @ m"
| "err_msg ECanceled = ''context canceled''"
| "err_msg EDeadline = ''context deadline exceeded''"
| "err_msg (EJoin es) = err_msgs es"
| "err_msgs [] = []"
| "err_msgs [e] = err_msg e"
| "err_msgs (e # es) = err_msg e @ [CHR 0x0A] @ err_msgs es"

text \<open>\<open>errors.Is(err, store.ErrNotFound)\<close> follows wrapped and joined errors.\<close>

fun is_not_found :: "error \<Rightarrow> bool" where
  "is_not_found ENotFound = True"
| "is_not_found (EWrap _ e) = is_not_found e"
| "is_not_found (EJoin es) = list_ex is_not_found es"
| "is_not_found _ = False"

text \<open>\<open>status.Code(err)\<close>: the code of the first gRPC status in the chain, else Unknown.\<close>

fun find_status :: "error \<Rightarrow> code option"
and find_statuses :: "error list \<Rightarrow> code option" where
  "find_status (EStatus c _) = Some c"
| "find_status (EWrap _ e) = find_status e"
| "find_status (EJoin es) = find_statuses es"
| "find_status _ = None"
| "find_statuses [] = None"
| "find_statuses (e # es) = (case find_status e of None \<Rightarrow> find_statuses es | Some c \<Rightarrow> Some c)"

definition status_code :: "error \<Rightarrow> code" where
  "status_code e = (case find_status e of None \<Rightarrow> CodeUnknown | Some c \<Rightarrow> c)"

lemma status_code_simps [simp]:
  "status_code (EStatus c m) = c"
  "status_code (EWrap p e) = status_code e"
  "status_code ENotFound = CodeUnknown"
  "status_code (ENew s) = CodeUnknown"
  by (simp_all add: status_code_def)

section \<open>Strings\<close>

definition hasPrefix :: "string \<Rightarrow> string \<Rightarrow> bool" where
  "hasPrefix s p \<longleftrightarrow> take (length p) s = p"

definition hasSuffix :: "string \<Rightarrow> string \<Rightarrow> bool" where
  "hasSuffix s p \<longleftrightarrow> hasPrefix (rev s) (rev p)"

definition trimPrefix :: "string \<Rightarrow> string \<Rightarrow> string" where
  "trimPrefix s p = (if hasPrefix s p then drop (length p) s else s)"

definition trimSuffix :: "string \<Rightarrow> string \<Rightarrow> string" where
  "trimSuffix s p = (if hasSuffix s p then take (length s - length p) s else s)"

text \<open>\<open>strings.TrimRight(s, "<c>")\<close> and \<open>strings.TrimLeft\<close> with a one-byte cutset.\<close>

definition trimRightChar :: "char \<Rightarrow> string \<Rightarrow> string" where
  "trimRightChar c s = rev (dropWhile (\<lambda>x. x = c) (rev s))"

definition trimLeftChar :: "char \<Rightarrow> string \<Rightarrow> string" where
  "trimLeftChar c s = dropWhile (\<lambda>x. x = c) s"

text \<open>
  \<open>strings.TrimSpace\<close> and \<open>strings.ToLower\<close> on ASCII text, the only text the sources use them on.
\<close>

definition is_space :: "char \<Rightarrow> bool" where
  "is_space c \<longleftrightarrow> c \<in> {CHR '' '', CHR 0x09, CHR 0x0A, CHR 0x0B, CHR 0x0C, CHR 0x0D}"

definition trimSpace :: "string \<Rightarrow> string" where
  "trimSpace s = rev (dropWhile is_space (rev (dropWhile is_space s)))"

definition lower_char :: "char \<Rightarrow> char" where
  "lower_char c = (if 65 \<le> (of_char c :: nat) \<and> (of_char c :: nat) \<le> 90 then char_of (of_char c + 32 :: nat) else c)"

definition toLower :: "string \<Rightarrow> string" where
  "toLower s = map lower_char s"

text \<open>\<open>strings.Contains\<close>.\<close>

fun strContains :: "string \<Rightarrow> string \<Rightarrow> bool" where
  "strContains [] p = (p = [])"
| "strContains (c # s) p = (hasPrefix (c # s) p \<or> strContains s p)"

text \<open>\<open>strings.SplitN(s, "<c>", 2)\<close>: one cut at the first occurrence, if there is one.\<close>

definition splitN2 :: "char \<Rightarrow> string \<Rightarrow> string list" where
  "splitN2 c s =
     (if c \<in> set s
      then [takeWhile (\<lambda>x. x \<noteq> c) s, tl (dropWhile (\<lambda>x. x \<noteq> c) s)]
      else [s])"

fun joinWith :: "string \<Rightarrow> string list \<Rightarrow> string" where
  "joinWith sep [] = []"
| "joinWith sep [s] = s"
| "joinWith sep (s # ss) = s @ sep @ joinWith sep ss"

text \<open>Decimal and hexadecimal output, \<open>%d\<close> and \<open>%x\<close>.\<close>

definition dec_digit :: "nat \<Rightarrow> char" where
  "dec_digit n = char_of (48 + n)"

fun utoa :: "nat \<Rightarrow> string" where
  "utoa n = (if n < 10 then [dec_digit n] else utoa (n div 10) @ [dec_digit (n mod 10)])"

declare utoa.simps [simp del]

lemma utoa_0 [simp]: "utoa 0 = ''0''"
  by code_simp

definition itoa :: "int \<Rightarrow> string" where
  "itoa i = (if i < 0 then CHR ''-'' # utoa (nat (- i)) else utoa (nat i))"

definition hex_digit :: "nat \<Rightarrow> char" where
  "hex_digit n = (if n < 10 then char_of (48 + n) else char_of (87 + n))"

text \<open>\<open>%x\<close> of a byte slice: two lower-case hexadecimal digits per byte.\<close>

definition hex_bytes :: "nat list \<Rightarrow> string" where
  "hex_bytes bs = concat (map (\<lambda>b. [hex_digit (b div 16 mod 16), hex_digit (b mod 16)]) bs)"

definition is_lower_hex :: "char \<Rightarrow> bool" where
  "is_lower_hex c \<longleftrightarrow>
     (48 \<le> (of_char c :: nat) \<and> (of_char c :: nat) \<le> 57) \<or> (97 \<le> (of_char c :: nat) \<and> (of_char c :: nat) \<le> 102)"

text \<open>
  \<open>strconv.Quote\<close>, the \<open>%q\<close> verb, byte by byte: printable ASCII is kept, the quote, the
  backslash and the usual control characters get their short escapes, and every other byte
  is written \<open>\xNN\<close>. (Go keeps printable characters beyond ASCII as they are; the strings
  quoted here only end up in error messages.)
\<close>

definition quote_char :: "char \<Rightarrow> string" where
  "quote_char c =
     (if c = CHR 0x22 then [CHR 0x5C, CHR 0x22]
      else if c = CHR 0x5C then [CHR 0x5C, CHR 0x5C]
      else if c = CHR 0x07 then [CHR 0x5C, CHR ''a'']
      else if c = CHR 0x08 then [CHR 0x5C, CHR ''b'']
      else if c = CHR 0x0C then [CHR 0x5C, CHR ''f'']
      else if c = CHR 0x0A then [CHR 0x5C, CHR ''n'']
      else if c = CHR 0x0D then [CHR 0x5C, CHR ''r'']
      else if c = CHR 0x09 then [CHR 0x5C, CHR ''t'']
      else if c = CHR 0x0B then [CHR 0x5C, CHR ''v'']
      else if 32 \<le> (of_char c :: nat) \<and> (of_char c :: nat) < 127 then [c]
      else [CHR 0x5C, CHR ''x'', hex_digit (of_char c div 16), hex_digit (of_char c mod 16)])"

definition quote :: "string \<Rightarrow> string" where
  "quote s = [CHR 0x22] @ concat (map quote_char s) @ [CHR 0x22]"

text \<open>
  \<open>net.SplitHostPort\<close>: the last colon separates host and port; a bracketed host may contain
  colons; every other shape is an error.
\<close>

definition lastIndex :: "char \<Rightarrow> string \<Rightarrow> nat option" where
  "lastIndex c s = (if c \<in> set s then Some (length s - 1 - length (takeWhile (\<lambda>x. x \<noteq> c) (rev s))) else None)"

definition firstIndex :: "char \<Rightarrow> string \<Rightarrow> nat option" where
  "firstIndex c s = (if c \<in> set s then Some (length (takeWhile (\<lambda>x. x \<noteq> c) s)) else None)"

definition splitHostPort :: "string \<Rightarrow> (string \<times> string) option" where
  "splitHostPort s =
     (case lastIndex CHR '':'' s of
        None \<Rightarrow> None
      | Some i \<Rightarrow>
          (if take 1 s = ''[''
           then (case firstIndex CHR '']'' s of
                   None \<Rightarrow> None
                 | Some e \<Rightarrow>
                     (if e + 1 = i \<and> CHR ''['' \<notin> set (drop 1 s) \<and> CHR '']'' \<notin> set (drop (e + 1) s)
                      then Some (take (e - 1) (drop 1 s), drop (i + 1) s) else None))
           else (if CHR '':'' \<notin> set (take i s) \<and> CHR ''['' \<notin> set s \<and> CHR '']'' \<notin> set s
                 then Some (take i s, drop (i + 1) s) else None)))"

section \<open>Lists\<close>

lemma count_list_replicate [simp]: "count_list (replicate k x) y = (if x = y then k else 0)"
  by (induction k) auto

section \<open>Bounded integers\<close>

definition wrap64 :: "int \<Rightarrow> int" where
  "wrap64 x = (x + 2 ^ 63) mod 2 ^ 64 - 2 ^ 63"

definition int64 :: "int \<Rightarrow> bool" where
  "int64 x \<longleftrightarrow> - (2 ^ 63) \<le> x \<and> x < 2 ^ 63"

lemma wrap64_id [simp]: "int64 x \<Longrightarrow> wrap64 x = x"
  by (simp add: wrap64_def int64_def)

lemma int64_wrap64: "int64 (wrap64 x)"
proof -
  have "0 \<le> (x + 2 ^ 63) mod 2 ^ 64" "(x + 2 ^ 63) mod 2 ^ 64 < (2::int) ^ 64"
    by simp_all
  then show ?thesis by (simp add: wrap64_def int64_def)
qed

end
