(* ===== verification/Api_Types.thy ===== *)
theory Api_Types
  imports Prelude
begin

text \<open>
  The resource kinds of \<open>pkg/apis/v1alpha1\<close>. The records follow the generated message
  structs of \<open>ax.pb.go\<close>: a pointer to a message is an \<open>option\<close>, a repeated field is a list
  (of \<open>option\<close>s where the sources check for nil entries), a timestamp is its number of
  nanoseconds since the epoch, and a getter is nil-safe as the generated one is. After the
  data come the operations of \<open>types.go\<close>: the legacy manifest normalizers, the workspace
  bindings of a task, and \<open>ValidateTask\<close> with the characterisation of what it accepts.
\<close>

section \<open>Messages\<close>

type_synonym timestamp = int

record objectMeta =
  meta_Name :: string
  meta_Atespace :: string
  meta_CreationTimestamp :: "timestamp option"

record envVar =
  env_Name :: string
  env_Value :: string

record resourceList =
  rl_Cpu :: string
  rl_Memory :: string

record resourceReqs =
  rr_Requests :: "resourceList option"
  rr_Limits :: "resourceList option"

record workspaceRef =
  wref_Name :: string
  wref_Path :: string
  wref_Goal :: string

record gatewayRef =
  gref_Name :: string

record taskSpec =
  ts_Suspend :: bool
  ts_Image :: string
  ts_Command :: "string list"
  ts_Env :: "envVar list"
  ts_Resources :: "resourceReqs option"
  ts_Workspaces :: "workspaceRef option list"
  ts_Gateway :: "gatewayRef option"
  ts_Debug :: bool

record pendingApproval =
  pa_Id :: string
  pa_Action :: string
  pa_RequestedAt :: "timestamp option"

record usageStats =
  us_PromptTokens :: int
  us_CompletionTokens :: int

record condition =
  cond_Type :: string
  cond_Status :: string
  cond_LastTransitionTime :: "timestamp option"
  cond_Reason :: string
  cond_Message :: string

record taskStatus =
  st_Phase :: string
  st_Id :: string
  st_Actor :: string
  st_WorkerIp :: string
  st_PendingApproval :: "pendingApproval option"
  st_Usage :: "usageStats option"
  st_Conditions :: "condition list"

record task =
  task_ApiVersion :: string
  task_Kind :: string
  task_Metadata :: "objectMeta option"
  task_Spec :: "taskSpec option"
  task_Status :: "taskStatus option"

record hostRule =
  hr_Host :: string
  hr_Port :: int

record egressAllowlist =
  ea_Hosts :: "hostRule list"

record egressConfig =
  ec_Allowlist :: "egressAllowlist option"

record listener =
  ln_Name :: string
  ln_Port :: int
  ln_Protocol :: string

record gatewaySpec =
  gs_Listeners :: "listener list"
  gs_Egress :: "egressConfig option"

record gateway =
  gw_ApiVersion :: string
  gw_Kind :: string
  gw_Metadata :: "objectMeta option"
  gw_Spec :: "gatewaySpec option"

record gitRepo =
  git_Name :: string
  git_Repo :: string
  git_Branch :: string
  git_Dir :: string
  git_Depth :: int

record mcpServer =
  mcp_Name :: string
  mcp_Endpoint :: string
  mcp_Command :: string
  mcp_Args :: "string list"

record mcpRegistry =
  mr_Provider :: string
  mr_Project :: string
  mr_Query :: string
  mr_Servers :: "mcpServer list"

record mcpConfig =
  mc_Registries :: "mcpRegistry list"
  mc_Servers :: "mcpServer list"

record skillRegistry =
  sr_Provider :: string
  sr_Project :: string
  sr_Query :: string

record skillsConfig =
  sk_Registries :: "skillRegistry list"
  sk_Path :: string

record workspaceSpec =
  ws_Git :: "gitRepo option list"
  ws_Mcp :: "mcpConfig option"
  ws_Skills :: "skillsConfig option"

record workspace =
  wsp_ApiVersion :: string
  wsp_Kind :: string
  wsp_Metadata :: "objectMeta option"
  wsp_Spec :: "workspaceSpec option"

record secretKeyRef =
  sec_Name :: string
  sec_Key :: string

text \<open>
  The values of a generic document: what \<open>yaml.Node.Decode\<close> produces for \<open>any\<close>, and the
  free-form \<open>parameters\<close> of a model. Numbers keep their literal.
\<close>

datatype any = AStr string | ANum string | ABool bool | ANull | ASeq "any list"
  | AMap "(string \<times> any) list"

record modelSpec =
  ms_Provider :: string
  ms_Model :: string
  ms_SecretKey :: "secretKeyRef option"
  ms_Parameters :: "(string \<times> any) list option"
  ms_Protocol :: string
  ms_BaseUrl :: string
  ms_Headers :: "(string \<times> string) list"
  ms_ApiKeyHeader :: string
  ms_ApiKeyPrefix :: string

record model =
  model_ApiVersion :: string
  model_Kind :: string
  model_Metadata :: "objectMeta option"
  model_Spec :: "modelSpec option"

section \<open>Zero values and getters\<close>

definition emptyMeta :: objectMeta where
  "emptyMeta = \<lparr>meta_Name = [], meta_Atespace = [], meta_CreationTimestamp = None\<rparr>"

definition emptySpec :: taskSpec where
  "emptySpec = \<lparr>ts_Suspend = False, ts_Image = [], ts_Command = [], ts_Env = [],
     ts_Resources = None, ts_Workspaces = [], ts_Gateway = None, ts_Debug = False\<rparr>"

definition emptyStatus :: taskStatus where
  "emptyStatus = \<lparr>st_Phase = [], st_Id = [], st_Actor = [], st_WorkerIp = [],
     st_PendingApproval = None, st_Usage = None, st_Conditions = []\<rparr>"

fun GetCreationTimestamp :: "objectMeta option \<Rightarrow> timestamp option" where
  "GetCreationTimestamp None = None"
| "GetCreationTimestamp (Some m) = meta_CreationTimestamp m"

fun meta_GetName :: "objectMeta option \<Rightarrow> string" where
  "meta_GetName None = []"
| "meta_GetName (Some m) = meta_Name m"

fun meta_GetAtespace :: "objectMeta option \<Rightarrow> string" where
  "meta_GetAtespace None = []"
| "meta_GetAtespace (Some m) = meta_Atespace m"

fun GetWorkspaces :: "taskSpec option \<Rightarrow> workspaceRef option list" where
  "GetWorkspaces None = []"
| "GetWorkspaces (Some s) = ts_Workspaces s"

section \<open>Constants\<close>

definition APIVersion :: string where "APIVersion = ''ax.io/v1alpha1''"
definition KindTask :: string where "KindTask = ''Task''"
definition KindGateway :: string where "KindGateway = ''Gateway''"
definition KindWorkspace :: string where "KindWorkspace = ''Workspace''"
definition KindModel :: string where "KindModel = ''Model''"
definition DefaultTaskImage :: string where
  "DefaultTaskImage = ''gcr.io/ax-substrate/ate-images/ax-task-runner''"
definition PhaseTerminating :: string where "PhaseTerminating = ''Terminating''"
definition DefaultWorkspacePath :: string where "DefaultWorkspacePath = ''/workspace''"

lemmas api_const_defs = APIVersion_def KindTask_def KindGateway_def KindWorkspace_def
  KindModel_def DefaultTaskImage_def PhaseTerminating_def DefaultWorkspacePath_def

section \<open>Legacy manifest shapes\<close>

text \<open>
  A generically decoded document is a \<open>map[string]any\<close>. Normalizers rewrite it in place; the
  model returns the rewritten document. \<open>AList.update\<close> is the map assignment and
  \<open>AList.delete\<close> the built-in \<open>delete\<close>.
\<close>

definition normalizeWorkspace :: "(string \<times> any) list \<Rightarrow> (string \<times> any) list" where
  "normalizeWorkspace doc =
     (case map_of doc ''spec'' of
        Some (AMap spec) \<Rightarrow>
          (case map_of spec ''mcp'' of
             Some (ASeq lst) \<Rightarrow>
               AList.update ''spec''
                 (AMap (AList.update ''mcp'' (AMap [(''servers'', ASeq lst)]) spec)) doc
           | _ \<Rightarrow> doc)
      | _ \<Rightarrow> doc)"

definition liftSecretKey :: "(string \<times> any) list \<Rightarrow> (string \<times> any) list" where
  "liftSecretKey spec =
     (if map_of spec ''secretKey'' = None
      then (case map_of spec ''secretKeyRef'' of
              Some ref \<Rightarrow> AList.update ''secretKey'' ref spec
            | None \<Rightarrow>
                (case map_of spec ''apiKey'' of
                   Some (AMap apiKey) \<Rightarrow>
                     (case map_of apiKey ''secretKeyRef'' of
                        Some ref \<Rightarrow> AList.update ''secretKey'' ref spec
                      | None \<Rightarrow> spec)
                 | _ \<Rightarrow> spec))
      else spec)"

definition expandSecretKey :: "(string \<times> any) list \<Rightarrow> (string \<times> any) list" where
  "expandSecretKey spec =
     (case map_of spec ''secretKey'' of
        Some (AStr s) \<Rightarrow>
          AList.update ''secretKey'' (AMap [(''name'', AStr s), (''key'', AStr s)]) spec
      | _ \<Rightarrow> spec)"

definition normalizeModel :: "(string \<times> any) list \<Rightarrow> (string \<times> any) list" where
  "normalizeModel doc =
     (case map_of doc ''spec'' of
        Some (AMap spec) \<Rightarrow>
          AList.update ''spec''
            (AMap (expandSecretKey
               (AList.delete ''apiKey'' (AList.delete ''secretKeyRef'' (liftSecretKey spec))))) doc
      | _ \<Rightarrow> doc)"

section \<open>Workspace bindings\<close>

definition WorkspaceRefs :: "taskSpec option \<Rightarrow> workspaceRef list" where
  "WorkspaceRefs s =
     (case s of None \<Rightarrow> []
      | Some _ \<Rightarrow> map the (filter (\<lambda>r. r \<noteq> None) (GetWorkspaces s)))"

definition refPath :: "workspaceRef \<Rightarrow> string" where
  "refPath r = (if wref_Path r \<noteq> [] then wref_Path r
                else DefaultWorkspacePath @ ''/'' @ wref_Name r)"

definition WorkspacePaths :: "taskSpec option \<Rightarrow> string list" where
  "WorkspacePaths s = map refPath (WorkspaceRefs s)"

section \<open>Task validation\<close>

text \<open>The key under which a mount path is remembered: trailing slashes do not count.\<close>

definition mountKey :: "string \<Rightarrow> string" where
  "mountKey p = (let q = trimRightChar CHR ''/'' p in if q = [] then ''/'' else q)"

text \<open>
  The loop over the bindings; \<open>names\<close> is the set of names seen so far and \<open>seen\<close> the map from
  mount key to the workspace that uses it.
\<close>

definition fieldName :: "nat \<Rightarrow> string" where
  "fieldName i = ''spec.workspaces['' @ utoa i @ '']''"

fun validateRefs :: "nat \<Rightarrow> string list \<Rightarrow> (string \<times> string) list \<Rightarrow> workspaceRef list \<Rightarrow> error option" where
  "validateRefs i names seen [] = None"
| "validateRefs i names seen (r # rs) =
     (let field = fieldName i; path = refPath r; p = mountKey path in
      if wref_Name r = [] then Some (ENew (field @ '': name is required''))
      else if wref_Name r \<in> set names
        then Some (ENew (field @ '': workspace '' @ quote (wref_Name r) @ '' is bound more than once''))
      else if wref_Path r \<noteq> [] \<and> \<not> hasPrefix (wref_Path r) ''/''
        then Some (ENew (field @ '': path '' @ quote (wref_Path r) @ '' must be absolute''))
      else (case map_of seen p of
              Some other \<Rightarrow> Some (ENew (field @ '': path '' @ quote path @
                               '' is already used by workspace '' @ quote other))
            | None \<Rightarrow> validateRefs (Suc i) (wref_Name r # names)
                        ((p, wref_Name r) # seen) rs))"

definition ValidateTask :: "task \<Rightarrow> error option" where
  "ValidateTask t =
     (case task_Spec t of
        None \<Rightarrow> None
      | Some spec \<Rightarrow> validateRefs 0 [] [] (WorkspaceRefs (Some spec)))"

text \<open>What a valid list of bindings is, stated without the loop.\<close>

definition validRefs :: "workspaceRef list \<Rightarrow> bool" where
  "validRefs rs \<longleftrightarrow>
     (\<forall>r \<in> set rs. wref_Name r \<noteq> [] \<and> (wref_Path r \<noteq> [] \<longrightarrow> hasPrefix (wref_Path r) ''/'')) \<and>
     distinct (map wref_Name rs) \<and> distinct (map (mountKey \<circ> refPath) rs)"

section \<open>Lemmas: validation\<close>

lemma validateRefs_None:
  "validateRefs i names seen rs = None \<longleftrightarrow>
     (\<forall>r \<in> set rs. wref_Name r \<noteq> [] \<and> (wref_Path r \<noteq> [] \<longrightarrow> hasPrefix (wref_Path r) ''/'')) \<and>
     distinct (map wref_Name rs) \<and> set (map wref_Name rs) \<inter> set names = {} \<and>
     distinct (map (mountKey \<circ> refPath) rs) \<and>
     set (map (mountKey \<circ> refPath) rs) \<inter> fst ` set seen = {}"
proof (induction rs arbitrary: i names seen)
  case Nil
  then show ?case by simp
next
  case (Cons r rs)
  show ?case
  proof (cases "map_of seen (mountKey (refPath r))")
    case None
    then have "mountKey (refPath r) \<notin> fst ` set seen"
      by (simp add: map_of_eq_None_iff)
    with None show ?thesis by (simp add: Let_def Cons.IH) blast
  next
    case (Some other)
    then have "mountKey (refPath r) \<in> fst ` set seen"
      by (force dest: map_of_SomeD)
    with Some show ?thesis by (simp add: Let_def)
  qed
qed

lemma validateRefs_start: "validateRefs 0 [] [] rs = None \<longleftrightarrow> validRefs rs"
  by (auto simp: validateRefs_None validRefs_def)

lemma hasPrefix_refPath:
  "(wref_Path r \<noteq> [] \<Longrightarrow> hasPrefix (wref_Path r) ''/'') \<Longrightarrow> hasPrefix (refPath r) ''/''"
  by (simp add: refPath_def hasPrefix_def DefaultWorkspacePath_def)

text \<open>C40: \<open>ValidateTask\<close> accepts a task exactly when it has no spec or every binding has a name,
  every explicit path is absolute, no workspace is bound twice and no two mount paths
  coincide once trailing slashes are dropped.
\<close>

theorem ValidateTask_accepts_iff:
  "ValidateTask t = None \<longleftrightarrow>
     (case task_Spec t of None \<Rightarrow> True | Some s \<Rightarrow> validRefs (WorkspaceRefs (Some s)))"
  by (simp add: ValidateTask_def validateRefs_start split: option.split)

text \<open>the mount paths of a task that passed validation are absolute and pairwise different,
  one for each bound workspace, in declaration order.
\<close>

theorem ValidateTask_mounts:
  assumes "ValidateTask t = None" and "task_Spec t = Some s"
  shows "(\<forall>p \<in> set (WorkspacePaths (Some s)). hasPrefix p ''/'') \<and>
         distinct (WorkspacePaths (Some s)) \<and>
         length (WorkspacePaths (Some s)) = length (WorkspaceRefs (Some s))"
proof -
  from assms have v: "validRefs (WorkspaceRefs (Some s))"
    by (simp add: ValidateTask_def validateRefs_start)
  then have "distinct (map mountKey (WorkspacePaths (Some s)))"
    by (simp add: validRefs_def WorkspacePaths_def)
  then have "distinct (WorkspacePaths (Some s))"
    by (rule distinct_map [THEN iffD1, THEN conjunct1])
  with v show ?thesis
    by (auto simp: WorkspacePaths_def validRefs_def intro: hasPrefix_refPath)
qed

text \<open>A task with two bindings, the second with an explicit path, is a concrete instance.\<close>

definition exampleSpec :: taskSpec where
  "exampleSpec = emptySpec\<lparr>ts_Workspaces :=
     [Some \<lparr>wref_Name = ''code'', wref_Path = [], wref_Goal = []\<rparr>, None,
      Some \<lparr>wref_Name = ''data'', wref_Path = ''/data/'', wref_Goal = ''load it''\<rparr>]\<rparr>"

definition exampleTask :: task where
  "exampleTask = \<lparr>task_ApiVersion = APIVersion, task_Kind = KindTask,
     task_Metadata = Some (emptyMeta\<lparr>meta_Name := ''demo''\<rparr>),
     task_Spec = Some exampleSpec, task_Status = None\<rparr>"

lemmas example_defs = exampleTask_def exampleSpec_def emptySpec_def emptyMeta_def emptyStatus_def

lemma exampleTask_meta [simp]:
  "meta_GetName (task_Metadata exampleTask) = ''demo''" "meta_GetAtespace (task_Metadata exampleTask) = []"
  by (simp_all add: example_defs)

theorem ValidateTask_mounts_witness:
  "ValidateTask exampleTask = None \<and> task_Spec exampleTask = Some exampleSpec \<and>
   WorkspacePaths (Some exampleSpec) = [''/workspace/code'', ''/data/''] \<and>
   distinct (WorkspacePaths (Some exampleSpec))"
proof -
  have v: "ValidateTask exampleTask = None" and sp: "task_Spec exampleTask = Some exampleSpec"
    by (simp_all add: ValidateTask_def example_defs WorkspaceRefs_def Let_def mountKey_def
        refPath_def api_const_defs trimRightChar_def hasPrefix_def)
  moreover have "WorkspacePaths (Some exampleSpec) = [''/workspace/code'', ''/data/'']"
    by (simp add: example_defs WorkspacePaths_def WorkspaceRefs_def refPath_def api_const_defs)
  ultimately show ?thesis using ValidateTask_mounts [OF v sp] by simp
qed

section \<open>Lemmas: normalizers\<close>

lemma update_same [simp]: "map_of al k = Some v \<Longrightarrow> AList.update k v al = al"
  by (induction al) (auto split: if_splits)

lemma map_of_update: "map_of (AList.update k v al) x = (if x = k then Some v else map_of al x)"
  by (simp add: update_conv')

lemma map_of_delete: "map_of (AList.delete k al) x = (if x = k then None else map_of al x)"
  by (simp add: delete_conv')

lemmas alist_lookup = map_of_update map_of_delete

lemma map_of_liftSecretKey_other:
  "x \<noteq> ''secretKey'' \<Longrightarrow> map_of (liftSecretKey spec) x = map_of spec x"
  by (auto simp: liftSecretKey_def alist_lookup split: option.split any.split)

lemma map_of_expandSecretKey_other:
  "x \<noteq> ''secretKey'' \<Longrightarrow> map_of (expandSecretKey spec) x = map_of spec x"
  by (auto simp: expandSecretKey_def alist_lookup split: option.split any.split)

lemma expandSecretKey_not_string: "map_of (expandSecretKey spec) ''secretKey'' \<noteq> Some (AStr s)"
  by (auto simp: expandSecretKey_def alist_lookup split: option.split any.split)

lemma expandSecretKey_fix:
  "(\<And>s. map_of spec ''secretKey'' \<noteq> Some (AStr s)) \<Longrightarrow> expandSecretKey spec = spec"
  by (auto simp: expandSecretKey_def split: option.split any.split)

text \<open>The spec a normalized model document carries.\<close>

definition normalizedSpec :: "(string \<times> any) list \<Rightarrow> (string \<times> any) list" where
  "normalizedSpec spec =
     expandSecretKey (AList.delete ''apiKey'' (AList.delete ''secretKeyRef'' (liftSecretKey spec)))"

lemma normalizedSpec_lookup:
  "map_of (normalizedSpec spec) ''secretKeyRef'' = None"
  "map_of (normalizedSpec spec) ''apiKey'' = None"
  "map_of (normalizedSpec spec) ''secretKey'' \<noteq> Some (AStr s)"
  "x \<notin> {''secretKey'', ''secretKeyRef'', ''apiKey''} \<Longrightarrow>
     map_of (normalizedSpec spec) x = map_of spec x"
  by (simp_all add: normalizedSpec_def map_of_expandSecretKey_other expandSecretKey_not_string
      map_of_liftSecretKey_other alist_lookup)

lemma liftSecretKey_current:
  "map_of spec ''secretKeyRef'' = None \<Longrightarrow> map_of spec ''apiKey'' = None \<Longrightarrow> liftSecretKey spec = spec"
  by (simp add: liftSecretKey_def)

lemma delete_absent: "map_of al k = None \<Longrightarrow> AList.delete k al = al"
  by (simp add: delete_id map_of_eq_None_iff dom_map_of_conv_image_fst)

lemma normalizedSpec_idem: "normalizedSpec (normalizedSpec spec) = normalizedSpec spec"
proof -
  let ?n = "normalizedSpec spec"
  have "normalizedSpec ?n = expandSecretKey ?n"
    by (simp add: normalizedSpec_def [of ?n] liftSecretKey_current delete_absent normalizedSpec_lookup)
  also have "\<dots> = ?n"
    by (rule expandSecretKey_fix) (rule normalizedSpec_lookup)
  finally show ?thesis .
qed

lemma normalizeModel_spec:
  "normalizeModel doc =
     (case map_of doc ''spec'' of
        Some (AMap spec) \<Rightarrow> AList.update ''spec'' (AMap (normalizedSpec spec)) doc
      | _ \<Rightarrow> doc)"
  unfolding normalizeModel_def normalizedSpec_def ..

text \<open>a model manifest in any of the legacy spellings is rewritten to one that has neither
  \<open>secretKeyRef\<close> nor \<open>apiKey\<close> in its spec and whose \<open>secretKey\<close> is never a bare string, with
  every other field as it was; and normalizing a second time changes nothing.
\<close>

theorem normalizeModel_canonical:
  assumes "map_of doc ''spec'' = Some (AMap spec)"
  shows "\<exists>spec'. map_of (normalizeModel doc) ''spec'' = Some (AMap spec') \<and>
           map_of spec' ''secretKeyRef'' = None \<and> map_of spec' ''apiKey'' = None \<and>
           (\<forall>s. map_of spec' ''secretKey'' \<noteq> Some (AStr s)) \<and>
           (\<forall>k. k \<notin> {''secretKey'', ''secretKeyRef'', ''apiKey''} \<longrightarrow> map_of spec' k = map_of spec k) \<and>
           normalizeModel (normalizeModel doc) = normalizeModel doc"
proof -
  have "map_of (normalizeModel doc) ''spec'' = Some (AMap (normalizedSpec spec))"
    by (simp add: normalizeModel_spec assms alist_lookup)
  moreover have "normalizeModel (normalizeModel doc) = normalizeModel doc"
    by (simp add: normalizeModel_spec assms alist_lookup normalizedSpec_idem)
  ultimately show ?thesis using normalizedSpec_lookup by blast
qed

theorem normalizeModel_canonical_witness:
  "map_of (normalizeModel [(''kind'', AStr ''Model''), (''spec'', AMap [(''secretKeyRef'', AStr ''k'')])]) ''spec'' =
     Some (AMap [(''secretKey'', AMap [(''name'', AStr ''k''), (''key'', AStr ''k'')])]) \<and>
   normalizeModel (normalizeModel [(''kind'', AStr ''Model''), (''spec'', AMap [(''secretKeyRef'', AStr ''k'')])]) =
     normalizeModel [(''kind'', AStr ''Model''), (''spec'', AMap [(''secretKeyRef'', AStr ''k'')])]"
  using normalizeModel_canonical
    [of "[(''kind'', AStr ''Model''), (''spec'', AMap [(''secretKeyRef'', AStr ''k'')])]" "[(''secretKeyRef'', AStr ''k'')]"]
  by (simp add: normalizeModel_def liftSecretKey_def expandSecretKey_def)

end
