(* ===== verification/Substrate_Client.thy ===== *)
theory Substrate_Client
  imports Api_Types
begin

text \<open>
  \<open>internal/substrate/client.go\<close>: the client of the Substrate control API. The API itself is a
  service that is not part of the repository: it is the record \<open>control\<close> of its RPCs, each a
  function of an arbitrary server state \<open>'c\<close> that answers an error or a response (a gRPC
  client returns a nil response with every error) and may change that state. Nothing is assumed
  of the service except where a lemma says so. The lemmas describe each wrapper on every
  branch, bound the number of calls \<open>EnsureActor\<close> makes, and relate the egress rules to the
  allowlist they were built from.
\<close>

section \<open>The messages of the control API that the client uses\<close>

record resourceMetadata =
  rm_Name :: string
  rm_Atespace :: string
  rm_Uid :: string
  rm_Version :: int

record objectRef =
  ref_Atespace :: string
  ref_Name :: string

datatype actorState = ACTOR_STATE_CRASHED | ACTOR_STATE_DELETING | ACTOR_STATE_OTHER nat

record actor =
  actor_Metadata :: "resourceMetadata option"
  actor_Template :: "objectRef option"
  actor_State :: actorState
  actor_WorkerPodIp :: "string option"

record volumeMount =
  vm_Name :: string
  vm_MountPath :: string

record container =
  cont_Name :: string
  cont_Image :: string
  cont_Command :: "string list"
  cont_Env :: "(string \<times> string) list"
  cont_ReadyzPath :: string
  cont_ReadyzPort :: nat
  cont_VolumeMounts :: "volumeMount list"

datatype snapshotScope = SNAPSHOT_CONTENT_SCOPE_DATA | SNAPSHOT_CONTENT_SCOPE_OTHER nat
datatype resumeSource = RESUME_SOURCE_GOLDEN | RESUME_SOURCE_OTHER nat
datatype sandboxClass = SANDBOX_CLASS_GVISOR | SANDBOX_CLASS_OTHER nat

record snapshotsConfig =
  sc_StorageLocation :: string
  sc_OnPause :: snapshotScope
  sc_OnCommit :: snapshotScope
  sc_FromData :: resumeSource

record actorTemplate =
  at_Metadata :: "resourceMetadata option"
  at_Containers :: "container list"
  at_DurableVolumes :: "string list"
  at_Snapshots :: snapshotsConfig
  at_SandboxClass :: sandboxClass
  at_ConfigName :: string

datatype egressRule = RuleAll | RuleHostnames "string list" | RuleCidrs "string list"

record egressPolicy =
  ep_Metadata :: "resourceMetadata option"
  ep_Rules :: "egressRule list"

section \<open>The control service\<close>

record 'c control =
  ctl_CreateAtespace :: "string \<Rightarrow> 'c \<Rightarrow> (error + unit) \<times> 'c"
  ctl_GetActorTemplate :: "objectRef \<Rightarrow> 'c \<Rightarrow> (error + actorTemplate) \<times> 'c"
  ctl_CreateActorTemplate :: "actorTemplate \<Rightarrow> 'c \<Rightarrow> (error + actorTemplate) \<times> 'c"
  ctl_ListActorTemplates :: "string \<Rightarrow> 'c \<Rightarrow> (error + actorTemplate list \<times> string) \<times> 'c"
  ctl_DeleteActorTemplate :: "objectRef \<Rightarrow> 'c \<Rightarrow> (error + unit) \<times> 'c"
  ctl_CreateActor :: "actor \<Rightarrow> 'c \<Rightarrow> (error + actor) \<times> 'c"
  ctl_GetActor :: "objectRef \<Rightarrow> 'c \<Rightarrow> (error + actor) \<times> 'c"
  ctl_ResumeActor :: "objectRef \<Rightarrow> 'c \<Rightarrow> (error + actor option) \<times> 'c"
  ctl_SuspendActor :: "objectRef \<Rightarrow> 'c \<Rightarrow> (error + unit) \<times> 'c"
  ctl_DeleteActor :: "objectRef \<Rightarrow> bool \<Rightarrow> 'c \<Rightarrow> (error + unit) \<times> 'c"
  ctl_CreateActorEgressPolicy :: "objectRef \<Rightarrow> egressPolicy \<Rightarrow> 'c \<Rightarrow> (error + unit) \<times> 'c"
  ctl_GetActorEgressPolicy :: "objectRef \<Rightarrow> 'c \<Rightarrow> (error + egressPolicy) \<times> 'c"
  ctl_UpdateActorEgressPolicy :: "objectRef \<Rightarrow> egressPolicy \<Rightarrow> 'c \<Rightarrow> (error + unit) \<times> 'c"

definition objRef :: "string \<Rightarrow> string \<Rightarrow> objectRef" where
  "objRef atespace name = \<lparr>ref_Atespace = atespace, ref_Name = name\<rparr>"

definition resMeta :: "string \<Rightarrow> string \<Rightarrow> resourceMetadata" where
  "resMeta atespace name = \<lparr>rm_Name = name, rm_Atespace = atespace, rm_Uid = [], rm_Version = 0\<rparr>"

definition slashed :: "string \<Rightarrow> string \<Rightarrow> string" where
  "slashed a n = a @ ''/'' @ n"

section \<open>Connecting\<close>

text \<open>
  \<open>NewClientWithOptions\<close> decides the transport, the server name, the authority and the
  credentials; \<open>dialPlan\<close> is what it hands to gRPC. Environment variables, the file system
  and the PEM parser are arguments.
\<close>

record clientOptions =
  co_Target :: string
  co_Authority :: string
  co_TokenFile :: string
  co_CAFile :: string
  co_InsecureTLS :: bool
  co_Plaintext :: bool

datatype transport = TransportPlaintext | TransportTLS bool string "string option"

record dialPlan =
  dial_Target :: string
  dial_Transport :: transport
  dial_Authority :: "string option"
  dial_TokenFile :: "string option"

definition defaultTarget :: string where
  "defaultTarget = ''api.ate-system.svc.cluster.local:443''"

definition detectTokenFile :: "(string \<Rightarrow> string) \<Rightarrow> (string \<Rightarrow> bool) \<Rightarrow> string \<Rightarrow> string" where
  "detectTokenFile getenv stat tokenFile =
     (if tokenFile \<noteq> [] then tokenFile
      else if getenv ''SUBSTRATE_TOKEN_FILE'' \<noteq> [] then getenv ''SUBSTRATE_TOKEN_FILE''
      else if stat ''/var/run/secrets/ateapi/token'' then ''/var/run/secrets/ateapi/token''
      else [])"

definition detectCAFile :: "(string \<Rightarrow> string) \<Rightarrow> (string \<Rightarrow> bool) \<Rightarrow> string \<Rightarrow> string" where
  "detectCAFile getenv stat caFile =
     (if caFile \<noteq> [] then caFile
      else if getenv ''SUBSTRATE_CA_FILE'' \<noteq> [] then getenv ''SUBSTRATE_CA_FILE''
      else if stat ''/run/servicedns-ca/trust-bundle.pem'' then ''/run/servicedns-ca/trust-bundle.pem''
      else if stat ''/run/servicedns-ca/ca.pem'' then ''/run/servicedns-ca/ca.pem''
      else [])"

definition serviceName :: "string \<Rightarrow> string \<Rightarrow> string" where
  "serviceName authority target =
     (if authority \<noteq> [] then authority
      else if strContains target ''api.ate-system.svc'' then ''api.ate-system.svc'' else [])"

definition tlsTransport ::
  "(string \<Rightarrow> error + string) \<Rightarrow> (string \<Rightarrow> bool) \<Rightarrow> bool \<Rightarrow> string \<Rightarrow> string \<Rightarrow> error + transport" where
  "tlsTransport readFile parsesPEM insecure serverName caFile =
     (if caFile = [] then Inr (TransportTLS insecure serverName None)
      else case readFile caFile of
             Inl e \<Rightarrow> Inl (EWrap (''reading CA file '' @ quote caFile) e)
           | Inr pem \<Rightarrow>
               if parsesPEM pem then Inr (TransportTLS insecure serverName (Some pem))
               else Inl (ENew (''failed to parse CA certificate from '' @ quote caFile)))"

definition NewClientWithOptions ::
  "(string \<Rightarrow> string) \<Rightarrow> (string \<Rightarrow> bool) \<Rightarrow> (string \<Rightarrow> error + string) \<Rightarrow> (string \<Rightarrow> bool) \<Rightarrow>
   (dialPlan \<Rightarrow> error option) \<Rightarrow> clientOptions \<Rightarrow> error + dialPlan" where
  "NewClientWithOptions getenv stat readFile parsesPEM dial opts =
     (let target = (if co_Target opts = [] then defaultTarget else co_Target opts);
          tokenFile = detectTokenFile getenv stat (co_TokenFile opts);
          caFile = detectCAFile getenv stat (co_CAFile opts);
          authority = serviceName (co_Authority opts) target
      in case (if co_Plaintext opts then Inr TransportPlaintext
               else tlsTransport readFile parsesPEM (co_InsecureTLS opts) authority caFile) of
           Inl e \<Rightarrow> Inl e
         | Inr tr \<Rightarrow>
             (let plan = \<lparr>dial_Target = target, dial_Transport = tr,
                          dial_Authority = (if authority = [] then None else Some authority),
                          dial_TokenFile = (if tokenFile = [] then None else Some tokenFile)\<rparr>
              in case dial plan of
                   None \<Rightarrow> Inr plan
                 | Some e \<Rightarrow> Inl (EWrap (''failed to connect to Substrate control service at '' @ target) e)))"

definition GetRequestMetadata ::
  "(string \<Rightarrow> error + string) \<Rightarrow> string \<Rightarrow> error + (string \<times> string) list" where
  "GetRequestMetadata readFile tokenFile =
     (if tokenFile = [] then Inr []
      else case readFile tokenFile of
             Inl e \<Rightarrow> Inl (EWrap (''reading token file '' @ quote tokenFile) e)
           | Inr b \<Rightarrow> Inr [(''authorization'', ''Bearer '' @ trimSpace b)])"

section \<open>Atespaces and templates\<close>

definition EnsureAtespace :: "'c control \<Rightarrow> string \<Rightarrow> 'c \<Rightarrow> error option \<times> 'c" where
  "EnsureAtespace ctl atespace c =
     (case ctl_CreateAtespace ctl atespace c of
        (Inr _, c') \<Rightarrow> (None, c')
      | (Inl e, c') \<Rightarrow>
          (if status_code e \<noteq> CodeAlreadyExists
           then Some (EWrap (''creating atespace '' @ quote atespace) e) else None, c'))"

definition GetActorTemplate :: "'c control \<Rightarrow> string \<Rightarrow> string \<Rightarrow> 'c \<Rightarrow> (error + actorTemplate) \<times> 'c" where
  "GetActorTemplate ctl atespace templateName c = ctl_GetActorTemplate ctl (objRef atespace templateName) c"

definition DefaultGuestCommand :: string where
  "DefaultGuestCommand = ''/usr/local/bin/ax-task-runner''"

definition DefaultSnapshotsBucket :: string where
  "DefaultSnapshotsBucket = ''gs://snapshot-substrate-test-ax-substrate/ate-env/''"

text \<open>\<open>envOrder\<close> is the order in which the runtime walks the environment map.\<close>

definition BuildActorTemplate ::
  "(string \<Rightarrow> string) \<Rightarrow> ((string \<times> string) list \<Rightarrow> (string \<times> string) list) \<Rightarrow>
   string \<Rightarrow> string \<Rightarrow> string \<Rightarrow> (string \<times> string) list \<Rightarrow> string list \<Rightarrow> string \<Rightarrow> actorTemplate" where
  "BuildActorTemplate getenv envOrder atespace name img envMap command snapshotsBucket =
     (let atespace = (if atespace = [] then ''default'' else atespace);
          img = (if img = [] then DefaultTaskImage else img);
          command = (if command = [] then [DefaultGuestCommand] else command);
          snapshotsBucket = (if snapshotsBucket = []
            then (if getenv ''AX_SNAPSHOTS_BUCKET'' \<noteq> [] then getenv ''AX_SNAPSHOTS_BUCKET''
                  else DefaultSnapshotsBucket)
            else snapshotsBucket)
      in \<lparr>at_Metadata = Some (resMeta atespace name),
          at_Containers = [\<lparr>cont_Name = ''guest'', cont_Image = img, cont_Command = command,
             cont_Env = envOrder envMap, cont_ReadyzPath = ''/readyz'', cont_ReadyzPort = 80,
             cont_VolumeMounts = [\<lparr>vm_Name = ''workspace'', vm_MountPath = ''/workspace''\<rparr>]\<rparr>],
          at_DurableVolumes = [''workspace''],
          at_Snapshots = \<lparr>sc_StorageLocation = snapshotsBucket,
             sc_OnPause = SNAPSHOT_CONTENT_SCOPE_DATA, sc_OnCommit = SNAPSHOT_CONTENT_SCOPE_DATA,
             sc_FromData = RESUME_SOURCE_GOLDEN\<rparr>,
          at_SandboxClass = SANDBOX_CLASS_GVISOR, at_ConfigName = ''gvisor-default''\<rparr>)"

definition mergeEnv :: "(string \<times> string) list list \<Rightarrow> (string \<times> string) list" where
  "mergeEnv extraEnv = foldl (\<lambda>m envs. foldl (\<lambda>m (k, v). AList.update k v m) m envs) [] extraEnv"

definition EnsureActorTemplateWithImage ::
  "'c control \<Rightarrow> (string \<Rightarrow> string) \<Rightarrow> ((string \<times> string) list \<Rightarrow> (string \<times> string) list) \<Rightarrow>
   string \<Rightarrow> string \<Rightarrow> string \<Rightarrow> (string \<times> string) list list \<Rightarrow> 'c \<Rightarrow> (error + actorTemplate) \<times> 'c" where
  "EnsureActorTemplateWithImage ctl getenv envOrder targetAtespace targetTemplate img extraEnv c =
     (case GetActorTemplate ctl targetAtespace targetTemplate c of
        (Inr existing, c1) \<Rightarrow> (Inr existing, c1)
      | (Inl _, c1) \<Rightarrow>
          (let tmpl = BuildActorTemplate getenv envOrder targetAtespace targetTemplate img
                        (mergeEnv extraEnv) [] []
           in case ctl_CreateActorTemplate ctl tmpl c1 of
                (Inr created, c2) \<Rightarrow> (Inr created, c2)
              | (Inl e, c2) \<Rightarrow>
                  if status_code e \<noteq> CodeAlreadyExists
                  then (Inl (EWrap (''creating actor template '' @ slashed targetAtespace targetTemplate) e), c2)
                  else GetActorTemplate ctl targetAtespace targetTemplate c2))"

definition ListActorTemplates :: "'c control \<Rightarrow> string \<Rightarrow> 'c \<Rightarrow> (error + actorTemplate list) \<times> 'c" where
  "ListActorTemplates ctl atespace c =
     (case ctl_ListActorTemplates ctl atespace c of
        (Inl e, c') \<Rightarrow> (Inl (EWrap (''listing actor templates in '' @ atespace) e), c')
      | (Inr (templates, nextPageToken), c') \<Rightarrow> (Inr templates, c'))"

definition DeleteActorTemplate :: "'c control \<Rightarrow> string \<Rightarrow> string \<Rightarrow> 'c \<Rightarrow> error option \<times> 'c" where
  "DeleteActorTemplate ctl atespace templateName c =
     (case ctl_DeleteActorTemplate ctl (objRef atespace templateName) c of
        (Inr _, c') \<Rightarrow> (None, c')
      | (Inl e, c') \<Rightarrow>
          (if status_code e \<noteq> CodeNotFound
           then Some (EWrap (''deleting actor template '' @ slashed atespace templateName) e) else None, c'))"

section \<open>Actors\<close>

text \<open>
  The wait for a deletion to finish, with \<open>n\<close> attempts left: \<open>done i\<close> is the context's error when
  the \<open>i\<close>th wait ends because the context is done.
\<close>

fun recreateActor ::
  "'c control \<Rightarrow> (nat \<Rightarrow> error option) \<Rightarrow> error \<Rightarrow> actor \<Rightarrow> nat \<Rightarrow> nat \<Rightarrow> 'c \<Rightarrow> (error + actor) \<times> 'c" where
  "recreateActor ctl done still req 0 i c = (Inl still, c)"
| "recreateActor ctl done still req (Suc n) i c =
     (case done i of
        Some e \<Rightarrow> (Inl e, c)
      | None \<Rightarrow>
          (case ctl_CreateActor ctl req c of
             (Inr a, c') \<Rightarrow> (Inr a, c')
           | (Inl e, c') \<Rightarrow>
               if status_code e \<noteq> CodeAlreadyExists then (Inl still, c')
               else recreateActor ctl done still req n (Suc i) c'))"

definition actorReq :: "string \<Rightarrow> string \<Rightarrow> string \<Rightarrow> string \<Rightarrow> actor" where
  "actorReq atespace actorName templateAtespace templateName =
     \<lparr>actor_Metadata = Some (resMeta atespace actorName),
      actor_Template = Some (objRef templateAtespace templateName),
      actor_State = ACTOR_STATE_OTHER 0, actor_WorkerPodIp = None\<rparr>"

definition EnsureActor ::
  "'c control \<Rightarrow> (nat \<Rightarrow> error option) \<Rightarrow> string \<Rightarrow> string \<Rightarrow> string \<Rightarrow> string \<Rightarrow> 'c \<Rightarrow> (error + actor) \<times> 'c" where
  "EnsureActor ctl done atespace actorName templateAtespace templateName c =
     (let req = actorReq atespace actorName templateAtespace templateName;
          still = ENew (''actor '' @ slashed atespace actorName @ '' is still deleting; please retry'')
      in case ctl_CreateActor ctl req c of
           (Inr a, c1) \<Rightarrow> (Inr a, c1)
         | (Inl e, c1) \<Rightarrow>
             if status_code e \<noteq> CodeAlreadyExists
             then (Inl (EWrap (''creating actor '' @ slashed atespace actorName) e), c1)
             else
               (case ctl_GetActor ctl (objRef atespace actorName) c1 of
                  (Inl getErr, c2) \<Rightarrow> (Inl getErr, c2)
                | (Inr existing, c2) \<Rightarrow>
                    if actor_State existing = ACTOR_STATE_CRASHED
                    then recreateActor ctl done still req 20 0
                           (snd (ctl_DeleteActor ctl (objRef atespace actorName) True c2))
                    else if actor_State existing = ACTOR_STATE_DELETING
                    then recreateActor ctl done still req 20 0 c2
                    else (Inr existing, c2)))"

definition ResumeActor :: "'c control \<Rightarrow> string \<Rightarrow> string \<Rightarrow> 'c \<Rightarrow> (error + actor \<times> string) \<times> 'c" where
  "ResumeActor ctl atespace actorName c =
     (case ctl_ResumeActor ctl (objRef atespace actorName) c of
        (Inl e, c') \<Rightarrow> (Inl (EWrap (''resuming actor '' @ slashed atespace actorName) e), c')
      | (Inr None, c') \<Rightarrow> (Inl (ENew (''nil actor returned when resuming '' @ slashed atespace actorName)), c')
      | (Inr (Some a), c') \<Rightarrow>
          (Inr (a, case actor_WorkerPodIp a of None \<Rightarrow> [] | Some ip \<Rightarrow> ip), c'))"

definition SuspendActor :: "'c control \<Rightarrow> string \<Rightarrow> string \<Rightarrow> 'c \<Rightarrow> error option \<times> 'c" where
  "SuspendActor ctl atespace actorName c =
     (case ctl_SuspendActor ctl (objRef atespace actorName) c of
        (Inl e, c') \<Rightarrow> (Some (EWrap (''suspending actor '' @ slashed atespace actorName) e), c')
      | (Inr _, c') \<Rightarrow> (None, c'))"

definition DeleteActor :: "'c control \<Rightarrow> string \<Rightarrow> string \<Rightarrow> 'c \<Rightarrow> error option \<times> 'c" where
  "DeleteActor ctl atespace actorName c =
     (case ctl_DeleteActor ctl (objRef atespace actorName) True c of
        (Inr _, c') \<Rightarrow> (None, c')
      | (Inl e, c') \<Rightarrow>
          (if status_code e \<noteq> CodeNotFound
           then Some (EWrap (''deleting actor '' @ slashed atespace actorName) e) else None, c'))"

section \<open>Egress policies\<close>

text \<open>The loop over the hosts: stops at a wildcard, sorts CIDRs from host patterns otherwise.\<close>

fun scanHosts :: "string list \<Rightarrow> string list \<Rightarrow> hostRule list \<Rightarrow> bool \<times> string list \<times> string list" where
  "scanHosts patterns cidrs [] = (False, patterns, cidrs)"
| "scanHosts patterns cidrs (h # hs) =
     (if hr_Host h = ''*'' \<or> hr_Host h = ''0.0.0.0/0'' then (True, patterns, cidrs)
      else if strContains (hr_Host h) ''/'' then scanHosts patterns (cidrs @ [hr_Host h]) hs
      else if hr_Host h \<noteq> [] then scanHosts (patterns @ [hr_Host h]) cidrs hs
      else scanHosts patterns cidrs hs)"

definition egressRules :: "hostRule list \<Rightarrow> egressRule list" where
  "egressRules hosts =
     (case scanHosts [] [] hosts of
        (allowAll, patterns, cidrs) \<Rightarrow>
          if allowAll then [RuleAll]
          else (if patterns = [] then [] else [RuleHostnames patterns]) @
               (if cidrs = [] then [] else [RuleCidrs cidrs]))"

definition ApplyEgressPolicy ::
  "'c control \<Rightarrow> string \<Rightarrow> string \<Rightarrow> egressAllowlist option \<Rightarrow> 'c \<Rightarrow> error option \<times> 'c" where
  "ApplyEgressPolicy ctl atespace actorName allowlist c =
     (case allowlist of
        None \<Rightarrow> (None, c)
      | Some al \<Rightarrow>
          if ea_Hosts al = [] then (None, c)
          else
            (let md = resMeta atespace ''default'';
                 rules = egressRules (ea_Hosts al);
                 actorRef = objRef atespace actorName
             in case ctl_CreateActorEgressPolicy ctl actorRef \<lparr>ep_Metadata = Some md, ep_Rules = rules\<rparr> c of
                  (Inr _, c1) \<Rightarrow> (None, c1)
                | (Inl e, c1) \<Rightarrow>
                    if status_code e = CodeAlreadyExists
                    then
                      (case ctl_GetActorEgressPolicy ctl actorRef c1 of
                         (existing, c2) \<Rightarrow>
                           let md' = (case existing of
                                        Inr p \<Rightarrow> (case ep_Metadata p of
                                                   None \<Rightarrow> md
                                                 | Some m \<Rightarrow> md\<lparr>rm_Uid := rm_Uid m, rm_Version := rm_Version m\<rparr>)
                                      | Inl _ \<Rightarrow> md)
                           in case ctl_UpdateActorEgressPolicy ctl actorRef
                                     \<lparr>ep_Metadata = Some md', ep_Rules = rules\<rparr> c2 of
                                (Inl e', c3) \<Rightarrow>
                                  (Some (EWrap (''updating egress policy on '' @ slashed atespace actorName) e'), c3)
                              | (Inr _, c3) \<Rightarrow> (None, c3))
                    else (Some (EWrap (''creating egress policy on '' @ slashed atespace actorName) e), c1)))"

section \<open>Counting the calls\<close>

text \<open>The same service with a log of the calls it answered.\<close>

datatype call = CallCreateActor actor | CallGetActor objectRef | CallDeleteActor objectRef bool
  | CallDeleteActorTemplate objectRef | CallOther

definition log_call ::
  "('a \<Rightarrow> call) \<Rightarrow> ('a \<Rightarrow> 'c \<Rightarrow> 'r \<times> 'c) \<Rightarrow> 'a \<Rightarrow> 'c \<times> call list \<Rightarrow> 'r \<times> 'c \<times> call list" where
  "log_call name f x cl = (fst (f x (fst cl)), snd (f x (fst cl)), snd cl @ [name x])"

definition logged :: "'c control \<Rightarrow> ('c \<times> call list) control" where
  "logged ctl = \<lparr>
     ctl_CreateAtespace = log_call (\<lambda>_. CallOther) (ctl_CreateAtespace ctl),
     ctl_GetActorTemplate = log_call (\<lambda>_. CallOther) (ctl_GetActorTemplate ctl),
     ctl_CreateActorTemplate = log_call (\<lambda>_. CallOther) (ctl_CreateActorTemplate ctl),
     ctl_ListActorTemplates = log_call (\<lambda>_. CallOther) (ctl_ListActorTemplates ctl),
     ctl_DeleteActorTemplate = log_call CallDeleteActorTemplate (ctl_DeleteActorTemplate ctl),
     ctl_CreateActor = log_call CallCreateActor (ctl_CreateActor ctl),
     ctl_GetActor = log_call CallGetActor (ctl_GetActor ctl),
     ctl_ResumeActor = log_call (\<lambda>_. CallOther) (ctl_ResumeActor ctl),
     ctl_SuspendActor = log_call (\<lambda>_. CallOther) (ctl_SuspendActor ctl),
     ctl_DeleteActor = (\<lambda>r any. log_call (\<lambda>r. CallDeleteActor r any) (\<lambda>r. ctl_DeleteActor ctl r any) r),
     ctl_CreateActorEgressPolicy = (\<lambda>r p. log_call (\<lambda>_. CallOther) (\<lambda>r. ctl_CreateActorEgressPolicy ctl r p) r),
     ctl_GetActorEgressPolicy = log_call (\<lambda>_. CallOther) (ctl_GetActorEgressPolicy ctl),
     ctl_UpdateActorEgressPolicy = (\<lambda>r p. log_call (\<lambda>_. CallOther) (\<lambda>r. ctl_UpdateActorEgressPolicy ctl r p) r)\<rparr>"

lemma logged_simps [simp]:
  "ctl_CreateActor (logged ctl) req (c, l) =
     (fst (ctl_CreateActor ctl req c), snd (ctl_CreateActor ctl req c), l @ [CallCreateActor req])"
  "ctl_GetActor (logged ctl) r (c, l) =
     (fst (ctl_GetActor ctl r c), snd (ctl_GetActor ctl r c), l @ [CallGetActor r])"
  "ctl_DeleteActor (logged ctl) r any (c, l) =
     (fst (ctl_DeleteActor ctl r any c), snd (ctl_DeleteActor ctl r any c), l @ [CallDeleteActor r any])"
  by (simp_all add: logged_def log_call_def)

lemma recreateActor_log:
  "\<exists>k \<le> n. recreateActor (logged ctl) done still req n i (c, l) =
     (fst (recreateActor ctl done still req n i c), snd (recreateActor ctl done still req n i c),
      l @ replicate k (CallCreateActor req))"
proof (induction n arbitrary: i c l)
  case (Suc n)
  show ?case
  proof (cases "done i")
    case None
    note IH = Suc.IH [of "Suc i" "snd (ctl_CreateActor ctl req c)" "l @ [CallCreateActor req]"]
    obtain r c' where r: "ctl_CreateActor ctl req c = (r, c')" by fastforce
    show ?thesis
    proof (cases r)
      case (Inl e)
      with IH r obtain k where "k \<le> n" "recreateActor (logged ctl) done still req n (Suc i) (c', l @ [CallCreateActor req]) =
        (fst (recreateActor ctl done still req n (Suc i) c'), snd (recreateActor ctl done still req n (Suc i) c'),
         (l @ [CallCreateActor req]) @ replicate k (CallCreateActor req))" by auto
      with None Inl r show ?thesis
        by (cases "status_code e = CodeAlreadyExists")
          (auto intro: exI [of _ "Suc k"] exI [of _ "Suc 0"])
    qed (use None r in \<open>auto intro: exI [of _ "Suc 0"]\<close>)
  qed (auto intro: exI [of _ 0])
qed (auto intro: exI [of _ 0])

section \<open>The egress rules\<close>

definition isWildcard :: "string \<Rightarrow> bool" where
  "isWildcard h \<longleftrightarrow> h = ''*'' \<or> h = ''0.0.0.0/0''"

lemma scanHosts_spec:
  "scanHosts ps cs hs =
     (let seen = takeWhile (\<lambda>h. \<not> isWildcard h) (map hr_Host hs) in
      (list_ex (isWildcard \<circ> hr_Host) hs,
       ps @ filter (\<lambda>h. h \<noteq> [] \<and> \<not> strContains h ''/'') seen,
       cs @ filter (\<lambda>h. strContains h ''/'') seen))"
proof -
  have "strContains [] ''/'' = False" by simp
  then show ?thesis
    by (induction hs arbitrary: ps cs) (auto simp: isWildcard_def Let_def)
qed

text \<open>The hosts an egress rule list names; \<open>RuleAll\<close> names every host.\<close>

fun ruleNames :: "egressRule \<Rightarrow> string \<Rightarrow> bool" where
  "ruleNames RuleAll h = True"
| "ruleNames (RuleHostnames ps) h = (h \<in> set ps)"
| "ruleNames (RuleCidrs cs) h = (h \<in> set cs)"

definition covers :: "egressRule list \<Rightarrow> string \<Rightarrow> bool" where
  "covers rules h = list_ex (\<lambda>r. ruleNames r h) rules"

section \<open>A service that keeps one versioned policy per actor\<close>

text \<open>
  What the update path relies on: creating a policy over an existing one is refused with
  AlreadyExists, reading returns the stored policy, and an update is accepted exactly when it
  carries the uid and version of the stored policy. \<open>policyOf c r\<close> is the policy of the actor \<open>r\<close>.
\<close>

definition egress_service ::
  "'c control \<Rightarrow> ('c \<Rightarrow> objectRef \<Rightarrow> egressPolicy option) \<Rightarrow> bool" where
  "egress_service ctl policyOf \<longleftrightarrow>
     (\<forall>c r p. policyOf c r = None \<longrightarrow>
        (\<exists>c' m. ctl_CreateActorEgressPolicy ctl r p c = (Inr (), c') \<and>
              (policyOf c' r = Some (p\<lparr>ep_Metadata := Some m\<rparr>)))) \<and>
     (\<forall>c r p q. policyOf c r = Some q \<longrightarrow>
        (\<exists>e. ctl_CreateActorEgressPolicy ctl r p c = (Inl e, c) \<and> status_code e = CodeAlreadyExists)) \<and>
     (\<forall>c r q. policyOf c r = Some q \<longrightarrow> ctl_GetActorEgressPolicy ctl r c = (Inr q, c)) \<and>
     (\<forall>c r p q m m'. policyOf c r = Some q \<longrightarrow> ep_Metadata p = Some m \<longrightarrow> ep_Metadata q = Some m' \<longrightarrow>
        rm_Uid m = rm_Uid m' \<longrightarrow> rm_Version m = rm_Version m' \<longrightarrow>
        (\<exists>c' m''. ctl_UpdateActorEgressPolicy ctl r p c = (Inr (), c') \<and>
              policyOf c' r = Some (p\<lparr>ep_Metadata := Some m''\<rparr>)))"

lemma egress_service_create:
  assumes "egress_service ctl policyOf" and "policyOf c r = None"
  obtains c' m where "ctl_CreateActorEgressPolicy ctl r p c = (Inr (), c')"
    "policyOf c' r = Some (p\<lparr>ep_Metadata := Some m\<rparr>)"
  using assms unfolding egress_service_def by blast

lemma egress_service_exists:
  assumes "egress_service ctl policyOf" and "policyOf c r = Some q"
  obtains e where "ctl_CreateActorEgressPolicy ctl r p c = (Inl e, c)"
    "status_code e = CodeAlreadyExists" "ctl_GetActorEgressPolicy ctl r c = (Inr q, c)"
  using assms unfolding egress_service_def by blast

lemma egress_service_update:
  assumes "egress_service ctl policyOf" and "policyOf c r = Some q"
    and "ep_Metadata p = Some m" and "ep_Metadata q = Some m'"
    and "rm_Uid m = rm_Uid m'" and "rm_Version m = rm_Version m'"
  obtains c' m'' where "ctl_UpdateActorEgressPolicy ctl r p c = (Inr (), c')"
    "policyOf c' r = Some (p\<lparr>ep_Metadata := Some m''\<rparr>)"
  using assms unfolding egress_service_def by blast

section \<open>Properties\<close>

text \<open>C24: \<open>EnsureActor\<close> always returns, after at most 21 CreateActor calls that all ask for
  the same actor, at most one lookup and at most one forced deletion, and nothing else is called.\<close>

theorem EnsureActor_calls:
  "\<exists>log. EnsureActor (logged ctl) done a n ta tn (c, []) =
      (fst (EnsureActor ctl done a n ta tn c), snd (EnsureActor ctl done a n ta tn c), log) \<and>
    count_list log (CallCreateActor (actorReq a n ta tn)) \<le> 21 \<and>
    count_list log (CallGetActor (objRef a n)) \<le> 1 \<and>
    count_list log (CallDeleteActor (objRef a n) True) \<le> 1 \<and>
    set log \<subseteq> {CallCreateActor (actorReq a n ta tn), CallGetActor (objRef a n), CallDeleteActor (objRef a n) True}"
proof -
  let ?req = "actorReq a n ta tn" and ?ref = "objRef a n"
  let ?still = "ENew (''actor '' @ slashed a n @ '' is still deleting; please retry'')"
  obtain r1 c1 where 1: "ctl_CreateActor ctl ?req c = (r1, c1)" by fastforce
  obtain r2 c2 where 2: "ctl_GetActor ctl ?ref c1 = (r2, c2)" by fastforce
  obtain r3 c3 where 3: "ctl_DeleteActor ctl ?ref True c2 = (r3, c3)" by fastforce
  obtain k k' where
    "k \<le> 20" "recreateActor (logged ctl) done ?still ?req 20 0 (c3, [CallCreateActor ?req, CallGetActor ?ref, CallDeleteActor ?ref True]) =
      (fst (recreateActor ctl done ?still ?req 20 0 c3), snd (recreateActor ctl done ?still ?req 20 0 c3),
       [CallCreateActor ?req, CallGetActor ?ref, CallDeleteActor ?ref True] @ replicate k (CallCreateActor ?req))"
    "k' \<le> 20" "recreateActor (logged ctl) done ?still ?req 20 0 (c2, [CallCreateActor ?req, CallGetActor ?ref]) =
      (fst (recreateActor ctl done ?still ?req 20 0 c2), snd (recreateActor ctl done ?still ?req 20 0 c2),
       [CallCreateActor ?req, CallGetActor ?ref] @ replicate k' (CallCreateActor ?req))"
    using recreateActor_log by meson
  with 1 2 3 show ?thesis
    by (cases r1; cases r2)
      (auto simp: EnsureActor_def Let_def simp del: recreateActor.simps)
qed

text \<open>C28: the egress rules built from an allowlist name exactly its non-empty hosts, and every
  host as soon as one entry is a wildcard.\<close>

theorem egressRules_exact:
  "covers (egressRules hosts) h \<longleftrightarrow>
     list_ex (isWildcard \<circ> hr_Host) hosts \<or> (h \<noteq> [] \<and> h \<in> hr_Host ` set hosts)"
proof (cases "list_ex (isWildcard \<circ> hr_Host) hosts")
  case False
  then have all: "takeWhile (\<lambda>h. \<not> isWildcard h) (map hr_Host hosts) = map hr_Host hosts"
    by (auto simp: list_ex_iff takeWhile_eq_all_conv)
  have "strContains [] ''/'' = False" by simp
  with False show ?thesis by (auto simp: egressRules_def scanHosts_spec covers_def Let_def all filter_empty_conv)
qed (simp add: egressRules_def scanHosts_spec covers_def Let_def)

text \<open>against a service with versioned policies, applying an allowlist succeeds and leaves
  the actor with exactly the rules of that allowlist, whether or not it had a policy before.\<close>

theorem ApplyEgressPolicy_applies:
  assumes "egress_service ctl policyOf" and "ea_Hosts al \<noteq> []"
    and "\<forall>q. policyOf c (objRef a n) = Some q \<longrightarrow> ep_Metadata q \<noteq> None"
  shows "fst (ApplyEgressPolicy ctl a n (Some al) c) = None \<and>
    (\<exists>q. policyOf (snd (ApplyEgressPolicy ctl a n (Some al) c)) (objRef a n) = Some q \<and>
      ep_Rules q = egressRules (ea_Hosts al))"
proof (cases "policyOf c (objRef a n)")
  case None
  let ?p = "\<lparr>ep_Metadata = Some (resMeta a ''default''), ep_Rules = egressRules (ea_Hosts al)\<rparr>"
  obtain c' m where "ctl_CreateActorEgressPolicy ctl (objRef a n) ?p c = (Inr (), c')"
      "policyOf c' (objRef a n) = Some (?p\<lparr>ep_Metadata := Some m\<rparr>)"
    by (rule egress_service_create [OF assms(1) None])
  then show ?thesis using assms(2) by (simp add: ApplyEgressPolicy_def Let_def)
next
  case (Some q)
  let ?md = "resMeta a ''default''" and ?rules = "egressRules (ea_Hosts al)"
  from Some assms(3) obtain m where m: "ep_Metadata q = Some m" by auto
  let ?md' = "?md\<lparr>rm_Uid := rm_Uid m, rm_Version := rm_Version m\<rparr>"
  obtain e where create: "ctl_CreateActorEgressPolicy ctl (objRef a n) \<lparr>ep_Metadata = Some ?md, ep_Rules = ?rules\<rparr> c = (Inl e, c)"
      "status_code e = CodeAlreadyExists" "ctl_GetActorEgressPolicy ctl (objRef a n) c = (Inr q, c)"
    by (rule egress_service_exists [OF assms(1) Some])
  obtain c' m' where "ctl_UpdateActorEgressPolicy ctl (objRef a n) \<lparr>ep_Metadata = Some ?md', ep_Rules = ?rules\<rparr> c = (Inr (), c')"
      "policyOf c' (objRef a n) = Some (\<lparr>ep_Metadata = Some ?md', ep_Rules = ?rules\<rparr>\<lparr>ep_Metadata := Some m'\<rparr>)"
    by (rule egress_service_update [OF assms(1) Some _ m, of "\<lparr>ep_Metadata = Some ?md', ep_Rules = ?rules\<rparr>" ?md']) simp_all
  with create m show ?thesis
    using assms(2) by (simp add: ApplyEgressPolicy_def Let_def)
qed

text \<open>A service with one versioned policy per actor and nothing else, to show the hypotheses
  can hold: its state is the map of policies and the last version given out.\<close>

type_synonym simEgress = "(objectRef \<Rightarrow> egressPolicy option) \<times> int"

definition sim_put :: "objectRef \<Rightarrow> egressPolicy \<Rightarrow> simEgress \<Rightarrow> simEgress" where
  "sim_put r p c = ((fst c)(r \<mapsto> p\<lparr>ep_Metadata := Some \<lparr>rm_Name = ''default'', rm_Atespace = ref_Atespace r,
     rm_Uid = ''uid'', rm_Version = snd c + 1\<rparr>\<rparr>), snd c + 1)"

definition sim_egress :: "simEgress control" where
  "sim_egress = \<lparr>
     ctl_CreateAtespace = (\<lambda>_ c. (Inr (), c)),
     ctl_GetActorTemplate = (\<lambda>_ c. (Inl (EStatus CodeNotFound []), c)),
     ctl_CreateActorTemplate = (\<lambda>t c. (Inr t, c)),
     ctl_ListActorTemplates = (\<lambda>_ c. (Inr ([], []), c)),
     ctl_DeleteActorTemplate = (\<lambda>_ c. (Inr (), c)),
     ctl_CreateActor = (\<lambda>a c. (Inr a, c)),
     ctl_GetActor = (\<lambda>_ c. (Inl (EStatus CodeNotFound []), c)),
     ctl_ResumeActor = (\<lambda>r c. (Inr (Some \<lparr>actor_Metadata = Some (resMeta (ref_Atespace r) (ref_Name r)),
        actor_Template = None, actor_State = ACTOR_STATE_OTHER 1, actor_WorkerPodIp = Some ''10.0.0.7''\<rparr>), c)),
     ctl_SuspendActor = (\<lambda>_ c. (Inr (), c)),
     ctl_DeleteActor = (\<lambda>_ _ c. (Inr (), c)),
     ctl_CreateActorEgressPolicy = (\<lambda>r p c. case fst c r of
        Some _ \<Rightarrow> (Inl (EStatus CodeAlreadyExists []), c) | None \<Rightarrow> (Inr (), sim_put r p c)),
     ctl_GetActorEgressPolicy = (\<lambda>r c. case fst c r of
        Some q \<Rightarrow> (Inr q, c) | None \<Rightarrow> (Inl (EStatus CodeNotFound []), c)),
     ctl_UpdateActorEgressPolicy = (\<lambda>r p c. case fst c r of
        None \<Rightarrow> (Inl (EStatus CodeNotFound []), c)
      | Some q \<Rightarrow>
          if map_option (\<lambda>m. (rm_Uid m, rm_Version m)) (ep_Metadata p) =
             map_option (\<lambda>m. (rm_Uid m, rm_Version m)) (ep_Metadata q)
          then (Inr (), sim_put r p c) else (Inl (EStatus CodeAborted []), c))\<rparr>"

lemma sim_egress_service: "egress_service sim_egress fst"
  unfolding egress_service_def by (auto simp: sim_egress_def sim_put_def)

theorem ApplyEgressPolicy_applies_witness:
  "let al = \<lparr>ea_Hosts = [\<lparr>hr_Host = ''api.example.com'', hr_Port = 443\<rparr>]\<rparr>;
       c1 = snd (ApplyEgressPolicy sim_egress ''a'' ''t'' (Some al) (Map.empty, 0))
   in fst (ApplyEgressPolicy sim_egress ''a'' ''t'' (Some al) c1) = None"
proof -
  let ?al = "\<lparr>ea_Hosts = [\<lparr>hr_Host = ''api.example.com'', hr_Port = 443\<rparr>]\<rparr>"
  let ?c1 = "snd (ApplyEgressPolicy sim_egress ''a'' ''t'' (Some ?al) (Map.empty, 0))"
  have "\<forall>q. fst ?c1 (objRef ''a'' ''t'') = Some q \<longrightarrow> ep_Metadata q \<noteq> None"
    by (simp add: ApplyEgressPolicy_def sim_egress_def sim_put_def Let_def)
  with ApplyEgressPolicy_applies [OF sim_egress_service, of ?al ?c1 "''a''" "''t''"] show ?thesis
    by (simp add: Let_def)
qed

text \<open>the connection is plaintext only when that was asked for, and a CA file that was given
  or detected is always the trust root: if it cannot be read or parsed there is no connection.\<close>

theorem NewClientWithOptions_transport:
  assumes "NewClientWithOptions getenv stat readFile parsesPEM dial opts = Inr plan"
  shows "if co_Plaintext opts then dial_Transport plan = TransportPlaintext
    else \<exists>ca. dial_Transport plan = TransportTLS (co_InsecureTLS opts) (serviceName (co_Authority opts) (dial_Target plan)) ca \<and>
      (case ca of None \<Rightarrow> detectCAFile getenv stat (co_CAFile opts) = []
       | Some pem \<Rightarrow> readFile (detectCAFile getenv stat (co_CAFile opts)) = Inr pem \<and> parsesPEM pem)"
  using assms
  by (auto simp: NewClientWithOptions_def tlsTransport_def Let_def
      split: if_splits sum.splits option.splits)

theorem NewClientWithOptions_transport_witness:
  "\<exists>plan. NewClientWithOptions (\<lambda>_. []) (\<lambda>_. False) (\<lambda>_. Inr ''pem'') (\<lambda>_. True) (\<lambda>_. None)
      \<lparr>co_Target = [], co_Authority = [], co_TokenFile = [], co_CAFile = ''ca'', co_InsecureTLS = False, co_Plaintext = False\<rparr>
      = Inr plan \<and> dial_Transport plan = TransportTLS False ''api.ate-system.svc'' (Some ''pem'')"
proof -
  let ?o = "\<lparr>co_Target = [], co_Authority = [], co_TokenFile = [], co_CAFile = ''ca'', co_InsecureTLS = False, co_Plaintext = False\<rparr>"
  obtain plan where p: "NewClientWithOptions (\<lambda>_. []) (\<lambda>_. False) (\<lambda>_. Inr ''pem'') (\<lambda>_. True) (\<lambda>_. None) ?o = Inr plan"
    and t: "dial_Target plan = defaultTarget"
    by (simp add: NewClientWithOptions_def detectCAFile_def tlsTransport_def Let_def)
  have "strContains defaultTarget ''api.ate-system.svc''" by (simp add: defaultTarget_def hasPrefix_def)
  with NewClientWithOptions_transport [OF p] p t show ?thesis
    by (auto simp: serviceName_def detectCAFile_def split: option.splits)
qed

end
