(* ===== verification/Store_Spec.thy ===== *)
theory Store_Spec
  imports Api_Types
begin

text \<open>
  The storage interface of \<open>internal/store/store.go\<close>. The Go interface \<open>Store\<close> is the record
  \<open>store\<close> of operations over a state \<open>'s\<close>: an operation takes the state and returns the new
  one, a save returns the resource as the call left it (the Go code fills in defaults in the
  caller's object), and an operation that reads the clock takes the time as its first
  argument. What the interface promises is stated by two locales: \<open>resource_kind\<close> for the
  save/get/delete triple every kind has, and \<open>ax_store\<close>, which puts the four kinds together
  with the operations only tasks have. Both stores of the repository are shown to satisfy them.
\<close>

section \<open>Events\<close>

record taskEvent =
  ev_ID :: string
  ev_Atespace :: string
  ev_Name :: string
  ev_Action :: string

section \<open>The interface\<close>

record 's store =
  store_SaveTask :: "int \<Rightarrow> task \<Rightarrow> 's \<Rightarrow> task go \<times> 's"
  store_GetTask :: "string \<Rightarrow> string \<Rightarrow> 's \<Rightarrow> task go"
  store_ListTasks :: "string \<Rightarrow> int \<Rightarrow> int \<Rightarrow> 's \<Rightarrow> task list go"
  store_UpdateTaskStatus :: "string \<Rightarrow> string \<Rightarrow> taskStatus option \<Rightarrow> 's \<Rightarrow> unit go \<times> 's"
  store_MarkTaskDeleting :: "int \<Rightarrow> string \<Rightarrow> string \<Rightarrow> 's \<Rightarrow> unit go \<times> 's"
  store_DeleteTask :: "string \<Rightarrow> string \<Rightarrow> 's \<Rightarrow> unit go \<times> 's"
  store_SaveGateway :: "int \<Rightarrow> gateway \<Rightarrow> 's \<Rightarrow> gateway go \<times> 's"
  store_GetGateway :: "string \<Rightarrow> string \<Rightarrow> 's \<Rightarrow> gateway go"
  store_ListGateways :: "string \<Rightarrow> 's \<Rightarrow> gateway list go"
  store_DeleteGateway :: "string \<Rightarrow> string \<Rightarrow> 's \<Rightarrow> unit go \<times> 's"
  store_SaveWorkspace :: "int \<Rightarrow> workspace \<Rightarrow> 's \<Rightarrow> workspace go \<times> 's"
  store_GetWorkspace :: "string \<Rightarrow> string \<Rightarrow> 's \<Rightarrow> workspace go"
  store_ListWorkspaces :: "string \<Rightarrow> 's \<Rightarrow> workspace list go"
  store_DeleteWorkspace :: "string \<Rightarrow> string \<Rightarrow> 's \<Rightarrow> unit go \<times> 's"
  store_SaveModel :: "int \<Rightarrow> model \<Rightarrow> 's \<Rightarrow> model go \<times> 's"
  store_GetModel :: "string \<Rightarrow> string \<Rightarrow> 's \<Rightarrow> model go"
  store_ListModels :: "string \<Rightarrow> 's \<Rightarrow> model list go"
  store_DeleteModel :: "string \<Rightarrow> string \<Rightarrow> 's \<Rightarrow> unit go \<times> 's"

text \<open>
  The event queue a worker subscribes to. \<open>Next\<close> has no result (\<open>None\<close>) while it would block.
\<close>

record 's eventQueue =
  queue_Next :: "'s \<Rightarrow> ((error + taskEvent) \<times> 's) option"
  queue_Ack :: "taskEvent \<Rightarrow> 's \<Rightarrow> error option \<times> 's"

text \<open>An empty atespace means \<open>default\<close>, everywhere.\<close>

definition orDefault :: "string \<Rightarrow> string" where
  "orDefault a = (if a = [] then ''default'' else a)"

lemma orDefault_idem [simp]: "orDefault (orDefault a) = orDefault a"
  by (simp add: orDefault_def)

lemma orDefault_nonempty [simp]: "orDefault a \<noteq> []"
  by (simp add: orDefault_def)

definition defaultAtespace :: "objectMeta \<Rightarrow> objectMeta" where
  "defaultAtespace m = m\<lparr>meta_Atespace := orDefault (meta_Atespace m)\<rparr>"

lemma defaultAtespace_simps [simp]:
  "meta_Name (defaultAtespace m) = meta_Name m"
  "meta_Atespace (defaultAtespace m) = orDefault (meta_Atespace m)"
  "meta_CreationTimestamp (defaultAtespace m) = meta_CreationTimestamp m"
  "defaultAtespace (defaultAtespace m) = defaultAtespace m"
  by (simp_all add: defaultAtespace_def)

text \<open>What a lookup of a missing or present resource answers.\<close>

definition found :: "'r option \<Rightarrow> 'r go" where
  "found x = (case x of None \<Rightarrow> Err ENotFound | Some r \<Rightarrow> Ok r)"

lemma found_simps [simp]: "found None = Err ENotFound" "found (Some r) = Ok r"
  by (simp_all add: found_def)

lemma found_eq_Ok [simp]: "found x = Ok r \<longleftrightarrow> x = Some r"
  and found_not_Panic [simp]: "found x \<noteq> Panic"
  and found_eq_Err [simp]: "found x = Err e \<longleftrightarrow> x = None \<and> e = ENotFound"
  by (auto simp: found_def split: option.split)

section \<open>The contract of one resource kind\<close>

text \<open>
  \<open>view s\<close> is the abstract state: the resources by key. \<open>norm r\<close> is \<open>r\<close> with the defaults a
  save fills in, and \<open>ok r\<close> says that the store can represent \<open>r\<close> (a store that serializes
  promises nothing about a value its encoding does not preserve). The key of a resource is computed from its atespace and name; the contract
  does not ask that different pairs have different keys.
\<close>

locale resource_kind =
  fixes meta :: "'r \<Rightarrow> objectMeta option"
    and norm :: "'r \<Rightarrow> 'r"
    and key :: "string \<Rightarrow> string \<Rightarrow> string"
    and view :: "'s \<Rightarrow> string \<Rightarrow> 'r option"
    and save :: "int \<Rightarrow> 'r \<Rightarrow> 's \<Rightarrow> 'r go \<times> 's"
    and get :: "string \<Rightarrow> string \<Rightarrow> 's \<Rightarrow> 'r go"
    and del :: "string \<Rightarrow> string \<Rightarrow> 's \<Rightarrow> unit go \<times> 's"
    and wf :: "'s \<Rightarrow> bool"
    and ok :: "'r \<Rightarrow> bool"
  assumes norm_name: "meta_GetName (meta (norm r)) = meta_GetName (meta r)"
    and norm_atespace: "meta_GetAtespace (meta (norm r)) = orDefault (meta_GetAtespace (meta r))"
    and norm_created: "GetCreationTimestamp (meta (norm r)) = GetCreationTimestamp (meta r)"
    and save_result: "wf s \<Longrightarrow> meta_GetName (meta r) \<noteq> [] \<Longrightarrow> ok (norm r) \<Longrightarrow> fst (save now r s) = Ok (norm r)"
    and save_view: "wf s \<Longrightarrow> meta_GetName (meta r) \<noteq> [] \<Longrightarrow> ok (norm r) \<Longrightarrow>
      view (snd (save now r s)) =
        (view s)(key (orDefault (meta_GetAtespace (meta r))) (meta_GetName (meta r)) \<mapsto> norm r)"
    and save_noname: "wf s \<Longrightarrow> meta r \<noteq> None \<Longrightarrow> meta_GetName (meta r) = [] \<Longrightarrow>
      (\<exists>e. fst (save now r s) = Err e) \<and> snd (save now r s) = s"
    and save_wf: "wf s \<Longrightarrow> ok (norm r) \<Longrightarrow> wf (snd (save now r s))"
    and get_view: "wf s \<Longrightarrow> get a n s = found (view s (key (orDefault a) n))"
    and del_result: "wf s \<Longrightarrow> fst (del a n s) = Ok ()"
    and del_view: "wf s \<Longrightarrow> view (snd (del a n s)) = (view s)(key (orDefault a) n := None)"
    and del_wf: "wf s \<Longrightarrow> wf (snd (del a n s))"
begin

lemma get_after_save:
  assumes "wf s" and "meta_GetName (meta r) \<noteq> []" and "ok (norm r)"
    and "orDefault a = orDefault (meta_GetAtespace (meta r))" and "n = meta_GetName (meta r)"
  shows "get a n (snd (save now r s)) = Ok (norm r)"
  using assms by (simp add: get_view save_wf save_view)

lemma get_after_save_other:
  assumes "wf s" and "meta_GetName (meta r) \<noteq> []" and "ok (norm r)"
    and "key (orDefault a) n \<noteq> key (orDefault (meta_GetAtespace (meta r))) (meta_GetName (meta r))"
  shows "get a n (snd (save now r s)) = get a n s"
  using assms by (simp add: get_view save_wf save_view)

lemma get_after_delete:
  "wf s \<Longrightarrow> get a n (snd (del a n s)) = Err ENotFound"
  by (simp add: get_view del_wf del_view)

lemma get_after_delete_other:
  "wf s \<Longrightarrow> key (orDefault b) m \<noteq> key (orDefault a) n \<Longrightarrow> get b m (snd (del a n s)) = get b m s"
  by (simp add: get_view del_wf del_view)

lemma save_save_view:
  assumes "wf s" and "ok (norm r)" and "ok (norm r')" and "meta_GetName (meta r) \<noteq> []" and "meta_GetName (meta r') = meta_GetName (meta r)"
    and "orDefault (meta_GetAtespace (meta r')) = orDefault (meta_GetAtespace (meta r))"
  shows "view (snd (save now' r' (snd (save now r s)))) = view (snd (save now r' s))"
  using assms by (simp add: save_wf save_view)

lemma get_no_panic: "wf s \<Longrightarrow> get a n s \<noteq> Panic"
  by (simp add: get_view)

end

section \<open>The contract of the whole store\<close>

text \<open>
  On top of the four kinds: updating a status and marking a task as deleting act on the
  stored task only, answer not-found when there is none, and leave every other task alone.
\<close>

definition markedDeleting :: "task \<Rightarrow> task" where
  "markedDeleting t = t\<lparr>task_Status :=
     Some ((case task_Status t of None \<Rightarrow> emptyStatus | Some st \<Rightarrow> st)\<lparr>st_Phase := PhaseTerminating\<rparr>)\<rparr>"

locale ax_store =
  tasks: resource_kind task_Metadata normT keyT viewT "store_SaveTask ops" "store_GetTask ops" "store_DeleteTask ops" wf okT +
  gws: resource_kind gw_Metadata normG keyG viewG "store_SaveGateway ops" "store_GetGateway ops" "store_DeleteGateway ops" wf okG +
  wss: resource_kind wsp_Metadata normW keyW viewW "store_SaveWorkspace ops" "store_GetWorkspace ops" "store_DeleteWorkspace ops" wf okW +
  mds: resource_kind model_Metadata normM keyM viewM "store_SaveModel ops" "store_GetModel ops" "store_DeleteModel ops" wf okM
  for ops :: "'s store" and wf :: "'s \<Rightarrow> bool"
    and normT keyT viewT okT normG keyG viewG okG normW keyW viewW okW normM keyM viewM okM +
  assumes normT_fields: "task_Spec (normT t) = task_Spec t"
    and view_key: "wf s \<Longrightarrow> viewT s k = Some t \<Longrightarrow>
      task_Metadata t \<noteq> None \<and> keyT (orDefault (meta_GetAtespace (task_Metadata t))) (meta_GetName (task_Metadata t)) = k"
    and update_missing: "wf s \<Longrightarrow> a \<noteq> [] \<Longrightarrow> viewT s (keyT a n) = None \<Longrightarrow>
      fst (store_UpdateTaskStatus ops a n st s) = Err ENotFound \<and> snd (store_UpdateTaskStatus ops a n st s) = s"
    and update_present: "wf s \<Longrightarrow> a \<noteq> [] \<Longrightarrow> viewT s (keyT a n) = Some t \<Longrightarrow>
      okT (t\<lparr>task_Status := st\<rparr>) \<Longrightarrow>
      fst (store_UpdateTaskStatus ops a n st s) = Ok () \<and> wf (snd (store_UpdateTaskStatus ops a n st s)) \<and>
      viewT (snd (store_UpdateTaskStatus ops a n st s)) = (viewT s)(keyT a n \<mapsto> t\<lparr>task_Status := st\<rparr>)"
    and mark_missing: "wf s \<Longrightarrow> viewT s (keyT (orDefault a) n) = None \<Longrightarrow>
      fst (store_MarkTaskDeleting ops now a n s) = Err ENotFound \<and> snd (store_MarkTaskDeleting ops now a n s) = s"
    and mark_present: "wf s \<Longrightarrow> viewT s (keyT (orDefault a) n) = Some t \<Longrightarrow>
      okT (markedDeleting t) \<Longrightarrow>
      fst (store_MarkTaskDeleting ops now a n s) = Ok () \<and> wf (snd (store_MarkTaskDeleting ops now a n s)) \<and>
      viewT (snd (store_MarkTaskDeleting ops now a n s)) = (viewT s)(keyT (orDefault a) n \<mapsto> markedDeleting t)"
begin

lemma mark_then_get:
  assumes "wf s" and "store_GetTask ops a n s = Ok t" and "okT (markedDeleting t)"
  shows "store_GetTask ops a n (snd (store_MarkTaskDeleting ops now a n s)) = Ok (markedDeleting t)"
proof -
  have "viewT s (keyT (orDefault a) n) = Some t" using assms(1,2) by (simp add: tasks.get_view)
  from mark_present [OF assms(1) this assms(3)] show ?thesis by (simp add: tasks.get_view)
qed

lemma mark_then_delete:
  assumes "wf s" and "store_GetTask ops a n s = Ok t" and "okT (markedDeleting t)"
  shows "store_GetTask ops a n (snd (store_DeleteTask ops a n (snd (store_MarkTaskDeleting ops now a n s)))) = Err ENotFound"
proof -
  have "viewT s (keyT (orDefault a) n) = Some t" using assms(1,2) by (simp add: tasks.get_view)
  from mark_present [OF assms(1) this assms(3)] show ?thesis by (simp add: tasks.get_after_delete)
qed

end

text \<open>A store that can represent every task.\<close>

locale total_store =
  ax_store ops wf normT keyT viewT okT normG keyG viewG okG normW keyW viewW okW normM keyM viewM okM
  for ops :: "'s store" and wf normT keyT viewT okT normG keyG viewG okG normW keyW viewW okW normM keyM viewM okM +
  assumes represents: "okT t"

section \<open>The contract of the event queue\<close>

text \<open>
  \<open>pending s\<close> are the events waiting, oldest first. A queue with nothing pending blocks;
  otherwise \<open>Next\<close> takes the oldest, and acknowledging takes nothing. Together with a store:
  taking and acknowledging leave the tasks alone, and only saving and marking queue events.
\<close>

locale event_queue =
  fixes q :: "'s eventQueue"
    and pending :: "'s \<Rightarrow> taskEvent list"
    and wf :: "'s \<Rightarrow> bool"
  assumes next_empty: "wf s \<Longrightarrow> pending s = [] \<Longrightarrow> queue_Next q s = None"
    and next_event: "wf s \<Longrightarrow> pending s = ev # evs \<Longrightarrow>
      \<exists>s'. queue_Next q s = Some (Inr ev, s') \<and> pending s' = evs \<and> wf s'"
    and ack_keeps: "wf s \<Longrightarrow> pending (snd (queue_Ack q ev s)) = pending s \<and> wf (snd (queue_Ack q ev s))"

locale queued_store =
  total_store ops wf normT keyT viewT okT normG keyG viewG okG normW keyW viewW okW normM keyM viewM okM +
  event_queue q pending wf
  for ops :: "'s store" and wf normT keyT viewT okT normG keyG viewG okG normW keyW viewW okW normM keyM viewM okM
    and q :: "'s eventQueue" and pending +
  assumes next_view: "wf s \<Longrightarrow> queue_Next q s = Some (r, s') \<Longrightarrow> viewT s' = viewT s"
    and ack_view: "wf s \<Longrightarrow> viewT (snd (queue_Ack q ev s)) = viewT s"
    and update_pending: "wf s \<Longrightarrow> pending (snd (store_UpdateTaskStatus ops a n st s)) = pending s"
    and delete_pending: "wf s \<Longrightarrow> pending (snd (store_DeleteTask ops a n s)) = pending s"

end
