(* ===== verification/Model_Config.thy ===== *)
theory Model_Config
  imports Store_Spec
begin

text \<open>
  \<open>internal/model\<close>, the configuration half: how a Model resource becomes a client \<open>config\<close>
  (\<open>client.go\<close>), which wire protocol and base URL it selects (\<open>provider.go\<close>), how its API key
  is found, and how the client constructors combine these. The URL parser of \<open>net/url\<close> is the
  record \<open>urlLib\<close>, an argument about which nothing is assumed; the Kubernetes API, kubectl,
  the file system and the environment are arguments too.
\<close>

section \<open>Constants and configuration\<close>

definition ProviderGoogle :: string where "ProviderGoogle = ''google''"
definition ProviderAnthropic :: string where "ProviderAnthropic = ''anthropic''"
definition ProviderOpenAI :: string where "ProviderOpenAI = ''openai''"
definition ProtocolOpenAI :: string where "ProtocolOpenAI = ''openai''"
definition ProtocolAnthropic :: string where "ProtocolAnthropic = ''anthropic''"
definition ProtocolGoogle :: string where "ProtocolGoogle = ''google''"
definition DefaultModel :: string where "DefaultModel = ''gemini-3.8-flash''"
definition DefaultModelResourceName :: string where "DefaultModelResourceName = ''default-model''"
definition DefaultAtespace :: string where "DefaultAtespace = ''default''"
definition DefaultSecretName :: string where "DefaultSecretName = ''gemini-api-secret''"
definition DefaultSecretKey :: string where "DefaultSecretKey = ''GEMINI_API_KEY''"
definition systemInstructionParam :: string where "systemInstructionParam = ''systemInstruction''"

lemmas protocol_defs = ProtocolOpenAI_def ProtocolAnthropic_def ProtocolGoogle_def
  ProviderGoogle_def ProviderAnthropic_def ProviderOpenAI_def

record config =
  cfg_Name :: string
  cfg_Atespace :: string
  cfg_Provider :: string
  cfg_Protocol :: string
  cfg_Model :: string
  cfg_Parameters :: "(string \<times> any) list"
  cfg_SecretKey :: "secretKeyRef option"
  cfg_APIKey :: string
  cfg_BaseURL :: string
  cfg_Headers :: "(string \<times> string) list"
  cfg_APIKeyHeader :: string
  cfg_APIKeyPrefix :: string
  cfg_DisableRemote :: bool

definition protocolFor :: "string \<Rightarrow> string \<Rightarrow> string" where
  "protocolFor provider protocol =
     (let p = toLower (trimSpace protocol) in
      if p \<noteq> [] then p
      else let v = toLower (trimSpace provider) in
           if v = [] \<or> v = ProviderGoogle then ProtocolGoogle
           else if v = ProtocolAnthropic then ProtocolAnthropic
           else ProtocolOpenAI)"

definition defaultSecretRef :: secretKeyRef where
  "defaultSecretRef = \<lparr>sec_Name = DefaultSecretName, sec_Key = DefaultSecretKey\<rparr>"

definition DefaultConfig :: config where
  "DefaultConfig = \<lparr>cfg_Name = DefaultModelResourceName, cfg_Atespace = DefaultAtespace,
     cfg_Provider = ProviderGoogle, cfg_Protocol = [], cfg_Model = DefaultModel, cfg_Parameters = [],
     cfg_SecretKey = Some defaultSecretRef, cfg_APIKey = [], cfg_BaseURL = [], cfg_Headers = [],
     cfg_APIKeyHeader = [], cfg_APIKeyPrefix = [], cfg_DisableRemote = False\<rparr>"

text \<open>The copy of a map, entry by entry; a nil map is the empty association list.\<close>

definition cloneHeaders :: "(string \<times> string) list \<Rightarrow> (string \<times> string) list" where
  "cloneHeaders headers = (if headers = [] then [] else foldl (\<lambda>m (k, v). AList.update k v m) [] headers)"

definition ConfigFromSpec :: "modelSpec option \<Rightarrow> config" where
  "ConfigFromSpec spec =
     (case spec of
        None \<Rightarrow> DefaultConfig
      | Some sp \<Rightarrow>
          (let secKey = (if ms_SecretKey sp = None \<and> protocolFor (ms_Provider sp) (ms_Protocol sp) = ProtocolGoogle
                         then Some defaultSecretRef else ms_SecretKey sp)
           in \<lparr>cfg_Name = DefaultModelResourceName, cfg_Atespace = DefaultAtespace,
               cfg_Provider = ms_Provider sp, cfg_Protocol = ms_Protocol sp, cfg_Model = ms_Model sp,
               cfg_Parameters = (case ms_Parameters sp of None \<Rightarrow> [] | Some m \<Rightarrow> m),
               cfg_SecretKey = secKey, cfg_APIKey = [], cfg_BaseURL = ms_BaseUrl sp,
               cfg_Headers = cloneHeaders (ms_Headers sp), cfg_APIKeyHeader = ms_ApiKeyHeader sp,
               cfg_APIKeyPrefix = ms_ApiKeyPrefix sp, cfg_DisableRemote = False\<rparr>))"

definition ConfigFromCRD :: "model option \<Rightarrow> config" where
  "ConfigFromCRD m =
     (case m of
        None \<Rightarrow> DefaultConfig
      | Some md \<Rightarrow>
          (let cfg = ConfigFromSpec (model_Spec md) in
           case model_Metadata md of
             None \<Rightarrow> cfg
           | Some meta \<Rightarrow>
               (let cfg1 = (if meta_Name meta \<noteq> [] then cfg\<lparr>cfg_Name := meta_Name meta\<rparr> else cfg)
                in if meta_Atespace meta \<noteq> [] then cfg1\<lparr>cfg_Atespace := meta_Atespace meta\<rparr> else cfg1)))"

section \<open>Protocol and endpoint\<close>

record url =
  url_Scheme :: string
  url_Host :: string
  url_User :: "string option"
  url_Path :: string
  url_RawPath :: string
  url_RawQuery :: string
  url_Fragment :: string

record urlLib =
  url_Parse :: "string \<Rightarrow> error + url"
  url_String :: "url \<Rightarrow> string"
  url_Redacted :: "url \<Rightarrow> string"

definition baseURLFor :: "urlLib \<Rightarrow> config \<Rightarrow> string \<Rightarrow> error + string" where
  "baseURLFor lib cfg protocol =
     (let given = trimRightChar CHR ''/'' (cfg_BaseURL cfg);
          base =
            (if given \<noteq> [] then Inr given
             else if protocol = ProtocolGoogle then Inr ''https://generativelanguage.googleapis.com''
             else if protocol = ProtocolAnthropic then Inr ''https://api.anthropic.com''
             else if protocol = ProtocolOpenAI then
               (let v = toLower (trimSpace (cfg_Provider cfg)) in
                if v = [] \<or> v = ''openai'' then Inr ''https://api.openai.com/v1''
                else if v = ''openrouter'' then Inr ''https://openrouter.ai/api/v1''
                else Inl (ENew (''baseURL is required for OpenAI-compatible provider '' @ quote (cfg_Provider cfg))))
             else Inl (ENew (''unsupported protocol '' @ quote protocol)))
      in case base of
           Inl e \<Rightarrow> Inl e
         | Inr baseURL \<Rightarrow>
             (case url_Parse lib baseURL of
                Inl _ \<Rightarrow> Inl (ENew ''invalid baseURL: expected an absolute HTTP(S) URL'')
              | Inr parsed \<Rightarrow>
                  if url_Scheme parsed = [] \<or> url_Host parsed = [] \<or>
                     (url_Scheme parsed \<noteq> ''http'' \<and> url_Scheme parsed \<noteq> ''https'')
                  then Inl (ENew ''invalid baseURL: expected an absolute HTTP(S) URL'')
                  else if url_User parsed \<noteq> None
                  then Inl (ENew ''baseURL must not contain embedded credentials; use secretKey'')
                  else Inr (trimRightChar CHR ''/'' (url_String lib parsed))))"

definition EffectiveProtocol :: "config \<Rightarrow> string" where
  "EffectiveProtocol cfg = protocolFor (cfg_Provider cfg) (cfg_Protocol cfg)"

definition EffectiveBaseURL :: "urlLib \<Rightarrow> config \<Rightarrow> error + string" where
  "EffectiveBaseURL lib cfg = baseURLFor lib cfg (EffectiveProtocol cfg)"

definition endpointFor :: "urlLib \<Rightarrow> config \<Rightarrow> string \<Rightarrow> string \<Rightarrow> error + string" where
  "endpointFor lib cfg protocol path =
     (case baseURLFor lib cfg protocol of
        Inl e \<Rightarrow> Inl e
      | Inr baseURL \<Rightarrow>
          (case url_Parse lib baseURL of
             Inl _ \<Rightarrow> Inl (ENew ''invalid baseURL: expected an absolute HTTP(S) URL'')
           | Inr parsed \<Rightarrow>
               (let p = trimRightChar CHR ''/'' (url_Path parsed) in
                Inr (url_String lib
                  (if \<not> hasSuffix p path then parsed\<lparr>url_Path := p @ path, url_RawPath := []\<rparr> else parsed)))))"

section \<open>API keys\<close>

text \<open>
  What \<open>GetKubernetesSecret\<close> reads: the environment, files, the secret's data map as the API
  server answers it (None when the request fails, is not 200 or does not decode), kubectl's
  output, and base64.
\<close>

record kubeEnv =
  kube_Getenv :: "string \<Rightarrow> string"
  kube_ReadFile :: "string \<Rightarrow> string option"
  kube_SecretData :: "string \<Rightarrow> string \<Rightarrow> (string \<times> string) list option"
  kube_Kubectl :: "string list \<Rightarrow> string option"
  kube_Base64 :: "string \<Rightarrow> string option"

definition kubeInCluster :: "kubeEnv \<Rightarrow> string \<Rightarrow> string \<Rightarrow> string \<Rightarrow> string option" where
  "kubeInCluster k namespace secretName key =
     (let host = kube_Getenv k ''KUBERNETES_SERVICE_HOST'' in
      if host = [] then None
      else
        let port = (if kube_Getenv k ''KUBERNETES_SERVICE_PORT'' = [] then ''443''
                    else kube_Getenv k ''KUBERNETES_SERVICE_PORT'')
        in case kube_ReadFile k ''/var/run/secrets/kubernetes.io/serviceaccount/token'' of
             None \<Rightarrow> None
           | Some token \<Rightarrow>
               (case kube_SecretData k (''https://'' @ host @ '':'' @ port @ ''/api/v1/namespaces/'' @ namespace
                       @ ''/secrets/'' @ secretName) (''Bearer '' @ trimSpace token) of
                  None \<Rightarrow> None
                | Some dat \<Rightarrow>
                    (case map_of dat key of
                       None \<Rightarrow> None
                     | Some encoded \<Rightarrow> map_option trimSpace (kube_Base64 k encoded))))"

definition kubeFromCLI :: "kubeEnv \<Rightarrow> string \<Rightarrow> string \<Rightarrow> string \<Rightarrow> string option" where
  "kubeFromCLI k namespace secretName key =
     (case kube_Kubectl k [''get'', ''secret'', secretName, ''-n'', namespace, ''-o'',
                           ''jsonpath={.data.'' @ key @ ''}''] of
        None \<Rightarrow> None
      | Some out \<Rightarrow>
          (let raw = trimSpace out in
           if raw = [] then None else map_option trimSpace (kube_Base64 k raw)))"

definition GetKubernetesSecret :: "kubeEnv \<Rightarrow> string \<Rightarrow> string \<Rightarrow> string \<Rightarrow> error + string" where
  "GetKubernetesSecret k namespace0 secretName key =
     (if secretName = [] \<or> key = [] then Inl (ENew ''secret name and key must not be empty'')
      else
        let namespace = (if namespace0 = [] then DefaultAtespace else namespace0) in
        case kubeInCluster k namespace secretName key of
          Some v \<Rightarrow> Inr v
        | None \<Rightarrow>
            (case kubeFromCLI k namespace secretName key of
               Some v \<Rightarrow> Inr v
             | None \<Rightarrow> Inl (ENew (''kubernetes secret '' @ namespace @ ''/'' @ secretName @ '' with key '' @ key @ '' not found''))))"

type_synonym secretResolverFunc = "string \<Rightarrow> string \<Rightarrow> error + string"

record client =
  cl_cfg :: config
  cl_secretResolver :: "secretResolverFunc option"

definition resolveAPIKey :: "kubeEnv \<Rightarrow> client \<Rightarrow> string" where
  "resolveAPIKey k c =
     (if cfg_APIKey (cl_cfg c) \<noteq> [] then cfg_APIKey (cl_cfg c)
      else
        case cfg_SecretKey (cl_cfg c) of
          None \<Rightarrow> []
        | Some ref \<Rightarrow>
            (let fromKube =
               (case GetKubernetesSecret k (if cfg_Atespace (cl_cfg c) = [] then DefaultAtespace else cfg_Atespace (cl_cfg c))
                       (sec_Name ref) (sec_Key ref) of
                  Inr v \<Rightarrow> v | Inl _ \<Rightarrow> [])
             in case cl_secretResolver c of
                  None \<Rightarrow> fromKube
                | Some f \<Rightarrow>
                    (case f (sec_Name ref) (sec_Key ref) of
                       Inr v \<Rightarrow> if v \<noteq> [] then v else fromKube
                     | Inl _ \<Rightarrow> fromKube)))"

section \<open>Constructing clients\<close>

text \<open>An option is a function on the client; \<open>WithStore\<close> reads the store it was given.\<close>

type_synonym clientOption = "client \<Rightarrow> client"

definition WithAPIKey :: "string \<Rightarrow> clientOption" where
  "WithAPIKey key c = c\<lparr>cl_cfg := (cl_cfg c)\<lparr>cfg_APIKey := key\<rparr>\<rparr>"

definition WithSecretKey :: "kubeEnv \<Rightarrow> string \<Rightarrow> string \<Rightarrow> clientOption" where
  "WithSecretKey k name key c =
     (let c1 = c\<lparr>cl_cfg := (cl_cfg c)\<lparr>cfg_SecretKey := Some \<lparr>sec_Name = name, sec_Key = key\<rparr>\<rparr>\<rparr>;
          resolved = resolveAPIKey k c1
      in if resolved \<noteq> [] then c1\<lparr>cl_cfg := (cl_cfg c1)\<lparr>cfg_APIKey := resolved\<rparr>\<rparr> else c1)"

definition WithSecretResolver :: "secretResolverFunc option \<Rightarrow> clientOption" where
  "WithSecretResolver fn c = c\<lparr>cl_secretResolver := fn\<rparr>"

definition WithStore :: "'s store \<Rightarrow> 's \<Rightarrow> string \<Rightarrow> string \<Rightarrow> clientOption" where
  "WithStore ops s atespace modelName c =
     (case store_GetModel ops (if atespace = [] then DefaultAtespace else atespace)
             (if modelName = [] then DefaultModelResourceName else modelName) s of
        Ok m \<Rightarrow> c\<lparr>cl_cfg := ConfigFromCRD (Some m)\<rparr>
      | _ \<Rightarrow> c)"

definition WithBaseURL :: "string \<Rightarrow> clientOption" where
  "WithBaseURL url c = c\<lparr>cl_cfg := (cl_cfg c)\<lparr>cfg_BaseURL := trimRightChar CHR ''/'' url\<rparr>\<rparr>"

definition WithDisableRemote :: "bool \<Rightarrow> clientOption" where
  "WithDisableRemote disable c = c\<lparr>cl_cfg := (cl_cfg c)\<lparr>cfg_DisableRemote := disable\<rparr>\<rparr>"

definition providerOrDefault :: "string \<Rightarrow> string \<Rightarrow> string" where
  "providerOrDefault provider protocol =
     (if provider \<noteq> [] then provider
      else let p = protocolFor provider protocol in
           if p = ProtocolGoogle then ProviderGoogle
           else if p = ProtocolAnthropic then ProviderAnthropic
           else if p = ProtocolOpenAI then ProviderOpenAI
           else protocol)"

text \<open>The defaults \<open>NewClient\<close> fills in before it applies the options.\<close>

definition clientDefaults :: "config \<Rightarrow> config" where
  "clientDefaults cfg0 =
     (let cfg1 = (if cfg_Name cfg0 = [] then cfg0\<lparr>cfg_Name := DefaultModelResourceName\<rparr> else cfg0);
          cfg2 = (if cfg_Atespace cfg1 = [] then cfg1\<lparr>cfg_Atespace := DefaultAtespace\<rparr> else cfg1);
          cfg3 = cfg2\<lparr>cfg_Provider := providerOrDefault (cfg_Provider cfg2) (cfg_Protocol cfg2)\<rparr>;
          google = (protocolFor (cfg_Provider cfg3) (cfg_Protocol cfg3) = ProtocolGoogle);
          cfg4 = (if cfg_Model cfg3 = [] \<and> google then cfg3\<lparr>cfg_Model := DefaultModel\<rparr> else cfg3)
      in if cfg_SecretKey cfg4 = None \<and> google then cfg4\<lparr>cfg_SecretKey := Some defaultSecretRef\<rparr> else cfg4)"

definition model_NewClient :: "kubeEnv \<Rightarrow> config \<Rightarrow> clientOption list \<Rightarrow> client" where
  "model_NewClient k cfg opts =
     (let c = foldl (\<lambda>c opt. opt c) \<lparr>cl_cfg = clientDefaults cfg, cl_secretResolver = None\<rparr> opts
      in if cfg_APIKey (cl_cfg c) = []
         then c\<lparr>cl_cfg := (cl_cfg c)\<lparr>cfg_APIKey := resolveAPIKey k c\<rparr>\<rparr> else c)"

definition NewClientFromSpec :: "kubeEnv \<Rightarrow> modelSpec option \<Rightarrow> clientOption list \<Rightarrow> client" where
  "NewClientFromSpec k spec opts = model_NewClient k (ConfigFromSpec spec) opts"

definition NewDefaultClient :: "kubeEnv \<Rightarrow> clientOption list \<Rightarrow> client" where
  "NewDefaultClient k opts = model_NewClient k DefaultConfig opts"

definition NewClientFromCRD :: "kubeEnv \<Rightarrow> model option \<Rightarrow> clientOption list \<Rightarrow> client" where
  "NewClientFromCRD k m opts =
     (case m of None \<Rightarrow> NewDefaultClient k opts
      | Some _ \<Rightarrow> model_NewClient k (ConfigFromCRD m) opts)"

definition NewClientFromStore ::
  "kubeEnv \<Rightarrow> 's store \<Rightarrow> string \<Rightarrow> string \<Rightarrow> clientOption list \<Rightarrow> 's \<Rightarrow> client go" where
  "NewClientFromStore k ops atespace0 name0 opts s =
     (let atespace = (if atespace0 = [] then DefaultAtespace else atespace0);
          name = (if name0 = [] then DefaultModelResourceName else name0)
      in case store_GetModel ops atespace name s of
           Ok m \<Rightarrow> Ok (NewClientFromCRD k (Some m) opts)
         | Err e \<Rightarrow> Err (EWrap (''reading model '' @ atespace @ ''/'' @ name @ '' from store'') e)
         | Panic \<Rightarrow> Panic)"

definition NewDefaultClientFromStore ::
  "kubeEnv \<Rightarrow> 's store \<Rightarrow> string \<Rightarrow> clientOption list \<Rightarrow> 's \<Rightarrow> client go" where
  "NewDefaultClientFromStore k ops atespace opts s =
     (case NewClientFromStore k ops atespace DefaultModelResourceName opts s of
        Err e \<Rightarrow> if is_not_found e then Ok (NewDefaultClient k opts) else Err e
      | r \<Rightarrow> r)"

text \<open>\<open>Client.Spec\<close>; every parameter value of the model is representable in a Struct.\<close>

definition client_Spec :: "client \<Rightarrow> modelSpec" where
  "client_Spec c =
     (let cfg = cl_cfg c in
      \<lparr>ms_Provider = cfg_Provider cfg, ms_Model = cfg_Model cfg, ms_SecretKey = cfg_SecretKey cfg,
       ms_Parameters = (if cfg_Parameters cfg \<noteq> [] then Some (cfg_Parameters cfg) else None),
       ms_Protocol = cfg_Protocol cfg, ms_BaseUrl = cfg_BaseURL cfg,
       ms_Headers = cloneHeaders (cfg_Headers cfg), ms_ApiKeyHeader = cfg_APIKeyHeader cfg,
       ms_ApiKeyPrefix = cfg_APIKeyPrefix cfg\<rparr>)"

section \<open>Lemmas\<close>

lemma foldl_update_fresh:
  "distinct (map fst (m @ xs)) \<Longrightarrow> foldl (\<lambda>m (k, v). AList.update k v m) m xs = m @ xs"
proof (induction xs arbitrary: m)
  case (Cons x xs)
  have "AList.update (fst x) (snd x) m = m @ [x]"
    using Cons.prems by (induction m) auto
  with Cons show ?case by (simp add: case_prod_unfold)
qed simp

lemma cloneHeaders_distinct: "distinct (map fst h) \<Longrightarrow> cloneHeaders h = h"
  by (simp add: cloneHeaders_def foldl_update_fresh [of "[]"])

lemma trimSpace_Nil [simp]: "trimSpace [] = []" and toLower_Nil [simp]: "toLower [] = []"
  by (simp_all add: trimSpace_def toLower_def)

lemma protocolFor_explicit: "toLower (trimSpace p) \<noteq> [] \<Longrightarrow> protocolFor v p = toLower (trimSpace p)"
  by (simp add: protocolFor_def Let_def)

lemma protocolFor_implicit:
  "toLower (trimSpace p) = [] \<Longrightarrow> protocolFor v p =
     (let v' = toLower (trimSpace v) in
      if v' = [] \<or> v' = ''google'' then ''google'' else if v' = ''anthropic'' then ''anthropic'' else ''openai'')"
  by (simp add: protocolFor_def protocol_defs Let_def)

lemma lowered_names [simp]:
  "toLower (trimSpace ''google'') = ''google''" "toLower (trimSpace ''anthropic'') = ''anthropic''"
  "toLower (trimSpace ''openai'') = ''openai''"
  by (simp_all add: toLower_def trimSpace_def lower_char_def is_space_def)

lemma clientDefaults_eq:
  "clientDefaults cfg = cfg\<lparr>
     cfg_Name := (if cfg_Name cfg = [] then DefaultModelResourceName else cfg_Name cfg),
     cfg_Atespace := (if cfg_Atespace cfg = [] then DefaultAtespace else cfg_Atespace cfg),
     cfg_Provider := providerOrDefault (cfg_Provider cfg) (cfg_Protocol cfg),
     cfg_Model := (if cfg_Model cfg = [] \<and>
        protocolFor (providerOrDefault (cfg_Provider cfg) (cfg_Protocol cfg)) (cfg_Protocol cfg) = ''google''
        then DefaultModel else cfg_Model cfg),
     cfg_SecretKey := (if cfg_SecretKey cfg = None \<and>
        protocolFor (providerOrDefault (cfg_Provider cfg) (cfg_Protocol cfg)) (cfg_Protocol cfg) = ''google''
        then Some defaultSecretRef else cfg_SecretKey cfg)\<rparr>"
  by (simp add: clientDefaults_def protocol_defs Let_def)

lemma protocol_providerOrDefault [simp]:
  "protocolFor (providerOrDefault v p) p = protocolFor v p"
  by (cases "toLower (trimSpace p) = []")
    (auto simp: providerOrDefault_def protocolFor_explicit protocolFor_implicit protocol_defs Let_def)

definition exampleURLLib :: urlLib where
  "exampleURLLib = \<lparr>url_Parse = (\<lambda>_. Inr \<lparr>url_Scheme = ''https'', url_Host = ''h'', url_User = None,
     url_Path = [], url_RawPath = [], url_RawQuery = [], url_Fragment = []\<rparr>),
     url_String = (\<lambda>_. ''https://h''), url_Redacted = (\<lambda>_. ''https://h'')\<rparr>"

definition exampleKube :: kubeEnv where
  "exampleKube = \<lparr>kube_Getenv = (\<lambda>_. []), kube_ReadFile = (\<lambda>_. None), kube_SecretData = (\<lambda>_ _. None),
     kube_Kubectl = (\<lambda>_. None), kube_Base64 = Some\<rparr>"

section \<open>Properties\<close>

text \<open>completing a configuration never changes its wire protocol, and afterwards its name,
  atespace and provider are set, as are the model and the secret when the protocol is Google's.\<close>

theorem clientDefaults_complete:
  "EffectiveProtocol (clientDefaults cfg) = EffectiveProtocol cfg \<and>
   cfg_Name (clientDefaults cfg) \<noteq> [] \<and> cfg_Atespace (clientDefaults cfg) \<noteq> [] \<and>
   cfg_Provider (clientDefaults cfg) \<noteq> [] \<and>
   (EffectiveProtocol cfg = ProtocolGoogle \<longrightarrow>
      cfg_Model (clientDefaults cfg) \<noteq> [] \<and> cfg_SecretKey (clientDefaults cfg) \<noteq> None)"
proof -
  have "cfg_Provider (clientDefaults cfg) \<noteq> []"
    by (cases "toLower (trimSpace (cfg_Protocol cfg)) = []"; cases "cfg_Protocol cfg = []")
      (auto simp: clientDefaults_eq providerOrDefault_def protocolFor_implicit protocol_defs Let_def)
  then show ?thesis
    by (simp add: EffectiveProtocol_def clientDefaults_eq protocol_defs DefaultModel_def
        DefaultModelResourceName_def DefaultAtespace_def)
qed

theorem clientDefaults_complete_witness:
  "cfg_SecretKey (clientDefaults (DefaultConfig\<lparr>cfg_SecretKey := None\<rparr>)) \<noteq> None"
proof -
  have "EffectiveProtocol (DefaultConfig\<lparr>cfg_SecretKey := None\<rparr>) = ProtocolGoogle"
    by (simp add: EffectiveProtocol_def DefaultConfig_def protocolFor_implicit protocol_defs Let_def)
  with clientDefaults_complete [of "DefaultConfig\<lparr>cfg_SecretKey := None\<rparr>"] show ?thesis by blast
qed

text \<open>a model spec survives the round trip through a client: the spec a client built from it
  reports is the original with only the documented defaults filled in (and an empty parameter
  object dropped).\<close>

theorem spec_roundtrip:
  assumes "distinct (map fst (ms_Headers sp))"
  shows "client_Spec (NewClientFromSpec k (Some sp) []) = sp\<lparr>
    ms_Provider := providerOrDefault (ms_Provider sp) (ms_Protocol sp),
    ms_Model := (if ms_Model sp = [] \<and> protocolFor (ms_Provider sp) (ms_Protocol sp) = ''google''
                 then DefaultModel else ms_Model sp),
    ms_SecretKey := (if ms_SecretKey sp = None \<and> protocolFor (ms_Provider sp) (ms_Protocol sp) = ''google''
                 then Some defaultSecretRef else ms_SecretKey sp),
    ms_Parameters := (if ms_Parameters sp = Some [] then None else ms_Parameters sp)\<rparr>"
  using assms
  by (simp add: NewClientFromSpec_def model_NewClient_def client_Spec_def ConfigFromSpec_def Let_def
      clientDefaults_eq cloneHeaders_distinct protocol_defs split: option.split)

theorem spec_roundtrip_witness:
  "let sp = \<lparr>ms_Provider = ''openrouter'', ms_Model = ''m'', ms_SecretKey = None, ms_Parameters = None,
       ms_Protocol = [], ms_BaseUrl = [], ms_Headers = [(''a'', ''1''), (''b'', ''2'')],
       ms_ApiKeyHeader = [], ms_ApiKeyPrefix = []\<rparr>
   in client_Spec (NewClientFromSpec exampleKube (Some sp) []) = sp"
proof -
  have "toLower (trimSpace ''openrouter'') = ''openrouter''"
    by (simp add: toLower_def trimSpace_def lower_char_def is_space_def)
  then show ?thesis
    by (simp add: Let_def spec_roundtrip providerOrDefault_def protocolFor_implicit)
qed

text \<open>the base URL a configuration resolves to was parsed as an absolute HTTP or HTTPS URL
  with a host and without embedded credentials; anything else is an error.\<close>

theorem baseURLFor_safe:
  assumes "baseURLFor lib cfg protocol = Inr u"
  shows "\<exists>given parsed. url_Parse lib given = Inr parsed \<and>
    (url_Scheme parsed = ''http'' \<or> url_Scheme parsed = ''https'') \<and> url_Host parsed \<noteq> [] \<and>
    url_User parsed = None \<and> u = trimRightChar CHR ''/'' (url_String lib parsed) \<and>
    (trimRightChar CHR ''/'' (cfg_BaseURL cfg) \<noteq> [] \<longrightarrow> given = trimRightChar CHR ''/'' (cfg_BaseURL cfg))"
  using assms by (auto simp: baseURLFor_def Let_def split: if_splits sum.splits)

theorem baseURLFor_safe_witness:
  "baseURLFor exampleURLLib DefaultConfig ProtocolGoogle = Inr ''https://h'' \<and>
   (\<exists>given parsed. url_Parse exampleURLLib given = Inr parsed \<and> url_Host parsed \<noteq> [] \<and> url_User parsed = None)"
proof -
  have "baseURLFor exampleURLLib DefaultConfig ProtocolGoogle = Inr ''https://h''"
    by (simp add: baseURLFor_def Let_def DefaultConfig_def trimRightChar_def exampleURLLib_def)
  with baseURLFor_safe [OF this] show ?thesis by blast
qed

end
