(* ===== verification/Reconciler.thy ===== *)
theory Reconciler
  imports Substrate_Client Model_Config "HOL-Library.Char_ord" "HOL-Library.List_Lexorder"
begin

text \<open>
  \<open>internal/controller/reconciler.go\<close>: driving one task towards its actor on Substrate. The
  stages of \<open>reconcile\<close> are separate definitions in the order of the code; a run returns the
  changed task, an error if there is one, and the state of the control service, or it panics. What the
  function takes from its surroundings is the record \<open>recEnv\<close>: the clock, the environment
  variables, SHA-256, the YAML encoder, the readiness probes, the context and the map
  iteration order. The lemmas show what the status says after a run, which parts of a task a
  run may change, and which templates a deletion removes.
\<close>

section \<open>The reconciler and its surroundings\<close>

definition geminiSecretName :: string where "geminiSecretName = ''gemini-api-secret''"
definition geminiSecretKey :: string where "geminiSecretKey = ''GEMINI_API_KEY''"
definition templateDigestBytes :: nat where "templateDigestBytes = 4"
definition condReady :: string where "condReady = ''Ready''"
definition condWorkspaceReady :: string where "condWorkspaceReady = ''WorkspaceReady''"
definition condGatewayReady :: string where "condGatewayReady = ''GatewayReady''"

lemmas cond_defs = condReady_def condWorkspaceReady_def condGatewayReady_def

record taskReconciler =
  rec_defaultTemplate :: string
  rec_defaultTemplateAtespace :: string
  rec_SecretResolver :: "(string \<Rightarrow> string \<Rightarrow> string \<Rightarrow> error + string) option"

text \<open>
  \<open>env_now i\<close> is the \<open>i\<close>th reading of the clock, in nanoseconds. \<open>env_probe i\<close> is the answer of
  the \<open>i\<close>th readiness check to a URL and a target-actor header: a status code, or None for a
  failed request. \<open>env_ticks\<close> is how often the ticker fires before the poll context is done.
  \<open>env_done i\<close> is the context's error when the \<open>i\<close>th wait ends with the context done.
\<close>

record recEnv =
  env_now :: "nat \<Rightarrow> int"
  env_getenv :: "string \<Rightarrow> string"
  env_urls :: urlLib
  env_sha256 :: "string \<Rightarrow> nat list"
  env_taskYAML :: "task \<Rightarrow> string option"
  env_modelYAML :: "model \<Rightarrow> error + string"
  env_wsYAML :: "workspace list \<Rightarrow> error + string"
  env_probe :: "nat \<Rightarrow> string \<Rightarrow> string option \<Rightarrow> nat option"
  env_ticks :: nat
  env_done :: "nat \<Rightarrow> error option"
  env_order :: "(string \<times> string) list \<Rightarrow> (string \<times> string) list"

definition NewTaskReconciler ::
  "(string \<Rightarrow> string \<Rightarrow> string \<Rightarrow> error + string) \<Rightarrow> string \<Rightarrow> string \<Rightarrow> taskReconciler" where
  "NewTaskReconciler kubeSecret defaultTemplate defaultTemplateAtespace =
     \<lparr>rec_defaultTemplate = (if defaultTemplate = [] then ''default-template'' else defaultTemplate),
      rec_defaultTemplateAtespace = (if defaultTemplateAtespace = [] then ''ax-system'' else defaultTemplateAtespace),
      rec_SecretResolver = Some kubeSecret\<rparr>"

section \<open>Conditions\<close>

fun setCond :: "condition \<Rightarrow> condition list \<Rightarrow> condition list" where
  "setCond new [] = [new]"
| "setCond new (c # cs) = (if cond_Type c = cond_Type new then new # cs else c # setCond new cs)"

definition setCondition ::
  "string \<Rightarrow> string \<Rightarrow> string \<Rightarrow> string \<Rightarrow> int \<Rightarrow> taskStatus \<Rightarrow> taskStatus" where
  "setCondition condType status reason message t st =
     st\<lparr>st_Conditions := setCond \<lparr>cond_Type = condType, cond_Status = status, cond_LastTransitionTime = Some t,
          cond_Reason = reason, cond_Message = message\<rparr> (st_Conditions st)\<rparr>"

definition setNotReady :: "string \<Rightarrow> string \<Rightarrow> int \<Rightarrow> taskStatus \<Rightarrow> taskStatus" where
  "setNotReady reason message t st = setCondition condReady ''False'' reason message t st"

definition conditionTrue :: "taskStatus option \<Rightarrow> string \<Rightarrow> bool" where
  "conditionTrue status condType =
     (case status of
        None \<Rightarrow> False
      | Some st \<Rightarrow>
          (case find (\<lambda>c. cond_Type c = condType) (st_Conditions st) of
             None \<Rightarrow> False | Some c \<Rightarrow> cond_Status c = ''True''))"

section \<open>Keys and environment\<close>

definition lookupGeminiKey :: "taskReconciler \<Rightarrow> recEnv \<Rightarrow> string \<Rightarrow> string" where
  "lookupGeminiKey r env atespace =
     (let fromEnv = env_getenv env geminiSecretKey in
      case rec_SecretResolver r of
        None \<Rightarrow> fromEnv
      | Some f \<Rightarrow>
          (case f atespace geminiSecretName geminiSecretKey of
             Inr key \<Rightarrow> if key \<noteq> [] then key else fromEnv
           | Inl _ \<Rightarrow> fromEnv))"

definition modelAPIKeyEnvironmentNames :: "string \<Rightarrow> string list" where
  "modelAPIKeyEnvironmentNames protocol =
     (if protocol = ProtocolOpenAI then [''OPENAI_API_KEY'', ''AX_MODEL_API_KEY'']
      else if protocol = ProtocolAnthropic then [''ANTHROPIC_API_KEY'', ''AX_MODEL_API_KEY'']
      else if protocol = ProtocolGoogle then [geminiSecretKey, ''AX_MODEL_API_KEY'']
      else [''AX_MODEL_API_KEY''])"

definition firstSet :: "(string \<Rightarrow> string) \<Rightarrow> string list \<Rightarrow> string" where
  "firstSet getenv names = (case find (\<lambda>n. getenv n \<noteq> []) names of None \<Rightarrow> [] | Some n \<Rightarrow> getenv n)"

definition lookupModelAPIKey :: "taskReconciler \<Rightarrow> recEnv \<Rightarrow> string \<Rightarrow> config \<Rightarrow> string" where
  "lookupModelAPIKey r env atespace cfg =
     (let fromEnv = firstSet (env_getenv env) (modelAPIKeyEnvironmentNames (EffectiveProtocol cfg)) in
      case (cfg_SecretKey cfg, rec_SecretResolver r) of
        (Some ref, Some f) \<Rightarrow>
          (case f atespace (sec_Name ref) (sec_Key ref) of
             Inr key \<Rightarrow> if key \<noteq> [] then key else fromEnv
           | Inl _ \<Rightarrow> fromEnv)
      | _ \<Rightarrow> fromEnv)"

definition putAll :: "(string \<times> string) list \<Rightarrow> (string \<times> string) list \<Rightarrow> (string \<times> string) list" where
  "putAll kvs env = foldl (\<lambda>m (k, v). AList.update k v m) env kvs"

definition injectModelEnvironment ::
  "taskReconciler \<Rightarrow> recEnv \<Rightarrow> string \<Rightarrow> model \<Rightarrow> (string \<times> string) list \<Rightarrow> error + (string \<times> string) list" where
  "injectModelEnvironment r env atespace configured vars =
     (case env_modelYAML env configured of
        Inl e \<Rightarrow> Inl (EWrap ''marshaling Model resource'' e)
      | Inr modelYAML \<Rightarrow>
          (let cfg = ConfigFromCRD (Some configured);
               protocol = EffectiveProtocol cfg
           in case EffectiveBaseURL (env_urls env) cfg of
                Inl e \<Rightarrow> Inl e
              | Inr baseURL \<Rightarrow>
                  (let vars1 = putAll [(''AX_MODEL_YAML'', modelYAML), (''AX_MODEL_PROVIDER'', cfg_Provider cfg),
                         (''AX_MODEL_PROTOCOL'', protocol), (''AX_MODEL'', cfg_Model cfg),
                         (''AX_MODEL_BASE_URL'', baseURL)] vars;
                       vars2 = (if protocol = ProtocolOpenAI
                           then putAll [(''OPENAI_MODEL'', cfg_Model cfg), (''OPENAI_BASE_URL'', baseURL)] vars1
                         else if protocol = ProtocolAnthropic
                           then putAll [(''ANTHROPIC_MODEL'', cfg_Model cfg), (''ANTHROPIC_BASE_URL'', baseURL)] vars1
                         else if protocol = ProtocolGoogle
                           then putAll [(''GEMINI_MODEL'', cfg_Model cfg)] vars1
                         else vars1);
                       apiKey = lookupModelAPIKey r env atespace cfg
                   in if apiKey = [] then Inr vars2
                      else let vars3 = putAll [(''AX_MODEL_API_KEY'', apiKey)] vars2 in
                        Inr (if protocol = ProtocolOpenAI then putAll [(''OPENAI_API_KEY'', apiKey)] vars3
                             else if protocol = ProtocolAnthropic then putAll [(''ANTHROPIC_API_KEY'', apiKey)] vars3
                             else if protocol = ProtocolGoogle then putAll [(geminiSecretKey, apiKey)] vars3
                             else vars3))))"

definition marshalWorkspaces :: "recEnv \<Rightarrow> workspace option list \<Rightarrow> error + string" where
  "marshalWorkspaces env workspaces = env_wsYAML env (map the (filter (\<lambda>w. w \<noteq> None) workspaces))"

text \<open>The container environment: task variables, credentials, and the launch configuration.\<close>

definition launchTask :: "task \<Rightarrow> task" where
  "launchTask task = task\<lparr>task_Status := None,
     task_Spec := map_option (\<lambda>sp. sp\<lparr>ts_Suspend := False\<rparr>) (task_Spec task)\<rparr>"

definition specEnv :: "taskSpec \<Rightarrow> (string \<times> string) list" where
  "specEnv sp = putAll (map (\<lambda>e. (env_Name e, env_Value e)) (filter (\<lambda>e. env_Name e \<noteq> []) (ts_Env sp))) []"

definition buildExtraEnv ::
  "taskReconciler \<Rightarrow> recEnv \<Rightarrow> string \<Rightarrow> task \<Rightarrow> taskSpec \<Rightarrow> model option \<Rightarrow> workspace option list \<Rightarrow>
   error + (string \<times> string) list" where
  "buildExtraEnv r env atespace task sp configuredModel workspaces =
     (let keyed = (case configuredModel of
            Some m \<Rightarrow> injectModelEnvironment r env atespace m (specEnv sp)
          | None \<Rightarrow>
              (let key = lookupGeminiKey r env atespace in
               Inr (if key \<noteq> [] then putAll [(geminiSecretKey, key)] (specEnv sp) else specEnv sp)))
      in case keyed of
           Inl e \<Rightarrow> Inl e
         | Inr vars \<Rightarrow>
             (let vars1 = (case env_taskYAML env (launchTask task) of
                             Some y \<Rightarrow> putAll [(''AX_TASK_YAML'', y)] vars | None \<Rightarrow> vars)
              in Inr (case marshalWorkspaces env workspaces of
                        Inr y \<Rightarrow> if y \<noteq> [] then putAll [(''AX_WORKSPACES_YAML'', y)] vars1 else vars1
                      | Inl _ \<Rightarrow> vars1)))"

section \<open>Template names\<close>

text \<open>
  \<open>sort.Strings\<close> is \<open>sort\<close> for the lexicographic order on byte strings. The digest does not depend
  on the iteration order of the map because the keys are sorted first.
\<close>

definition taskTemplateName :: "recEnv \<Rightarrow> string \<Rightarrow> string \<Rightarrow> (string \<times> string) list \<Rightarrow> string" where
  "taskTemplateName env taskName img vars =
     (let keys = sort (map fst (env_order env vars));
          input = img @ concat (map (\<lambda>k. k @ ''='' @ (case map_of vars k of None \<Rightarrow> [] | Some v \<Rightarrow> v) @ '';'') keys)
      in taskName @ ''-tmpl-'' @ hex_bytes (take templateDigestBytes (env_sha256 env input)))"

text \<open>The regular expression \<open>^<name>-tmpl-[0-9a-f]{8}$\<close> applied to a template name.\<close>

definition taskTemplatePattern :: "string \<Rightarrow> string \<Rightarrow> bool" where
  "taskTemplatePattern taskName name \<longleftrightarrow>
     (let p = taskName @ ''-tmpl-''; hex = drop (length p) name
      in hasPrefix name p \<and> length hex = 2 * templateDigestBytes \<and> list_all is_lower_hex hex)"


section \<open>Reconciling\<close>

text \<open>The defaults filled in first: metadata, status, atespace, spec and image.\<close>

definition prepareTask :: "task \<Rightarrow> task" where
  "prepareTask task =
     (let m = (case task_Metadata task of None \<Rightarrow> emptyMeta | Some m \<Rightarrow> m);
          st = (case task_Status task of None \<Rightarrow> emptyStatus | Some st \<Rightarrow> st);
          sp = (case task_Spec task of None \<Rightarrow> emptySpec | Some sp \<Rightarrow> sp)
      in task\<lparr>task_Metadata := Some (m\<lparr>meta_Atespace := (if meta_Atespace m = [] then ''default'' else meta_Atespace m)\<rparr>),
              task_Status := Some st,
              task_Spec := Some (if ts_Image sp = [] then sp\<lparr>ts_Image := DefaultTaskImage\<rparr> else sp)\<rparr>)"

definition updStatus :: "(taskStatus \<Rightarrow> taskStatus) \<Rightarrow> task \<Rightarrow> task" where
  "updStatus f task = task\<lparr>task_Status := map_option f (task_Status task)\<rparr>"

definition setPhase :: "string \<Rightarrow> taskStatus \<Rightarrow> taskStatus" where
  "setPhase ph st = st\<lparr>st_Phase := ph\<rparr>"

text \<open>The actor and the status id, set once the atespace exists.\<close>

definition nameActor :: "int \<Rightarrow> string \<Rightarrow> taskStatus \<Rightarrow> taskStatus" where
  "nameActor now name st = st\<lparr>st_Actor := name,
     st_Id := (if st_Id st = [] then ''task-'' @ name @ ''-'' @ itoa (now div 1000000000) else st_Id st)\<rparr>"

text \<open>Which template the actor derives from: the task's own one, or the default when it cannot
  be created.\<close>

definition defaultTemplateRef :: "taskReconciler \<Rightarrow> string \<times> string" where
  "defaultTemplateRef r =
     (case splitN2 CHR ''/'' (rec_defaultTemplate r) of
        [a, n] \<Rightarrow> (a, n)
      | _ \<Rightarrow> (rec_defaultTemplateAtespace r, rec_defaultTemplate r))"

definition chooseTemplate ::
  "'c control \<Rightarrow> taskReconciler \<Rightarrow> recEnv \<Rightarrow> string \<Rightarrow> string \<Rightarrow> string \<Rightarrow> (string \<times> string) list \<Rightarrow> 'c \<Rightarrow>
   (string \<times> string) \<times> 'c" where
  "chooseTemplate ctl r env atespace taskName img vars c =
     (if img \<noteq> [] \<or> vars \<noteq> []
      then (case EnsureActorTemplateWithImage ctl (env_getenv env) (env_order env) atespace
                   (taskTemplateName env taskName img vars) img [env_order env vars] c of
              (Inl _, c') \<Rightarrow> (defaultTemplateRef r, c')
            | (Inr tmpl, c') \<Rightarrow>
                ((case at_Metadata tmpl of
                    None \<Rightarrow> defaultTemplateRef r
                  | Some m \<Rightarrow> (rm_Atespace m, rm_Name m)), c'))
      else (defaultTemplateRef r, c))"

definition effectiveAllowlist :: "gateway option \<Rightarrow> egressAllowlist" where
  "effectiveAllowlist gw =
     (case gw of
        None \<Rightarrow> \<lparr>ea_Hosts = [\<lparr>hr_Host = ''*'', hr_Port = 443\<rparr>]\<rparr>
      | Some g \<Rightarrow>
          (case gw_Spec g of
             None \<Rightarrow> \<lparr>ea_Hosts = [\<lparr>hr_Host = ''*'', hr_Port = 443\<rparr>]\<rparr>
           | Some sp \<Rightarrow>
               (case gs_Egress sp of
                  None \<Rightarrow> \<lparr>ea_Hosts = [\<lparr>hr_Host = ''*'', hr_Port = 443\<rparr>]\<rparr>
                | Some eg \<Rightarrow>
                    (case ec_Allowlist eg of
                       None \<Rightarrow> \<lparr>ea_Hosts = [\<lparr>hr_Host = ''*'', hr_Port = 443\<rparr>]\<rparr>
                     | Some al \<Rightarrow> al))))"

definition applyGateway ::
  "'c control \<Rightarrow> string \<Rightarrow> string \<Rightarrow> gateway option \<Rightarrow> int \<Rightarrow> taskStatus \<Rightarrow> 'c \<Rightarrow> taskStatus \<times> 'c" where
  "applyGateway ctl atespace actorName gw now st c =
     (case ApplyEgressPolicy ctl atespace actorName (Some (effectiveAllowlist gw)) c of
        (Some e, c') \<Rightarrow> (setCondition condGatewayReady ''False'' ''PolicyApplyFailed'' (err_msg e) now st, c')
      | (None, c') \<Rightarrow> (setCondition condGatewayReady ''True'' ''PoliciesApplied'' ''Network policies active'' now st, c'))"

definition suspendStep ::
  "'c control \<Rightarrow> string \<Rightarrow> string \<Rightarrow> int \<Rightarrow> taskStatus \<Rightarrow> 'c \<Rightarrow> (taskStatus \<times> error option) go \<times> 'c" where
  "suspendStep ctl atespace actorName now st c =
     (case SuspendActor ctl atespace actorName c of
        (Some e, c') \<Rightarrow>
          (Ok (setPhase ''Failed'' (setNotReady ''ActorSuspendFailed'' (err_msg e) now st),
            Some (EWrap ''suspending actor'' e)), c')
      | (None, c') \<Rightarrow>
          (Ok (setCondition condReady ''False'' ''TaskSuspended'' ''Task is suspended'' now
              (setPhase ''Suspended'' (st\<lparr>st_WorkerIp := []\<rparr>)), None), c'))"

text \<open>
  The readiness probe: directly, then through the router when one is configured. The code drops the
  error of \<open>http.NewRequestWithContext\<close>, which is that of parsing the URL: the direct request is then
  nil and \<open>Do\<close> dereferences it, while a nil router request is skipped.
\<close>

definition readyURL :: "string \<Rightarrow> string" where
  "readyURL workerIP =
     (case splitHostPort workerIP of
        Some (h, p) \<Rightarrow> ''http://'' @ h @ '':'' @ p @ ''/readyz?check=workspace''
      | None \<Rightarrow> ''http://'' @ workerIP @ '':80/readyz?check=workspace'')"

definition checkReady :: "recEnv \<Rightarrow> string \<Rightarrow> string \<Rightarrow> string \<Rightarrow> nat \<Rightarrow> bool go" where
  "checkReady env atespace actorName url i =
     (case url_Parse (env_urls env) url of
        Inl _ \<Rightarrow> Panic
      | Inr _ \<Rightarrow>
          if env_probe env i url None = Some 200 then Ok True
          else
            let router = env_getenv env ''ATENET_ROUTER_ADDR'';
                routed = ''http://'' @ router @ ''/readyz?check=workspace''
            in if router = [] then Ok False
               else (case url_Parse (env_urls env) routed of
                       Inl _ \<Rightarrow> Ok False
                     | Inr _ \<Rightarrow> Ok (env_probe env i routed (Some (atespace @ ''/'' @ actorName)) = Some 200)))"

fun pollReady :: "(nat \<Rightarrow> bool go) \<Rightarrow> nat \<Rightarrow> nat \<Rightarrow> bool go" where
  "pollReady check i 0 = Ok False"
| "pollReady check i (Suc n) = (case check i of Ok False \<Rightarrow> pollReady check (Suc i) n | res \<Rightarrow> res)"

text \<open>Whether the workspace is ready: known from an earlier run, or found out by polling.\<close>

definition workspaceReady :: "recEnv \<Rightarrow> string \<Rightarrow> string \<Rightarrow> string \<Rightarrow> bool \<Rightarrow> bool go" where
  "workspaceReady env atespace actorName workerIP was =
     (if workerIP \<noteq> [] \<and> \<not> was
      then pollReady (checkReady env atespace actorName (readyURL workerIP)) 0 (Suc (env_ticks env))
      else Ok was)"

definition resumeStep ::
  "'c control \<Rightarrow> recEnv \<Rightarrow> string \<Rightarrow> string \<Rightarrow> taskStatus \<Rightarrow> 'c \<Rightarrow> (taskStatus \<times> error option) go \<times> 'c" where
  "resumeStep ctl env atespace actorName st c =
     (case ResumeActor ctl atespace actorName c of
        (Inl e, c') \<Rightarrow>
          (Ok (setPhase ''Failed'' (setNotReady ''ActorResumeFailed'' (err_msg e) (env_now env 0) st),
            Some (EWrap ''resuming actor'' e)), c')
      | (Inr (_, workerIP), c') \<Rightarrow>
          (let st1 = setPhase ''Running'' (st\<lparr>st_WorkerIp := workerIP\<rparr>);
               was = conditionTrue (Some st1) condWorkspaceReady
           in case workspaceReady env atespace actorName workerIP was of
                Ok ready \<Rightarrow>
                  (Ok (if ready
                       then setCondition condReady ''True'' ''TaskRunning'' ''Task is running and its workspace is ready'' (env_now env 2)
                              (if was then st1
                               else setCondition condWorkspaceReady ''True'' ''SetupComplete''
                                      (''Workspace setup completed at '' @ workerIP) (env_now env 1) st1)
                       else setCondition condReady ''False'' ''WorkspaceInitializing'' ''Waiting for workspace setup to complete'' (env_now env 2)
                              (setCondition condWorkspaceReady ''False'' ''Initializing''
                                 (''Workspace is initializing at '' @ workerIP) (env_now env 1) st1), None), c')
              | Err e \<Rightarrow> (Err e, c')
              | Panic \<Rightarrow> (Panic, c')))"

definition withStatus :: "task \<Rightarrow> (taskStatus \<times> error option) go \<times> 'c \<Rightarrow> (task \<times> error option) go \<times> 'c" where
  "withStatus task r =
     (case r of
        (Ok (st, err), c) \<Rightarrow> (Ok (task\<lparr>task_Status := Some st\<rparr>, err), c)
      | (Err e, c) \<Rightarrow> (Err e, c)
      | (Panic, c) \<Rightarrow> (Panic, c))"

definition reconcile ::
  "'c control \<Rightarrow> taskReconciler \<Rightarrow> recEnv \<Rightarrow> task \<Rightarrow> gateway option \<Rightarrow> model option \<Rightarrow> workspace option list \<Rightarrow>
   'c \<Rightarrow> (task \<times> error option) go \<times> 'c" where
  "reconcile ctl r env task0 gw configuredModel workspaces c =
     (let task = prepareTask task0;
          atespace = meta_GetAtespace (task_Metadata task);
          name = meta_GetName (task_Metadata task);
          sp = the (task_Spec task);
          st = the (task_Status task);
          now = env_now env 0
      in case EnsureAtespace ctl atespace c of
           (Some e, c1) \<Rightarrow>
             withStatus task (Ok (setPhase ''Failed'' (setCondition ''Ready'' ''False'' ''AtespaceCreationFailed'' (err_msg e) now st),
               Some (EWrap ''ensuring atespace'' e)), c1)
         | (None, c1) \<Rightarrow>
             (let st1 = nameActor now name st in
              case buildExtraEnv r env atespace (task\<lparr>task_Status := Some st1\<rparr>) sp configuredModel workspaces of
                Inl e \<Rightarrow> withStatus task (Ok (st1, Some (EWrap ''preparing model configuration for task runner'' e)), c1)
              | Inr vars \<Rightarrow>
                  (case chooseTemplate ctl r env atespace name (ts_Image sp) vars c1 of
                     ((templateAtespace, templateName), c2) \<Rightarrow>
                       (case EnsureActor ctl (env_done env) atespace name templateAtespace templateName c2 of
                          (Inl e, c3) \<Rightarrow>
                            withStatus task (Ok (setPhase ''Failed'' (setNotReady ''ActorCreationFailed'' (err_msg e) now st1),
                              Some (EWrap ''ensuring actor'' e)), c3)
                        | (Inr _, c3) \<Rightarrow>
                            (case applyGateway ctl atespace name gw now st1 c3 of
                               (st2, c4) \<Rightarrow>
                                 withStatus task
                                   (if ts_Suspend sp then suspendStep ctl atespace name now st2 c4
                                    else resumeStep ctl env atespace name st2 c4))))))"

definition Reconcile ::
  "'c control \<Rightarrow> taskReconciler \<Rightarrow> recEnv \<Rightarrow> task \<Rightarrow> gateway option \<Rightarrow> workspace option list \<Rightarrow>
   'c \<Rightarrow> (task \<times> error option) go \<times> 'c" where
  "Reconcile ctl r env task gw workspaces = reconcile ctl r env task gw None workspaces"

definition ReconcileWithModel ::
  "'c control \<Rightarrow> taskReconciler \<Rightarrow> recEnv \<Rightarrow> task \<Rightarrow> gateway option \<Rightarrow> model option \<Rightarrow> workspace option list \<Rightarrow>
   'c \<Rightarrow> (task \<times> error option) go \<times> 'c" where
  "ReconcileWithModel ctl r env task gw configuredModel workspaces =
     reconcile ctl r env task gw configuredModel workspaces"

section \<open>Deleting\<close>

text \<open>
  The attempts to delete one template, \<open>n\<close> of them left, with the error of the last one.
  Leaving the \<open>select\<close> on a done context records its error but does not leave the loop.
\<close>

fun deleteAttempts ::
  "'c control \<Rightarrow> (nat \<Rightarrow> error option) \<Rightarrow> string \<Rightarrow> string \<Rightarrow> nat \<Rightarrow> nat \<Rightarrow> error option \<Rightarrow> 'c \<Rightarrow> error option \<times> 'c" where
  "deleteAttempts ctl done atespace name i 0 delErr c = (delErr, c)"
| "deleteAttempts ctl done atespace name i (Suc n) delErr c =
     (case DeleteActorTemplate ctl atespace name c of
        (None, c') \<Rightarrow> (None, c')
      | (Some e, c') \<Rightarrow>
          if status_code e = CodeNotFound then (None, c')
          else deleteAttempts ctl done atespace name (Suc i) n
                 (case done i of Some d \<Rightarrow> Some d | None \<Rightarrow> Some e) c')"

definition tmplName :: "actorTemplate \<Rightarrow> string" where
  "tmplName t = (case at_Metadata t of None \<Rightarrow> [] | Some m \<Rightarrow> rm_Name m)"

fun deleteEach ::
  "'c control \<Rightarrow> (nat \<Rightarrow> error option) \<Rightarrow> string \<Rightarrow> string \<Rightarrow> actorTemplate list \<Rightarrow> error list \<Rightarrow> 'c \<Rightarrow> error list \<times> 'c" where
  "deleteEach ctl done atespace taskName [] errs c = (errs, c)"
| "deleteEach ctl done atespace taskName (t # ts) errs c =
     (if \<not> taskTemplatePattern taskName (tmplName t) then deleteEach ctl done atespace taskName ts errs c
      else case deleteAttempts ctl done atespace (tmplName t) 0 5 None c of
             (None, c') \<Rightarrow> deleteEach ctl done atespace taskName ts errs c'
           | (Some e, c') \<Rightarrow> deleteEach ctl done atespace taskName ts (errs @ [e]) c')"

definition deleteTaskTemplates ::
  "'c control \<Rightarrow> (nat \<Rightarrow> error option) \<Rightarrow> string \<Rightarrow> string \<Rightarrow> 'c \<Rightarrow> error option \<times> 'c" where
  "deleteTaskTemplates ctl done atespace taskName c =
     (case ListActorTemplates ctl atespace c of
        (Inl e, c1) \<Rightarrow> (Some e, c1)
      | (Inr templates, c1) \<Rightarrow>
          (case deleteEach ctl done atespace taskName templates [] c1 of
             (errs, c2) \<Rightarrow> (if errs = [] then None else Some (EJoin errs), c2)))"

definition ReconcileDelete ::
  "'c control \<Rightarrow> (nat \<Rightarrow> error option) \<Rightarrow> string \<Rightarrow> string \<Rightarrow> 'c \<Rightarrow> error option \<times> 'c" where
  "ReconcileDelete ctl done atespace0 taskName c =
     (let atespace = (if atespace0 = [] then ''default'' else atespace0) in
      case DeleteActor ctl atespace taskName c of
        (Some e, c1) \<Rightarrow> (Some e, c1)
      | (None, c1) \<Rightarrow> (None, snd (deleteTaskTemplates ctl done atespace taskName c1)))"

section \<open>Conditions: lemmas\<close>

lemma find_setCond:
  "find (\<lambda>c. cond_Type c = ty) (setCond new cs) =
     (if cond_Type new = ty then Some new else find (\<lambda>c. cond_Type c = ty) cs)"
  by (induction cs) auto

lemma types_setCond:
  "map cond_Type (setCond new cs) =
     (if cond_Type new \<in> cond_Type ` set cs then map cond_Type cs else map cond_Type cs @ [cond_Type new])"
  by (induction cs) auto

lemma distinct_setCond: "distinct (map cond_Type cs) \<Longrightarrow> distinct (map cond_Type (setCond new cs))"
  by (auto simp: types_setCond)

lemma conditionTrue_simps [simp]:
  "conditionTrue (Some (setCondition ty s r m t st)) ty' =
     (if ty = ty' then s = ''True'' else conditionTrue (Some st) ty')"
  "conditionTrue (Some (setNotReady r m t st)) ty' = (ty' \<noteq> ''Ready'' \<and> conditionTrue (Some st) ty')"
  "conditionTrue (Some (setPhase ph st)) ty' = conditionTrue (Some st) ty'"
  "conditionTrue (Some (nameActor now n st)) ty' = conditionTrue (Some st) ty'"
  "conditionTrue (Some (st\<lparr>st_WorkerIp := ip\<rparr>)) ty' = conditionTrue (Some st) ty'"
  by (auto simp: conditionTrue_def setNotReady_def setCondition_def find_setCond setPhase_def nameActor_def cond_defs)

lemma status_fields [simp]:
  "st_Phase (setPhase ph st) = ph" "st_Phase (setCondition ty s r m t st) = st_Phase st"
  "st_Phase (setNotReady r m t st) = st_Phase st" "st_Phase (nameActor now n st) = st_Phase st"
  "st_Actor (setPhase ph st) = st_Actor st" "st_Actor (setCondition ty s r m t st) = st_Actor st"
  "st_Actor (setNotReady r m t st) = st_Actor st" "st_Actor (nameActor now n st) = n"
  "st_Id (setPhase ph st) = st_Id st" "st_Id (setCondition ty s r m t st) = st_Id st"
  "st_Id (setNotReady r m t st) = st_Id st"
  "st_WorkerIp (setPhase ph st) = st_WorkerIp st" "st_WorkerIp (setCondition ty s r m t st) = st_WorkerIp st"
  "st_WorkerIp (setNotReady r m t st) = st_WorkerIp st"
  by (simp_all add: setPhase_def setCondition_def setNotReady_def nameActor_def)

lemma status_types:
  "st_Conditions (setPhase ph st) = st_Conditions st" "st_Conditions (nameActor now n st) = st_Conditions st"
  "st_Conditions (setCondition ty s r m t st) =
     setCond \<lparr>cond_Type = ty, cond_Status = s, cond_LastTransitionTime = Some t, cond_Reason = r, cond_Message = m\<rparr> (st_Conditions st)"
  "st_Conditions (setNotReady r m t st) =
     setCond \<lparr>cond_Type = condReady, cond_Status = ''False'', cond_LastTransitionTime = Some t, cond_Reason = r, cond_Message = m\<rparr> (st_Conditions st)"
  by (simp_all add: setPhase_def setCondition_def setNotReady_def nameActor_def)

section \<open>The outcomes of a run\<close>

lemma prepareTask_some [simp]: "task_Spec (prepareTask t) \<noteq> None" "task_Status (prepareTask t) \<noteq> None"
  "task_Metadata (prepareTask t) \<noteq> None"
  by (simp_all add: prepareTask_def Let_def)

lemma prepareTask_meta [simp]:
  "meta_GetName (task_Metadata (prepareTask t)) = meta_GetName (task_Metadata t)"
  "meta_GetAtespace (task_Metadata (prepareTask t)) = orDefault (meta_GetAtespace (task_Metadata t))"
  by (auto simp: prepareTask_def Let_def emptyMeta_def orDefault_def split: option.split)

lemma prepareTask_status:
  "the (task_Status (prepareTask t)) = (case task_Status t of None \<Rightarrow> emptyStatus | Some st \<Rightarrow> st)"
  by (simp add: prepareTask_def Let_def)

lemma conditionTrue_prepared [simp]:
  "conditionTrue (task_Status (prepareTask t)) ty = conditionTrue (task_Status t) ty"
  by (auto simp: prepareTask_def Let_def conditionTrue_def emptyStatus_def split: option.split)

lemma applyGateway_status:
  obtains s r m c' where "applyGateway ctl a n gw now st c = (setCondition condGatewayReady s r m now st, c')"
proof -
  obtain e c1 where "ApplyEgressPolicy ctl a n (Some (effectiveAllowlist gw)) c = (e, c1)" by fastforce
  then show ?thesis using that by (cases e) (simp_all add: applyGateway_def)
qed

text \<open>
  What a run makes of the status: \<open>outcome suspend name now st st' err\<close> relates the status
  \<open>st\<close> of the prepared task to the status and the error of the result, one rule per way through
  \<open>reconcile\<close>. \<open>pre\<close> is the status once the actor exists and the gateway was applied.
\<close>

inductive outcome ::
  "bool \<Rightarrow> string \<Rightarrow> (nat \<Rightarrow> int) \<Rightarrow> taskStatus \<Rightarrow> taskStatus \<Rightarrow> error option \<Rightarrow> bool"
  for suspend name now st where
  noAtespace: "outcome suspend name now st
     (setPhase ''Failed'' (setCondition ''Ready'' ''False'' ''AtespaceCreationFailed'' (err_msg e) (now 0) st))
     (Some (EWrap ''ensuring atespace'' e))"
| noModel: "outcome suspend name now st (nameActor (now 0) name st)
     (Some (EWrap ''preparing model configuration for task runner'' e))"
| noActor: "outcome suspend name now st
     (setPhase ''Failed'' (setNotReady ''ActorCreationFailed'' (err_msg e) (now 0) (nameActor (now 0) name st)))
     (Some (EWrap ''ensuring actor'' e))"
| noSuspend: "suspend \<Longrightarrow> pre = setCondition condGatewayReady s r m (now 0) (nameActor (now 0) name st) \<Longrightarrow>
     outcome suspend name now st (setPhase ''Failed'' (setNotReady ''ActorSuspendFailed'' (err_msg e) (now 0) pre))
     (Some (EWrap ''suspending actor'' e))"
| suspended: "suspend \<Longrightarrow> pre = setCondition condGatewayReady s r m (now 0) (nameActor (now 0) name st) \<Longrightarrow>
     outcome suspend name now st
     (setCondition condReady ''False'' ''TaskSuspended'' ''Task is suspended'' (now 0) (setPhase ''Suspended'' (pre\<lparr>st_WorkerIp := []\<rparr>)))
     None"
| noResume: "\<not> suspend \<Longrightarrow> pre = setCondition condGatewayReady s r m (now 0) (nameActor (now 0) name st) \<Longrightarrow>
     outcome suspend name now st (setPhase ''Failed'' (setNotReady ''ActorResumeFailed'' (err_msg e) (now 0) pre))
     (Some (EWrap ''resuming actor'' e))"
| stillReady: "\<not> suspend \<Longrightarrow> pre = setCondition condGatewayReady s r m (now 0) (nameActor (now 0) name st) \<Longrightarrow>
     st1 = setPhase ''Running'' (pre\<lparr>st_WorkerIp := ip\<rparr>) \<Longrightarrow> conditionTrue (Some st1) condWorkspaceReady \<Longrightarrow>
     outcome suspend name now st
     (setCondition condReady ''True'' ''TaskRunning'' ''Task is running and its workspace is ready'' (now 2) st1) None"
| newlyReady: "\<not> suspend \<Longrightarrow> pre = setCondition condGatewayReady s r m (now 0) (nameActor (now 0) name st) \<Longrightarrow>
     st1 = setPhase ''Running'' (pre\<lparr>st_WorkerIp := ip\<rparr>) \<Longrightarrow> ip \<noteq> [] \<Longrightarrow>
     outcome suspend name now st
     (setCondition condReady ''True'' ''TaskRunning'' ''Task is running and its workspace is ready'' (now 2)
       (setCondition condWorkspaceReady ''True'' ''SetupComplete'' (''Workspace setup completed at '' @ ip) (now 1) st1)) None"
| initializing: "\<not> suspend \<Longrightarrow> pre = setCondition condGatewayReady s r m (now 0) (nameActor (now 0) name st) \<Longrightarrow>
     st1 = setPhase ''Running'' (pre\<lparr>st_WorkerIp := ip\<rparr>) \<Longrightarrow> \<not> conditionTrue (Some st1) condWorkspaceReady \<Longrightarrow>
     outcome suspend name now st
     (setCondition condReady ''False'' ''WorkspaceInitializing'' ''Waiting for workspace setup to complete'' (now 2)
       (setCondition condWorkspaceReady ''False'' ''Initializing'' (''Workspace is initializing at '' @ ip) (now 1) st1)) None"

lemma suspendStep_outcome:
  assumes "suspend" and "pre = setCondition condGatewayReady s r m (now 0) (nameActor (now 0) name st)"
  obtains st' err c' where "suspendStep ctl a n (now 0) pre c = (Ok (st', err), c')" "outcome suspend name now st st' err"
proof -
  obtain e c1 where "SuspendActor ctl a n c = (e, c1)" by fastforce
  with assms show ?thesis by (cases e) (auto simp: suspendStep_def intro: that outcome.intros)
qed

text \<open>The readiness polls return unless the URL to probe cannot be parsed.\<close>

lemma pollReady_returns: "url_Parse (env_urls env) u = Inr v \<Longrightarrow> \<exists>b. pollReady (checkReady env a n u) i k = Ok b"
  by (induction k arbitrary: i) (auto simp: checkReady_def Let_def split: sum.split bool.split)

lemma pollReady_crashes: "url_Parse (env_urls env) u = Inl e \<Longrightarrow> pollReady (checkReady env a n u) i (Suc k) = Panic"
  by (simp add: checkReady_def)

lemma workspaceReady_cases:
  obtains (known) ready where "workspaceReady env a n ip was = Ok ready" "was \<longrightarrow> ready" "ready \<longrightarrow> was \<or> ip \<noteq> []"
    | (crash) e where "workspaceReady env a n ip was = Panic" "\<not> was" "ip \<noteq> []" "url_Parse (env_urls env) (readyURL ip) = Inl e"
proof (cases "ip \<noteq> [] \<and> \<not> was")
  case True
  note p = pollReady_crashes [where a = a and n = n and i = 0] pollReady_returns [where a = a and n = n and i = 0]
  show ?thesis
    using True p [of env "readyURL ip"] that
    by (cases "url_Parse (env_urls env) (readyURL ip)") (auto simp: workspaceReady_def simp del: pollReady.simps)
qed (use that in \<open>auto simp: workspaceReady_def\<close>)

lemma resumeStep_outcome:
  assumes "\<not> suspend" and "pre = setCondition condGatewayReady s r m (env_now env 0) (nameActor (env_now env 0) name st)"
  obtains (ran) st' err c' where "resumeStep ctl env a n pre c = (Ok (st', err), c')" "outcome suspend name (env_now env) st st' err"
    | (crashed) c' ac ip e where "resumeStep ctl env a n pre c = (Panic, c')" "\<not> conditionTrue (Some st) condWorkspaceReady"
        "ResumeActor ctl a n c = (Inr (ac, ip), c')" "ip \<noteq> []" "url_Parse (env_urls env) (readyURL ip) = Inl e"
proof -
  obtain res c1 where res: "ResumeActor ctl a n c = (res, c1)" by fastforce
  show ?thesis
  proof (cases res)
    case (Inl e)
    with assms res show ?thesis by (intro ran) (auto simp: resumeStep_def intro: outcome.noResume)
  next
    case (Inr x)
    obtain ac ip where x: "x = (ac, ip)" by fastforce
    let ?st1 = "setPhase ''Running'' (pre\<lparr>st_WorkerIp := ip\<rparr>)"
    note rules = outcome.stillReady [where now = "env_now env" and st = st and name = name, OF assms(1,2) refl, of ip]
      outcome.newlyReady [where now = "env_now env" and st = st and name = name, OF assms(1,2) refl, of ip]
      outcome.initializing [where now = "env_now env" and st = st and name = name, OF assms(1,2) refl, of ip]
    have pre: "conditionTrue (Some ?st1) condWorkspaceReady = conditionTrue (Some st) condWorkspaceReady"
      by (simp add: assms(2) cond_defs)
    show ?thesis
    proof (cases rule: workspaceReady_cases [of env a n ip "conditionTrue (Some ?st1) condWorkspaceReady"])
      case (known ready)
      then show ?thesis
        using res Inr x rules
        by (intro ran, simp add: resumeStep_def Let_def del: conditionTrue_simps)
          (cases "conditionTrue (Some ?st1) condWorkspaceReady"; cases ready; simp del: conditionTrue_simps)
    next
      case (crash e)
      then show ?thesis
        using res Inr x pre by (intro crashed) (simp_all add: resumeStep_def Let_def del: conditionTrue_simps)
    qed
  qed
qed

lemma resumeStep_crashes:
  assumes "ResumeActor ctl a n c = (Inr (ac, ip), c')" and "ip \<noteq> []" and "url_Parse (env_urls env) (readyURL ip) = Inl e"
    and "\<not> conditionTrue (Some st) condWorkspaceReady"
  shows "resumeStep ctl env a n st c = (Panic, c')"
  using assms pollReady_crashes [OF assms(3), of a n 0]
  by (simp add: resumeStep_def Let_def workspaceReady_def del: pollReady.simps)

lemma workspaceReady_returns:
  "url_Parse (env_urls env) (readyURL ip) = Inr u \<Longrightarrow> \<exists>b. workspaceReady env a n ip was = Ok b"
  by (cases rule: workspaceReady_cases [of env a n ip was]) auto

text \<open>
  A run panics only in the readiness probe: the task is to run, its workspace is not known to be
  ready, and the address of the worker that the control service names gives no parsable URL.
\<close>

definition probeCrash :: "'c control \<Rightarrow> recEnv \<Rightarrow> task \<Rightarrow> 'c \<Rightarrow> bool" where
  "probeCrash ctl env task c' \<longleftrightarrow>
     \<not> ts_Suspend (the (task_Spec (prepareTask task))) \<and> \<not> conditionTrue (task_Status task) condWorkspaceReady \<and>
     (\<exists>c0 ac ip e. ResumeActor ctl (orDefault (meta_GetAtespace (task_Metadata task))) (meta_GetName (task_Metadata task)) c0 =
        (Inr (ac, ip), c') \<and> ip \<noteq> [] \<and> url_Parse (env_urls env) (readyURL ip) = Inl e)"

lemma reconcile_cases:
  obtains (ran) st' err c' where "reconcile ctl r env task0 gw md wss c = (Ok ((prepareTask task0)\<lparr>task_Status := Some st'\<rparr>, err), c')"
      "outcome (ts_Suspend (the (task_Spec (prepareTask task0)))) (meta_GetName (task_Metadata task0)) (env_now env)
         (the (task_Status (prepareTask task0))) st' err"
    | (crashed) c' where "reconcile ctl r env task0 gw md wss c = (Panic, c')" "probeCrash ctl env task0 c'"
proof -
  let ?t = "prepareTask task0"
  let ?a = "orDefault (meta_GetAtespace (task_Metadata task0))" and ?n = "meta_GetName (task_Metadata task0)"
  let ?now = "env_now env 0" and ?sp = "the (task_Spec ?t)" and ?st = "the (task_Status ?t)"
  let ?st1 = "nameActor ?now ?n ?st"
  note unf = reconcile_def withStatus_def Let_def
  obtain e1 c1 where 1: "EnsureAtespace ctl ?a c = (e1, c1)" by fastforce
  show ?thesis
  proof (cases e1)
    case (Some e)
    show ?thesis by (rule ran [OF _ outcome.noAtespace]) (use 1 Some in \<open>auto simp: unf\<close>)
  next
    case e1: None
    show ?thesis
    proof (cases "buildExtraEnv r env ?a (?t\<lparr>task_Status := Some ?st1\<rparr>) ?sp md wss")
      case (Inl e)
      show ?thesis by (rule ran [OF _ outcome.noModel]) (use 1 e1 Inl in \<open>auto simp: unf\<close>)
    next
      case vars: (Inr vars)
      obtain tr tn c2 where 2: "chooseTemplate ctl r env ?a ?n (ts_Image ?sp) vars c1 = ((tr, tn), c2)"
        by (metis surj_pair)
      obtain e3 c3 where 3: "EnsureActor ctl (env_done env) ?a ?n tr tn c2 = (e3, c3)" by fastforce
      obtain s rs m c4 where 4: "applyGateway ctl ?a ?n gw ?now ?st1 c3 = (setCondition condGatewayReady s rs m ?now ?st1, c4)"
        by (rule applyGateway_status)
      let ?pre = "setCondition condGatewayReady s rs m ?now ?st1"
      note run = unf 1 e1 vars 2 3 4
      show ?thesis
      proof (cases e3)
        case (Inl e)
        show ?thesis by (rule ran [OF _ outcome.noActor]) (use Inl in \<open>auto simp: run\<close>)
      next
        case (Inr a)
        show ?thesis
        proof (cases "ts_Suspend ?sp")
          case True
          obtain st' err c5 where s: "suspendStep ctl ?a ?n ?now ?pre c4 = (Ok (st', err), c5)"
            "outcome (ts_Suspend ?sp) ?n (env_now env) ?st st' err"
            by (rule suspendStep_outcome [where now = "env_now env", OF True refl])
          show ?thesis by (rule ran [OF _ s(2)]) (use Inr True s(1) in \<open>simp add: run\<close>)
        next
          case False
          have ready: "conditionTrue (Some ?st) condWorkspaceReady = conditionTrue (task_Status task0) condWorkspaceReady"
            using conditionTrue_prepared [of task0] by (metis option.collapse prepareTask_some(2))
          show ?thesis
          proof (cases rule: resumeStep_outcome [where ctl = ctl and a = ?a and n = ?n and c = c4 and s = s and r = rs and m = m and env = env and name = ?n and st = ?st, OF False refl, case_names ran crashed])
            case (ran st' err c5)
            show ?thesis by (rule that(1) [OF _ ran(2)]) (use Inr False ran(1) in \<open>simp add: run\<close>)
          next
            case (crashed c5)
            have "probeCrash ctl env task0 c5"
              using crashed(2-5) False by (auto simp: probeCrash_def ready)
            then show ?thesis by (intro that(2)) (use Inr False crashed(1) in \<open>simp_all add: run\<close>)
          qed
        qed
      qed
    qed
  qed
qed

lemma reconcile_outcome:
  assumes "reconcile ctl r env task0 gw md wss c = (Ok (t', err), c')"
  obtains st' where "t' = (prepareTask task0)\<lparr>task_Status := Some st'\<rparr>"
    "outcome (ts_Suspend (the (task_Spec (prepareTask task0)))) (meta_GetName (task_Metadata task0)) (env_now env)
       (the (task_Status (prepareTask task0))) st' err"
  by (cases rule: reconcile_cases [of ctl r env task0 gw md wss c]) (use assms that in auto)

section \<open>Template names and cleanup: lemmas\<close>

lemma hex_digit_lower: "n < 16 \<Longrightarrow> is_lower_hex (hex_digit n)"
  unfolding hex_digit_def is_lower_hex_def by (auto simp: of_char_of)

lemma hex_bytes_lower: "list_all is_lower_hex (hex_bytes bs)"
  by (induction bs) (auto simp: hex_bytes_def hex_digit_lower)

lemma length_hex_bytes: "length (hex_bytes bs) = 2 * length bs"
  by (induction bs) (auto simp: hex_bytes_def)

lemma pattern_append:
  assumes "length h = 2 * templateDigestBytes"
  shows "taskTemplatePattern t (t' @ ''-tmpl-'' @ h) \<longleftrightarrow> t' = t \<and> list_all is_lower_hex h"
proof
  assume m: "taskTemplatePattern t (t' @ ''-tmpl-'' @ h)"
  let ?p = "t @ ''-tmpl-''" and ?n = "t' @ ''-tmpl-'' @ h"
  from m have len: "length (drop (length ?p) ?n) = 2 * templateDigestBytes"
    and pre: "take (length ?p) ?n = ?p" and hex: "list_all is_lower_hex (drop (length ?p) ?n)"
    by (simp_all only: taskTemplatePattern_def Let_def hasPrefix_def)
  have "length t = length t'" using len assms by (auto simp: templateDigestBytes_def)
  then have "take (length ?p) ?n = t' @ ''-tmpl-''" "drop (length ?p) ?n = h" by simp_all
  with pre hex show "t' = t \<and> list_all is_lower_hex h" by simp
qed (use assms in \<open>simp add: taskTemplatePattern_def Let_def hasPrefix_def\<close>)

lemma logged_DeleteActorTemplate [simp]:
  "DeleteActorTemplate (logged ctl) a n (c, l) =
     (fst (DeleteActorTemplate ctl a n c), snd (DeleteActorTemplate ctl a n c),
      l @ [CallDeleteActorTemplate (objRef a n)])"
  by (simp add: DeleteActorTemplate_def logged_def log_call_def split: prod.split sum.split)

lemma deleteAttempts_log:
  "\<exists>k \<le> n. deleteAttempts (logged ctl) done a name i n e (c, l) =
     (fst (deleteAttempts ctl done a name i n e c), snd (deleteAttempts ctl done a name i n e c),
      l @ replicate k (CallDeleteActorTemplate (objRef a name))) \<and> (0 < n \<longrightarrow> 0 < k)"
proof (induction n arbitrary: i e c l)
  case (Suc n)
  obtain r c' where r: "DeleteActorTemplate ctl a name c = (r, c')" by fastforce
  show ?case
  proof (cases "r = None \<or> (\<exists>x. r = Some x \<and> status_code x = CodeNotFound)")
    case True
    with r show ?thesis by (intro exI [of _ "Suc 0"]) auto
  next
    case False
    then obtain x where x: "r = Some x" "status_code x \<noteq> CodeNotFound" by auto
    let ?e = "case done i of Some d \<Rightarrow> Some d | None \<Rightarrow> Some x"
    from Suc.IH [of "Suc i" ?e c' "l @ [CallDeleteActorTemplate (objRef a name)]"] obtain k where
      "k \<le> n" "deleteAttempts (logged ctl) done a name (Suc i) n ?e (c', l @ [CallDeleteActorTemplate (objRef a name)]) =
        (fst (deleteAttempts ctl done a name (Suc i) n ?e c'), snd (deleteAttempts ctl done a name (Suc i) n ?e c'),
         (l @ [CallDeleteActorTemplate (objRef a name)]) @ replicate k (CallDeleteActorTemplate (objRef a name)))"
      by blast
    with r x show ?thesis by (intro exI [of _ "Suc k"]) auto
  qed
qed auto

definition deleteCalls :: "string \<Rightarrow> (string \<times> nat) list \<Rightarrow> call list" where
  "deleteCalls a ks = concat (map (\<lambda>(n, k). replicate k (CallDeleteActorTemplate (objRef a n))) ks)"

lemma deleteEach_log:
  "\<exists>ks. deleteEach (logged ctl) done a t ts errs (c, l) =
      (fst (deleteEach ctl done a t ts errs c), snd (deleteEach ctl done a t ts errs c), l @ deleteCalls a ks) \<and>
    map fst ks = filter (taskTemplatePattern t) (map tmplName ts) \<and> (\<forall>k \<in> snd ` set ks. 0 < k \<and> k \<le> 5)"
proof (induction ts arbitrary: errs c l)
  case (Cons x ts)
  show ?case
  proof (cases "taskTemplatePattern t (tmplName x)")
    case True
    let ?d = "deleteAttempts ctl done a (tmplName x) 0 5 None c"
    obtain e c' where d: "?d = (e, c')" by fastforce
    from deleteAttempts_log [of 5 ctl "done" a "tmplName x" 0 None c l] obtain k where
      k: "0 < k" "k \<le> 5" "deleteAttempts (logged ctl) done a (tmplName x) 0 5 None (c, l) =
        (e, c', l @ replicate k (CallDeleteActorTemplate (objRef a (tmplName x))))"
      unfolding d by auto
    let ?errs = "case e of None \<Rightarrow> errs | Some e \<Rightarrow> errs @ [e]"
    from Cons.IH [of ?errs c' "l @ replicate k (CallDeleteActorTemplate (objRef a (tmplName x)))"] obtain ks where
      ks: "deleteEach (logged ctl) done a t ts ?errs (c', l @ replicate k (CallDeleteActorTemplate (objRef a (tmplName x)))) =
        (fst (deleteEach ctl done a t ts ?errs c'), snd (deleteEach ctl done a t ts ?errs c'),
         (l @ replicate k (CallDeleteActorTemplate (objRef a (tmplName x)))) @ deleteCalls a ks)"
      "map fst ks = filter (taskTemplatePattern t) (map tmplName ts)" "\<forall>k \<in> snd ` set ks. 0 < k \<and> k \<le> 5"
      by blast
    then show ?thesis
      using True d k by (intro exI [of _ "(tmplName x, k) # ks"]) (auto simp: deleteCalls_def split: option.splits)
  next
    case False
    then show ?thesis using Cons.IH [of errs c l] by simp
  qed
qed (auto simp: deleteCalls_def)

text \<open>A concrete surrounding: a fixed clock, no variables, a probe that answers at the second
  check, and SHA-256 replaced by a constant.\<close>

definition exampleEnv :: recEnv where
  "exampleEnv = \<lparr>env_now = int, env_getenv = (\<lambda>_. []), env_urls = exampleURLLib,
     env_sha256 = (\<lambda>_. replicate 32 10), env_taskYAML = (\<lambda>_. Some ''kind: Task''),
     env_modelYAML = (\<lambda>_. Inl (ENew ''yaml'')), env_wsYAML = (\<lambda>_. Inr []),
     env_probe = (\<lambda>i u h. if i = 1 then Some 200 else None), env_ticks = 3, env_done = (\<lambda>_. None),
     env_order = id\<rparr>"

definition exampleRec :: taskReconciler where
  "exampleRec = NewTaskReconciler (\<lambda>_ _ _. Inl ENotFound) [] []"

lemma exampleEnv_parses: "\<exists>u. url_Parse (env_urls exampleEnv) x = Inr u"
  by (simp add: exampleEnv_def exampleURLLib_def)

lemma example_resume: "\<exists>st'. resumeStep sim_egress exampleEnv a n st c = (Ok (st', None), c)"
proof -
  obtain ac where "ResumeActor sim_egress a n c = (Inr (ac, ''10.0.0.7''), c)"
    by (simp add: ResumeActor_def sim_egress_def)
  moreover obtain b where "workspaceReady exampleEnv a n ''10.0.0.7'' (conditionTrue (Some st) condWorkspaceReady) = Ok b"
    using workspaceReady_returns exampleEnv_parses by metis
  ultimately show ?thesis by (simp add: resumeStep_def Let_def)
qed

text \<open>A run of the simulated service on the example task gets as far as resuming the actor.\<close>

lemma example_resumes:
  assumes "meta_GetName (task_Metadata t) = ''demo''" "orDefault (meta_GetAtespace (task_Metadata t)) = ''default''"
    and "task_Spec t = Some exampleSpec" "\<not> conditionTrue (task_Status t) condWorkspaceReady"
  obtains st c2 where "\<not> conditionTrue (Some st) condWorkspaceReady"
    "reconcile sim_egress exampleRec env t None None [] c =
       withStatus (prepareTask t) (resumeStep sim_egress env ''default'' ''demo'' st c2)"
proof -
  let ?t = "prepareTask t" and ?st = "nameActor (env_now env 0) ''demo'' (the (task_Status (prepareTask t)))"
  have at: "EnsureAtespace sim_egress a c = (None, c)" and ac: "EnsureActor sim_egress d a n ta tn c = (Inr (actorReq a n ta tn), c)"
    for a c d n ta tn by (simp_all add: EnsureAtespace_def EnsureActor_def sim_egress_def Let_def)
  obtain v where v: "buildExtraEnv exampleRec env ''default'' (?t\<lparr>task_Status := Some ?st\<rparr>) (the (task_Spec ?t)) None [] = Inr v"
    by (simp add: buildExtraEnv_def Let_def)
  obtain ta tn c2 where tm: "chooseTemplate sim_egress exampleRec env ''default'' ''demo'' (ts_Image (the (task_Spec ?t))) v c = ((ta, tn), c2)"
    by (metis surj_pair)
  obtain s r m c3 where gw: "applyGateway sim_egress ''default'' ''demo'' None (env_now env 0) ?st c2 =
      (setCondition condGatewayReady s r m (env_now env 0) ?st, c3)" by (rule applyGateway_status)
  have "conditionTrue (Some (the (task_Status ?t))) ty = conditionTrue (task_Status t) ty" for ty
    using conditionTrue_prepared [of t] by (metis option.collapse prepareTask_some(2))
  then have "\<not> conditionTrue (Some (setCondition condGatewayReady s r m (env_now env 0) ?st)) condWorkspaceReady"
    using assms(4) by (simp add: cond_defs)
  moreover have "\<not> ts_Suspend (the (task_Spec ?t))" by (simp add: prepareTask_def assms(3) example_defs Let_def)
  then have "reconcile sim_egress exampleRec env t None None [] c = withStatus ?t
      (resumeStep sim_egress env ''default'' ''demo'' (setCondition condGatewayReady s r m (env_now env 0) ?st) c3)"
    by (simp add: reconcile_def at ac v tm gw Let_def assms(1,2))
  ultimately show ?thesis by (rule that)
qed

lemma example_run:
  "\<exists>t' c'. reconcile sim_egress exampleRec exampleEnv exampleTask None None [] (Map.empty, 0) = (Ok (t', None), c')"
proof -
  have meta: "meta_GetName (task_Metadata exampleTask) = ''demo''" "orDefault (meta_GetAtespace (task_Metadata exampleTask)) = ''default''"
    "task_Spec exampleTask = Some exampleSpec" "\<not> conditionTrue (task_Status exampleTask) condWorkspaceReady"
    by (simp_all add: orDefault_def, simp_all add: exampleTask_def conditionTrue_def)
  obtain st c2 where "reconcile sim_egress exampleRec exampleEnv exampleTask None None [] (Map.empty, 0) =
      withStatus (prepareTask exampleTask) (resumeStep sim_egress exampleEnv ''default'' ''demo'' st c2)"
    by (rule example_resumes [OF meta])
  then show ?thesis using example_resume [of "''default''" "''demo''" st c2] by (auto simp: withStatus_def)
qed

section \<open>Properties\<close>

text \<open>C2: what a successful run reports. Without an error the phase is Running or Suspended, as
  the spec asks, the actor is named after the task, and the task is Ready exactly when it is not
  suspended and its workspace is ready.\<close>

theorem reconcile_success_status:
  assumes "reconcile ctl r env task gw md wss c = (Ok (t', None), c')"
  shows "\<exists>st sp. task_Status t' = Some st \<and> task_Spec t' = Some sp \<and>
    st_Phase st = (if ts_Suspend sp then ''Suspended'' else ''Running'') \<and>
    st_Actor st = meta_GetName (task_Metadata t') \<and>
    conditionTrue (task_Status t') condReady =
      (\<not> ts_Suspend sp \<and> conditionTrue (task_Status t') condWorkspaceReady)"
proof -
  from assms obtain st' where t': "t' = (prepareTask task)\<lparr>task_Status := Some st'\<rparr>"
    and "outcome (ts_Suspend (the (task_Spec (prepareTask task)))) (meta_GetName (task_Metadata task)) (env_now env)
       (the (task_Status (prepareTask task))) st' None"
    by (rule reconcile_outcome)
  moreover obtain sp where "task_Spec (prepareTask task) = Some sp" using prepareTask_some(1) by blast
  ultimately show ?thesis
    unfolding t' by (auto elim!: outcome.cases simp: cond_defs)
qed

theorem reconcile_success_status_witness:
  "\<exists>t' c' st sp. reconcile sim_egress exampleRec exampleEnv exampleTask None None [] (Map.empty, 0) = (Ok (t', None), c') \<and>
     task_Status t' = Some st \<and> task_Spec t' = Some sp \<and> st_Actor st = meta_GetName (task_Metadata t')"
proof -
  obtain t' c' where run: "reconcile sim_egress exampleRec exampleEnv exampleTask None None [] (Map.empty, 0) = (Ok (t', None), c')"
    using example_run by blast
  with reconcile_success_status [OF run] show ?thesis by blast
qed

text \<open>C11: what a failed run reports. Whenever a run fails, other than by rejecting the model
  configuration, the phase is Failed and the task is not Ready.\<close>

theorem reconcile_failure_status:
  assumes "reconcile ctl r env task gw md wss c = (Ok (t', Some e), c')"
    and "\<nexists>e'. e = EWrap ''preparing model configuration for task runner'' e'"
  shows "\<exists>st. task_Status t' = Some st \<and> st_Phase st = ''Failed'' \<and> \<not> conditionTrue (task_Status t') condReady"
proof -
  from assms(1) obtain st' where t': "t' = (prepareTask task)\<lparr>task_Status := Some st'\<rparr>"
    and "outcome (ts_Suspend (the (task_Spec (prepareTask task)))) (meta_GetName (task_Metadata task)) (env_now env)
       (the (task_Status (prepareTask task))) st' (Some e)"
    by (rule reconcile_outcome)
  from this(2) show ?thesis
    unfolding t' using assms(2) by cases (auto simp: cond_defs)
qed

theorem reconcile_failure_status_witness:
  "\<exists>t' c' e st. reconcile (sim_egress\<lparr>ctl_CreateAtespace := \<lambda>_ c. (Inl (EStatus CodeUnavailable []), c)\<rparr>)
       exampleRec exampleEnv exampleTask None None [] (Map.empty, 0) = (Ok (t', Some e), c') \<and>
     task_Status t' = Some st \<and> st_Phase st = ''Failed''"
proof -
  let ?ctl = "sim_egress\<lparr>ctl_CreateAtespace := \<lambda>_ c. (Inl (EStatus CodeUnavailable []), c)\<rparr>"
  let ?e = "EWrap ''ensuring atespace'' (EWrap (''creating atespace '' @ quote ''default'') (EStatus CodeUnavailable []))"
  obtain t' c' where run: "reconcile ?ctl exampleRec exampleEnv exampleTask None None [] (Map.empty, 0) = (Ok (t', Some ?e), c')"
    by (simp add: reconcile_def withStatus_def Let_def EnsureAtespace_def orDefault_def)
  have "\<nexists>e'. ?e = EWrap ''preparing model configuration for task runner'' e'" by simp
  from reconcile_failure_status [OF run this] run show ?thesis by blast
qed

text \<open>a run that rejects the model configuration leaves the conditions and the phase as they
  were, so a task that was Ready stays Ready in what the run returns.\<close>

theorem reconcile_model_failure_keeps_ready:
  assumes "reconcile ctl r env task gw md wss c =
     (Ok (t', Some (EWrap ''preparing model configuration for task runner'' e)), c')"
    and "task_Status task = Some st"
  shows "\<exists>st'. task_Status t' = Some st' \<and> st_Phase st' = st_Phase st \<and> st_Conditions st' = st_Conditions st"
proof -
  from assms(1) obtain st' where t': "t' = (prepareTask task)\<lparr>task_Status := Some st'\<rparr>"
    and "outcome (ts_Suspend (the (task_Spec (prepareTask task)))) (meta_GetName (task_Metadata task)) (env_now env)
       (the (task_Status (prepareTask task))) st' (Some (EWrap ''preparing model configuration for task runner'' e))"
    by (rule reconcile_outcome)
  from this(2) show ?thesis
    unfolding t' by cases (simp_all add: assms(2) prepareTask_status status_types)
qed

theorem reconcile_model_failure_keeps_ready_witness:
  "\<exists>t' c' e st'. reconcile sim_egress exampleRec exampleEnv
       (exampleTask\<lparr>task_Status := Some (setCondition condReady ''True'' [] [] 0 emptyStatus)\<rparr>) None
       (Some \<lparr>model_ApiVersion = [], model_Kind = [], model_Metadata = None, model_Spec = None\<rparr>) [] (Map.empty, 0)
       = (Ok (t', Some e), c') \<and>
     task_Status t' = Some st' \<and> st_Conditions st' = st_Conditions (setCondition condReady ''True'' [] [] 0 emptyStatus)"
proof -
  let ?st = "setCondition condReady ''True'' [] [] 0 emptyStatus"
  let ?m = "\<lparr>model_ApiVersion = [], model_Kind = [], model_Metadata = None, model_Spec = None\<rparr>"
  let ?e = "EWrap ''marshaling Model resource'' (ENew ''yaml'')"
  obtain t' c' where run: "reconcile sim_egress exampleRec exampleEnv (exampleTask\<lparr>task_Status := Some ?st\<rparr>) None (Some ?m) []
      (Map.empty, 0) = (Ok (t', Some (EWrap ''preparing model configuration for task runner'' ?e)), c')"
    by (simp add: reconcile_def withStatus_def Let_def EnsureAtespace_def sim_egress_def buildExtraEnv_def
        injectModelEnvironment_def exampleEnv_def)
  from reconcile_model_failure_keeps_ready [OF run, of ?st] run show ?thesis by auto
qed

text \<open>C12: workspace setup is remembered. A run on a task whose WorkspaceReady is True always returns,
  with a task on which it is still True, successful or not, suspended or resumed.\<close>

theorem reconcile_workspace_sticky:
  assumes "conditionTrue (task_Status task) condWorkspaceReady"
  shows "\<exists>t' err c'. reconcile ctl r env task gw md wss c = (Ok (t', err), c') \<and>
    conditionTrue (task_Status t') condWorkspaceReady"
proof (cases rule: reconcile_cases [of ctl r env task gw md wss c])
  case (ran st' err c')
  from ran(2) have "conditionTrue (Some st') condWorkspaceReady"
    using assms by cases (auto simp: cond_defs)
  with ran(1) show ?thesis by auto
qed (use assms in \<open>simp add: probeCrash_def\<close>)

theorem reconcile_workspace_sticky_witness:
  "\<exists>t' err c'. reconcile sim_egress exampleRec exampleEnv
     (exampleTask\<lparr>task_Status := Some (setCondition condWorkspaceReady ''True'' [] [] 0 emptyStatus)\<rparr>)
     None None [] (Map.empty, 0) = (Ok (t', err), c') \<and> conditionTrue (task_Status t') condWorkspaceReady"
  by (rule reconcile_workspace_sticky) simp

text \<open>C13: a run changes nothing of a task but its status and the documented defaults: the name,
  the kind and the spec survive (apart from the default atespace and image), an id once given is
  kept, and no condition type is ever listed twice. The only run that returns no task is the one
  whose readiness probe panics (\<open>probeCrash\<close>: the task is to run, its workspace is not known to be ready,
  and the worker's address gives no parsable URL).\<close>

theorem reconcile_frame:
  assumes "task_Status task = Some st" and "distinct (map cond_Type (st_Conditions st))"
  shows "case reconcile ctl r env task gw md wss c of
      (Ok (t', err), c') \<Rightarrow> (\<exists>st'. t' = (prepareTask task)\<lparr>task_Status := Some st'\<rparr> \<and>
        distinct (map cond_Type (st_Conditions st')) \<and> (st_Id st \<noteq> [] \<longrightarrow> st_Id st' = st_Id st))
    | (Err e, c') \<Rightarrow> False
    | (Panic, c') \<Rightarrow> probeCrash ctl env task c'"
proof (cases rule: reconcile_cases [of ctl r env task gw md wss c])
  case (ran st' err c')
  then have o: "outcome (ts_Suspend (the (task_Spec (prepareTask task)))) (meta_GetName (task_Metadata task)) (env_now env) st st' err"
    by (simp add: prepareTask_status assms(1))
  from o have "distinct (map cond_Type (st_Conditions st'))"
    using assms(2) by cases (simp_all add: status_types distinct_setCond)
  moreover from o have "st_Id st \<noteq> [] \<longrightarrow> st_Id st' = st_Id st"
    by cases (simp_all add: nameActor_def)
  ultimately show ?thesis unfolding ran(1) by auto
qed simp

theorem reconcile_frame_witness:
  "\<exists>st' err c'. reconcile sim_egress exampleRec exampleEnv (exampleTask\<lparr>task_Status := Some (emptyStatus\<lparr>st_Id := ''id''\<rparr>)\<rparr>)
       None None [] (Map.empty, 0) =
     (Ok ((prepareTask (exampleTask\<lparr>task_Status := Some (emptyStatus\<lparr>st_Id := ''id''\<rparr>)\<rparr>))\<lparr>task_Status := Some st'\<rparr>, err), c') \<and>
     st_Id st' = ''id''"
proof -
  let ?st = "emptyStatus\<lparr>st_Id := ''id''\<rparr>" and ?t = "exampleTask\<lparr>task_Status := Some (emptyStatus\<lparr>st_Id := ''id''\<rparr>)\<rparr>"
  have "task_Status ?t = Some ?st" "distinct (map cond_Type (st_Conditions ?st))"
    by (simp_all add: emptyStatus_def)
  note frame = reconcile_frame [OF this, where ctl = sim_egress and r = exampleRec and env = exampleEnv and gw = None and md = None and wss = "[]" and c = "(Map.empty, 0)"]
  show ?thesis
  proof (cases rule: reconcile_cases [of sim_egress exampleRec exampleEnv ?t None None "[]" "(Map.empty, 0)"])
    case (ran st' err c')
    from frame show ?thesis unfolding ran(1) by auto
  qed (simp add: probeCrash_def exampleEnv_def exampleURLLib_def)
qed

text \<open>only the launch configuration decides which template a task uses. Changing a task's
  status or its suspend flag leaves its container environment, and so its template, unchanged,
  whatever order the environment map is walked in.\<close>

theorem template_ignores_status_and_suspend:
  assumes "\<forall>xs. mset (env_order env xs) = mset xs" and "\<forall>xs. mset (ord' xs) = mset xs"
  shows "buildExtraEnv r env a (task\<lparr>task_Status := st', task_Spec := Some (sp\<lparr>ts_Suspend := b\<rparr>)\<rparr>) (sp\<lparr>ts_Suspend := b\<rparr>) md wss
      = buildExtraEnv r env a (task\<lparr>task_Spec := Some sp\<rparr>) sp md wss \<and>
    taskTemplateName (env\<lparr>env_order := ord'\<rparr>) name img vars = taskTemplateName env name img vars"
proof
  have l: "launchTask (task\<lparr>task_Status := st', task_Spec := Some (sp\<lparr>ts_Suspend := b\<rparr>)\<rparr>) =
      launchTask (task\<lparr>task_Spec := Some sp\<rparr>)"
    by (simp add: launchTask_def)
  have s: "specEnv (sp\<lparr>ts_Suspend := b\<rparr>) = specEnv sp" by (simp add: specEnv_def)
  show "buildExtraEnv r env a (task\<lparr>task_Status := st', task_Spec := Some (sp\<lparr>ts_Suspend := b\<rparr>)\<rparr>) (sp\<lparr>ts_Suspend := b\<rparr>) md wss
      = buildExtraEnv r env a (task\<lparr>task_Spec := Some sp\<rparr>) sp md wss"
    unfolding buildExtraEnv_def l s ..
  have "mset (map fst (ord' vars)) = mset (map fst (env_order env vars))"
    using assms(1,2) by simp
  then have "sort (map fst (ord' vars)) = sort (map fst (env_order env vars))"
    by (intro properties_for_sort) simp_all
  then show "taskTemplateName (env\<lparr>env_order := ord'\<rparr>) name img vars = taskTemplateName env name img vars"
    by (simp add: taskTemplateName_def)
qed

theorem template_ignores_status_and_suspend_witness:
  "taskTemplateName (exampleEnv\<lparr>env_order := rev\<rparr>) ''t'' ''img'' [(''B'', ''2''), (''A'', ''1'')] =
   taskTemplateName exampleEnv ''t'' ''img'' [(''B'', ''2''), (''A'', ''1'')]"
  using template_ignores_status_and_suspend [of exampleEnv rev] by (simp add: exampleEnv_def)

text \<open>C18: the cleanup pattern of a task matches every template name that can be generated for it
  and no template name of any other task.\<close>

theorem template_pattern_exact:
  assumes "\<forall>x. length (env_sha256 env x) = 32"
  shows "taskTemplatePattern t (taskTemplateName env t' img vars) \<longleftrightarrow> t' = t"
  unfolding taskTemplateName_def Let_def
  by (subst pattern_append) (simp_all add: assms length_hex_bytes hex_bytes_lower templateDigestBytes_def)

theorem template_pattern_exact_witness:
  "taskTemplatePattern ''t'' (taskTemplateName exampleEnv ''t'' ''img'' []) \<and>
   \<not> taskTemplatePattern ''t'' (taskTemplateName exampleEnv ''t-tmpl-t'' ''img'' [])"
  using template_pattern_exact [of exampleEnv] by (simp add: exampleEnv_def)

text \<open>deleting a task's templates touches exactly the listed templates that match its
  pattern, in order, each at least once and at most five times, and nothing else is called.\<close>

theorem deleteTaskTemplates_calls:
  assumes "ListActorTemplates ctl a c = (Inr ts, c1)"
  shows "\<exists>ks. snd (snd (deleteTaskTemplates (logged ctl) done a t (c, []))) = CallOther # deleteCalls a ks \<and>
    fst (deleteTaskTemplates (logged ctl) done a t (c, [])) = fst (deleteTaskTemplates ctl done a t c) \<and>
    map fst ks = filter (taskTemplatePattern t) (map tmplName ts) \<and> (\<forall>k \<in> snd ` set ks. 0 < k \<and> k \<le> 5)"
proof -
  from assms have "ListActorTemplates (logged ctl) a (c, []) = (Inr ts, c1, [CallOther])"
    by (auto simp: ListActorTemplates_def logged_def log_call_def split: prod.splits sum.splits)
  moreover from deleteEach_log [of ctl "done" a t ts "[]" c1 "[CallOther]"] obtain ks where
    "deleteEach (logged ctl) done a t ts [] (c1, [CallOther]) =
      (fst (deleteEach ctl done a t ts [] c1), snd (deleteEach ctl done a t ts [] c1), [CallOther] @ deleteCalls a ks)"
    "map fst ks = filter (taskTemplatePattern t) (map tmplName ts)" "\<forall>k \<in> snd ` set ks. 0 < k \<and> k \<le> 5"
    by blast
  ultimately show ?thesis
    using assms by (intro exI [of _ ks]) (simp add: deleteTaskTemplates_def split: prod.split)
qed

theorem deleteTaskTemplates_calls_witness:
  "\<exists>ks. snd (snd (deleteTaskTemplates (logged (sim_egress\<lparr>ctl_ListActorTemplates := \<lambda>_ c.
       (Inr ([BuildActorTemplate (\<lambda>_. []) id ''a'' ''t-tmpl-0123abcd'' [] [] [] []], []), c)\<rparr>)) (\<lambda>_. None) ''a'' ''t'' ((Map.empty, 0), [])))
     = CallOther # deleteCalls ''a'' ks \<and> map fst ks = [''t-tmpl-0123abcd'']"
proof -
  let ?t = "BuildActorTemplate (\<lambda>_. []) id ''a'' ''t-tmpl-0123abcd'' [] [] [] []"
  let ?ctl = "sim_egress\<lparr>ctl_ListActorTemplates := \<lambda>_ c. (Inr ([?t], []), c)\<rparr>"
  have "ListActorTemplates ?ctl ''a'' (Map.empty, 0) = (Inr [?t], (Map.empty, 0))"
    by (simp add: ListActorTemplates_def)
  moreover have "taskTemplatePattern ''t'' (tmplName ?t)" "tmplName ?t = ''t-tmpl-0123abcd''"
    by (simp_all add: tmplName_def BuildActorTemplate_def Let_def resMeta_def taskTemplatePattern_def
        hasPrefix_def templateDigestBytes_def is_lower_hex_def)
  ultimately show ?thesis
    using deleteTaskTemplates_calls [of ?ctl "''a''" "(Map.empty, 0)" "[?t]" "(Map.empty, 0)" "\<lambda>_. None" "''t''"] by auto
qed

end
