(* ===== verification/Memory_Store.thy ===== *)
theory Memory_Store
  imports Store_Spec
begin

text \<open>
  \<open>internal/store/memory/store.go\<close>: the in-memory store. Stored tasks are objects that
  \<open>UpdateTaskStatus\<close> and \<open>MarkTaskDeleting\<close> change in place while watchers may hold a pointer to
  them, so tasks live in a heap \<open>mem_heap\<close> of cells and the task map and the watch channels
  hold addresses; the other kinds are only ever replaced and are stored by value. Channels are
  objects too (\<open>mem_chans\<close>): a buffer and whether the channel is still open. The mutex makes
  every operation atomic but for the send to the event channel, which follows the unlock and
  is part of the same step here. The lemmas show the well-formedness invariant \<open>mem_wf\<close>, that every
  operation keeps it and never panics under it, and that the store meets the contract \<open>ax_store\<close>.
\<close>

section \<open>State\<close>

record chan =
  ch_buf :: "nat list"
  ch_open :: bool

record memory_store =
  mem_heap :: "nat \<Rightarrow> task"
  mem_next :: nat
  mem_tasks :: "(string \<times> nat) list"
  mem_gateways :: "(string \<times> gateway) list"
  mem_models :: "(string \<times> model) list"
  mem_workspaces :: "(string \<times> workspace) list"
  mem_events :: "taskEvent list"
  mem_watchers :: "(string \<times> nat list) list"
  mem_chans :: "nat \<Rightarrow> chan"
  mem_nextChan :: nat

definition emptyTask :: task where
  "emptyTask = \<lparr>task_ApiVersion = [], task_Kind = [], task_Metadata = None,
     task_Spec = None, task_Status = None\<rparr>"

definition eventCap :: nat where "eventCap = 1000"
definition watchCap :: nat where "watchCap = 10"

definition mem_NewStore :: memory_store where
  "mem_NewStore = \<lparr>mem_heap = (\<lambda>_. emptyTask), mem_next = 0, mem_tasks = [], mem_gateways = [],
     mem_models = [], mem_workspaces = [], mem_events = [], mem_watchers = [],
     mem_chans = (\<lambda>_. \<lparr>ch_buf = [], ch_open = False\<rparr>), mem_nextChan = 0\<rparr>"

definition mem_taskKey :: "string \<Rightarrow> string \<Rightarrow> string" where
  "mem_taskKey atespace name = orDefault atespace @ '':'' @ name"

section \<open>Channels\<close>

text \<open>
  The non-blocking send of a \<open>select\<close> with a \<open>default\<close>: dropped when the buffer is full, a panic
  (\<open>None\<close>) when the channel is closed.
\<close>

definition trySend :: "nat \<Rightarrow> chan \<Rightarrow> chan" where
  "trySend x c = (if length (ch_buf c) < watchCap then c\<lparr>ch_buf := ch_buf c @ [x]\<rparr> else c)"

fun notify :: "nat \<Rightarrow> nat list \<Rightarrow> (nat \<Rightarrow> chan) \<Rightarrow> (nat \<Rightarrow> chan) option" where
  "notify x [] cs = Some cs"
| "notify x (c # chs) cs =
     (if ch_open (cs c) then notify x chs (cs(c := trySend x (cs c))) else None)"

definition chansAt :: "(string \<times> nat list) list \<Rightarrow> string \<Rightarrow> nat list" where
  "chansAt w key = (case map_of w key of None \<Rightarrow> [] | Some chs \<Rightarrow> chs)"

abbreviation watchersOf :: "memory_store \<Rightarrow> string \<Rightarrow> nat list" where
  "watchersOf s \<equiv> chansAt (mem_watchers s)"

definition publish :: "taskEvent \<Rightarrow> memory_store \<Rightarrow> memory_store" where
  "publish ev s = (if length (mem_events s) < eventCap
                   then s\<lparr>mem_events := mem_events s @ [ev]\<rparr> else s)"

section \<open>Tasks\<close>

definition mem_normTask :: "task \<Rightarrow> task" where
  "mem_normTask t =
     (let m = (case task_Metadata t of None \<Rightarrow> emptyMeta | Some m \<Rightarrow> m);
          st = (case task_Status t of None \<Rightarrow> emptyStatus | Some st \<Rightarrow> st)
      in t\<lparr>task_Metadata := Some (defaultAtespace m),
           task_Status := Some (if st_Phase st = [] then st\<lparr>st_Phase := ''Pending''\<rparr> else st)\<rparr>)"

definition mem_SaveTask :: "int \<Rightarrow> task \<Rightarrow> memory_store \<Rightarrow> task go \<times> memory_store" where
  "mem_SaveTask now task s =
     (if meta_GetName (task_Metadata task) = [] then (Err (ENew ''task name is required''), s)
      else
        let t = mem_normTask task;
            atespace = meta_GetAtespace (task_Metadata t);
            name = meta_GetName (task_Metadata t);
            key = mem_taskKey atespace name;
            cp = mem_next s;
            s1 = s\<lparr>mem_heap := (mem_heap s)(cp := t), mem_next := Suc cp,
                   mem_tasks := AList.update key cp (mem_tasks s)\<rparr>;
            event = \<lparr>ev_ID = itoa now, ev_Atespace = atespace, ev_Name = name,
                      ev_Action = ''reconcile''\<rparr>
        in (case notify cp (watchersOf s1 key) (mem_chans s1) of
              None \<Rightarrow> (Panic, s1)
            | Some cs \<Rightarrow> (Ok t, publish event (s1\<lparr>mem_chans := cs\<rparr>))))"

definition mem_GetTask :: "string \<Rightarrow> string \<Rightarrow> memory_store \<Rightarrow> task go" where
  "mem_GetTask atespace name s =
     (case map_of (mem_tasks s) (mem_taskKey atespace name) of
        None \<Rightarrow> Err ENotFound
      | Some p \<Rightarrow> Ok (mem_heap s p))"

text \<open>
  The selection of a \<open>List\<close> call: no or the wildcard atespace selects everything, otherwise the
  metadata is dereferenced (\<open>None\<close> is the nil dereference).
\<close>

fun collect :: "('r \<Rightarrow> objectMeta option) \<Rightarrow> string \<Rightarrow> 'r list \<Rightarrow> 'r list option" where
  "collect meta a [] = Some []"
| "collect meta a (r # rs) =
     (if a = [] \<or> a = ''*'' then map_option ((#) r) (collect meta a rs)
      else case meta r of
             None \<Rightarrow> None
           | Some m \<Rightarrow> if meta_Atespace m = a then map_option ((#) r) (collect meta a rs)
                       else collect meta a rs)"

text \<open>
  The page of a \<open>ListTasks\<close> call. \<open>offset + limit\<close> is an \<open>int64\<close> sum; slicing outside the bounds
  panics.
\<close>

definition mem_page :: "int \<Rightarrow> int \<Rightarrow> 'r list \<Rightarrow> 'r list go" where
  "mem_page limit offset result =
     (let len = int (length result) in
      if offset \<ge> len then Ok []
      else let e = wrap64 (offset + limit);
               e' = (if limit \<le> 0 \<or> e > len then len else e)
           in if 0 \<le> offset \<and> offset \<le> e'
              then Ok (take (nat (e' - offset)) (drop (nat offset) result))
              else Panic)"

definition mem_ListTasks ::
  "((string \<times> nat) list \<Rightarrow> (string \<times> nat) list) \<Rightarrow> string \<Rightarrow> int \<Rightarrow> int \<Rightarrow> memory_store \<Rightarrow> task list go" where
  "mem_ListTasks perm atespace limit offset s =
     (case collect task_Metadata atespace (map (mem_heap s \<circ> snd) (perm (mem_tasks s))) of
        None \<Rightarrow> Panic
      | Some result \<Rightarrow> mem_page limit offset result)"

definition mem_UpdateTaskStatus ::
  "string \<Rightarrow> string \<Rightarrow> taskStatus option \<Rightarrow> memory_store \<Rightarrow> unit go \<times> memory_store" where
  "mem_UpdateTaskStatus atespace name status s =
     (let key = mem_taskKey atespace name in
      case map_of (mem_tasks s) key of
        None \<Rightarrow> (Err ENotFound, s)
      | Some p \<Rightarrow>
          let t = (mem_heap s p)\<lparr>task_Status := status\<rparr>;
              cp = mem_next s;
              s1 = s\<lparr>mem_heap := (mem_heap s)(p := t, cp := t), mem_next := Suc cp\<rparr>
          in (case notify cp (watchersOf s1 key) (mem_chans s1) of
                None \<Rightarrow> (Panic, s1)
              | Some cs \<Rightarrow> (Ok (), s1\<lparr>mem_chans := cs\<rparr>)))"

definition mem_MarkTaskDeleting ::
  "int \<Rightarrow> string \<Rightarrow> string \<Rightarrow> memory_store \<Rightarrow> unit go \<times> memory_store" where
  "mem_MarkTaskDeleting now atespace name s =
     (let key = mem_taskKey atespace name in
      case map_of (mem_tasks s) key of
        None \<Rightarrow> (Err ENotFound, s)
      | Some p \<Rightarrow>
          let t = markedDeleting (mem_heap s p);
              cp = mem_next s;
              s1 = s\<lparr>mem_heap := (mem_heap s)(p := t, cp := t), mem_next := Suc cp\<rparr>;
              event = \<lparr>ev_ID = itoa now, ev_Atespace = atespace, ev_Name = name,
                        ev_Action = ''delete''\<rparr>
          in (case notify cp (watchersOf s1 key) (mem_chans s1) of
                None \<Rightarrow> (Panic, s1)
              | Some cs \<Rightarrow> (Ok (), publish event (s1\<lparr>mem_chans := cs\<rparr>))))"

definition mem_DeleteTask :: "string \<Rightarrow> string \<Rightarrow> memory_store \<Rightarrow> unit go \<times> memory_store" where
  "mem_DeleteTask atespace name s =
     (Ok (), s\<lparr>mem_tasks := AList.delete (mem_taskKey atespace name) (mem_tasks s)\<rparr>)"

section \<open>Gateways, models, workspaces\<close>

text \<open>Unlike \<open>SaveTask\<close>, these dereference the metadata without checking it for nil.\<close>

definition mem_SaveGateway :: "int \<Rightarrow> gateway \<Rightarrow> memory_store \<Rightarrow> gateway go \<times> memory_store" where
  "mem_SaveGateway now gw s =
     (case gw_Metadata gw of
        None \<Rightarrow> (Panic, s)
      | Some m \<Rightarrow>
          if meta_Name m = [] then (Err (ENew ''gateway name is required''), s)
          else let m' = defaultAtespace m; gw' = gw\<lparr>gw_Metadata := Some m'\<rparr>
               in (Ok gw', s\<lparr>mem_gateways :=
                     AList.update (mem_taskKey (meta_Atespace m') (meta_Name m')) gw' (mem_gateways s)\<rparr>))"

definition mem_GetGateway :: "string \<Rightarrow> string \<Rightarrow> memory_store \<Rightarrow> gateway go" where
  "mem_GetGateway atespace name s =
     (case map_of (mem_gateways s) (mem_taskKey atespace name) of
        None \<Rightarrow> Err ENotFound | Some gw \<Rightarrow> Ok gw)"

definition mem_ListGateways ::
  "((string \<times> gateway) list \<Rightarrow> (string \<times> gateway) list) \<Rightarrow> string \<Rightarrow> memory_store \<Rightarrow> gateway list go" where
  "mem_ListGateways perm atespace s =
     (case collect gw_Metadata atespace (map snd (perm (mem_gateways s))) of
        None \<Rightarrow> Panic | Some result \<Rightarrow> Ok result)"

definition mem_DeleteGateway :: "string \<Rightarrow> string \<Rightarrow> memory_store \<Rightarrow> unit go \<times> memory_store" where
  "mem_DeleteGateway atespace name s =
     (Ok (), s\<lparr>mem_gateways := AList.delete (mem_taskKey atespace name) (mem_gateways s)\<rparr>)"

definition mem_SaveModel :: "int \<Rightarrow> model \<Rightarrow> memory_store \<Rightarrow> model go \<times> memory_store" where
  "mem_SaveModel now md s =
     (case model_Metadata md of
        None \<Rightarrow> (Panic, s)
      | Some m \<Rightarrow>
          if meta_Name m = [] then (Err (ENew ''model name is required''), s)
          else let m' = defaultAtespace m; md' = md\<lparr>model_Metadata := Some m'\<rparr>
               in (Ok md', s\<lparr>mem_models :=
                     AList.update (mem_taskKey (meta_Atespace m') (meta_Name m')) md' (mem_models s)\<rparr>))"

definition mem_GetModel :: "string \<Rightarrow> string \<Rightarrow> memory_store \<Rightarrow> model go" where
  "mem_GetModel atespace name s =
     (case map_of (mem_models s) (mem_taskKey atespace name) of
        None \<Rightarrow> Err ENotFound | Some md \<Rightarrow> Ok md)"

definition mem_ListModels ::
  "((string \<times> model) list \<Rightarrow> (string \<times> model) list) \<Rightarrow> string \<Rightarrow> memory_store \<Rightarrow> model list go" where
  "mem_ListModels perm atespace s =
     (case collect model_Metadata atespace (map snd (perm (mem_models s))) of
        None \<Rightarrow> Panic | Some result \<Rightarrow> Ok result)"

definition mem_DeleteModel :: "string \<Rightarrow> string \<Rightarrow> memory_store \<Rightarrow> unit go \<times> memory_store" where
  "mem_DeleteModel atespace name s =
     (Ok (), s\<lparr>mem_models := AList.delete (mem_taskKey atespace name) (mem_models s)\<rparr>)"

definition mem_SaveWorkspace :: "int \<Rightarrow> workspace \<Rightarrow> memory_store \<Rightarrow> workspace go \<times> memory_store" where
  "mem_SaveWorkspace now ws s =
     (case wsp_Metadata ws of
        None \<Rightarrow> (Panic, s)
      | Some m \<Rightarrow>
          if meta_Name m = [] then (Err (ENew ''workspace name is required''), s)
          else let m' = defaultAtespace m; ws' = ws\<lparr>wsp_Metadata := Some m'\<rparr>
               in (Ok ws', s\<lparr>mem_workspaces :=
                     AList.update (mem_taskKey (meta_Atespace m') (meta_Name m')) ws' (mem_workspaces s)\<rparr>))"

definition mem_GetWorkspace :: "string \<Rightarrow> string \<Rightarrow> memory_store \<Rightarrow> workspace go" where
  "mem_GetWorkspace atespace name s =
     (case map_of (mem_workspaces s) (mem_taskKey atespace name) of
        None \<Rightarrow> Err ENotFound | Some ws \<Rightarrow> Ok ws)"

definition mem_ListWorkspaces ::
  "((string \<times> workspace) list \<Rightarrow> (string \<times> workspace) list) \<Rightarrow> string \<Rightarrow> memory_store \<Rightarrow> workspace list go" where
  "mem_ListWorkspaces perm atespace s =
     (case collect wsp_Metadata atespace (map snd (perm (mem_workspaces s))) of
        None \<Rightarrow> Panic | Some result \<Rightarrow> Ok result)"

definition mem_DeleteWorkspace :: "string \<Rightarrow> string \<Rightarrow> memory_store \<Rightarrow> unit go \<times> memory_store" where
  "mem_DeleteWorkspace atespace name s =
     (Ok (), s\<lparr>mem_workspaces := AList.delete (mem_taskKey atespace name) (mem_workspaces s)\<rparr>)"

section \<open>Subscriptions and watches\<close>

text \<open>
  \<open>Next\<close>: a \<open>select\<close> over the event channel and the context. \<open>done\<close> is the context's error once
  it is done; when both cases are ready the runtime picks one, which \<open>pickDone\<close> decides.
\<close>

definition mem_Next ::
  "error option \<Rightarrow> bool \<Rightarrow> memory_store \<Rightarrow> ((error + taskEvent) \<times> memory_store) option" where
  "mem_Next done pickDone s =
     (case mem_events s of
        [] \<Rightarrow> (case done of None \<Rightarrow> None | Some e \<Rightarrow> Some (Inl e, s))
      | ev # evs \<Rightarrow>
          (case done of
             Some e \<Rightarrow> if pickDone then Some (Inl e, s) else Some (Inr ev, s\<lparr>mem_events := evs\<rparr>)
           | None \<Rightarrow> Some (Inr ev, s\<lparr>mem_events := evs\<rparr>)))"

definition mem_Ack :: "taskEvent \<Rightarrow> memory_store \<Rightarrow> error option \<times> memory_store" where
  "mem_Ack ev s = (None, s)"

definition mem_queue :: "memory_store eventQueue" where
  "mem_queue = \<lparr>queue_Next = mem_Next None False, queue_Ack = mem_Ack\<rparr>"

definition mem_WatchTask :: "string \<Rightarrow> string \<Rightarrow> memory_store \<Rightarrow> nat \<times> memory_store" where
  "mem_WatchTask atespace name s =
     (let key = mem_taskKey atespace name; ch = mem_nextChan s in
      (ch, s\<lparr>mem_chans := (mem_chans s)(ch := \<lparr>ch_buf = [], ch_open = True\<rparr>),
             mem_nextChan := Suc ch,
             mem_watchers := AList.update key (watchersOf s key @ [ch]) (mem_watchers s)\<rparr>))"

text \<open>The closer \<open>WatchTask\<close> returns: removes the channel once and closes it.\<close>

definition mem_closeWatch :: "string \<Rightarrow> string \<Rightarrow> nat \<Rightarrow> memory_store \<Rightarrow> memory_store" where
  "mem_closeWatch atespace name ch s =
     (let key = mem_taskKey atespace name; chs = watchersOf s key in
      if ch \<in> set chs
      then s\<lparr>mem_watchers := AList.update key (remove1 ch chs) (mem_watchers s),
             mem_chans := (mem_chans s)(ch := (mem_chans s ch)\<lparr>ch_open := False\<rparr>)\<rparr>
      else s)"

text \<open>What a receiver finds in the channel: the first buffered pointer, read now.\<close>

definition mem_recv :: "nat \<Rightarrow> memory_store \<Rightarrow> (task \<times> memory_store) option" where
  "mem_recv ch s =
     (case ch_buf (mem_chans s ch) of
        [] \<Rightarrow> None
      | p # ps \<Rightarrow> Some (mem_heap s p, s\<lparr>mem_chans := (mem_chans s)(ch := (mem_chans s ch)\<lparr>ch_buf := ps\<rparr>)\<rparr>))"

section \<open>The store as an implementation of the interface\<close>

definition mem_store :: "memory_store store" where
  "mem_store = \<lparr>
     store_SaveTask = mem_SaveTask, store_GetTask = mem_GetTask, store_ListTasks = mem_ListTasks id,
     store_UpdateTaskStatus = mem_UpdateTaskStatus, store_MarkTaskDeleting = mem_MarkTaskDeleting,
     store_DeleteTask = mem_DeleteTask,
     store_SaveGateway = mem_SaveGateway, store_GetGateway = mem_GetGateway,
     store_ListGateways = mem_ListGateways id, store_DeleteGateway = mem_DeleteGateway,
     store_SaveWorkspace = mem_SaveWorkspace, store_GetWorkspace = mem_GetWorkspace,
     store_ListWorkspaces = mem_ListWorkspaces id, store_DeleteWorkspace = mem_DeleteWorkspace,
     store_SaveModel = mem_SaveModel, store_GetModel = mem_GetModel,
     store_ListModels = mem_ListModels id, store_DeleteModel = mem_DeleteModel\<rparr>"

section \<open>Well-formedness\<close>

definition mem_view :: "memory_store \<Rightarrow> string \<Rightarrow> task option" where
  "mem_view s k = map_option (mem_heap s) (map_of (mem_tasks s) k)"

definition keyOf :: "task \<Rightarrow> string" where
  "keyOf t = mem_taskKey (meta_GetAtespace (task_Metadata t)) (meta_GetName (task_Metadata t))"

lemma keyOf_cong: "task_Metadata t = task_Metadata u \<Longrightarrow> keyOf t = keyOf u"
  by (simp add: keyOf_def)

definition task_wf :: "memory_store \<Rightarrow> bool" where
  "task_wf s \<longleftrightarrow> distinct (map fst (mem_tasks s)) \<and>
     (\<forall>k p. map_of (mem_tasks s) k = Some p \<longrightarrow>
        p < mem_next s \<and> task_Metadata (mem_heap s p) \<noteq> None \<and> keyOf (mem_heap s p) = k) \<and>
     (\<forall>k k' p. map_of (mem_tasks s) k = Some p \<longrightarrow> map_of (mem_tasks s) k' = Some p \<longrightarrow> k = k')"

definition watch_wf :: "memory_store \<Rightarrow> bool" where
  "watch_wf s \<longleftrightarrow>
     (\<forall>k. distinct (watchersOf s k)) \<and>
     (\<forall>k c. c \<in> set (watchersOf s k) \<longrightarrow> c < mem_nextChan s \<and> ch_open (mem_chans s c)) \<and>
     (\<forall>k k' c. c \<in> set (watchersOf s k) \<longrightarrow> c \<in> set (watchersOf s k') \<longrightarrow> k = k') \<and>
     (\<forall>c. length (ch_buf (mem_chans s c)) \<le> watchCap \<and>
          (\<forall>p \<in> set (ch_buf (mem_chans s c)). p < mem_next s))"

definition kind_wf :: "('r \<Rightarrow> objectMeta option) \<Rightarrow> (string \<times> 'r) list \<Rightarrow> bool" where
  "kind_wf meta al \<longleftrightarrow> distinct (map fst al) \<and> (\<forall>k r. map_of al k = Some r \<longrightarrow> meta r \<noteq> None)"

definition mem_wf :: "memory_store \<Rightarrow> bool" where
  "mem_wf s \<longleftrightarrow> task_wf s \<and> watch_wf s \<and> length (mem_events s) \<le> eventCap \<and>
     kind_wf gw_Metadata (mem_gateways s) \<and> kind_wf model_Metadata (mem_models s) \<and>
     kind_wf wsp_Metadata (mem_workspaces s)"

lemma chansAt_simps [simp]:
  "chansAt [] k = []"
  "chansAt (AList.update k chs w) k' = (if k' = k then chs else chansAt w k')"
  by (simp_all add: chansAt_def alist_lookup)

lemma trySend_simps [simp]:
  "ch_open (trySend x c) = ch_open c"
  "length (ch_buf c) \<le> watchCap \<Longrightarrow> length (ch_buf (trySend x c)) \<le> watchCap"
  by (simp_all add: trySend_def)

lemma trySend_buf: "p \<in> set (ch_buf (trySend x c)) \<Longrightarrow> p = x \<or> p \<in> set (ch_buf c)"
  by (simp add: trySend_def split: if_splits)

lemma notify_open:
  "distinct chs \<Longrightarrow> \<forall>c \<in> set chs. ch_open (cs c) \<Longrightarrow>
     notify x chs cs = Some (\<lambda>c. if c \<in> set chs then trySend x (cs c) else cs c)"
proof (induction chs arbitrary: cs)
  case (Cons c chs)
  let ?cs = "cs(c := trySend x (cs c))"
  from Cons.prems have "notify x chs ?cs = Some (\<lambda>d. if d \<in> set chs then trySend x (?cs d) else ?cs d)"
    by (intro Cons.IH) auto
  with Cons.prems show ?case by (auto simp: fun_eq_iff)
qed (simp add: fun_eq_iff)

text \<open>The store after a pointer to the cell \<open>p\<close> was offered to the watchers of \<open>key\<close>.\<close>

definition announce :: "string \<Rightarrow> nat \<Rightarrow> memory_store \<Rightarrow> memory_store" where
  "announce key p s = s\<lparr>mem_chans :=
     (\<lambda>c. if c \<in> set (watchersOf s key) then trySend p (mem_chans s c) else mem_chans s c)\<rparr>"

lemma announce_simps [simp]:
  "mem_heap (announce k p s) = mem_heap s" "mem_next (announce k p s) = mem_next s"
  "mem_tasks (announce k p s) = mem_tasks s" "mem_events (announce k p s) = mem_events s"
  "mem_gateways (announce k p s) = mem_gateways s" "mem_models (announce k p s) = mem_models s"
  "mem_workspaces (announce k p s) = mem_workspaces s"
  "mem_nextChan (announce k p s) = mem_nextChan s"
  "mem_watchers (announce k p s) = mem_watchers s"
  by (simp_all add: announce_def)

lemma publish_simps [simp]:
  "mem_heap (publish ev s) = mem_heap s" "mem_next (publish ev s) = mem_next s"
  "mem_tasks (publish ev s) = mem_tasks s" "mem_chans (publish ev s) = mem_chans s"
  "mem_gateways (publish ev s) = mem_gateways s" "mem_models (publish ev s) = mem_models s"
  "mem_workspaces (publish ev s) = mem_workspaces s"
  "mem_nextChan (publish ev s) = mem_nextChan s"
  "mem_watchers (publish ev s) = mem_watchers s"
  by (simp_all add: publish_def)

lemma mem_events_publish:
  "mem_events (publish ev s) =
     (if length (mem_events s) < eventCap then mem_events s @ [ev] else mem_events s)"
  by (simp add: publish_def)

lemma notify_announce:
  "watch_wf s \<Longrightarrow> notify p (watchersOf s key) (mem_chans s) = Some (mem_chans (announce key p s))"
  unfolding watch_wf_def announce_def by (subst notify_open) auto

lemma update_chans_announce: "s\<lparr>mem_chans := mem_chans (announce k p s)\<rparr> = announce k p s"
  by (simp add: announce_def)

subsection \<open>Frame rules for the parts of the invariant\<close>

lemma watch_wf_cong:
  "mem_watchers s' = mem_watchers s \<Longrightarrow> mem_chans s' = mem_chans s \<Longrightarrow>
   mem_nextChan s' = mem_nextChan s \<Longrightarrow> mem_next s \<le> mem_next s' \<Longrightarrow> watch_wf s \<Longrightarrow> watch_wf s'"
  unfolding watch_wf_def by simp (meson less_le_trans)

lemma watch_wf_announce: "watch_wf s \<Longrightarrow> p < mem_next s \<Longrightarrow> watch_wf (announce k p s)"
  unfolding watch_wf_def by (auto simp: announce_def dest: trySend_buf)

lemma task_wf_cong:
  "mem_tasks s' = mem_tasks s \<Longrightarrow> mem_heap s' = mem_heap s \<Longrightarrow> mem_next s' = mem_next s \<Longrightarrow>
   task_wf s \<Longrightarrow> task_wf s'"
  unfolding task_wf_def by simp

lemma kind_wf_update: "kind_wf meta al \<Longrightarrow> meta r \<noteq> None \<Longrightarrow> kind_wf meta (AList.update k r al)"
  unfolding kind_wf_def by (auto simp: distinct_update alist_lookup split: if_splits)

lemma kind_wf_delete: "kind_wf meta al \<Longrightarrow> kind_wf meta (AList.delete k al)"
  unfolding kind_wf_def by (auto simp: distinct_delete alist_lookup split: if_splits)

subsection \<open>Storing a new cell and changing one in place\<close>

definition mem_put :: "string \<Rightarrow> task \<Rightarrow> memory_store \<Rightarrow> memory_store" where
  "mem_put key t s = s\<lparr>mem_heap := (mem_heap s)(mem_next s := t), mem_next := Suc (mem_next s),
     mem_tasks := AList.update key (mem_next s) (mem_tasks s)\<rparr>"

definition mem_poke :: "nat \<Rightarrow> task \<Rightarrow> memory_store \<Rightarrow> memory_store" where
  "mem_poke p t s = s\<lparr>mem_heap := (mem_heap s)(p := t, mem_next s := t),
     mem_next := Suc (mem_next s)\<rparr>"

lemma mem_put_poke_simps [simp]:
  "mem_events (mem_put k t s) = mem_events s" "mem_events (mem_poke p t s) = mem_events s"
  "mem_gateways (mem_put k t s) = mem_gateways s" "mem_gateways (mem_poke p t s) = mem_gateways s"
  "mem_models (mem_put k t s) = mem_models s" "mem_models (mem_poke p t s) = mem_models s"
  "mem_workspaces (mem_put k t s) = mem_workspaces s"
  "mem_workspaces (mem_poke p t s) = mem_workspaces s"
  "mem_next (mem_put k t s) = Suc (mem_next s)" "mem_next (mem_poke p t s) = Suc (mem_next s)"
  "mem_watchers (mem_put k t s) = mem_watchers s" "mem_watchers (mem_poke p t s) = mem_watchers s"
  by (simp_all add: mem_put_def mem_poke_def)

lemma watch_wf_put_poke:
  assumes "watch_wf s"
  shows "watch_wf (mem_put k t s)" and "watch_wf (mem_poke p t s)"
  using assms by (auto intro: watch_wf_cong [where s = s] simp: mem_put_def mem_poke_def)

lemma task_wf_put:
  "task_wf s \<Longrightarrow> task_Metadata t \<noteq> None \<Longrightarrow> keyOf t = k \<Longrightarrow> task_wf (mem_put k t s)"
  unfolding task_wf_def mem_put_def
  by (auto simp: distinct_update alist_lookup less_Suc_eq split: if_splits) (metis less_irrefl)+

lemma task_wf_poke:
  "task_wf s \<Longrightarrow> task_Metadata t \<noteq> None \<Longrightarrow> task_Metadata t = task_Metadata (mem_heap s p) \<Longrightarrow>
   task_wf (mem_poke p t s)"
  unfolding task_wf_def mem_poke_def by (auto simp: less_Suc_eq keyOf_def) (metis less_irrefl)

lemma task_wf_fresh: "task_wf s \<Longrightarrow> map_of (mem_tasks s) k \<noteq> Some (mem_next s)"
  unfolding task_wf_def by (metis less_irrefl)

lemma mem_view_put: "task_wf s \<Longrightarrow> mem_view (mem_put k t s) = (mem_view s)(k \<mapsto> t)"
  unfolding mem_view_def mem_put_def
  by (auto simp: fun_eq_iff alist_lookup map_option_case dest: task_wf_fresh split: option.split)

lemma task_wf_unique:
  "task_wf s \<Longrightarrow> map_of (mem_tasks s) k = Some p \<Longrightarrow> map_of (mem_tasks s) k' = Some p \<Longrightarrow> k = k'"
  unfolding task_wf_def by blast

lemma mem_view_poke:
  "task_wf s \<Longrightarrow> map_of (mem_tasks s) k = Some p \<Longrightarrow> mem_view (mem_poke p t s) = (mem_view s)(k \<mapsto> t)"
  unfolding mem_view_def mem_poke_def
  by (auto simp: fun_eq_iff map_option_case dest: task_wf_fresh task_wf_unique split: option.split)

lemma mem_view_cong:
  "mem_tasks s' = mem_tasks s \<Longrightarrow> mem_heap s' = mem_heap s \<Longrightarrow> mem_view s' = mem_view s"
  by (simp add: mem_view_def [abs_def])

lemma mem_view_delete:
  "mem_view (s\<lparr>mem_tasks := AList.delete k (mem_tasks s)\<rparr>) = (mem_view s)(k := None)"
  by (simp add: mem_view_def fun_eq_iff alist_lookup)

lemma task_wf_delete: "task_wf s \<Longrightarrow> task_wf (s\<lparr>mem_tasks := AList.delete k (mem_tasks s)\<rparr>)"
  unfolding task_wf_def by (auto simp: alist_lookup distinct_delete split: if_splits)

subsection \<open>The operations under the invariant, branch by branch\<close>

lemma mem_normTask_simps [simp]:
  "meta_GetName (task_Metadata (mem_normTask t)) = meta_GetName (task_Metadata t)"
  "meta_GetAtespace (task_Metadata (mem_normTask t)) = orDefault (meta_GetAtespace (task_Metadata t))"
  "task_Spec (mem_normTask t) = task_Spec t"
  "task_Metadata (mem_normTask t) \<noteq> None"
  by (auto simp: mem_normTask_def Let_def emptyMeta_def split: option.split)

lemma mem_taskKey_orDefault [simp]: "mem_taskKey (orDefault a) n = mem_taskKey a n"
  by (simp add: mem_taskKey_def)

lemma keyOf_norm [simp]: "keyOf (mem_normTask t) = keyOf t"
  by (simp add: keyOf_def)

definition reconcileEvent :: "int \<Rightarrow> task \<Rightarrow> taskEvent" where
  "reconcileEvent now t = \<lparr>ev_ID = itoa now, ev_Atespace = orDefault (meta_GetAtespace (task_Metadata t)),
     ev_Name = meta_GetName (task_Metadata t), ev_Action = ''reconcile''\<rparr>"

definition deleteEvent :: "int \<Rightarrow> string \<Rightarrow> string \<Rightarrow> taskEvent" where
  "deleteEvent now a n = \<lparr>ev_ID = itoa now, ev_Atespace = a, ev_Name = n, ev_Action = ''delete''\<rparr>"

lemma mem_SaveTask_eq [step_simps]:
  assumes "watch_wf s" and "meta_GetName (task_Metadata t) \<noteq> []"
  shows "mem_SaveTask now t s = (Ok (mem_normTask t),
     publish (reconcileEvent now t) (announce (keyOf t) (mem_next s) (mem_put (keyOf t) (mem_normTask t) s)))"
proof -
  have "watch_wf (mem_put (keyOf t) (mem_normTask t) s)"
    using assms(1) by (rule watch_wf_put_poke)
  from notify_announce [OF this, of "mem_next s" "keyOf t"] show ?thesis
    using assms(2)
    by (simp add: mem_SaveTask_def Let_def keyOf_def reconcileEvent_def mem_put_def
        update_chans_announce [where s = "mem_put (keyOf t) (mem_normTask t) s", unfolded mem_put_def keyOf_def])
qed

lemma mem_UpdateTaskStatus_eq [step_simps]:
  assumes "watch_wf s" and "map_of (mem_tasks s) (mem_taskKey a n) = Some p"
  shows "mem_UpdateTaskStatus a n st s = (Ok (),
     announce (mem_taskKey a n) (mem_next s) (mem_poke p ((mem_heap s p)\<lparr>task_Status := st\<rparr>) s))"
proof -
  let ?s1 = "mem_poke p ((mem_heap s p)\<lparr>task_Status := st\<rparr>) s"
  have "watch_wf ?s1" using assms(1) by (rule watch_wf_put_poke)
  from notify_announce [OF this, of "mem_next s" "mem_taskKey a n"] show ?thesis
    using assms(2)
    by (simp add: mem_UpdateTaskStatus_def Let_def mem_poke_def
        update_chans_announce [where s = ?s1, unfolded mem_poke_def])
qed

lemma mem_MarkTaskDeleting_eq [step_simps]:
  assumes "watch_wf s" and "map_of (mem_tasks s) (mem_taskKey a n) = Some p"
  shows "mem_MarkTaskDeleting now a n s = (Ok (), publish (deleteEvent now a n)
     (announce (mem_taskKey a n) (mem_next s) (mem_poke p (markedDeleting (mem_heap s p)) s)))"
proof -
  let ?s1 = "mem_poke p (markedDeleting (mem_heap s p)) s"
  have "watch_wf ?s1" using assms(1) by (rule watch_wf_put_poke)
  from notify_announce [OF this, of "mem_next s" "mem_taskKey a n"] show ?thesis
    using assms(2)
    by (simp add: mem_MarkTaskDeleting_def Let_def mem_poke_def deleteEvent_def
        update_chans_announce [where s = ?s1, unfolded mem_poke_def])
qed

lemma mem_missing [step_simps]:
  assumes "map_of (mem_tasks s) (mem_taskKey a n) = None"
  shows "mem_UpdateTaskStatus a n st s = (Err ENotFound, s)"
    and "mem_MarkTaskDeleting now a n s = (Err ENotFound, s)"
  using assms by (simp_all add: mem_UpdateTaskStatus_def mem_MarkTaskDeleting_def)

subsection \<open>Every operation keeps the invariant\<close>

lemma mem_wf_publish [wf_intro]: "mem_wf s \<Longrightarrow> mem_wf (publish ev s)"
  unfolding mem_wf_def
  by (auto simp: mem_events_publish intro: task_wf_cong [where s = s] watch_wf_cong [where s = s])

lemma mem_wf_announce [wf_intro]: "mem_wf s \<Longrightarrow> p < mem_next s \<Longrightarrow> mem_wf (announce k p s)"
  unfolding mem_wf_def by (auto intro: task_wf_cong [where s = s] watch_wf_announce)

lemma mem_wf_put [wf_intro]:
  "mem_wf s \<Longrightarrow> task_Metadata t \<noteq> None \<Longrightarrow> keyOf t = k \<Longrightarrow> mem_wf (mem_put k t s)"
  unfolding mem_wf_def by (auto intro: task_wf_put watch_wf_put_poke)

lemma mem_wf_poke [wf_intro]:
  "mem_wf s \<Longrightarrow> task_Metadata t \<noteq> None \<Longrightarrow> task_Metadata t = task_Metadata (mem_heap s p) \<Longrightarrow>
   mem_wf (mem_poke p t s)"
  unfolding mem_wf_def by (auto intro: task_wf_poke watch_wf_put_poke)

lemma mem_wfD: "mem_wf s \<Longrightarrow> task_wf s" "mem_wf s \<Longrightarrow> watch_wf s"
  by (simp_all add: mem_wf_def)

lemma mem_wf_NewStore [wf_intro]: "mem_wf mem_NewStore"
  by (simp add: mem_wf_def task_wf_def watch_wf_def kind_wf_def mem_NewStore_def)

lemma mem_wf_SaveTask [wf_intro]: "mem_wf s \<Longrightarrow> mem_wf (snd (mem_SaveTask now t s))"
proof (cases "meta_GetName (task_Metadata t) = []")
  case True
  then show "mem_wf s \<Longrightarrow> ?thesis" by (simp add: mem_SaveTask_def)
next
  case False
  then show "mem_wf s \<Longrightarrow> ?thesis"
    by (simp add: mem_SaveTask_eq mem_wfD wf_intro)
qed

lemma stored_metadata:
  "mem_wf s \<Longrightarrow> map_of (mem_tasks s) k = Some p \<Longrightarrow> task_Metadata (mem_heap s p) \<noteq> None"
  by (simp add: mem_wf_def task_wf_def)

lemma mem_wf_UpdateTaskStatus [wf_intro]: "mem_wf s \<Longrightarrow> mem_wf (snd (mem_UpdateTaskStatus a n st s))"
  by (cases "map_of (mem_tasks s) (mem_taskKey a n)")
    (auto simp: step_simps mem_wfD intro!: wf_intro dest: stored_metadata)

lemma markedDeleting_simps [simp]:
  "task_Metadata (markedDeleting t) = task_Metadata t" "task_Spec (markedDeleting t) = task_Spec t"
  by (simp_all add: markedDeleting_def)

lemma mem_wf_MarkTaskDeleting [wf_intro]: "mem_wf s \<Longrightarrow> mem_wf (snd (mem_MarkTaskDeleting now a n s))"
  by (cases "map_of (mem_tasks s) (mem_taskKey a n)")
    (auto simp: step_simps mem_wfD intro!: wf_intro dest: stored_metadata)

lemma mem_wf_DeleteTask [wf_intro]: "mem_wf s \<Longrightarrow> mem_wf (snd (mem_DeleteTask a n s))"
  unfolding mem_wf_def mem_DeleteTask_def
  by (auto intro: task_wf_delete watch_wf_cong [where s = s])

lemma mem_wf_kinds:
  assumes "mem_wf s"
  shows "kind_wf gw_Metadata gs \<Longrightarrow> mem_wf (s\<lparr>mem_gateways := gs\<rparr>)"
    and "kind_wf model_Metadata ms \<Longrightarrow> mem_wf (s\<lparr>mem_models := ms\<rparr>)"
    and "kind_wf wsp_Metadata ws \<Longrightarrow> mem_wf (s\<lparr>mem_workspaces := ws\<rparr>)"
    and "length evs \<le> eventCap \<Longrightarrow> mem_wf (s\<lparr>mem_events := evs\<rparr>)"
  using assms unfolding mem_wf_def
  by (auto intro: task_wf_cong [where s = s] watch_wf_cong [where s = s])

lemma mem_kind_wfD:
  assumes "mem_wf s"
  shows "kind_wf gw_Metadata (mem_gateways s)" "kind_wf model_Metadata (mem_models s)"
    "kind_wf wsp_Metadata (mem_workspaces s)"
  using assms by (simp_all add: mem_wf_def)

lemma mem_wf_saves [wf_intro]:
  assumes "mem_wf s"
  shows "mem_wf (snd (mem_SaveGateway now gw s))" "mem_wf (snd (mem_SaveModel now md s))"
    "mem_wf (snd (mem_SaveWorkspace now w s))"
  using assms mem_kind_wfD [OF assms]
  by (auto simp: mem_SaveGateway_def mem_SaveModel_def mem_SaveWorkspace_def Let_def
      intro!: mem_wf_kinds kind_wf_update split: option.split)

lemma mem_wf_deletes [wf_intro]:
  assumes "mem_wf s"
  shows "mem_wf (snd (mem_DeleteGateway a n s))" "mem_wf (snd (mem_DeleteModel a n s))"
    "mem_wf (snd (mem_DeleteWorkspace a n s))"
  using assms mem_kind_wfD [OF assms]
  by (auto simp: mem_DeleteGateway_def mem_DeleteModel_def mem_DeleteWorkspace_def
      intro!: mem_wf_kinds kind_wf_delete)

lemma mem_wf_Next: "mem_wf s \<Longrightarrow> mem_Next done pick s = Some (r, s') \<Longrightarrow> mem_wf s'"
  by (auto simp: mem_Next_def mem_wf_def intro!: mem_wf_kinds split: list.splits option.splits if_splits)
    (auto intro: task_wf_cong [where s = s] watch_wf_cong [where s = s])

lemma mem_wf_WatchTask [wf_intro]: "mem_wf s \<Longrightarrow> mem_wf (snd (mem_WatchTask a n s))"
  unfolding mem_wf_def mem_WatchTask_def Let_def
  by (auto intro: task_wf_cong [where s = s] simp: watch_wf_def less_Suc_eq)

lemma mem_wf_closeWatch [wf_intro]: "mem_wf s \<Longrightarrow> mem_wf (mem_closeWatch a n ch s)"
proof (cases "ch \<in> set (watchersOf s (mem_taskKey a n))")
  case True
  assume wf: "mem_wf s"
  then have "watch_wf (mem_closeWatch a n ch s)"
    using True unfolding mem_wf_def watch_wf_def mem_closeWatch_def Let_def
    by (auto simp: distinct_remove1 set_remove1_eq)
  with wf True show ?thesis
    by (auto simp: mem_wf_def mem_closeWatch_def Let_def intro: task_wf_cong [where s = s])
qed (simp add: mem_closeWatch_def)

lemma watch_wf_buf:
  assumes "watch_wf s" and "ch_buf (mem_chans s ch) = p # ps"
  shows "watch_wf (s\<lparr>mem_chans := (mem_chans s)(ch := (mem_chans s ch)\<lparr>ch_buf := ps\<rparr>)\<rparr>)"
proof -
  have "length (ch_buf (mem_chans s ch)) \<le> watchCap"
    and "\<forall>q \<in> set (ch_buf (mem_chans s ch)). q < mem_next s"
    using assms(1) unfolding watch_wf_def by blast+
  with assms show ?thesis unfolding watch_wf_def by auto
qed

lemma mem_wf_recv: "mem_wf s \<Longrightarrow> mem_recv ch s = Some (t, s') \<Longrightarrow> mem_wf s'"
  unfolding mem_recv_def mem_wf_def
  by (auto split: list.splits intro: task_wf_cong [where s = s] watch_wf_buf)

section \<open>The contract\<close>

definition mem_normGateway :: "gateway \<Rightarrow> gateway" where
  "mem_normGateway g = g\<lparr>gw_Metadata :=
     Some (defaultAtespace (case gw_Metadata g of None \<Rightarrow> emptyMeta | Some m \<Rightarrow> m))\<rparr>"

definition mem_normModel :: "model \<Rightarrow> model" where
  "mem_normModel g = g\<lparr>model_Metadata :=
     Some (defaultAtespace (case model_Metadata g of None \<Rightarrow> emptyMeta | Some m \<Rightarrow> m))\<rparr>"

definition mem_normWorkspace :: "workspace \<Rightarrow> workspace" where
  "mem_normWorkspace g = g\<lparr>wsp_Metadata :=
     Some (defaultAtespace (case wsp_Metadata g of None \<Rightarrow> emptyMeta | Some m \<Rightarrow> m))\<rparr>"

lemma mem_view_frame [simp]:
  "mem_view (publish ev s) = mem_view s" "mem_view (announce k p s) = mem_view s"
  by (rule mem_view_cong; simp)+

lemma mem_SaveTask_view:
  "mem_wf s \<Longrightarrow> meta_GetName (task_Metadata t) \<noteq> [] \<Longrightarrow>
     mem_view (snd (mem_SaveTask now t s)) = (mem_view s)(keyOf t \<mapsto> mem_normTask t)"
  by (simp add: mem_SaveTask_eq mem_wfD mem_view_put)

lemma mem_normTask_created [simp]:
  "GetCreationTimestamp (task_Metadata (mem_normTask t)) = GetCreationTimestamp (task_Metadata t)"
  by (auto simp: mem_normTask_def Let_def emptyMeta_def split: option.split)

interpretation mt: resource_kind task_Metadata mem_normTask mem_taskKey mem_view
  mem_SaveTask mem_GetTask mem_DeleteTask mem_wf "\<lambda>_. True"
proof (unfold_locales, goal_cases)
  case (4 s r now) then show ?case by (simp add: mem_SaveTask_eq mem_wfD)
next
  case (5 s r now) then show ?case by (simp add: mem_SaveTask_view keyOf_def)
next
  case (6 s r now) then show ?case by (simp add: mem_SaveTask_def)
next
  case (8 s a n) then show ?case
    by (simp add: mem_GetTask_def mem_view_def found_def split: option.split)
next
  case (10 s a n) then show ?case by (simp add: mem_DeleteTask_def mem_view_delete)
qed (simp_all add: wf_intro mem_normTask_created, simp_all add: mem_DeleteTask_def)

interpretation mg: resource_kind gw_Metadata mem_normGateway mem_taskKey "\<lambda>s. map_of (mem_gateways s)"
  mem_SaveGateway mem_GetGateway mem_DeleteGateway mem_wf "\<lambda>_. True"
proof (unfold_locales, goal_cases)
  case (4 s r now) then show ?case
    by (cases "gw_Metadata r") (simp_all add: mem_SaveGateway_def mem_normGateway_def Let_def)
next
  case (5 s r now) then show ?case
    by (cases "gw_Metadata r")
      (simp_all add: mem_SaveGateway_def mem_normGateway_def Let_def update_conv')
next
  case (7 s r now) then show ?case by (simp add: mem_wf_saves)
next
  case (8 s a n) then show ?case by (simp add: mem_GetGateway_def found_def)
next
  case (11 s a n) then show ?case by (rule mem_wf_deletes)
qed (auto simp: mem_normGateway_def mem_SaveGateway_def mem_DeleteGateway_def
    emptyMeta_def update_conv' delete_conv' Let_def split: option.split)

interpretation mm: resource_kind model_Metadata mem_normModel mem_taskKey "\<lambda>s. map_of (mem_models s)"
  mem_SaveModel mem_GetModel mem_DeleteModel mem_wf "\<lambda>_. True"
proof (unfold_locales, goal_cases)
  case (4 s r now) then show ?case
    by (cases "model_Metadata r") (simp_all add: mem_SaveModel_def mem_normModel_def Let_def)
next
  case (5 s r now) then show ?case
    by (cases "model_Metadata r")
      (simp_all add: mem_SaveModel_def mem_normModel_def Let_def update_conv')
next
  case (7 s r now) then show ?case by (simp add: mem_wf_saves)
next
  case (8 s a n) then show ?case by (simp add: mem_GetModel_def found_def)
next
  case (11 s a n) then show ?case by (rule mem_wf_deletes)
qed (auto simp: mem_normModel_def mem_SaveModel_def mem_DeleteModel_def
    emptyMeta_def update_conv' delete_conv' Let_def split: option.split)

interpretation mw: resource_kind wsp_Metadata mem_normWorkspace mem_taskKey "\<lambda>s. map_of (mem_workspaces s)"
  mem_SaveWorkspace mem_GetWorkspace mem_DeleteWorkspace mem_wf "\<lambda>_. True"
proof (unfold_locales, goal_cases)
  case (4 s r now) then show ?case
    by (cases "wsp_Metadata r") (simp_all add: mem_SaveWorkspace_def mem_normWorkspace_def Let_def)
next
  case (5 s r now) then show ?case
    by (cases "wsp_Metadata r")
      (simp_all add: mem_SaveWorkspace_def mem_normWorkspace_def Let_def update_conv')
next
  case (7 s r now) then show ?case by (simp add: mem_wf_saves)
next
  case (8 s a n) then show ?case by (simp add: mem_GetWorkspace_def found_def)
next
  case (11 s a n) then show ?case by (rule mem_wf_deletes)
qed (auto simp: mem_normWorkspace_def mem_SaveWorkspace_def mem_DeleteWorkspace_def
    emptyMeta_def update_conv' delete_conv' Let_def split: option.split)

lemma mem_poke_view:
  assumes "mem_wf s" and "map_of (mem_tasks s) k = Some p"
  shows "mem_view (announce k q (mem_poke p t s)) = (mem_view s)(k \<mapsto> t)"
  using assms by (simp add: mem_view_poke mem_wfD)

lemma mem_view_SomeE:
  assumes "mem_view s k = Some t"
  obtains p where "map_of (mem_tasks s) k = Some p" "t = mem_heap s p"
  using assms by (auto simp: mem_view_def)

lemma mem_view_None: "mem_view s k = None \<longleftrightarrow> map_of (mem_tasks s) k = None"
  by (simp add: mem_view_def)

lemmas mem_ops = mem_UpdateTaskStatus_eq mem_MarkTaskDeleting_eq mem_wfD mem_view_poke

interpretation ms: ax_store mem_store mem_wf mem_normTask mem_taskKey mem_view "\<lambda>_. True"
  mem_normGateway mem_taskKey "\<lambda>s. map_of (mem_gateways s)" "\<lambda>_. True"
  mem_normWorkspace mem_taskKey "\<lambda>s. map_of (mem_workspaces s)" "\<lambda>_. True"
  mem_normModel mem_taskKey "\<lambda>s. map_of (mem_models s)" "\<lambda>_. True"
proof (rule ax_store.intro, goal_cases)
  case 5
  show ?case
  proof (unfold_locales, goal_cases)
    case (2 s k t) then show ?case by (auto elim!: mem_view_SomeE simp: mem_wf_def task_wf_def keyOf_def)
  next
    case (3 s a n st) then show ?case by (simp add: mem_store_def mem_missing mem_view_None)
  next
    case (4 s a n t st)
    then show ?case using mem_wf_UpdateTaskStatus [of s a n st]
      by (auto elim!: mem_view_SomeE simp: mem_store_def mem_ops)
  next
    case (5 s a n now) then show ?case by (simp add: mem_store_def mem_missing mem_view_None)
  next
    case (6 s a n t now)
    then show ?case using mem_wf_MarkTaskDeleting [of s now a n]
      by (auto elim!: mem_view_SomeE simp: mem_store_def mem_ops)
  qed (simp_all add: mem_store_def wf_intro)
qed (simp_all add: mem_store_def mt.resource_kind_axioms mg.resource_kind_axioms
    mm.resource_kind_axioms mw.resource_kind_axioms)

lemma mem_UpdateTaskStatus_events [simp]: "mem_events (snd (mem_UpdateTaskStatus a n st s)) = mem_events s"
  by (simp add: mem_UpdateTaskStatus_def Let_def split: option.split)

interpretation mq: queued_store mem_store mem_wf mem_normTask mem_taskKey mem_view "\<lambda>_. True"
  mem_normGateway mem_taskKey "\<lambda>s. map_of (mem_gateways s)" "\<lambda>_. True"
  mem_normWorkspace mem_taskKey "\<lambda>s. map_of (mem_workspaces s)" "\<lambda>_. True"
  mem_normModel mem_taskKey "\<lambda>s. map_of (mem_models s)" "\<lambda>_. True" mem_queue mem_events
proof (unfold_locales, goal_cases)
  case (3 s ev evs)
  then have "mem_wf (s\<lparr>mem_events := evs\<rparr>)"
    by (intro mem_wf_kinds) (auto simp: mem_wf_def)
  with 3 show ?case by (simp add: mem_queue_def mem_Next_def)
next
  case (5 s r s')
  then show ?case
    by (auto simp: mem_queue_def mem_Next_def mem_view_def [abs_def] split: list.splits)
qed (simp_all add: mem_queue_def mem_Next_def mem_Ack_def mem_store_def mem_DeleteTask_def)

section \<open>Reachable stores\<close>

text \<open>
  One step of the store: a call of any of its mutating operations, with any arguments, a
  subscription's \<open>Next\<close>, a watch opened or closed, or a watcher receiving. Every interleaving
  of clients is a sequence of such steps, because each holds the mutex.
\<close>

inductive mem_step :: "memory_store \<Rightarrow> memory_store \<Rightarrow> bool" where
  saveTask: "mem_step s (snd (mem_SaveTask now t s))"
| updateTaskStatus: "mem_step s (snd (mem_UpdateTaskStatus a n st s))"
| markTaskDeleting: "mem_step s (snd (mem_MarkTaskDeleting now a n s))"
| deleteTask: "mem_step s (snd (mem_DeleteTask a n s))"
| saveGateway: "mem_step s (snd (mem_SaveGateway now g s))"
| deleteGateway: "mem_step s (snd (mem_DeleteGateway a n s))"
| saveModel: "mem_step s (snd (mem_SaveModel now m s))"
| deleteModel: "mem_step s (snd (mem_DeleteModel a n s))"
| saveWorkspace: "mem_step s (snd (mem_SaveWorkspace now w s))"
| deleteWorkspace: "mem_step s (snd (mem_DeleteWorkspace a n s))"
| takeEvent: "mem_Next done pick s = Some (r, s') \<Longrightarrow> mem_step s s'"
| watchTask: "mem_step s (snd (mem_WatchTask a n s))"
| closeWatch: "mem_step s (mem_closeWatch a n ch s)"
| receive: "mem_recv ch s = Some (t, s') \<Longrightarrow> mem_step s s'"

inductive mem_reachable :: "memory_store \<Rightarrow> bool" where
  new: "mem_reachable mem_NewStore"
| step: "mem_reachable s \<Longrightarrow> mem_step s s' \<Longrightarrow> mem_reachable s'"

lemma mem_step_wf: "mem_step s s' \<Longrightarrow> mem_wf s \<Longrightarrow> mem_wf s'"
  by (induction rule: mem_step.induct) (auto intro: wf_intro mem_wf_Next mem_wf_recv)

lemma mem_reachable_wf: "mem_reachable s \<Longrightarrow> mem_wf s"
  by (induction rule: mem_reachable.induct) (auto intro: wf_intro mem_step_wf)

section \<open>Listing\<close>

definition matches :: "('r \<Rightarrow> objectMeta option) \<Rightarrow> string \<Rightarrow> 'r \<Rightarrow> bool" where
  "matches meta a r \<longleftrightarrow> a = [] \<or> a = ''*'' \<or> meta_GetAtespace (meta r) = a"

lemma collect_filter:
  "\<forall>r \<in> set rs. meta r \<noteq> None \<Longrightarrow> collect meta a rs = Some (filter (matches meta a) rs)"
  by (induction rs) (auto simp: matches_def)

lemma mem_page_all: "mem_page 0 0 ts = Ok ts"
  by (simp add: mem_page_def Let_def)

lemma mem_page_window:
  assumes "0 < limit" and "0 \<le> offset" and "offset + limit < 2 ^ 63"
  shows "mem_page limit offset ts = Ok (take (nat limit) (drop (nat offset) ts))"
proof -
  have w: "wrap64 (offset + limit) = offset + limit"
    using assms by (intro wrap64_id) (auto simp: int64_def)
  then show ?thesis
    using assms by (auto simp: mem_page_def Let_def nat_add_distrib)
qed

lemma mem_page_overflow:
  assumes "0 < offset" and "offset < int (length ts)" and "limit < 2 ^ 63" and "2 ^ 63 \<le> offset + limit"
    and "offset < 2 ^ 63"
  shows "mem_page limit offset ts = Panic"
proof -
  have "wrap64 (offset + limit) = offset + limit - 2 ^ 64"
  proof -
    have "offset + limit + 2 ^ 63 = (offset + limit - 2 ^ 63) + 2 ^ 64" by simp
    then have "(offset + limit + 2 ^ 63) mod 2 ^ 64 = (offset + limit - 2 ^ 63) mod 2 ^ 64"
      by (metis mod_add_self2)
    with assms show ?thesis by (simp add: wrap64_def)
  qed
  with assms show ?thesis by (simp add: mem_page_def Let_def)
qed

lemma mem_page_no_panic:
  assumes "0 \<le> offset" and "offset + limit < 2 ^ 63"
  shows "mem_page limit offset ts \<noteq> Panic"
proof (cases "0 < limit")
  case True
  then show ?thesis using assms by (simp add: mem_page_window)
qed (use assms in \<open>simp add: mem_page_def Let_def\<close>)

lemma mem_ListTasks_page:
  assumes "mem_wf s" and "\<forall>xs. mset (perm xs) = mset xs"
  shows "mem_ListTasks perm a limit offset s =
    mem_page limit offset (filter (matches task_Metadata a) (map (mem_heap s \<circ> snd) (perm (mem_tasks s))))"
proof -
  have "set (perm (mem_tasks s)) = set (mem_tasks s)" using assms(2) by (metis set_mset_mset)
  then have "\<forall>t \<in> set (map (mem_heap s \<circ> snd) (perm (mem_tasks s))). task_Metadata t \<noteq> None"
    using assms(1) unfolding mem_wf_def task_wf_def by (fastforce simp del: not_None_eq)
  then show ?thesis by (simp add: mem_ListTasks_def collect_filter)
qed

lemma mem_WatchTask_simps:
  "fst (mem_WatchTask a n s) = mem_nextChan s"
  "mem_tasks (snd (mem_WatchTask a n s)) = mem_tasks s"
  "mem_heap (snd (mem_WatchTask a n s)) = mem_heap s"
  "mem_next (snd (mem_WatchTask a n s)) = mem_next s"
  "watchersOf (snd (mem_WatchTask a n s)) k =
     (if k = mem_taskKey a n then watchersOf s k @ [mem_nextChan s] else watchersOf s k)"
  "ch_buf (mem_chans (snd (mem_WatchTask a n s)) (mem_nextChan s)) = []"
  by (simp_all add: mem_WatchTask_def Let_def)

lemma announce_buf:
  assumes "c \<in> set (watchersOf s k)" and "length (ch_buf (mem_chans s c)) < watchCap"
  shows "ch_buf (mem_chans (announce k p s) c) = ch_buf (mem_chans s c) @ [p]"
  using assms by (simp add: announce_def trySend_def)

lemma mem_put_poke_chans [simp]:
  "mem_chans (mem_put k t s) = mem_chans s" "mem_chans (mem_poke p t s) = mem_chans s"
  by (simp_all add: mem_put_def mem_poke_def)

lemma mem_saves_no_panic: "mem_wf s \<Longrightarrow> fst (mem_SaveTask now t s) \<noteq> Panic"
  by (cases "meta_GetName (task_Metadata t) = []")
    (simp add: mem_SaveTask_def, simp add: mem_SaveTask_eq mem_wfD)

lemma mem_marks_no_panic:
  assumes "mem_wf s"
  shows "fst (mem_UpdateTaskStatus a n st s) \<noteq> Panic" "fst (mem_MarkTaskDeleting now a n s) \<noteq> Panic"
  using assms by (cases "map_of (mem_tasks s) (mem_taskKey a n)"; simp add: step_simps mem_wfD)+

section \<open>Properties\<close>

text \<open>C7: the in-memory store's invariant. In every state any sequence of calls can produce, the
  maps have one entry per key, every stored task is its own live object with metadata, a watch
  channel belongs to one key and is open while registered, and no buffer exceeds its capacity.\<close>

theorem mem_invariant: "mem_reachable s \<Longrightarrow> mem_wf s"
  by (rule mem_reachable_wf)

theorem mem_invariant_witness:
  "mem_wf (snd (mem_SaveTask 5 exampleTask (snd (mem_WatchTask [] ''demo'' mem_NewStore))))"
  by (rule mem_invariant, rule mem_reachable.step [OF _ mem_step.saveTask],
      rule mem_reachable.step [OF _ mem_step.watchTask], rule mem_reachable.new)

text \<open>C16: the task interface does not panic in a reachable store: no watcher is ever sent to on a
  closed channel and no stored task lacks its metadata, whatever the arguments of a save, a get, an
  update, a mark or a delete are; a listing does not panic either, provided its offset is not
  negative and \<open>offset + limit\<close> is an \<open>int64\<close>.\<close>

theorem mem_task_calls_no_panic:
  assumes "mem_reachable s"
  shows "fst (mem_SaveTask now t s) \<noteq> Panic \<and> mem_GetTask a n s \<noteq> Panic \<and>
    fst (mem_UpdateTaskStatus a n st s) \<noteq> Panic \<and> fst (mem_MarkTaskDeleting now a n s) \<noteq> Panic \<and>
    fst (mem_DeleteTask a n s) \<noteq> Panic \<and>
    ((\<forall>xs. mset (perm xs) = mset xs) \<and> 0 \<le> offset \<and> offset + limit < 2 ^ 63 \<longrightarrow>
       mem_ListTasks perm a limit offset s \<noteq> Panic)"
proof -
  have wf: "mem_wf s" using assms by (rule mem_reachable_wf)
  have "mem_ListTasks perm a limit offset s \<noteq> Panic"
    if "\<forall>xs. mset (perm xs) = mset xs" "0 \<le> offset" "offset + limit < 2 ^ 63"
    using that by (simp add: mem_ListTasks_page [OF wf] mem_page_no_panic)
  with wf show ?thesis
    by (simp add: mem_saves_no_panic mem_marks_no_panic mt.get_no_panic mt.del_result)
qed

theorem mem_task_calls_no_panic_witness:
  "fst (mem_SaveTask 7 exampleTask mem_NewStore) \<noteq> Panic \<and>
   mem_ListTasks rev [] 3 1 (snd (mem_SaveTask 7 exampleTask mem_NewStore)) \<noteq> Panic"
  using mem_task_calls_no_panic [OF mem_reachable.new, of 7 exampleTask]
    mem_task_calls_no_panic [OF mem_reachable.step [OF mem_reachable.new mem_step.saveTask], where perm = rev and offset = 1 and limit = 3]
  by simp

text \<open>C9: save/get round trip. After a save, a get of the same atespace and name returns the
  saved task with its defaults filled in, and a get under any other key is unaffected.\<close>

theorem mem_save_get:
  assumes "mem_reachable s" and "meta_GetName (task_Metadata t) \<noteq> []"
  shows "mem_GetTask a n (snd (mem_SaveTask now t s)) =
    (if mem_taskKey a n = mem_taskKey (meta_GetAtespace (task_Metadata t)) (meta_GetName (task_Metadata t))
     then Ok (mem_normTask t) else mem_GetTask a n s)"
  using mt.get_view [of s a n] mt.get_view [of "snd (mem_SaveTask now t s)" a n]
    mt.save_view [of s t now] mt.save_wf [of s now t] mem_reachable_wf [OF assms(1)] assms(2)
  by simp

theorem mem_save_get_witness:
  "mem_GetTask [] ''demo'' (snd (mem_SaveTask 3 exampleTask mem_NewStore)) = Ok (mem_normTask exampleTask)"
  using mem_save_get [OF mem_reachable.new, of exampleTask "[]" "''demo''" 3] by simp

text \<open>C20: listing. Go walks a map in a new order every time, so each call has its own. Whatever it is,
  listing without a limit returns exactly the stored tasks of the asked atespace (all of them for
  the empty or wildcard atespace), each once. With a positive limit, an offset that is not negative and
  a sum inside \<open>int64\<close>, the answer is the asked window of an arrangement of the same tasks; two pages
  need not be windows of the same arrangement.\<close>

theorem mem_ListTasks_window:
  assumes "mem_reachable s" and "\<forall>xs. mset (perm xs) = mset xs" and "\<forall>xs. mset (perm' xs) = mset xs"
    and "0 < limit" and "0 \<le> offset" and "offset + limit < 2 ^ 63"
  shows "\<exists>ts ts'. mem_ListTasks perm a 0 0 s = Ok ts \<and>
    mset ts = filter_mset (matches task_Metadata a) (image_mset (\<lambda>(k, p). mem_heap s p) (mset (mem_tasks s))) \<and>
    mem_ListTasks perm' a limit offset s = Ok (take (nat limit) (drop (nat offset) ts')) \<and> mset ts' = mset ts"
proof -
  have stored: "mset (map (mem_heap s \<circ> snd) (pm (mem_tasks s))) =
      image_mset (\<lambda>(k, p). mem_heap s p) (mset (mem_tasks s))" if "\<forall>xs. mset (pm xs) = mset xs" for pm
    using that by (simp add: case_prod_beta' comp_def)
  note page = mem_ListTasks_page [OF mem_reachable_wf [OF assms(1)], of _ a]
  let ?list = "\<lambda>pm. filter (matches task_Metadata a) (map (mem_heap s \<circ> snd) (pm (mem_tasks s)))"
  show ?thesis
    using assms(4-6)
    by (intro exI [of _ "?list perm"] exI [of _ "?list perm'"])
      (simp add: page [OF assms(2)] page [OF assms(3)] mem_page_all mem_page_window
        stored [OF assms(2)] stored [OF assms(3)] del: mset_map)
qed

definition twoTasks :: memory_store where
  "twoTasks = snd (mem_SaveTask 4 (exampleTask\<lparr>task_Metadata := Some (emptyMeta\<lparr>meta_Name := ''other''\<rparr>)\<rparr>)
     (snd (mem_SaveTask 3 exampleTask mem_NewStore)))"

lemma twoTasks_reachable: "mem_reachable twoTasks"
  unfolding twoTasks_def by (rule mem_reachable.step [OF mem_reachable.step [OF mem_reachable.new mem_step.saveTask] mem_step.saveTask])

lemma twoTasks_list: "\<exists>ts. mem_ListTasks id [] 0 0 twoTasks = Ok ts \<and> length ts = 2"
  by (simp add: twoTasks_def example_defs mem_ListTasks_def mem_page_def Let_def mem_SaveTask_def mem_normTask_def
    mem_NewStore_def publish_def eventCap_def mem_taskKey_def orDefault_def)

theorem mem_ListTasks_window_witness:
  "\<exists>ts t. mem_ListTasks id [] 0 0 twoTasks = Ok ts \<and> length ts = 2 \<and>
     mem_ListTasks rev [] 5 1 twoTasks = Ok [t] \<and> t \<in> set ts"
proof -
  have "\<forall>xs. mset (id xs) = mset xs" and "\<forall>xs. mset (rev xs) = mset xs" for xs :: "(string \<times> nat) list" by simp_all
  with mem_ListTasks_window [OF twoTasks_reachable, of id rev 5 1 "[]"] obtain ts ts' where
    l: "mem_ListTasks id [] 0 0 twoTasks = Ok ts" "mem_ListTasks rev [] 5 1 twoTasks = Ok (take 5 (drop 1 ts'))" "mset ts' = mset ts"
    by auto
  from l(1) twoTasks_list have "length ts = 2" by auto
  moreover from this l(3) have "length ts' = 2" by (metis size_mset)
  then obtain u t where "ts' = [u, t]" by (auto simp: numeral_2_eq_2 length_Suc_conv)
  ultimately show ?thesis using l mset_eq_setD [OF l(3)] by auto
qed

text \<open>an \<open>int64\<close> overflow in the page computation. In any reachable store with more than
  \<open>offset\<close> matching tasks, a limit so large that \<open>offset + limit\<close> exceeds the largest \<open>int64\<close> makes
  the listing panic on a slice with a negative bound.\<close>

theorem mem_ListTasks_overflow:
  assumes "mem_reachable s" and "\<forall>xs. mset (perm xs) = mset xs"
    and "mem_ListTasks perm a 0 0 s = Ok ts" and "0 < offset" and "offset < int (length ts)"
    and "offset < 2 ^ 63" and "limit < 2 ^ 63" and "2 ^ 63 \<le> offset + limit"
  shows "mem_ListTasks perm a limit offset s = Panic"
proof -
  note page = mem_ListTasks_page [OF mem_reachable_wf [OF assms(1)] assms(2), of a]
  from assms(3) have "filter (matches task_Metadata a) (map (mem_heap s \<circ> snd) (perm (mem_tasks s))) = ts"
    by (simp add: page mem_page_all)
  then show ?thesis using assms(4-8) by (simp add: page mem_page_overflow)
qed

theorem mem_ListTasks_overflow_witness:
  "mem_ListTasks id [] (2 ^ 63 - 1) 1 twoTasks = Panic"
  using mem_ListTasks_overflow [OF twoTasks_reachable, of id] twoTasks_list by auto

text \<open>a watcher that asked for a task before it was saved receives the saved object itself,
  not a copy: when the status is updated before it reads, the first thing it receives already
  carries the later status, and so does the second.\<close>

theorem watch_receives_shared_object:
  assumes "mem_reachable s" and "meta_GetName (task_Metadata t) = n" and "n \<noteq> []"
    and "meta_GetAtespace (task_Metadata t) = a"
    and "s1 = snd (mem_WatchTask a n s)" and "s2 = snd (mem_SaveTask now t s1)"
    and "s3 = snd (mem_UpdateTaskStatus a n st s2)"
  shows "\<exists>s4 s5. mem_recv (mem_nextChan s) s3 = Some ((mem_normTask t)\<lparr>task_Status := st\<rparr>, s4) \<and>
     mem_recv (mem_nextChan s) s4 = Some ((mem_normTask t)\<lparr>task_Status := st\<rparr>, s5)"
proof -
  let ?k = "mem_taskKey a n" and ?c = "mem_nextChan s" and ?p = "mem_next s"
  let ?put = "mem_put ?k (mem_normTask t) s1"
  have wf1: "mem_wf s1" and wf2: "mem_wf s2"
    unfolding assms(5,6) by (intro wf_intro mem_reachable_wf assms(1))+
  have n1: "mem_next s1 = ?p" and b1: "ch_buf (mem_chans s1 ?c) = []" and w1: "?c \<in> set (watchersOf s1 ?k)"
    by (simp_all add: assms(5) mem_WatchTask_simps)
  have s2: "s2 = publish (reconcileEvent now t) (announce ?k ?p ?put)"
    using assms(2-4) by (simp add: assms(6) mem_SaveTask_eq mem_wfD wf1 keyOf_def n1)
  have b2: "ch_buf (mem_chans s2 ?c) = [?p]"
    using announce_buf [of ?c ?put ?k ?p] b1 w1 by (simp add: s2 watchCap_def)
  have p2: "map_of (mem_tasks s2) ?k = Some ?p" and h2: "mem_heap s2 ?p = mem_normTask t"
    and n2: "mem_next s2 = Suc ?p" and w2: "?c \<in> set (watchersOf s2 ?k)"
    using w1 by (simp_all add: s2 mem_put_def alist_lookup n1)
  let ?poke = "mem_poke ?p ((mem_normTask t)\<lparr>task_Status := st\<rparr>) s2"
  have s3: "s3 = announce ?k (Suc ?p) ?poke"
    using mem_UpdateTaskStatus_eq [OF mem_wfD(2) [OF wf2] p2, of st] by (simp add: assms(7) h2 n2)
  have "ch_buf (mem_chans s3 ?c) = [?p, Suc ?p]"
    using announce_buf [of ?c ?poke ?k "Suc ?p"] b2 w2 by (simp add: s3 watchCap_def)
  moreover have "mem_heap s3 ?p = (mem_normTask t)\<lparr>task_Status := st\<rparr>"
    "mem_heap s3 (Suc ?p) = (mem_normTask t)\<lparr>task_Status := st\<rparr>"
    by (simp_all add: s3 mem_poke_def n2)
  ultimately show ?thesis by (simp add: mem_recv_def)
qed

theorem watch_receives_shared_object_witness:
  "\<exists>s4. mem_recv 0 (snd (mem_UpdateTaskStatus [] ''demo'' None
      (snd (mem_SaveTask 3 exampleTask (snd (mem_WatchTask [] ''demo'' mem_NewStore)))))) =
    Some ((mem_normTask exampleTask)\<lparr>task_Status := None\<rparr>, s4)"
proof -
  have "mem_nextChan mem_NewStore = 0" by (simp add: mem_NewStore_def)
  with watch_receives_shared_object [OF mem_reachable.new _ _ _ refl refl refl,
      of exampleTask "''demo''" "[]" None 3]
  show ?thesis by auto
qed

text \<open>the event queue holds at most a thousand events and drops the rest: saving a task when
  a thousand events are pending still succeeds and stores it, and no reconcile event is queued.\<close>

theorem mem_full_queue_drops:
  assumes "mem_reachable s" and "length (mem_events s) = eventCap"
    and "meta_GetName (task_Metadata t) \<noteq> []"
  shows "fst (mem_SaveTask now t s) = Ok (mem_normTask t) \<and>
    mem_events (snd (mem_SaveTask now t s)) = mem_events s"
  using assms mem_reachable_wf [OF assms(1)]
  by (simp add: mem_SaveTask_eq mem_wfD mem_events_publish)

fun savedTimes :: "nat \<Rightarrow> memory_store" where
  "savedTimes 0 = mem_NewStore"
| "savedTimes (Suc k) = snd (mem_SaveTask 3 exampleTask (savedTimes k))"

lemma savedTimes_reachable: "mem_reachable (savedTimes k)"
  by (induction k) (auto intro: mem_reachable.intros mem_step.saveTask)

lemma savedTimes_events: "length (mem_events (savedTimes k)) = min k eventCap"
proof (induction k)
  case (Suc k)
  with mem_reachable_wf [OF savedTimes_reachable, of k] show ?case
    by (simp add: mem_SaveTask_eq mem_wfD mem_events_publish)
qed (simp add: mem_NewStore_def)

theorem mem_full_queue_drops_witness:
  "length (mem_events (savedTimes 1000)) = 1000 \<and>
   mem_events (snd (mem_SaveTask 9 exampleTask (savedTimes 1000))) = mem_events (savedTimes 1000)"
  using mem_full_queue_drops [OF savedTimes_reachable, of 1000 exampleTask 9]
  by (simp add: savedTimes_events eventCap_def)
end
