(* ===== verification/Api_Server.thy ===== *)
theory Api_Server
  imports Memory_Store
begin

text \<open>
  \<open>internal/server/server.go\<close>: the gRPC handlers, over any store \<open>ops\<close> (a \<open>'s store\<close> record). A
  request that can be nil is an option. A handler returns its response or a gRPC status error,
  and the store state when it changes it; a panic of the store is passed on. The four kinds
  share the shape of their handlers, so the shapes are helpers and each handler is one of them
  applied to its store operations. The lemmas are proved once for every store that meets the
  contract \<open>ax_store\<close>.
\<close>

section \<open>Requests\<close>

text \<open>Get, delete, suspend, resume and watch requests all name one resource.\<close>

record nameRequest =
  req_Atespace :: string
  req_Name :: string

record listTasksRequest =
  lt_Atespace :: string
  lt_Limit :: int
  lt_Offset :: int

datatype httpRoute = RouteGRPC | RouteHealthz | RouteNotFound

definition server_Handler :: "nat \<Rightarrow> string \<Rightarrow> string \<Rightarrow> httpRoute" where
  "server_Handler protoMajor contentType path =
     (if protoMajor = 2 \<and> hasPrefix contentType ''application/grpc'' then RouteGRPC
      else if path = ''/healthz'' then RouteHealthz
      else RouteNotFound)"

section \<open>Shapes\<close>

definition missingRequest :: error where
  "missingRequest = EStatus CodeInvalidArgument ''missing request''"

definition notFoundStatus :: "string \<Rightarrow> string \<Rightarrow> string \<Rightarrow> error" where
  "notFoundStatus kind name atespace =
     EStatus CodeNotFound (kind @ '' '' @ quote name @ '' not found in atespace '' @ quote atespace)"

definition internalStatus :: "string \<Rightarrow> error \<Rightarrow> error" where
  "internalStatus what e = EStatus CodeInternal (what @ '': '' @ err_msg e)"

definition srvGet ::
  "string \<Rightarrow> (string \<Rightarrow> string \<Rightarrow> 's \<Rightarrow> 'r go) \<Rightarrow> nameRequest option \<Rightarrow> 's \<Rightarrow> 'r go" where
  "srvGet kind get req s =
     (case req of
        None \<Rightarrow> Err missingRequest
      | Some rq \<Rightarrow>
          (let atespace = (if req_Atespace rq = [] then ''default'' else req_Atespace rq) in
           case get atespace (req_Name rq) s of
             Ok r \<Rightarrow> Ok r
           | Err e \<Rightarrow> if is_not_found e then Err (notFoundStatus kind (req_Name rq) atespace)
                     else Err (internalStatus (''getting '' @ kind) e)
           | Panic \<Rightarrow> Panic))"

definition srvDelete ::
  "string \<Rightarrow> (string \<Rightarrow> string \<Rightarrow> 's \<Rightarrow> unit go \<times> 's) \<Rightarrow> nameRequest option \<Rightarrow> 's \<Rightarrow> unit go \<times> 's" where
  "srvDelete kind del req s =
     (case req of
        None \<Rightarrow> (Err missingRequest, s)
      | Some rq \<Rightarrow>
          (let atespace = (if req_Atespace rq = [] then ''default'' else req_Atespace rq) in
           case del atespace (req_Name rq) s of
             (Ok _, s') \<Rightarrow> (Ok (), s')
           | (Err e, s') \<Rightarrow> (Err (internalStatus (''deleting '' @ kind) e), s')
           | (Panic, s') \<Rightarrow> (Panic, s')))"

definition srvList :: "string \<Rightarrow> (string \<Rightarrow> 's \<Rightarrow> 'r list go) \<Rightarrow> string option \<Rightarrow> 's \<Rightarrow> 'r list go" where
  "srvList kinds list req s =
     (case list (case req of None \<Rightarrow> [] | Some a \<Rightarrow> a) s of
        Ok rs \<Rightarrow> Ok rs
      | Err e \<Rightarrow> Err (internalStatus (''listing '' @ kinds) e)
      | Panic \<Rightarrow> Panic)"

text \<open>
  \<open>defaultMetadata\<close>: \<open>existing\<close> looks up the metadata of the stored resource, \<open>Ok None\<close> when there
  is none or it cannot be read.
\<close>

definition defaultMetadata ::
  "int \<Rightarrow> objectMeta option \<Rightarrow> (string \<Rightarrow> string \<Rightarrow> objectMeta option go) \<Rightarrow> objectMeta go" where
  "defaultMetadata now meta existing =
     (let m0 = (case meta of None \<Rightarrow> emptyMeta | Some m \<Rightarrow> m);
          m1 = (if meta_Atespace m0 = [] then m0\<lparr>meta_Atespace := ''default''\<rparr> else m0)
      in if meta_CreationTimestamp m1 = None
         then (case existing (meta_Atespace m1) (meta_Name m1) of
                 Ok prev \<Rightarrow>
                   (case GetCreationTimestamp prev of
                      Some t \<Rightarrow> Ok (m1\<lparr>meta_CreationTimestamp := Some t\<rparr>)
                    | None \<Rightarrow> Ok (m1\<lparr>meta_CreationTimestamp := Some now\<rparr>))
               | Err e \<Rightarrow> Err e
               | Panic \<Rightarrow> Panic)
         else Ok m1)"

definition existingMeta ::
  "('r \<Rightarrow> objectMeta option) \<Rightarrow> (string \<Rightarrow> string \<Rightarrow> 's \<Rightarrow> 'r go) \<Rightarrow> 's \<Rightarrow> string \<Rightarrow> string \<Rightarrow> objectMeta option go" where
  "existingMeta meta get s atespace name =
     (case get atespace name s of Ok r \<Rightarrow> Ok (meta r) | Err _ \<Rightarrow> Ok None | Panic \<Rightarrow> Panic)"

definition srvUpdate ::
  "string \<Rightarrow> ('r \<Rightarrow> objectMeta option) \<Rightarrow> (objectMeta \<Rightarrow> 'r \<Rightarrow> 'r) \<Rightarrow> (string \<Rightarrow> string \<Rightarrow> 's \<Rightarrow> 'r go) \<Rightarrow>
   (int \<Rightarrow> 'r \<Rightarrow> 's \<Rightarrow> 'r go \<times> 's) \<Rightarrow> int \<Rightarrow> 'r \<Rightarrow> 's \<Rightarrow> 'r go \<times> 's" where
  "srvUpdate kind meta setMeta get save now r s =
     (case defaultMetadata now (meta r) (existingMeta meta get s) of
        Ok m \<Rightarrow>
          (case save now (setMeta m r) s of
             (Ok r', s') \<Rightarrow> (Ok r', s')
           | (Err e, s') \<Rightarrow> (Err (internalStatus (''saving '' @ kind) e), s')
           | (Panic, s') \<Rightarrow> (Panic, s'))
      | Err e \<Rightarrow> (Err e, s)
      | Panic \<Rightarrow> (Panic, s))"

section \<open>Tasks\<close>

definition srv_GetTask :: "'s store \<Rightarrow> nameRequest option \<Rightarrow> 's \<Rightarrow> task go" where
  "srv_GetTask ops req s = srvGet ''task'' (store_GetTask ops) req s"

definition srv_ListTasks :: "'s store \<Rightarrow> listTasksRequest option \<Rightarrow> 's \<Rightarrow> task list go" where
  "srv_ListTasks ops req s =
     (let atespace = (case req of None \<Rightarrow> [] | Some rq \<Rightarrow> lt_Atespace rq);
          limit = (case req of None \<Rightarrow> 50 | Some rq \<Rightarrow> if lt_Limit rq > 0 then lt_Limit rq else 50);
          offset = (case req of None \<Rightarrow> 0 | Some rq \<Rightarrow> if lt_Offset rq \<ge> 0 then lt_Offset rq else 0)
      in case store_ListTasks ops atespace limit offset s of
           Ok ts \<Rightarrow> Ok ts
         | Err e \<Rightarrow> Err (internalStatus ''listing tasks'' e)
         | Panic \<Rightarrow> Panic)"

definition srv_UpdateTask :: "'s store \<Rightarrow> int \<Rightarrow> task option option \<Rightarrow> 's \<Rightarrow> task go \<times> 's" where
  "srv_UpdateTask ops now req s =
     (case req of
        Some (Some task) \<Rightarrow>
          (case ValidateTask task of
             Some e \<Rightarrow> (Err (EStatus CodeInvalidArgument (err_msg e)), s)
           | None \<Rightarrow>
               srvUpdate ''task'' task_Metadata (\<lambda>m t. t\<lparr>task_Metadata := Some m\<rparr>)
                 (store_GetTask ops) (store_SaveTask ops) now task s)
      | _ \<Rightarrow> (Err (EStatus CodeInvalidArgument ''task required''), s))"

definition srv_DeleteTask :: "'s store \<Rightarrow> int \<Rightarrow> nameRequest option \<Rightarrow> 's \<Rightarrow> unit go \<times> 's" where
  "srv_DeleteTask ops now req s =
     (case req of
        None \<Rightarrow> (Err missingRequest, s)
      | Some rq \<Rightarrow>
          (let atespace = (if req_Atespace rq = [] then ''default'' else req_Atespace rq) in
           case store_MarkTaskDeleting ops now atespace (req_Name rq) s of
             (Ok _, s') \<Rightarrow> (Ok (), s')
           | (Err e, s') \<Rightarrow>
               (Err (if is_not_found e then notFoundStatus ''task'' (req_Name rq) atespace
                     else internalStatus ''deleting task'' e), s')
           | (Panic, s') \<Rightarrow> (Panic, s')))"

definition withSuspend :: "bool \<Rightarrow> task \<Rightarrow> task" where
  "withSuspend b task = task\<lparr>task_Spec :=
     Some ((case task_Spec task of None \<Rightarrow> emptySpec | Some sp \<Rightarrow> sp)\<lparr>ts_Suspend := b\<rparr>)\<rparr>"

definition srvSetSuspend ::
  "bool \<Rightarrow> string \<Rightarrow> 's store \<Rightarrow> int \<Rightarrow> nameRequest option \<Rightarrow> 's \<Rightarrow> task go \<times> 's" where
  "srvSetSuspend b what ops now req s =
     (case srvGet ''task'' (store_GetTask ops) req s of
        Ok task \<Rightarrow>
          (case store_SaveTask ops now (withSuspend b task) s of
             (Ok t', s') \<Rightarrow> (Ok t', s')
           | (Err e, s') \<Rightarrow> (Err (internalStatus what e), s')
           | (Panic, s') \<Rightarrow> (Panic, s'))
      | Err e \<Rightarrow> (Err e, s)
      | Panic \<Rightarrow> (Panic, s))"

definition srv_SuspendTask :: "'s store \<Rightarrow> int \<Rightarrow> nameRequest option \<Rightarrow> 's \<Rightarrow> task go \<times> 's" where
  "srv_SuspendTask ops now req s = srvSetSuspend True ''suspending task'' ops now req s"

definition srv_ResumeTask :: "'s store \<Rightarrow> int \<Rightarrow> nameRequest option \<Rightarrow> 's \<Rightarrow> task go \<times> 's" where
  "srv_ResumeTask ops now req s = srvSetSuspend False ''resuming task'' ops now req s"

subsection \<open>Watching\<close>

text \<open>
  The stream loop, on what the \<open>select\<close> yields: the context's end, the channel closed, or a
  task. \<open>send i\<close> is the error of the \<open>i\<close>th send, if any. The result is the messages sent and the
  return value, None while the loop waits for more.
\<close>

datatype watchInput = CtxDone error | ChanClosed | ChanTask task

definition watchStops :: "task \<Rightarrow> bool" where
  "watchStops task =
     (case task_Status task of None \<Rightarrow> False
      | Some st \<Rightarrow> st_Phase st = ''Running'' \<or> st_Phase st = ''Failed'' \<or> st_Phase st = ''Completed'')"

fun watchLoop ::
  "(nat \<Rightarrow> error option) \<Rightarrow> nat \<Rightarrow> watchInput list \<Rightarrow> (task \<times> string) list \<times> unit go option" where
  "watchLoop send i [] = ([], None)"
| "watchLoop send i (CtxDone e # ins) = ([], Some (Err e))"
| "watchLoop send i (ChanClosed # ins) = ([], Some (Ok ()))"
| "watchLoop send i (ChanTask t # ins) =
     (case send i of
        Some e \<Rightarrow> ([], Some (Err e))
      | None \<Rightarrow>
          if watchStops t then ([(t, ''MODIFIED'')], Some (Ok ()))
          else case watchLoop send (Suc i) ins of (out, r) \<Rightarrow> ((t, ''MODIFIED'') # out, r))"

definition srv_WatchTask ::
  "'s store \<Rightarrow> (string \<Rightarrow> string \<Rightarrow> 's \<Rightarrow> error option) \<Rightarrow> (nat \<Rightarrow> error option) \<Rightarrow> nameRequest option \<Rightarrow>
   watchInput list \<Rightarrow> 's \<Rightarrow> (task \<times> string) list \<times> unit go option" where
  "srv_WatchTask ops watch send req ins s =
     (case req of
        None \<Rightarrow> ([], Some (Err missingRequest))
      | Some rq \<Rightarrow>
          (let atespace = (if req_Atespace rq = [] then ''default'' else req_Atespace rq) in
           case watch atespace (req_Name rq) s of
             Some e \<Rightarrow> ([], Some (Err (internalStatus ''watching task'' e)))
           | None \<Rightarrow>
               (case store_GetTask ops atespace (req_Name rq) s of
                  Ok initial \<Rightarrow>
                    (case send 0 of
                       Some e \<Rightarrow> ([], Some (Err e))
                     | None \<Rightarrow> (case watchLoop send 1 ins of (out, r) \<Rightarrow> ((initial, ''INITIAL'') # out, r)))
                | Err _ \<Rightarrow> watchLoop send 0 ins
                | Panic \<Rightarrow> ([], Some Panic))))"

lemma watchLoop_no_panic: "snd (watchLoop send i ins) \<noteq> Some Panic"
  by (induction send i ins rule: watchLoop.induct) (auto split: option.split prod.split)

section \<open>Gateways, workspaces, models\<close>

definition srv_GetGateway :: "'s store \<Rightarrow> nameRequest option \<Rightarrow> 's \<Rightarrow> gateway go" where
  "srv_GetGateway ops req s = srvGet ''gateway'' (store_GetGateway ops) req s"

definition srv_ListGateways :: "'s store \<Rightarrow> string option \<Rightarrow> 's \<Rightarrow> gateway list go" where
  "srv_ListGateways ops req s = srvList ''gateways'' (store_ListGateways ops) req s"

definition srv_UpdateGateway :: "'s store \<Rightarrow> int \<Rightarrow> gateway option option \<Rightarrow> 's \<Rightarrow> gateway go \<times> 's" where
  "srv_UpdateGateway ops now req s =
     (case req of
        Some (Some gw) \<Rightarrow>
          srvUpdate ''gateway'' gw_Metadata (\<lambda>m g. g\<lparr>gw_Metadata := Some m\<rparr>)
            (store_GetGateway ops) (store_SaveGateway ops) now gw s
      | _ \<Rightarrow> (Err (EStatus CodeInvalidArgument ''gateway required''), s))"

definition srv_DeleteGateway :: "'s store \<Rightarrow> nameRequest option \<Rightarrow> 's \<Rightarrow> unit go \<times> 's" where
  "srv_DeleteGateway ops req s = srvDelete ''gateway'' (store_DeleteGateway ops) req s"

definition srv_GetWorkspace :: "'s store \<Rightarrow> nameRequest option \<Rightarrow> 's \<Rightarrow> workspace go" where
  "srv_GetWorkspace ops req s = srvGet ''workspace'' (store_GetWorkspace ops) req s"

definition srv_ListWorkspaces :: "'s store \<Rightarrow> string option \<Rightarrow> 's \<Rightarrow> workspace list go" where
  "srv_ListWorkspaces ops req s = srvList ''workspaces'' (store_ListWorkspaces ops) req s"

definition srv_UpdateWorkspace :: "'s store \<Rightarrow> int \<Rightarrow> workspace option option \<Rightarrow> 's \<Rightarrow> workspace go \<times> 's" where
  "srv_UpdateWorkspace ops now req s =
     (case req of
        Some (Some ws) \<Rightarrow>
          srvUpdate ''workspace'' wsp_Metadata (\<lambda>m w. w\<lparr>wsp_Metadata := Some m\<rparr>)
            (store_GetWorkspace ops) (store_SaveWorkspace ops) now ws s
      | _ \<Rightarrow> (Err (EStatus CodeInvalidArgument ''workspace required''), s))"

definition srv_DeleteWorkspace :: "'s store \<Rightarrow> nameRequest option \<Rightarrow> 's \<Rightarrow> unit go \<times> 's" where
  "srv_DeleteWorkspace ops req s = srvDelete ''workspace'' (store_DeleteWorkspace ops) req s"

definition srv_GetModel :: "'s store \<Rightarrow> nameRequest option \<Rightarrow> 's \<Rightarrow> model go" where
  "srv_GetModel ops req s = srvGet ''model'' (store_GetModel ops) req s"

definition srv_ListModels :: "'s store \<Rightarrow> string option \<Rightarrow> 's \<Rightarrow> model list go" where
  "srv_ListModels ops req s = srvList ''models'' (store_ListModels ops) req s"

definition srv_UpdateModel :: "'s store \<Rightarrow> int \<Rightarrow> model option option \<Rightarrow> 's \<Rightarrow> model go \<times> 's" where
  "srv_UpdateModel ops now req s =
     (case req of
        Some (Some md) \<Rightarrow>
          srvUpdate ''model'' model_Metadata (\<lambda>m d. d\<lparr>model_Metadata := Some m\<rparr>)
            (store_GetModel ops) (store_SaveModel ops) now md s
      | _ \<Rightarrow> (Err (EStatus CodeInvalidArgument ''model required''), s))"

definition srv_DeleteModel :: "'s store \<Rightarrow> nameRequest option \<Rightarrow> 's \<Rightarrow> unit go \<times> 's" where
  "srv_DeleteModel ops req s = srvDelete ''model'' (store_DeleteModel ops) req s"

section \<open>Handlers over a kind that keeps its contract\<close>

lemma default_atespace: "(if a = [] then ''default'' else a) = orDefault a"
  by (simp add: orDefault_def)

lemma default_meta:
  "(if meta_Atespace m = [] then m\<lparr>meta_Atespace := ''default''\<rparr> else m) = defaultAtespace m"
  by (simp add: defaultAtespace_def orDefault_def)

context resource_kind
begin

text \<open>The creation time an update stores: the client's, else the stored one's, else the clock's.\<close>

definition created :: "int \<Rightarrow> 'r \<Rightarrow> 's \<Rightarrow> int" where
  "created now r s =
     (case GetCreationTimestamp (meta r) of
        Some t \<Rightarrow> t
      | None \<Rightarrow>
          (case view s (key (orDefault (meta_GetAtespace (meta r))) (meta_GetName (meta r))) of
             None \<Rightarrow> now
           | Some old \<Rightarrow> (case GetCreationTimestamp (meta old) of None \<Rightarrow> now | Some t \<Rightarrow> t)))"

definition updatedMeta :: "int \<Rightarrow> 'r \<Rightarrow> 's \<Rightarrow> objectMeta" where
  "updatedMeta now r s = \<lparr>meta_Name = meta_GetName (meta r), meta_Atespace = orDefault (meta_GetAtespace (meta r)),
     meta_CreationTimestamp = Some (created now r s)\<rparr>"

lemma defaultMetadata_eq:
  assumes "wf s"
  shows "defaultMetadata now (meta r) (existingMeta meta get s) = Ok (updatedMeta now r s)"
proof -
  define m where "m = (case meta r of None \<Rightarrow> emptyMeta | Some m \<Rightarrow> m)"
  have f: "meta_GetName (meta r) = meta_Name m" "meta_GetAtespace (meta r) = meta_Atespace m"
    "GetCreationTimestamp (meta r) = meta_CreationTimestamp m"
    by (simp_all add: m_def emptyMeta_def split: option.split)
  have u: "updatedMeta now r s = (defaultAtespace m)\<lparr>meta_CreationTimestamp := Some (created now r s)\<rparr>"
    by (simp add: updatedMeta_def f defaultAtespace_def)
  show ?thesis
    using assms unfolding defaultMetadata_def m_def [symmetric] default_meta Let_def u
    by (cases "meta_CreationTimestamp m")
      (auto simp: existingMeta_def get_view created_def f found_def defaultAtespace_def split: option.split)
qed

lemma srvUpdate_stores:
  assumes "wf s" and "meta_GetName (meta r) \<noteq> []" and "\<And>m. meta (setMeta m r) = Some m"
    and "ok (norm (setMeta (updatedMeta now r s) r))"
  shows "fst (srvUpdate kind meta setMeta get save now r s) = Ok (norm (setMeta (updatedMeta now r s) r))"
    and "get a n (snd (srvUpdate kind meta setMeta get save now r s)) =
      (if key (orDefault a) n = key (orDefault (meta_GetAtespace (meta r))) (meta_GetName (meta r))
       then Ok (norm (setMeta (updatedMeta now r s) r)) else get a n s)"
    and "wf (snd (srvUpdate kind meta setMeta get save now r s))"
proof -
  let ?r = "setMeta (updatedMeta now r s) r"
  have m: "meta ?r = Some (updatedMeta now r s)" by (rule assms(3))
  then have n: "meta_GetName (meta ?r) \<noteq> []" using assms(2) by (simp add: updatedMeta_def)
  have "srvUpdate kind meta setMeta get save now r s = (Ok (norm ?r), snd (save now ?r s))"
    using save_result [OF assms(1) n assms(4), of now] defaultMetadata_eq [OF assms(1)]
    by (cases "save now ?r s") (simp add: srvUpdate_def)
  then show "fst (srvUpdate kind meta setMeta get save now r s) = Ok (norm ?r)"
    and "get a n (snd (srvUpdate kind meta setMeta get save now r s)) =
      (if key (orDefault a) n = key (orDefault (meta_GetAtespace (meta r))) (meta_GetName (meta r))
       then Ok (norm ?r) else get a n s)"
    and "wf (snd (srvUpdate kind meta setMeta get save now r s))"
    using assms(1,4) n m by (simp_all add: get_view save_wf save_view updatedMeta_def)
qed

lemma srvUpdate_no_panic:
  assumes "wf s" and "\<And>m. meta (setMeta m r) = Some m" and "ok (norm (setMeta (updatedMeta now r s) r))"
  shows "fst (srvUpdate kind meta setMeta get save now r s) \<noteq> Panic"
proof (cases "meta_GetName (meta r) = []")
  case True
  let ?r = "setMeta (updatedMeta now r s) r"
  have m: "meta ?r = Some (updatedMeta now r s)" by (rule assms(2))
  then have "meta_GetName (meta ?r) = []" using True by (simp add: updatedMeta_def)
  with m save_noname [OF assms(1), of ?r now] obtain e where "save now ?r s = (Err e, s)"
    by (cases "save now ?r s") auto
  then show ?thesis by (simp add: srvUpdate_def defaultMetadata_eq assms(1))
qed (simp add: srvUpdate_stores assms)

lemma srvGet_view:
  assumes "wf s"
  shows "srvGet kind get (Some rq) s =
    (case view s (key (orDefault (req_Atespace rq)) (req_Name rq)) of
       Some r \<Rightarrow> Ok r
     | None \<Rightarrow> Err (notFoundStatus kind (req_Name rq) (orDefault (req_Atespace rq))))"
  using assms by (simp add: srvGet_def default_atespace get_view found_def Let_def split: option.split)

lemma srvGet_get: "get (orDefault a) n s = Ok r \<Longrightarrow> srvGet kind get (Some \<lparr>req_Atespace = a, req_Name = n\<rparr>) s = Ok r"
  by (cases "a = []") (simp_all add: srvGet_def orDefault_def)

lemma created_get:
  assumes "wf s" and "orDefault (meta_GetAtespace (meta r)) = orDefault a"
  shows "created now r s =
    (case GetCreationTimestamp (meta r) of Some t \<Rightarrow> t
     | None \<Rightarrow> (case get a (meta_GetName (meta r)) s of
          Ok old \<Rightarrow> (case GetCreationTimestamp (meta old) of Some t \<Rightarrow> t | None \<Rightarrow> now)
        | _ \<Rightarrow> now))"
  using assms by (auto simp: created_def get_view found_def split: option.split)

lemma srvGet_no_panic: "wf s \<Longrightarrow> srvGet kind get req s \<noteq> Panic"
  by (cases req) (simp add: srvGet_def, simp add: srvGet_view split: option.split)

lemma srvDelete_removes:
  assumes "wf s"
  shows "fst (srvDelete kind del (Some rq) s) = Ok ()"
    and "get a n (snd (srvDelete kind del (Some rq) s)) =
      (if key (orDefault a) n = key (orDefault (req_Atespace rq)) (req_Name rq) then Err ENotFound else get a n s)"
    and "wf (snd (srvDelete kind del (Some rq) s))"
proof -
  have "srvDelete kind del (Some rq) s = (Ok (), snd (del (orDefault (req_Atespace rq)) (req_Name rq) s))"
    using del_result [OF assms, of "orDefault (req_Atespace rq)" "req_Name rq"]
    by (cases "del (orDefault (req_Atespace rq)) (req_Name rq) s") (simp add: srvDelete_def default_atespace Let_def)
  then show "fst (srvDelete kind del (Some rq) s) = Ok ()"
    and "get a n (snd (srvDelete kind del (Some rq) s)) =
      (if key (orDefault a) n = key (orDefault (req_Atespace rq)) (req_Name rq) then Err ENotFound else get a n s)"
    and "wf (snd (srvDelete kind del (Some rq) s))"
    using assms by (simp_all add: get_view del_wf del_view)
qed

lemma srvDelete_no_panic: "wf s \<Longrightarrow> fst (srvDelete kind del req s) \<noteq> Panic"
  by (cases req) (simp add: srvDelete_def, simp add: srvDelete_removes)

end

section \<open>The handlers on the in-memory store\<close>

lemma mem_store_ops [simp]:
  "store_SaveTask mem_store = mem_SaveTask" "store_GetTask mem_store = mem_GetTask"
  "store_ListTasks mem_store = mem_ListTasks id" "store_UpdateTaskStatus mem_store = mem_UpdateTaskStatus"
  "store_MarkTaskDeleting mem_store = mem_MarkTaskDeleting" "store_DeleteTask mem_store = mem_DeleteTask"
  "store_SaveGateway mem_store = mem_SaveGateway" "store_GetGateway mem_store = mem_GetGateway"
  "store_DeleteGateway mem_store = mem_DeleteGateway" "store_ListGateways mem_store = mem_ListGateways id"
  "store_SaveModel mem_store = mem_SaveModel" "store_GetModel mem_store = mem_GetModel"
  "store_DeleteModel mem_store = mem_DeleteModel" "store_ListModels mem_store = mem_ListModels id"
  "store_SaveWorkspace mem_store = mem_SaveWorkspace" "store_GetWorkspace mem_store = mem_GetWorkspace"
  "store_DeleteWorkspace mem_store = mem_DeleteWorkspace" "store_ListWorkspaces mem_store = mem_ListWorkspaces id"
  by (simp_all add: mem_store_def)

lemma mem_listing_no_panic:
  assumes "mem_wf s"
  shows "mem_ListGateways id a s \<noteq> Panic" "mem_ListModels id a s \<noteq> Panic" "mem_ListWorkspaces id a s \<noteq> Panic"
proof -
  have "collect meta a (map snd al) \<noteq> None" if "kind_wf meta al" for meta :: "'r \<Rightarrow> objectMeta option" and al
    using that by (subst collect_filter) (fastforce simp: kind_wf_def)+
  from this [OF mem_kind_wfD(1) [OF assms]] this [OF mem_kind_wfD(2) [OF assms]] this [OF mem_kind_wfD(3) [OF assms]]
  show "mem_ListGateways id a s \<noteq> Panic" "mem_ListModels id a s \<noteq> Panic" "mem_ListWorkspaces id a s \<noteq> Panic"
    by (auto simp: mem_ListGateways_def mem_ListModels_def mem_ListWorkspaces_def split: option.split)
qed

text \<open>A store holding one task.\<close>

definition exampleStore :: memory_store where
  "exampleStore = snd (mem_SaveTask 3 exampleTask mem_NewStore)"

lemma exampleStore_reachable: "mem_reachable exampleStore"
  unfolding exampleStore_def by (rule mem_reachable.step [OF mem_reachable.new mem_step.saveTask])

lemma exampleStore_get: "mem_GetTask [] ''demo'' exampleStore = Ok (mem_normTask exampleTask)"
  unfolding exampleStore_def by (intro mt.get_after_save wf_intro) simp_all

section \<open>Properties\<close>

text \<open>C4: an accepted update is what a later get returns. Updating a valid, named task answers with
  the stored task; getting it afterwards returns that same task, with the spec of the request and
  a creation time that is the client's, else the one already stored, else the current time.\<close>

theorem api_update_get:
  assumes "mem_reachable s" and "ValidateTask t = None" and "meta_GetName (task_Metadata t) = n" and "n \<noteq> []"
    and "orDefault (meta_GetAtespace (task_Metadata t)) = orDefault a"
  shows "\<exists>t'. fst (srv_UpdateTask mem_store now (Some (Some t)) s) = Ok t' \<and>
    srv_GetTask mem_store (Some \<lparr>req_Atespace = a, req_Name = n\<rparr>) (snd (srv_UpdateTask mem_store now (Some (Some t)) s)) = Ok t' \<and>
    task_Spec t' = task_Spec t \<and>
    GetCreationTimestamp (task_Metadata t') =
      (case GetCreationTimestamp (task_Metadata t) of Some c \<Rightarrow> Some c
       | None \<Rightarrow> (case mem_GetTask a n s of
            Ok old \<Rightarrow> (case GetCreationTimestamp (task_Metadata old) of Some c \<Rightarrow> Some c | None \<Rightarrow> Some now)
          | _ \<Rightarrow> Some now))"
proof -
  have wf: "mem_wf s" using assms(1) by (rule mem_reachable_wf)
  have nm: "meta_GetName (task_Metadata t) \<noteq> []" using assms(3,4) by simp
  let ?set = "\<lambda>m t. t\<lparr>task_Metadata := Some m\<rparr>"
  have "srv_UpdateTask mem_store now (Some (Some t)) s =
      srvUpdate ''task'' task_Metadata ?set mem_GetTask mem_SaveTask now t s"
    using assms(2) by (simp add: srv_UpdateTask_def)
  moreover note st = mt.srvUpdate_stores [where setMeta = ?set and kind = "''task''" and now = now, OF wf nm, simplified]
  moreover have key: "mem_taskKey a n = mem_taskKey (meta_GetAtespace (task_Metadata t)) (meta_GetName (task_Metadata t))"
    using assms(3,5) by (metis mem_taskKey_orDefault)
  moreover have "mem_taskKey (orDefault a) n = mem_taskKey a n" by simp
  moreover note mt.created_get [OF wf assms(5), of now]
  ultimately show ?thesis
    using assms(3) by (simp add: srv_GetTask_def mt.srvGet_get mt.updatedMeta_def split: option.split go.split)
qed

theorem api_update_get_witness:
  "\<exists>t'. srv_GetTask mem_store (Some \<lparr>req_Atespace = [], req_Name = ''demo''\<rparr>)
      (snd (srv_UpdateTask mem_store 7 (Some (Some exampleTask)) mem_NewStore)) = Ok t' \<and>
    task_Spec t' = task_Spec exampleTask"
proof -
  have "ValidateTask exampleTask = None"
    by (simp add: ValidateTask_def example_defs WorkspaceRefs_def Let_def mountKey_def
        refPath_def api_const_defs hasPrefix_def trimRightChar_def)
  from api_update_get [OF mem_reachable.new this, of "''demo''" "[]" 7] show ?thesis by auto
qed

text \<open>C17: no handler panics on a reachable in-memory store, whatever the request holds: in
  particular no update reaches the unchecked metadata dereferences of the store, and no watch ends in
  a panic whatever its channel delivers. Listing tasks does not panic either, as long as the sum of
  the effective offset and limit is an \<open>int64\<close>.\<close>

theorem api_no_panic:
  assumes "mem_reachable s"
  shows "srv_GetTask mem_store rq s \<noteq> Panic \<and> fst (srv_UpdateTask mem_store now rt s) \<noteq> Panic \<and>
    fst (srv_DeleteTask mem_store now rq s) \<noteq> Panic \<and>
    fst (srv_SuspendTask mem_store now rq s) \<noteq> Panic \<and> fst (srv_ResumeTask mem_store now rq s) \<noteq> Panic \<and>
    srv_GetGateway mem_store rq s \<noteq> Panic \<and> fst (srv_UpdateGateway mem_store now rg s) \<noteq> Panic \<and>
    fst (srv_DeleteGateway mem_store rq s) \<noteq> Panic \<and> srv_ListGateways mem_store rl s \<noteq> Panic \<and>
    srv_GetWorkspace mem_store rq s \<noteq> Panic \<and> fst (srv_UpdateWorkspace mem_store now rw s) \<noteq> Panic \<and>
    fst (srv_DeleteWorkspace mem_store rq s) \<noteq> Panic \<and> srv_ListWorkspaces mem_store rl s \<noteq> Panic \<and>
    srv_GetModel mem_store rq s \<noteq> Panic \<and> fst (srv_UpdateModel mem_store now rm s) \<noteq> Panic \<and>
    fst (srv_DeleteModel mem_store rq s) \<noteq> Panic \<and> srv_ListModels mem_store rl s \<noteq> Panic \<and>
    snd (srv_WatchTask mem_store watch send rq ins s) \<noteq> Some Panic \<and>
    ((case lq of None \<Rightarrow> True
      | Some q \<Rightarrow> max 0 (lt_Offset q) + (if lt_Limit q > 0 then lt_Limit q else 50) < 2 ^ 63) \<longrightarrow>
       srv_ListTasks mem_store lq s \<noteq> Panic)"
proof -
  have wf: "mem_wf s" using assms by (rule mem_reachable_wf)
  have upd: "fst (srv_UpdateTask mem_store now rt s) \<noteq> Panic" "fst (srv_UpdateGateway mem_store now rg s) \<noteq> Panic"
    "fst (srv_UpdateWorkspace mem_store now rw s) \<noteq> Panic" "fst (srv_UpdateModel mem_store now rm s) \<noteq> Panic"
    by (auto simp: srv_UpdateTask_def srv_UpdateGateway_def srv_UpdateWorkspace_def srv_UpdateModel_def
        mt.srvUpdate_no_panic [OF wf] mg.srvUpdate_no_panic [OF wf] mw.srvUpdate_no_panic [OF wf]
        mm.srvUpdate_no_panic [OF wf] split: option.split)
  have del: "fst (srv_DeleteGateway mem_store rq s) \<noteq> Panic" "fst (srv_DeleteWorkspace mem_store rq s) \<noteq> Panic"
    "fst (srv_DeleteModel mem_store rq s) \<noteq> Panic"
    using mg.srvDelete_no_panic [OF wf] mw.srvDelete_no_panic [OF wf] mm.srvDelete_no_panic [OF wf]
    by (simp_all add: srv_DeleteGateway_def srv_DeleteWorkspace_def srv_DeleteModel_def)
  have lst: "srv_ListGateways mem_store rl s \<noteq> Panic" "srv_ListWorkspaces mem_store rl s \<noteq> Panic"
    "srv_ListModels mem_store rl s \<noteq> Panic"
    by (auto simp: srv_ListGateways_def srv_ListWorkspaces_def srv_ListModels_def srvList_def
        mem_listing_no_panic [OF wf] split: go.split)
  have mark: "fst (srv_DeleteTask mem_store now rq s) \<noteq> Panic"
    using mem_marks_no_panic [OF wf]
    by (auto simp: srv_DeleteTask_def Let_def split: option.split prod.split go.split) (metis fst_conv)+
  have sus: "fst (srvSetSuspend b w mem_store now rq s) \<noteq> Panic" for b w
    using mem_saves_no_panic [OF wf] mt.srvGet_no_panic [OF wf, of "''task''" rq]
    by (auto simp: srvSetSuspend_def split: go.split prod.split) (metis fst_conv)+
  have watch: "snd (srv_WatchTask mem_store watch send rq ins s) \<noteq> Some Panic"
    using mt.get_no_panic [OF wf] by (auto simp: srv_WatchTask_def watchLoop_no_panic case_prod_beta Let_def split: option.split go.split)
  have tasks: "srv_ListTasks mem_store lq s \<noteq> Panic"
    if "case lq of None \<Rightarrow> True
      | Some q \<Rightarrow> max 0 (lt_Offset q) + (if lt_Limit q > 0 then lt_Limit q else 50) < 2 ^ 63"
    using that by (auto simp: srv_ListTasks_def Let_def mem_ListTasks_page [OF wf] mem_page_no_panic split: option.splits go.split if_splits)
  show ?thesis
    using upd del lst mark sus watch tasks
    by (simp add: srv_GetTask_def srv_GetGateway_def srv_GetWorkspace_def srv_GetModel_def srv_SuspendTask_def
        srv_ResumeTask_def mt.srvGet_no_panic [OF wf] mg.srvGet_no_panic [OF wf] mw.srvGet_no_panic [OF wf]
        mm.srvGet_no_panic [OF wf])
qed

theorem api_no_panic_witness:
  "fst (srv_UpdateGateway mem_store 1 (Some (Some \<lparr>gw_ApiVersion = [], gw_Kind = [], gw_Metadata = None, gw_Spec = None\<rparr>))
     mem_NewStore) \<noteq> Panic \<and>
   srv_ListTasks mem_store (Some \<lparr>lt_Atespace = [], lt_Limit = 10, lt_Offset = 3\<rparr>) mem_NewStore \<noteq> Panic"
  using api_no_panic [OF mem_reachable.new, where lq = "Some \<lparr>lt_Atespace = [], lt_Limit = 10, lt_Offset = 3\<rparr>"] by simp

text \<open>C21: deletion is two-phase. A delete request for a stored task succeeds, leaves the task
  readable with phase Terminating and everything else unchanged, and queues the delete event the
  controller acts on (unless the event queue is full).\<close>

theorem api_delete_marks:
  assumes "mem_reachable s" and "mem_GetTask a n s = Ok t"
  shows "fst (srv_DeleteTask mem_store now (Some \<lparr>req_Atespace = a, req_Name = n\<rparr>) s) = Ok () \<and>
    srv_GetTask mem_store (Some \<lparr>req_Atespace = a, req_Name = n\<rparr>)
      (snd (srv_DeleteTask mem_store now (Some \<lparr>req_Atespace = a, req_Name = n\<rparr>) s)) = Ok (markedDeleting t) \<and>
    (length (mem_events s) < eventCap \<longrightarrow>
      mem_events (snd (srv_DeleteTask mem_store now (Some \<lparr>req_Atespace = a, req_Name = n\<rparr>) s)) =
        mem_events s @ [\<lparr>ev_ID = itoa now, ev_Atespace = orDefault a, ev_Name = n, ev_Action = ''delete''\<rparr>])"
proof -
  have wf: "mem_wf s" using assms(1) by (rule mem_reachable_wf)
  have get: "mem_GetTask (orDefault a) n s = Ok t" using assms(2) by (simp add: mem_GetTask_def)
  then obtain p where p: "map_of (mem_tasks s) (mem_taskKey (orDefault a) n) = Some p"
    by (auto simp: mem_GetTask_def split: option.splits)
  let ?m = "mem_MarkTaskDeleting now (orDefault a) n s"
  note eq = mem_MarkTaskDeleting_eq [OF mem_wfD(2) [OF wf] p, of now]
  have h: "srv_DeleteTask mem_store now (Some \<lparr>req_Atespace = a, req_Name = n\<rparr>) s = (Ok (), snd ?m)"
    using eq by (cases "a = []") (simp_all add: srv_DeleteTask_def orDefault_def Let_def)
  have "mem_GetTask (orDefault a) n (snd ?m) = Ok (markedDeleting t)"
    using ms.mark_then_get [OF wf, of "orDefault a" n t now] get by simp
  moreover have "length (mem_events s) < eventCap \<longrightarrow> mem_events (snd ?m) =
      mem_events s @ [\<lparr>ev_ID = itoa now, ev_Atespace = orDefault a, ev_Name = n, ev_Action = ''delete''\<rparr>]"
    by (simp add: eq mem_events_publish deleteEvent_def)
  ultimately show ?thesis by (simp add: h srv_GetTask_def mt.srvGet_get)
qed

theorem api_delete_marks_witness:
  "fst (srv_DeleteTask mem_store 9 (Some \<lparr>req_Atespace = [], req_Name = ''demo''\<rparr>) exampleStore) = Ok ()"
  using api_delete_marks [OF exampleStore_reachable exampleStore_get] by blast

text \<open>suspending and resuming toggle only the suspend flag. Suspending a stored task with a
  spec and resuming it again answers with the stored task, the flag cleared and the rest of the
  spec and the metadata as they were, and each of the two is a save that queues a reconcile event.\<close>

theorem api_suspend_resume:
  assumes "mem_reachable s" and "mem_GetTask a n s = Ok t" and "task_Spec t = Some sp"
    and "meta_GetName (task_Metadata t) = n" and "n \<noteq> []"
    and "orDefault (meta_GetAtespace (task_Metadata t)) = orDefault a"
    and "s1 = snd (srv_SuspendTask mem_store now (Some \<lparr>req_Atespace = a, req_Name = n\<rparr>) s)"
    and "s2 = snd (srv_ResumeTask mem_store now' (Some \<lparr>req_Atespace = a, req_Name = n\<rparr>) s1)"
  shows "mem_GetTask a n s1 = Ok (mem_normTask (t\<lparr>task_Spec := Some (sp\<lparr>ts_Suspend := True\<rparr>)\<rparr>)) \<and>
    mem_GetTask a n s2 = Ok (mem_normTask (t\<lparr>task_Spec := Some (sp\<lparr>ts_Suspend := False\<rparr>)\<rparr>))"
proof -
  have wf: "mem_wf s" using assms(1) by (rule mem_reachable_wf)
  have step: "snd (srvSetSuspend b w mem_store nw (Some \<lparr>req_Atespace = a, req_Name = n\<rparr>) u) = snd (mem_SaveTask nw (withSuspend b r) u)"
    if "mem_wf u" "mem_GetTask a n u = Ok r" "meta_GetName (task_Metadata r) \<noteq> []" for b w nw u r
  proof -
    have "mem_GetTask (orDefault a) n u = Ok r" using that(2) by (simp add: mem_GetTask_def)
    with that show ?thesis
      by (simp add: srvSetSuspend_def mt.srvGet_get mem_SaveTask_eq mem_wfD withSuspend_def)
  qed
  have get: "mem_GetTask a n (snd (mem_SaveTask nw r u)) = Ok (mem_normTask r)"
    if "mem_wf u" "meta_GetName (task_Metadata r) = n" "orDefault (meta_GetAtespace (task_Metadata r)) = orDefault a" for nw r u
    using that assms(5) by (intro mt.get_after_save) simp_all
  have s1: "s1 = snd (mem_SaveTask now (withSuspend True t) s)" and wf1: "mem_wf s1"
    using step [OF wf assms(2)] assms(4,5,7) wf by (simp_all add: srv_SuspendTask_def wf_intro)
  have g1: "mem_GetTask a n s1 = Ok (mem_normTask (withSuspend True t))"
    unfolding s1 by (rule get [OF wf]) (simp_all add: withSuspend_def assms(4,6))
  have s2: "s2 = snd (mem_SaveTask now' (withSuspend False (mem_normTask (withSuspend True t))) s1)"
    using step [OF wf1 g1] assms(4,5,8) by (simp add: srv_ResumeTask_def withSuspend_def)
  have "mem_GetTask a n s2 = Ok (mem_normTask (withSuspend False (mem_normTask (withSuspend True t))))"
    unfolding s2 by (rule get [OF wf1]) (simp_all add: withSuspend_def assms(4,6))
  moreover have "mem_normTask (withSuspend False (mem_normTask (withSuspend True t))) =
      mem_normTask (t\<lparr>task_Spec := Some (sp\<lparr>ts_Suspend := False\<rparr>)\<rparr>)"
    by (auto simp: mem_normTask_def withSuspend_def Let_def assms(3) split: option.split)
  ultimately show ?thesis using g1 by (simp add: withSuspend_def assms(3))
qed

theorem api_suspend_resume_witness:
  "mem_GetTask [] ''demo'' (snd (srv_SuspendTask mem_store 9 (Some \<lparr>req_Atespace = [], req_Name = ''demo''\<rparr>) exampleStore)) =
     Ok (mem_normTask ((mem_normTask exampleTask)\<lparr>task_Spec := Some (exampleSpec\<lparr>ts_Suspend := True\<rparr>)\<rparr>))"
proof -
  have "task_Spec (mem_normTask exampleTask) = Some exampleSpec" by (simp add: exampleTask_def)
  from api_suspend_resume [OF exampleStore_reachable exampleStore_get this _ _ _ refl refl] show ?thesis
    by simp
qed

text \<open>a watch stream sends the current task first, then every task its channel delivers, up to
  and including the first one that is Running, Failed or Completed, and then ends; it never sends
  anything after such a task.\<close>

theorem api_watch_stream:
  assumes "mem_reachable s" and "mem_GetTask a n s = Ok t" and "\<forall>i. send i = None"
    and "\<forall>x \<in> set before. \<not> watchStops x" and "watchStops final"
  shows "srv_WatchTask mem_store (\<lambda>_ _ _. None) send (Some \<lparr>req_Atespace = a, req_Name = n\<rparr>)
      (map ChanTask before @ ChanTask final # rest) s =
    ((t, ''INITIAL'') # map (\<lambda>x. (x, ''MODIFIED'')) (before @ [final]), Some (Ok ()))"
proof -
  have loop: "watchLoop send i (map ChanTask before @ ChanTask final # rest) =
      (map (\<lambda>x. (x, ''MODIFIED'')) (before @ [final]), Some (Ok ()))" for i
    using assms(3-5) by (induction before arbitrary: i) auto
  have "mem_GetTask (orDefault a) n s = Ok t" using assms(2) by (simp add: mem_GetTask_def)
  then show ?thesis
    using assms(3) loop by (cases "a = []") (simp_all add: srv_WatchTask_def orDefault_def)
qed

theorem api_watch_stream_witness:
  "snd (srv_WatchTask mem_store (\<lambda>_ _ _. None) (\<lambda>_. None) (Some \<lparr>req_Atespace = [], req_Name = ''demo''\<rparr>)
     [ChanTask exampleTask, ChanTask (exampleTask\<lparr>task_Status := Some (emptyStatus\<lparr>st_Phase := ''Running''\<rparr>)\<rparr>), ChanTask exampleTask]
     exampleStore) = Some (Ok ())"
  using api_watch_stream [OF exampleStore_reachable exampleStore_get, of "\<lambda>_. None" "[exampleTask]"
      "exampleTask\<lparr>task_Status := Some (emptyStatus\<lparr>st_Phase := ''Running''\<rparr>)\<rparr>" "[ChanTask exampleTask]"]
  by (simp add: watchStops_def exampleTask_def)

end
