(* ===== verification/Worker.thy ===== *)
theory Worker
  imports Reconciler Api_Server
begin

text \<open>
  \<open>internal/controller/worker.go\<close>: the worker that takes task events from the store's queue and
  reconciles each task. The state of the system is the pair of the store's state and the control
  service's state; both the store and the service are arbitrary. One turn of \<open>Run\<close>'s loop is
  \<open>workerTurn\<close>, and \<open>worker_Run\<close> takes a list with the surroundings of each turn, so that a run
  of any length is a value. The lemmas hold for every store that meets \<open>ax_store\<close> and every queue
  that meets \<open>event_queue\<close>.
\<close>

section \<open>The worker\<close>

record worker =
  wk_group :: string
  wk_consumer :: string

definition defaultWorkerGroup :: string where "defaultWorkerGroup = ''ax-controllers''"

definition NewWorker :: "string \<Rightarrow> int \<Rightarrow> string \<Rightarrow> string \<Rightarrow> worker" where
  "NewWorker hostname nanos grp consumer =
     \<lparr>wk_group = (if grp = [] then defaultWorkerGroup else grp),
      wk_consumer = (if consumer = [] then hostname @ ''-'' @ itoa (nanos mod 10000) else consumer)\<rparr>"

definition pathOf :: "string \<Rightarrow> string \<Rightarrow> string" where
  "pathOf a n = a @ ''/'' @ n"

section \<open>Processing one event\<close>

text \<open>A lookup whose failure is only logged.\<close>

definition softly :: "'r go \<Rightarrow> 'r option go" where
  "softly r = (case r of Ok x \<Rightarrow> Ok (Some x) | Err _ \<Rightarrow> Ok None | Panic \<Rightarrow> Panic)"

definition findGateway :: "'s store \<Rightarrow> string \<Rightarrow> taskSpec \<Rightarrow> 's \<Rightarrow> gateway option go" where
  "findGateway ops atespace sp s =
     (case ts_Gateway sp of
        None \<Rightarrow> Ok None
      | Some g \<Rightarrow> if gref_Name g = [] then Ok None else softly (store_GetGateway ops atespace (gref_Name g) s))"

fun findWorkspaces :: "'s store \<Rightarrow> string \<Rightarrow> workspaceRef list \<Rightarrow> 's \<Rightarrow> workspace option list go" where
  "findWorkspaces ops atespace [] s = Ok []"
| "findWorkspaces ops atespace (r # rs) s =
     (if wref_Name r = [] then findWorkspaces ops atespace rs s
      else case store_GetWorkspace ops atespace (wref_Name r) s of
             Ok w \<Rightarrow> (case findWorkspaces ops atespace rs s of Ok ws \<Rightarrow> Ok (Some w # ws) | e \<Rightarrow> e)
           | Err _ \<Rightarrow> findWorkspaces ops atespace rs s
           | Panic \<Rightarrow> Panic)"

definition findModel :: "'s store \<Rightarrow> string \<Rightarrow> string \<Rightarrow> 's \<Rightarrow> model option go" where
  "findModel ops atespace name s =
     (case store_GetModel ops atespace DefaultModelResourceName s of
        Ok m \<Rightarrow> Ok (Some m)
      | Err e \<Rightarrow> if is_not_found e then Ok None
                else Err (EWrap (''fetching default Model for task '' @ pathOf atespace name) e)
      | Panic \<Rightarrow> Panic)"

text \<open>The last part of \<open>processEvent\<close>: reconcile and record the status.\<close>

definition reconcileTask ::
  "'s store \<Rightarrow> 'c control \<Rightarrow> taskReconciler \<Rightarrow> recEnv \<Rightarrow> task \<Rightarrow> gateway option \<Rightarrow> model option \<Rightarrow>
   workspace option list \<Rightarrow> 's \<Rightarrow> 'c \<Rightarrow> unit go \<times> 's \<times> 'c" where
  "reconcileTask ops ctl r env task gw md wss s c =
     (case ReconcileWithModel ctl r env task gw md wss c of
        (Ok (t', err), c1) \<Rightarrow>
          (let a = meta_GetAtespace (task_Metadata t'); n = meta_GetName (task_Metadata t') in
           case err of
             Some e \<Rightarrow>
               (case store_UpdateTaskStatus ops a n (map_option (setPhase ''Failed'') (task_Status t')) s of
                  (Panic, s1) \<Rightarrow> (Panic, s1, c1)
                | (_, s1) \<Rightarrow> (Err (EWrap (''reconciling task '' @ pathOf a n) e), s1, c1))
           | None \<Rightarrow>
               (case store_UpdateTaskStatus ops a n (task_Status t') s of
                  (Ok _, s1) \<Rightarrow> (Ok (), s1, c1)
                | (Err e, s1) \<Rightarrow> (Err (EWrap (''updating task status '' @ pathOf a n) e), s1, c1)
                | (Panic, s1) \<Rightarrow> (Panic, s1, c1)))
      | (Err e, c1) \<Rightarrow> (Err e, s, c1)
      | (Panic, c1) \<Rightarrow> (Panic, s, c1))"

definition processReconcile ::
  "'s store \<Rightarrow> 'c control \<Rightarrow> taskReconciler \<Rightarrow> recEnv \<Rightarrow> task \<Rightarrow> 's \<Rightarrow> 'c \<Rightarrow> unit go \<times> 's \<times> 'c" where
  "processReconcile ops ctl r env task s c =
     (case (task_Spec task, task_Metadata task) of
        (Some sp, Some m) \<Rightarrow>
          (case findGateway ops (meta_Atespace m) sp s of
             Ok gw \<Rightarrow>
               (case findWorkspaces ops (meta_Atespace m) (WorkspaceRefs (Some sp)) s of
                  Ok wss \<Rightarrow>
                    (case findModel ops (meta_Atespace m) (meta_Name m) s of
                       Ok md \<Rightarrow> reconcileTask ops ctl r env task gw md wss s c
                     | Err e \<Rightarrow> (Err e, s, c)
                     | Panic \<Rightarrow> (Panic, s, c))
                | Err e \<Rightarrow> (Err e, s, c)
                | Panic \<Rightarrow> (Panic, s, c))
           | Err e \<Rightarrow> (Err e, s, c)
           | Panic \<Rightarrow> (Panic, s, c))
      | _ \<Rightarrow> (Panic, s, c))"

definition processEvent ::
  "'s store \<Rightarrow> 'c control \<Rightarrow> taskReconciler \<Rightarrow> recEnv \<Rightarrow> taskEvent \<Rightarrow> 's \<times> 'c \<Rightarrow> unit go \<times> 's \<times> 'c" where
  "processEvent ops ctl r env ev sc =
     (let s = fst sc; c = snd sc; a = ev_Atespace ev; n = ev_Name ev in
      if ev_Action ev = ''delete''
      then
        (case ReconcileDelete ctl (env_done env) a n c of
           (Some e, c1) \<Rightarrow> (Err (EWrap (''cleaning up task '' @ pathOf a n) e), s, c1)
         | (None, c1) \<Rightarrow>
             (case store_DeleteTask ops a n s of
                (Ok _, s1) \<Rightarrow> (Ok (), s1, c1)
              | (Err e, s1) \<Rightarrow> (Err (EWrap (''removing task record '' @ pathOf a n) e), s1, c1)
              | (Panic, s1) \<Rightarrow> (Panic, s1, c1)))
      else
        (case store_GetTask ops a n s of
           Err e \<Rightarrow> if is_not_found e then (Ok (), s, c)
                   else (Err (EWrap (''fetching task '' @ pathOf a n) e), s, c)
         | Ok task \<Rightarrow> processReconcile ops ctl r env task s c
         | Panic \<Rightarrow> (Panic, s, c)))"

section \<open>The loop\<close>

datatype workerState = WRunning | WBlocked | WReturned error | WCrashed

text \<open>
  What one turn depends on: the surroundings of a reconcile, \<open>ctx.Err()\<close> after a failed \<open>Next\<close>,
  and whether the wait before a retry ends with the context done.
\<close>

record turn =
  turn_env :: recEnv
  turn_ctxErr :: "error option"
  turn_waitDone :: "error option"

definition workerTurn ::
  "'s store \<Rightarrow> 's eventQueue \<Rightarrow> 'c control \<Rightarrow> taskReconciler \<Rightarrow> turn \<Rightarrow> 's \<times> 'c \<Rightarrow> workerState \<times> 's \<times> 'c" where
  "workerTurn ops q ctl r tn sc =
     (case queue_Next q (fst sc) of
        None \<Rightarrow> (WBlocked, sc)
      | Some (Inl e, s1) \<Rightarrow>
          (case turn_ctxErr tn of
             Some d \<Rightarrow> (WReturned d, s1, snd sc)
           | None \<Rightarrow> (case turn_waitDone tn of
                       Some d \<Rightarrow> (WReturned d, s1, snd sc)
                     | None \<Rightarrow> (WRunning, s1, snd sc)))
      | Some (Inr ev, s1) \<Rightarrow>
          (case processEvent ops ctl r (turn_env tn) ev (s1, snd sc) of
             (Panic, sc2) \<Rightarrow> (WCrashed, sc2)
           | (_, s2, c2) \<Rightarrow> (WRunning, snd (queue_Ack q ev s2), c2)))"

fun workerLoop ::
  "'s store \<Rightarrow> 's eventQueue \<Rightarrow> 'c control \<Rightarrow> taskReconciler \<Rightarrow> turn list \<Rightarrow> 's \<times> 'c \<Rightarrow> workerState \<times> 's \<times> 'c" where
  "workerLoop ops q ctl r [] sc = (WRunning, sc)"
| "workerLoop ops q ctl r (tn # tns) sc =
     (case workerTurn ops q ctl r tn sc of
        (WRunning, sc') \<Rightarrow> workerLoop ops q ctl r tns sc'
      | res \<Rightarrow> res)"

definition worker_Run ::
  "'s store \<Rightarrow> error + 's eventQueue \<Rightarrow> 'c control \<Rightarrow> taskReconciler \<Rightarrow> turn list \<Rightarrow> 's \<times> 'c \<Rightarrow> workerState \<times> 's \<times> 'c" where
  "worker_Run ops sub ctl r tns sc =
     (case sub of
        Inl e \<Rightarrow> (WReturned (EWrap ''subscribing to task events'' e), sc)
      | Inr q \<Rightarrow> workerLoop ops q ctl r tns sc)"

section \<open>Events over a store that keeps its contract\<close>

lemma reconcile_meta:
  assumes "reconcile ctl r env task gw md wss c = (Ok (t', err), c')"
  shows "task_Metadata t' = task_Metadata (prepareTask task)"
  by (rule reconcile_outcome [OF assms]) simp

text \<open>The atespace under which the worker records a status is never empty.\<close>

lemma reconcile_atespace:
  "reconcile ctl r env task gw md wss c = (Ok (t', err), c') \<Longrightarrow> meta_GetAtespace (task_Metadata t') \<noteq> []"
  by (simp add: reconcile_meta)

text \<open>Every worker address the control service names gives a URL that can be parsed.\<close>

definition addressable :: "'c control \<Rightarrow> recEnv \<Rightarrow> bool" where
  "addressable ctl env \<longleftrightarrow>
     (\<forall>a n c ac ip c'. ResumeActor ctl a n c = (Inr (ac, ip), c') \<and> ip \<noteq> [] \<longrightarrow>
        (\<exists>u. url_Parse (env_urls env) (readyURL ip) = Inr u))"

lemma addressable_no_crash: "addressable ctl env \<Longrightarrow> \<not> probeCrash ctl env task c"
  unfolding addressable_def probeCrash_def by (metis sum.distinct(1))

text \<open>The status a run records: Failed on an error, else what the run computed.\<close>

definition recordedStatus :: "task \<times> error option \<Rightarrow> taskStatus option" where
  "recordedStatus te = (if snd te = None then task_Status (fst te) else map_option (setPhase ''Failed'') (task_Status (fst te)))"

context total_store
begin

definition runnable :: "'s \<Rightarrow> bool" where
  "runnable s \<longleftrightarrow> (\<forall>k t. viewT s k = Some t \<longrightarrow> task_Spec t \<noteq> None)"

lemma findGateway_ok: "wf s \<Longrightarrow> \<exists>g. findGateway ops a sp s = Ok g"
  by (auto simp: findGateway_def softly_def gws.get_view found_def split: option.split)

lemma findWorkspaces_ok: "wf s \<Longrightarrow> \<exists>ws. findWorkspaces ops a rs s = Ok ws"
  by (induction rs) (auto simp: wss.get_view found_def split: option.split)

lemma findModel_ok: "wf s \<Longrightarrow> \<exists>m. findModel ops a n s = Ok m"
  by (auto simp: findModel_def mds.get_view found_def split: option.split)

lemma reconcileTask_result:
  assumes "wf s" and "viewT s k = Some task" and "task_Metadata task = Some m"
    and "reconcile ctl r env task gw md wss c = (Ok (t', err), c')"
    and "s' = snd (store_UpdateTaskStatus ops (orDefault (meta_Atespace m)) (meta_Name m) (recordedStatus (t', err)) s)"
  shows "reconcileTask ops ctl r env task gw md wss s c =
      ((case err of None \<Rightarrow> Ok ()
        | Some e \<Rightarrow> Err (EWrap (''reconciling task '' @ pathOf (orDefault (meta_Atespace m)) (meta_Name m)) e)), s', c') \<and>
    wf s' \<and> viewT s' = (viewT s)(k \<mapsto> task\<lparr>task_Status := recordedStatus (t', err)\<rparr>)"
proof -
  let ?a = "orDefault (meta_Atespace m)" and ?n = "meta_Name m"
  have m: "meta_GetAtespace (task_Metadata t') = ?a" "meta_GetName (task_Metadata t') = ?n"
    using reconcile_meta [OF assms(4)] by (simp_all add: assms(3))
  have k: "keyT ?a ?n = k" using view_key [OF assms(1,2)] assms(3) by simp
  let ?u = "store_UpdateTaskStatus ops ?a ?n (recordedStatus (t', err)) s"
  have u: "fst ?u = Ok ()" "viewT (snd ?u) = (viewT s)(k \<mapsto> task\<lparr>task_Status := recordedStatus (t', err)\<rparr>)" "wf (snd ?u)"
    using update_present [OF assms(1) _ _ represents, of ?a ?n task "recordedStatus (t', err)"] assms(2)
    unfolding k by simp_all
  have "?u = (Ok (), s')" unfolding assms(5) using u(1) by (metis prod.collapse)
  moreover have "wf s'" "viewT s' = (viewT s)(k \<mapsto> task\<lparr>task_Status := recordedStatus (t', err)\<rparr>)"
    unfolding assms(5) by (fact u(3) u(2))+
  ultimately show ?thesis
    using assms(4) m
    by (cases err) (simp_all add: reconcileTask_def ReconcileWithModel_def recordedStatus_def Let_def)
qed

text \<open>A reconcile event on a stored task with a spec, with the gateway, workspaces and model that were found.\<close>

lemma processEvent_reconcile:
  assumes "wf s" and "ev_Action ev \<noteq> ''delete''"
    and "viewT s k = Some task" and "k = keyT (orDefault (ev_Atespace ev)) (ev_Name ev)"
    and "task_Spec task = Some sp" and "task_Metadata task = Some m"
    and "findGateway ops (meta_Atespace m) sp s = Ok gw"
    and "findWorkspaces ops (meta_Atespace m) (WorkspaceRefs (Some sp)) s = Ok wss"
    and "findModel ops (meta_Atespace m) (meta_Name m) s = Ok md"
  shows "case reconcile ctl r env task gw md wss c of
      (Ok (t', err), c') \<Rightarrow>
        (\<exists>s'. processEvent ops ctl r env ev (s, c) =
           ((case err of None \<Rightarrow> Ok ()
             | Some e \<Rightarrow> Err (EWrap (''reconciling task '' @ pathOf (orDefault (meta_Atespace m)) (meta_Name m)) e)), s', c') \<and>
           s' = snd (store_UpdateTaskStatus ops (orDefault (meta_Atespace m)) (meta_Name m) (recordedStatus (t', err)) s) \<and>
           wf s' \<and> viewT s' = (viewT s)(k \<mapsto> task\<lparr>task_Status := recordedStatus (t', err)\<rparr>))
    | (_, c') \<Rightarrow> processEvent ops ctl r env ev (s, c) = (Panic, s, c')"
proof -
  have run: "processEvent ops ctl r env ev (s, c) = reconcileTask ops ctl r env task gw md wss s c"
    using assms by (simp add: processEvent_def processReconcile_def tasks.get_view)
  show ?thesis
  proof (cases rule: reconcile_cases [of ctl r env task gw md wss c])
    case (ran st' err c')
    from reconcileTask_result [OF assms(1,3,6) ran(1) refl] show ?thesis
      unfolding run ran(1) by (simp del: split_paired_Ex)
  next
    case (crashed c')
    then show ?thesis unfolding run by (simp add: reconcileTask_def ReconcileWithModel_def)
  qed
qed

lemma processEvent_missing:
  "wf s \<Longrightarrow> ev_Action ev \<noteq> ''delete'' \<Longrightarrow> viewT s (keyT (orDefault (ev_Atespace ev)) (ev_Name ev)) = None \<Longrightarrow>
   processEvent ops ctl r env ev (s, c) = (Ok (), s, c)"
  by (simp add: processEvent_def tasks.get_view)

lemma processEvent_delete:
  assumes "wf s" and "ev_Action ev = ''delete''"
    and "ReconcileDelete ctl (env_done env) (ev_Atespace ev) (ev_Name ev) c = (err, c')"
  shows "processEvent ops ctl r env ev (s, c) =
    (case err of
       None \<Rightarrow> (Ok (), snd (store_DeleteTask ops (ev_Atespace ev) (ev_Name ev) s), c')
     | Some e \<Rightarrow> (Err (EWrap (''cleaning up task '' @ pathOf (ev_Atespace ev) (ev_Name ev)) e), s, c'))"
  using assms tasks.del_result [OF assms(1), of "ev_Atespace ev" "ev_Name ev"]
  by (cases "store_DeleteTask ops (ev_Atespace ev) (ev_Name ev) s") (auto simp: processEvent_def split: option.split)

text \<open>Whatever the event, processing makes at most one change to the store and, when the readiness of
  every worker can be asked for, does not panic.\<close>

lemma processEvent_step:
  assumes "wf s" and "runnable s" and "addressable ctl env"
  obtains res s' c' where "processEvent ops ctl r env ev (s, c) = (res, s', c')" "res \<noteq> Panic" "wf s'" "runnable s'"
    "s' = s \<or> (\<exists>a n. s' = snd (store_DeleteTask ops a n s)) \<or>
      (\<exists>a n st. a \<noteq> [] \<and> s' = snd (store_UpdateTaskStatus ops a n st s))"
proof (cases "ev_Action ev = ''delete''")
  case True
  obtain err c' where d: "ReconcileDelete ctl (env_done env) (ev_Atespace ev) (ev_Name ev) c = (err, c')" by fastforce
  let ?s' = "snd (store_DeleteTask ops (ev_Atespace ev) (ev_Name ev) s)"
  have "wf ?s'" using tasks.del_wf [OF assms(1)] .
  moreover have "runnable ?s'" using assms by (simp add: runnable_def tasks.del_view)
  ultimately show ?thesis
    using processEvent_delete [OF assms(1) True d] assms by (cases err) (auto intro!: that)
next
  case False
  let ?k = "keyT (orDefault (ev_Atespace ev)) (ev_Name ev)"
  show ?thesis
  proof (cases "viewT s ?k")
    case None
    from processEvent_missing [OF assms(1) False None] show ?thesis
      by (rule that) (use assms in simp_all)
  next
    case (Some task)
    then obtain sp where sp: "task_Spec task = Some sp" using assms(2) by (auto simp: runnable_def)
    obtain m where m: "task_Metadata task = Some m" using view_key [OF assms(1) Some] by blast
    obtain gw where gw: "findGateway ops (meta_Atespace m) sp s = Ok gw" using findGateway_ok [OF assms(1)] by blast
    obtain wss where wss: "findWorkspaces ops (meta_Atespace m) (WorkspaceRefs (Some sp)) s = Ok wss"
      using findWorkspaces_ok [OF assms(1)] by blast
    obtain md where md: "findModel ops (meta_Atespace m) (meta_Name m) s = Ok md"
      using findModel_ok [OF assms(1)] by blast
    note p = processEvent_reconcile [OF assms(1) False Some refl sp m gw wss md, of ctl r env c]
    show ?thesis
    proof (cases rule: reconcile_cases [of ctl r env task gw md wss c])
      case (ran st' err c')
      with p obtain s' res where e: "processEvent ops ctl r env ev (s, c) = (res, s', c')" "res \<noteq> Panic" "wf s'"
        "s' = snd (store_UpdateTaskStatus ops (orDefault (meta_Atespace m)) (meta_Name m)
           (recordedStatus ((prepareTask task)\<lparr>task_Status := Some st'\<rparr>, err)) s)"
        "viewT s' = (viewT s)(?k \<mapsto> task\<lparr>task_Status := recordedStatus ((prepareTask task)\<lparr>task_Status := Some st'\<rparr>, err)\<rparr>)"
        by (auto split: option.splits)
      then have "runnable s'" using assms(2) sp by (auto simp: runnable_def split: if_splits)
      moreover have "\<exists>a n st. a \<noteq> [] \<and> s' = snd (store_UpdateTaskStatus ops a n st s)"
        using e(4) orDefault_nonempty by blast
      ultimately show ?thesis using e(1-3) by (intro that [of res s' c']) auto
    next
      case (crashed c')
      then show ?thesis using addressable_no_crash [OF assms(3)] by blast
    qed
  qed
qed

end

context queued_store
begin

lemma turn_takes:
  assumes "wf s" and "runnable s" and "pending s = ev # evs" and "addressable ctl (turn_env tn)"
  shows "\<exists>s' c'. workerTurn ops q ctl r tn (s, c) = (WRunning, s', c') \<and> wf s' \<and> runnable s' \<and> pending s' = evs"
proof -
  obtain s1 where s1: "queue_Next q s = Some (Inr ev, s1)" "pending s1 = evs" "wf s1"
    using next_event [OF assms(1,3)] by blast
  then have "viewT s1 = viewT s" using next_view [OF assms(1)] by blast
  then have "runnable s1" using assms(2) by (simp add: runnable_def)
  then obtain res s2 c2 where p: "processEvent ops ctl r (turn_env tn) ev (s1, c) = (res, s2, c2)"
    "res \<noteq> Panic" "wf s2" "runnable s2"
    "s2 = s1 \<or> (\<exists>a n. s2 = snd (store_DeleteTask ops a n s1)) \<or>
      (\<exists>a n st. a \<noteq> [] \<and> s2 = snd (store_UpdateTaskStatus ops a n st s1))"
    by (rule processEvent_step [OF s1(3) _ assms(4)])
  have "pending s2 = evs"
    using p(5) s1(2,3) by (auto simp: delete_pending update_pending)
  moreover have "runnable (snd (queue_Ack q ev s2))"
    using p(4) by (simp add: runnable_def ack_view [OF p(3)])
  ultimately show ?thesis
    using p s1(1) ack_keeps [OF p(3), of ev]
    by (cases res) (simp_all add: workerTurn_def)
qed

lemma loop_takes:
  assumes "wf s" and "runnable s" and "pending s = evs @ rest" and "length tns = length evs"
    and "\<forall>tn \<in> set tns. addressable ctl (turn_env tn)"
  shows "\<exists>s' c'. workerLoop ops q ctl r tns (s, c) = (WRunning, s', c') \<and> wf s' \<and> runnable s' \<and> pending s' = rest"
  using assms
proof (induction tns arbitrary: s c evs)
  case (Cons tn tns)
  then obtain ev evs' where ev: "evs = ev # evs'" by (cases evs) auto
  with Cons.prems(3) have "pending s = ev # (evs' @ rest)" by simp
  then obtain s' c' where "workerTurn ops q ctl r tn (s, c) = (WRunning, s', c')" "wf s'" "runnable s'" "pending s' = evs' @ rest"
    using turn_takes [OF Cons.prems(1,2), of ev "evs' @ rest" ctl tn r c] Cons.prems(5) by auto
  with Cons.IH [of s' evs' c'] Cons.prems(4,5) ev show ?case by simp
qed simp

lemma turn_blocks: "wf s \<Longrightarrow> pending s = [] \<Longrightarrow> workerTurn ops q ctl r tn (s, c) = (WBlocked, s, c)"
  by (simp add: workerTurn_def next_empty)

end

lemma workerLoop_append:
  "workerLoop ops q ctl r tns sc = (WRunning, sc') \<Longrightarrow>
   workerLoop ops q ctl r (tns @ tns') sc = workerLoop ops q ctl r tns' sc'"
  by (induction tns arbitrary: sc) (auto split: prod.splits workerState.splits)

lemma mem_runnable_iff:
  assumes "mem_wf s"
  shows "mq.runnable s \<longleftrightarrow> (\<forall>a n t. mem_GetTask a n s = Ok t \<longrightarrow> task_Spec t \<noteq> None)"
proof
  assume "\<forall>a n t. mem_GetTask a n s = Ok t \<longrightarrow> task_Spec t \<noteq> None"
  then show "mq.runnable s"
    unfolding mq.runnable_def using ms.view_key [OF assms] assms mt.get_view [OF assms]
    by (metis found_simps(2) mem_taskKey_orDefault)
qed (use assms in \<open>auto simp: mq.runnable_def mt.get_view\<close>)

text \<open>Surroundings and turns for the witnesses.\<close>

definition exampleTurn :: turn where
  "exampleTurn = \<lparr>turn_env = exampleEnv, turn_ctxErr = None, turn_waitDone = None\<rparr>"

lemma exampleStore_runnable: "mem_GetTask a n exampleStore = Ok t \<Longrightarrow> task_Spec t \<noteq> None"
proof -
  have empty: "mem_view mem_NewStore k = None" for k by (simp add: mem_view_def mem_NewStore_def)
  have view: "mem_view exampleStore = (mem_view mem_NewStore)(mem_taskKey [] ''demo'' \<mapsto> mem_normTask exampleTask)"
    unfolding exampleStore_def by (subst mt.save_view) (simp_all add: wf_intro)
  assume "mem_GetTask a n exampleStore = Ok t"
  then have "mem_view exampleStore (mem_taskKey a n) = Some t"
    using mt.get_view [OF mem_reachable_wf [OF exampleStore_reachable], of a n] by simp
  then have "t = mem_normTask exampleTask" by (simp add: view empty split: if_splits)
  then show ?thesis by (simp add: exampleTask_def)
qed

lemma exampleEnv_addressable: "addressable ctl exampleEnv"
  using exampleEnv_parses by (simp add: addressable_def)

definition exampleEvent :: "string \<Rightarrow> taskEvent" where
  "exampleEvent action = \<lparr>ev_ID = ''1'', ev_Atespace = [], ev_Name = ''demo'', ev_Action = action\<rparr>"

text \<open>
  A worker address without a parsable URL crashes the worker. The example store's only event is the
  reconcile event of a task that is to run; the control service resumes its actor at an address the
  URL parser rejects.
\<close>

definition badEnv :: recEnv where
  "badEnv = exampleEnv\<lparr>env_urls := exampleURLLib\<lparr>url_Parse := \<lambda>_. Inl (ENew ''invalid character in host name'')\<rparr>\<rparr>"

lemma exampleStore_events: "mem_events exampleStore = [reconcileEvent 3 exampleTask]"
  by (simp add: exampleStore_def mem_SaveTask_eq mem_wfD [OF mem_wf_NewStore] mem_events_publish)
    (simp add: mem_NewStore_def eventCap_def)

lemma exampleStore_kinds: "mem_workspaces exampleStore = []" "mem_models exampleStore = []"
  by (simp_all add: exampleStore_def mem_SaveTask_eq mem_wfD [OF mem_wf_NewStore] mem_poke_def publish_def)
    (simp_all add: mem_NewStore_def)

lemma unparsable_address_crashes_worker:
  "fst (workerTurn mem_store mem_queue sim_egress exampleRec (exampleTurn\<lparr>turn_env := badEnv\<rparr>) (exampleStore, (Map.empty, 0))) = WCrashed"
proof -
  let ?ev = "reconcileEvent 3 exampleTask" and ?s = "exampleStore\<lparr>mem_events := []\<rparr>" and ?t = "mem_normTask exampleTask"
  have wf: "mem_wf ?s" by (rule mem_wf_kinds [OF mem_reachable_wf [OF exampleStore_reachable]]) simp_all
  have meta: "meta_GetName (task_Metadata ?t) = ''demo''" "orDefault (meta_GetAtespace (task_Metadata ?t)) = ''default''"
    "task_Spec ?t = Some exampleSpec" "\<not> conditionTrue (task_Status ?t) condWorkspaceReady"
    by (simp_all add: mem_normTask_def exampleTask_def defaultAtespace_def orDefault_def emptyMeta_def emptyStatus_def conditionTrue_def)
  obtain m where m: "task_Metadata ?t = Some m" by (simp add: mem_normTask_def Let_def)
  obtain st c2 where st: "\<not> conditionTrue (Some st) condWorkspaceReady"
    "reconcile sim_egress exampleRec badEnv ?t None None [] (Map.empty, 0) =
       withStatus (prepareTask ?t) (resumeStep sim_egress badEnv ''default'' ''demo'' st c2)"
    by (rule example_resumes [OF meta])
  obtain ac where "ResumeActor sim_egress ''default'' ''demo'' c2 = (Inr (ac, ''10.0.0.7''), c2)"
    by (simp add: ResumeActor_def sim_egress_def)
  then have "resumeStep sim_egress badEnv ''default'' ''demo'' st c2 = (Panic, c2)"
    by (rule resumeStep_crashes) (simp_all add: badEnv_def st(1))
  then have crash: "reconcile sim_egress exampleRec badEnv ?t None None [] (Map.empty, 0) = (Panic, c2)"
    by (simp add: st(2) withStatus_def)
  have get: "mem_GetTask (ev_Atespace ?ev) (ev_Name ?ev) ?s = Ok ?t"
    using exampleStore_get by (simp add: reconcileEvent_def mem_GetTask_def orDefault_def mem_taskKey_def split: option.splits)
  have found: "findGateway mem_store a exampleSpec ?s = Ok None" "findWorkspaces mem_store a rs ?s = Ok []" "findModel mem_store a n ?s = Ok None"
    for a n rs
    by (simp add: findGateway_def example_defs)
      (induction rs, simp_all add: mem_GetWorkspace_def findModel_def mem_GetModel_def exampleStore_kinds)
  have "processReconcile mem_store sim_egress exampleRec badEnv ?t ?s (Map.empty, 0) = (Panic, ?s, c2)"
    by (simp add: processReconcile_def reconcileTask_def ReconcileWithModel_def meta(3) [simplified] m found crash)
  with get have "processEvent mem_store sim_egress exampleRec badEnv ?ev (?s, (Map.empty, 0)) = (Panic, ?s, c2)"
    by (simp add: processEvent_def) (simp add: reconcileEvent_def)
  then show ?thesis
    by (simp add: workerTurn_def mem_queue_def mem_Next_def exampleStore_events exampleTurn_def)
qed

section \<open>Properties\<close>

text \<open>C5: a bad task cannot wedge the queue. On any reachable in-memory store whose tasks all have a
  spec, a worker given one turn per pending event takes every event, never crashes or returns, and
  ends up blocked on an empty queue. The control service may answer what it likes, errors included,
  with one exception (\<open>addressable\<close>): an address it gives for a resumed worker has to make a URL that
  can be parsed, because the readiness probe drops the error of building its request and sends nil.\<close>

theorem worker_drains_queue:
  assumes "mem_reachable s" and "\<forall>a n t. mem_GetTask a n s = Ok t \<longrightarrow> task_Spec t \<noteq> None"
    and "length tns = length (mem_events s)" and "\<forall>tn \<in> set tns. addressable ctl (turn_env tn)"
  shows "\<exists>s' c'. worker_Run mem_store (Inr mem_queue) ctl r tns (s, c) = (WRunning, s', c') \<and>
    mem_events s' = [] \<and> worker_Run mem_store (Inr mem_queue) ctl r (tns @ [tn]) (s, c) = (WBlocked, s', c')"
proof -
  have wf: "mem_wf s" using assms(1) by (rule mem_reachable_wf)
  with assms(2) have "mq.runnable s" by (simp add: mem_runnable_iff)
  from mq.loop_takes [OF wf this, of "mem_events s" "[]" tns ctl r c] assms(3,4) obtain s' c' where
    run: "workerLoop mem_store mem_queue ctl r tns (s, c) = (WRunning, s', c')" "mem_wf s'" "mem_events s' = []"
    by auto
  with workerLoop_append [OF run(1), of "[tn]"] mq.turn_blocks [OF run(2,3), of ctl r tn c'] show ?thesis
    by (simp add: worker_Run_def)
qed

theorem worker_drains_queue_witness:
  "\<exists>s' c'. worker_Run mem_store (Inr mem_queue) sim_egress exampleRec [exampleTurn] (exampleStore, (Map.empty, 0)) =
     (WRunning, s', c') \<and> mem_events s' = []"
proof -
  have "length [exampleTurn] = length (mem_events exampleStore)"
    by (simp add: exampleStore_def mem_SaveTask_eq mem_wfD [OF mem_wf_NewStore] mem_events_publish)
      (simp add: mem_NewStore_def eventCap_def)
  moreover have "\<forall>tn \<in> set [exampleTurn]. addressable sim_egress (turn_env tn)"
    by (simp add: exampleTurn_def exampleEnv_addressable)
  ultimately show ?thesis
    using worker_drains_queue [OF exampleStore_reachable, of "[exampleTurn]" sim_egress exampleRec "(Map.empty, 0)"]
      exampleStore_runnable by blast
qed

text \<open>What a lookup answered, if it did.\<close>

definition answer :: "'r go \<Rightarrow> 'r option" where
  "answer res = (case res of Ok x \<Rightarrow> Some x | _ \<Rightarrow> None)"

lemma mem_findGateway:
  "mem_wf s \<Longrightarrow> findGateway mem_store a sp s =
     Ok (case ts_Gateway sp of
           Some g \<Rightarrow> if gref_Name g = [] then None else answer (mem_GetGateway a (gref_Name g) s)
         | None \<Rightarrow> None)"
  by (auto simp: findGateway_def softly_def answer_def mem_GetGateway_def split: option.split)

lemma mem_findWorkspaces:
  "mem_wf s \<Longrightarrow> findWorkspaces mem_store a refs s =
     Ok (map Some (List.map_filter (\<lambda>ref. if wref_Name ref = [] then None else answer (mem_GetWorkspace a (wref_Name ref) s)) refs))"
  by (induction refs) (auto simp: answer_def mem_GetWorkspace_def List.map_filter_def split: option.split)

lemma mem_findModel:
  "mem_wf s \<Longrightarrow> findModel mem_store a n s = Ok (answer (mem_GetModel a DefaultModelResourceName s))"
  by (auto simp: findModel_def answer_def mem_GetModel_def split: option.split)

lemma mem_UpdateTaskStatus_frame:
  "mem_gateways (snd (mem_UpdateTaskStatus a n st s)) = mem_gateways s"
  "mem_workspaces (snd (mem_UpdateTaskStatus a n st s)) = mem_workspaces s"
  "mem_models (snd (mem_UpdateTaskStatus a n st s)) = mem_models s"
  by (simp_all add: mem_UpdateTaskStatus_def Let_def split: option.split)

text \<open>C14: what processing a reconcile event does with the store. The run is given the task the event
  names and, from the task's atespace, the gateway its spec names (none when it names none or there is
  none), the workspaces its spec refers to, in order, that exist under a non-empty name, and the
  default model if there is one. When the run returns, the task keeps everything but its status, which becomes
  the one the run computed, with the phase Failed when the run failed; the event reports the error of
  the run or none; every other task, the gateways, the workspaces, the models and the pending events
  are as before. When the run panics (in the readiness probe), so does the processing, and the store
  is as before.\<close>

theorem worker_records_status:
  assumes "mem_reachable s" and "ev_Action ev \<noteq> ''delete''"
    and "mem_GetTask (ev_Atespace ev) (ev_Name ev) s = Ok t"
    and "task_Spec t = Some sp" and "task_Metadata t = Some m"
    and "gw = (case ts_Gateway sp of
           Some g \<Rightarrow> if gref_Name g = [] then None else answer (mem_GetGateway (meta_Atespace m) (gref_Name g) s)
         | None \<Rightarrow> None)"
    and "wss = List.map_filter (\<lambda>ref. if wref_Name ref = [] then None
           else answer (mem_GetWorkspace (meta_Atespace m) (wref_Name ref) s)) (WorkspaceRefs (Some sp))"
    and "md = answer (mem_GetModel (meta_Atespace m) DefaultModelResourceName s)"
  shows "case reconcile ctl r env t gw md (map Some wss) c of
      (Ok (t', err), c') \<Rightarrow>
        (\<exists>s'. processEvent mem_store ctl r env ev (s, c) =
           ((case err of None \<Rightarrow> Ok ()
             | Some e \<Rightarrow> Err (EWrap (''reconciling task '' @ pathOf (orDefault (meta_Atespace m)) (meta_Name m)) e)), s', c') \<and>
         (\<forall>a n. mem_GetTask a n s' =
           (if mem_taskKey a n = mem_taskKey (ev_Atespace ev) (ev_Name ev)
            then Ok (t\<lparr>task_Status := recordedStatus (t', err)\<rparr>) else mem_GetTask a n s)) \<and>
         mem_gateways s' = mem_gateways s \<and> mem_workspaces s' = mem_workspaces s \<and>
         mem_models s' = mem_models s \<and> mem_events s' = mem_events s)
    | (_, c') \<Rightarrow> processEvent mem_store ctl r env ev (s, c) = (Panic, s, c')"
proof -
  have wf: "mem_wf s" using assms(1) by (rule mem_reachable_wf)
  let ?k = "mem_taskKey (orDefault (ev_Atespace ev)) (ev_Name ev)"
  have v: "mem_view s ?k = Some t" using assms(3) mt.get_view [OF wf] by simp
  have found: "findGateway mem_store (meta_Atespace m) sp s = Ok gw"
    "findWorkspaces mem_store (meta_Atespace m) (WorkspaceRefs (Some sp)) s = Ok (map Some wss)"
    "findModel mem_store (meta_Atespace m) (meta_Name m) s = Ok md"
    using wf by (simp_all add: mem_findGateway mem_findWorkspaces mem_findModel assms(6-8))
  note p = mq.processEvent_reconcile [OF wf assms(2) v refl assms(4,5) found, of ctl r env c]
  show ?thesis
  proof (cases rule: reconcile_cases [of ctl r env t gw md "map Some wss" c])
    case (ran st' err c')
    from p wf show ?thesis
      unfolding ran(1) by (auto simp: mem_UpdateTaskStatus_frame mt.get_view)
  qed (use p in simp)
qed

text \<open>A store with the example task and one of the two workspaces it refers to.\<close>

definition codeWorkspace :: workspace where
  "codeWorkspace = \<lparr>wsp_ApiVersion = [], wsp_Kind = [], wsp_Metadata = Some (emptyMeta\<lparr>meta_Name := ''code'', meta_Atespace := ''default''\<rparr>),
     wsp_Spec = None\<rparr>"

definition codeStore :: memory_store where
  "codeStore = snd (mem_SaveWorkspace 4 codeWorkspace exampleStore)"

lemma codeStore_eq: "codeStore = exampleStore\<lparr>mem_workspaces := [(''default:code'', codeWorkspace)]\<rparr>"
  by (simp add: codeStore_def exampleStore_kinds mem_SaveWorkspace_def codeWorkspace_def Let_def defaultAtespace_def
      orDefault_def mem_taskKey_def emptyMeta_def)

theorem worker_records_status_witness:
  "\<exists>t' err c' s'. reconcile sim_egress exampleRec exampleEnv (mem_normTask exampleTask) None None [Some codeWorkspace] (Map.empty, 0) =
      (Ok (t', err), c') \<and>
    processEvent mem_store sim_egress exampleRec exampleEnv (exampleEvent ''reconcile'') (codeStore, (Map.empty, 0)) =
      ((case err of None \<Rightarrow> Ok () | Some e \<Rightarrow> Err (EWrap (''reconciling task '' @ pathOf ''default'' ''demo'') e)), s', c') \<and>
    mem_GetTask [] ''demo'' s' = Ok ((mem_normTask exampleTask)\<lparr>task_Status := recordedStatus (t', err)\<rparr>) \<and>
    mem_workspaces s' = [(''default:code'', codeWorkspace)]"
proof -
  have reach: "mem_reachable codeStore"
    unfolding codeStore_def by (rule mem_reachable.step [OF exampleStore_reachable mem_step.saveWorkspace])
  have act: "ev_Action (exampleEvent ''reconcile'') \<noteq> ''delete''" by (simp add: exampleEvent_def)
  have get: "mem_GetTask (ev_Atespace (exampleEvent ''reconcile'')) (ev_Name (exampleEvent ''reconcile'')) codeStore = Ok (mem_normTask exampleTask)"
    using exampleStore_get by (simp add: codeStore_eq exampleEvent_def mem_GetTask_def split: option.splits)
  let ?m = "emptyMeta\<lparr>meta_Name := ''demo'', meta_Atespace := ''default''\<rparr>"
  have sp: "task_Spec (mem_normTask exampleTask) = Some exampleSpec" "task_Metadata (mem_normTask exampleTask) = Some ?m"
    by (simp_all add: mem_normTask_def exampleTask_def defaultAtespace_def orDefault_def emptyMeta_def)
  have gw: "None = (case ts_Gateway exampleSpec of
      Some g \<Rightarrow> if gref_Name g = [] then None else answer (mem_GetGateway (meta_Atespace ?m) (gref_Name g) codeStore) | None \<Rightarrow> None)"
    by (simp add: example_defs)
  have wss: "[codeWorkspace] = List.map_filter (\<lambda>ref. if wref_Name ref = [] then None
      else answer (mem_GetWorkspace (meta_Atespace ?m) (wref_Name ref) codeStore)) (WorkspaceRefs (Some exampleSpec))"
    by (simp add: codeStore_eq WorkspaceRefs_def example_defs mem_GetWorkspace_def mem_taskKey_def orDefault_def answer_def List.map_filter_def)
  have md: "None = answer (mem_GetModel (meta_Atespace ?m) DefaultModelResourceName codeStore)"
    by (simp add: codeStore_eq exampleStore_kinds mem_GetModel_def answer_def)
  note w = worker_records_status [OF reach act get sp gw wss md, of sim_egress exampleRec exampleEnv "(Map.empty, 0)"]
  show ?thesis
  proof (cases rule: reconcile_cases [of sim_egress exampleRec exampleEnv "mem_normTask exampleTask" None None "map Some [codeWorkspace]" "(Map.empty, 0)"])
    case (ran st err c')
    then obtain t' where run: "reconcile sim_egress exampleRec exampleEnv (mem_normTask exampleTask) None None (map Some [codeWorkspace])
        (Map.empty, 0) = (Ok (t', err), c')" by blast
    have m: "meta_Atespace ?m = ''default''" "meta_Name ?m = ''demo''" "orDefault ''default'' = ''default''"
      by (simp_all add: orDefault_def)
    from w [unfolded run m, simplified prod.case go.case] obtain s' where
      "processEvent mem_store sim_egress exampleRec exampleEnv (exampleEvent ''reconcile'') (codeStore, (Map.empty, 0)) =
        ((case err of None \<Rightarrow> Ok () | Some e \<Rightarrow> Err (EWrap (''reconciling task '' @ pathOf ''default'' ''demo'') e)), s', c')"
      "mem_GetTask [] ''demo'' s' = Ok ((mem_normTask exampleTask)\<lparr>task_Status := recordedStatus (t', err)\<rparr>)"
      "mem_workspaces s' = [(''default:code'', codeWorkspace)]"
      by (auto simp: exampleEvent_def codeStore_eq simp del: append.simps)
    with run show ?thesis by (intro exI conjI) simp_all
  next
    case (crashed c')
    then show ?thesis by (simp add: addressable_no_crash exampleEnv_addressable)
  qed
qed

text \<open>C15: a deletion that fails on the control service leaves the record in place. When the actor
  cannot be deleted the event reports the error and the store is exactly as it was, so the task
  stays visible as Terminating; when it can, the record is gone.\<close>

theorem worker_delete_outcome:
  assumes "mem_reachable s" and "ev_Action ev = ''delete''"
    and "DeleteActor ctl (orDefault (ev_Atespace ev)) (ev_Name ev) c = (err, c1)"
  shows "case err of
      Some e \<Rightarrow> (\<exists>e'. processEvent mem_store ctl r env ev (s, c) = (Err e', s, c1))
    | None \<Rightarrow> (\<exists>s' c'. processEvent mem_store ctl r env ev (s, c) = (Ok (), s', c') \<and>
        (\<forall>a n. mem_GetTask a n s' =
          (if mem_taskKey a n = mem_taskKey (ev_Atespace ev) (ev_Name ev) then Err ENotFound else mem_GetTask a n s)))"
proof -
  have wf: "mem_wf s" using assms(1) by (rule mem_reachable_wf)
  obtain err' c' where d: "ReconcileDelete ctl (env_done env) (ev_Atespace ev) (ev_Name ev) c = (err', c')" by fastforce
  have e: "err' = err" "err \<noteq> None \<longrightarrow> c' = c1"
    using d assms(3) by (auto simp: ReconcileDelete_def orDefault_def Let_def split: if_splits option.splits)
  note p = mq.processEvent_delete [OF wf assms(2) d, of r]
  show ?thesis
  proof (cases err)
    case None
    have "mem_GetTask a n (snd (mem_DeleteTask (ev_Atespace ev) (ev_Name ev) s)) =
        (if mem_taskKey a n = mem_taskKey (ev_Atespace ev) (ev_Name ev) then Err ENotFound else mem_GetTask a n s)" for a n
      using wf mt.del_wf [OF wf] by (simp add: mt.get_view mt.del_view)
    with None p e show ?thesis by simp
  qed (use p e in simp)
qed

theorem worker_delete_outcome_witness:
  "\<exists>s' c'. processEvent mem_store sim_egress exampleRec exampleEnv (exampleEvent ''delete'') (exampleStore, (Map.empty, 0)) = (Ok (), s', c') \<and>
     mem_GetTask [] ''demo'' s' = Err ENotFound"
proof -
  have "ev_Action (exampleEvent ''delete'') = ''delete''" by (simp add: exampleEvent_def)
  moreover have "DeleteActor sim_egress (orDefault (ev_Atespace (exampleEvent ''delete''))) (ev_Name (exampleEvent ''delete'')) (Map.empty, 0)
      = (None, (Map.empty, 0))"
    by (simp add: DeleteActor_def sim_egress_def)
  ultimately show ?thesis
    using worker_delete_outcome [OF exampleStore_reachable, of "exampleEvent ''delete''" sim_egress "(Map.empty, 0)" None "(Map.empty, 0)"
        exampleRec exampleEnv]
    by (fastforce simp: exampleEvent_def)
qed

end
