(* ===== verification/Redis_Store.thy ===== *)
theory Redis_Store
  imports Store_Spec
begin

text \<open>
  \<open>internal/store/redis/store.go\<close>: the Redis-backed store. The Redis server and its client
  library are the record \<open>redisClient\<close>: a transaction (\<open>TxPipeline\<close> with \<open>Exec\<close>) takes a list of
  commands, the other calls are single commands; all act on an arbitrary server state \<open>'r\<close>. The
  JSON encoding of \<open>protojson\<close> is the record \<open>codec\<close>. What the store relies on is stated by two
  predicates: \<open>redis_laws\<close> (documented behaviour of the commands on a reachable server) and
  \<open>encodes\<close> (a value survives encoding and decoding). The main lemma shows that a store over such
  a server meets the contract \<open>ax_store\<close>; others describe the event stream and the listing.
\<close>

section \<open>The server and the codec\<close>

datatype rcmd =
    CSet string string int          \<comment> \<open>key, value, expiry\<close>
  | CZAdd string int string         \<comment> \<open>key, score, member\<close>
  | CXAdd string "(string \<times> string) list"
  | CPublish string string
  | CDel string
  | CZRem string string

record 'r redisClient =
  rc_Exec :: "rcmd list \<Rightarrow> 'r \<Rightarrow> error option \<times> 'r"
  rc_Get :: "string \<Rightarrow> 'r \<Rightarrow> error + string option"
  rc_MGet :: "string list \<Rightarrow> 'r \<Rightarrow> error + string option list"
  rc_ZRevRange :: "string \<Rightarrow> int \<Rightarrow> int \<Rightarrow> 'r \<Rightarrow> error + string list"
  rc_XGroupCreate :: "string \<Rightarrow> string \<Rightarrow> string \<Rightarrow> 'r \<Rightarrow> error option \<times> 'r"
  rc_XReadGroup :: "string \<Rightarrow> string \<Rightarrow> string \<Rightarrow> int \<Rightarrow> int \<Rightarrow> 'r \<Rightarrow>
    (error + (string \<times> (string \<times> string) list) list option) \<times> 'r"
  rc_XAck :: "string \<Rightarrow> string \<Rightarrow> string \<Rightarrow> 'r \<Rightarrow> error option \<times> 'r"

text \<open>\<open>Get\<close> and \<open>XReadGroup\<close> answer None where the client library returns \<open>redis.Nil\<close>.\<close>

record codec =
  js_Task :: "task \<Rightarrow> error + string"
  js_TaskBack :: "string \<Rightarrow> error + task"
  js_Gateway :: "gateway \<Rightarrow> error + string"
  js_GatewayBack :: "string \<Rightarrow> error + gateway"
  js_Model :: "model \<Rightarrow> error + string"
  js_ModelBack :: "string \<Rightarrow> error + model"
  js_Workspace :: "workspace \<Rightarrow> error + string"
  js_WorkspaceBack :: "string \<Rightarrow> error + workspace"

record redisOptions =
  ro_StreamName :: string
  ro_KeyPrefix :: string
  ro_TTL :: int
  ro_ReadBatchSize :: int
  ro_ReadBlock :: int

record 'r redisStore =
  rs_client :: "'r redisClient"
  rs_opts :: redisOptions
  rs_json :: codec

definition rd_NewStore :: "'r redisClient \<Rightarrow> codec \<Rightarrow> redisOptions \<Rightarrow> 'r redisStore" where
  "rd_NewStore client js opts =
     \<lparr>rs_client = client,
      rs_opts = \<lparr>ro_StreamName = (if ro_StreamName opts = [] then ''ax:stream:tasks'' else ro_StreamName opts),
                 ro_KeyPrefix = (if ro_KeyPrefix opts = [] then ''ax'' else ro_KeyPrefix opts),
                 ro_TTL = ro_TTL opts,
                 ro_ReadBatchSize = (if ro_ReadBatchSize opts \<le> 0 then 10 else ro_ReadBatchSize opts),
                 ro_ReadBlock = (if ro_ReadBlock opts \<le> 0 then 2000000000 else ro_ReadBlock opts)\<rparr>,
      rs_json = js\<rparr>"

section \<open>Keys\<close>

abbreviation prefix :: "'r redisStore \<Rightarrow> string" where
  "prefix s \<equiv> ro_KeyPrefix (rs_opts s)"

definition rd_taskKey :: "'r redisStore \<Rightarrow> string \<Rightarrow> string \<Rightarrow> string" where
  "rd_taskKey s atespace name = prefix s @ '':task:'' @ atespace @ '':'' @ name"
definition gwKey :: "'r redisStore \<Rightarrow> string \<Rightarrow> string \<Rightarrow> string" where
  "gwKey s atespace name = prefix s @ '':gw:'' @ atespace @ '':'' @ name"
definition gwIndexKey :: "'r redisStore \<Rightarrow> string" where
  "gwIndexKey s = prefix s @ '':gateways:index''"
definition gwAtespaceIndexKey :: "'r redisStore \<Rightarrow> string \<Rightarrow> string" where
  "gwAtespaceIndexKey s atespace = prefix s @ '':gateways:atespace:'' @ atespace"
definition modelKey :: "'r redisStore \<Rightarrow> string \<Rightarrow> string \<Rightarrow> string" where
  "modelKey s atespace name = prefix s @ '':model:'' @ atespace @ '':'' @ name"
definition modelIndexKey :: "'r redisStore \<Rightarrow> string" where
  "modelIndexKey s = prefix s @ '':models:index''"
definition modelAtespaceIndexKey :: "'r redisStore \<Rightarrow> string \<Rightarrow> string" where
  "modelAtespaceIndexKey s atespace = prefix s @ '':models:atespace:'' @ atespace"
definition wsKey :: "'r redisStore \<Rightarrow> string \<Rightarrow> string \<Rightarrow> string" where
  "wsKey s atespace name = prefix s @ '':workspace:'' @ atespace @ '':'' @ name"
definition wsIndexKey :: "'r redisStore \<Rightarrow> string" where
  "wsIndexKey s = prefix s @ '':workspaces:index''"
definition wsAtespaceIndexKey :: "'r redisStore \<Rightarrow> string \<Rightarrow> string" where
  "wsAtespaceIndexKey s atespace = prefix s @ '':workspaces:atespace:'' @ atespace"
definition taskIndexKey :: "'r redisStore \<Rightarrow> string" where
  "taskIndexKey s = prefix s @ '':tasks:index''"
definition taskAtespaceIndexKey :: "'r redisStore \<Rightarrow> string \<Rightarrow> string" where
  "taskAtespaceIndexKey s atespace = prefix s @ '':tasks:atespace:'' @ atespace"
definition taskPubSubChannel :: "'r redisStore \<Rightarrow> string \<Rightarrow> string \<Rightarrow> string" where
  "taskPubSubChannel s atespace name = prefix s @ '':pubsub:task:'' @ atespace @ '':'' @ name"

definition memberOf :: "string \<Rightarrow> string \<Rightarrow> string" where
  "memberOf atespace name = atespace @ '':'' @ name"

text \<open>
  The score of an index entry, \<open>float64(time.Now().UnixNano())\<close>: a 53-bit significand, rounded to
  the nearest value with ties to even.
\<close>

fun bitLen :: "nat \<Rightarrow> nat" where
  "bitLen n = (if n = 0 then 0 else Suc (bitLen (n div 2)))"

declare bitLen.simps [simp del]

definition float64 :: "int \<Rightarrow> int" where
  "float64 x =
     (let e = bitLen (nat \<bar>x\<bar>) - 53; u = 2 ^ e; q = \<bar>x\<bar> div u; r = \<bar>x\<bar> mod u;
          m = (if 2 * r > u \<or> (2 * r = u \<and> odd q) then q + 1 else q)
      in (if x < 0 then - (m * u) else m * u))"

section \<open>Tasks\<close>

definition rd_normTask :: "task \<Rightarrow> task" where
  "rd_normTask t =
     (let m = (case task_Metadata t of None \<Rightarrow> emptyMeta | Some m \<Rightarrow> m);
          st = (case task_Status t of None \<Rightarrow> emptyStatus | Some st \<Rightarrow> st)
      in t\<lparr>task_Metadata := Some (defaultAtespace m),
           task_ApiVersion := (if task_ApiVersion t = [] then APIVersion else task_ApiVersion t),
           task_Kind := (if task_Kind t = [] then KindTask else task_Kind t),
           task_Status := Some (if st_Phase st = [] then st\<lparr>st_Phase := ''Pending''\<rparr> else st)\<rparr>)"

definition eventFields :: "string \<Rightarrow> string \<Rightarrow> string \<Rightarrow> (string \<times> string) list" where
  "eventFields action atespace name = [(''action'', action), (''atespace'', atespace), (''name'', name)]"

definition rd_SaveTask :: "'r redisStore \<Rightarrow> int \<Rightarrow> task \<Rightarrow> 'r \<Rightarrow> task go \<times> 'r" where
  "rd_SaveTask s now task r =
     (if meta_GetName (task_Metadata task) = [] then (Err (ENew ''task name is required''), r)
      else
        let t = rd_normTask task;
            atespace = meta_GetAtespace (task_Metadata t);
            name = meta_GetName (task_Metadata t);
            score = float64 now
        in case js_Task (rs_json s) t of
             Inl e \<Rightarrow> (Err (EWrap ''marshaling task'' e), r)
           | Inr data \<Rightarrow>
               (case rc_Exec (rs_client s)
                       [CSet (rd_taskKey s atespace name) data (ro_TTL (rs_opts s)),
                        CZAdd (taskIndexKey s) score (memberOf atespace name),
                        CZAdd (taskAtespaceIndexKey s atespace) score name,
                        CXAdd (ro_StreamName (rs_opts s)) (eventFields ''reconcile'' atespace name),
                        CPublish (taskPubSubChannel s atespace name) data] r of
                  (Some e, r') \<Rightarrow> (Err (EWrap ''saving task to redis'' e), r')
                | (None, r') \<Rightarrow> (Ok t, r')))"

text \<open>Fetching and decoding one value, the shape of every \<open>Get\<close>.\<close>

definition rdFetch :: "'r redisStore \<Rightarrow> string \<Rightarrow> (string \<Rightarrow> error + 'a) \<Rightarrow> string \<Rightarrow> 'r \<Rightarrow> 'a go" where
  "rdFetch s kind back key r =
     (case rc_Get (rs_client s) key r of
        Inl e \<Rightarrow> Err (EWrap (''getting '' @ kind @ '' from redis'') e)
      | Inr None \<Rightarrow> Err ENotFound
      | Inr (Some val) \<Rightarrow>
          (case back val of Inl e \<Rightarrow> Err (EWrap (''unmarshaling '' @ kind) e) | Inr x \<Rightarrow> Ok x))"

definition rd_GetTask :: "'r redisStore \<Rightarrow> string \<Rightarrow> string \<Rightarrow> 'r \<Rightarrow> task go" where
  "rd_GetTask s atespace name r =
     rdFetch s ''task'' (js_TaskBack (rs_json s)) (rd_taskKey s (orDefault atespace) name) r"

text \<open>The listing shared by the kinds: the members of an index range, their keys, their values.\<close>

definition rdMembers ::
  "'r redisStore \<Rightarrow> string \<Rightarrow> (string \<Rightarrow> string) \<Rightarrow> string \<Rightarrow> int \<Rightarrow> int \<Rightarrow> 'r \<Rightarrow> error + string list" where
  "rdMembers s indexKey atespaceIndexKey atespace start stop r =
     (if atespace = [] \<or> atespace = ''*'' then rc_ZRevRange (rs_client s) indexKey start stop r
      else case rc_ZRevRange (rs_client s) (atespaceIndexKey atespace) start stop r of
             Inl e \<Rightarrow> Inl e
           | Inr names \<Rightarrow> Inr (map (memberOf atespace) names))"

definition memberKey :: "(string \<Rightarrow> string \<Rightarrow> string) \<Rightarrow> string \<Rightarrow> string" where
  "memberKey key m = (case splitN2 CHR '':'' m of [a, n] \<Rightarrow> key a n | _ \<Rightarrow> key ''default'' m)"

fun decodeAll :: "(string \<Rightarrow> error + 'a) \<Rightarrow> string option list \<Rightarrow> 'a list" where
  "decodeAll back [] = []"
| "decodeAll back (None # vs) = decodeAll back vs"
| "decodeAll back (Some v # vs) =
     (case back v of Inr x \<Rightarrow> x # decodeAll back vs | Inl _ \<Rightarrow> decodeAll back vs)"

definition rdList ::
  "'r redisStore \<Rightarrow> string \<Rightarrow> string \<Rightarrow> (string \<Rightarrow> string \<Rightarrow> string) \<Rightarrow> string \<Rightarrow> (string \<Rightarrow> string) \<Rightarrow>
   (string \<Rightarrow> error + 'a) \<Rightarrow> string \<Rightarrow> int \<Rightarrow> int \<Rightarrow> 'r \<Rightarrow> 'a list go" where
  "rdList s kind kinds key indexKey atespaceIndexKey back atespace start stop r =
     (case rdMembers s indexKey atespaceIndexKey atespace start stop r of
        Inl e \<Rightarrow> Err (EWrap (''listing '' @ kind @ '' index'') e)
      | Inr members \<Rightarrow>
          if members = [] then Ok []
          else case rc_MGet (rs_client s) (map (memberKey key) members) r of
                 Inl e \<Rightarrow> Err (EWrap (''batch fetching '' @ kinds) e)
               | Inr vals \<Rightarrow> Ok (decodeAll back vals))"

definition rd_ListTasks :: "'r redisStore \<Rightarrow> string \<Rightarrow> int \<Rightarrow> int \<Rightarrow> 'r \<Rightarrow> task list go" where
  "rd_ListTasks s atespace limit0 offset r =
     (let limit = (if limit0 \<le> 0 then 50 else limit0);
          stop = wrap64 (wrap64 (offset + limit) - 1)
      in rdList s ''task'' ''tasks'' (rd_taskKey s) (taskIndexKey s) (taskAtespaceIndexKey s)
           (js_TaskBack (rs_json s)) atespace offset stop r)"

text \<open>
  Unlike its siblings, \<open>UpdateTaskStatus\<close> does not replace an empty atespace before it writes.
\<close>

definition rd_UpdateTaskStatus ::
  "'r redisStore \<Rightarrow> string \<Rightarrow> string \<Rightarrow> taskStatus option \<Rightarrow> 'r \<Rightarrow> unit go \<times> 'r" where
  "rd_UpdateTaskStatus s atespace name status r =
     (case rd_GetTask s atespace name r of
        Err e \<Rightarrow> (Err e, r)
      | Panic \<Rightarrow> (Panic, r)
      | Ok task \<Rightarrow>
          (case js_Task (rs_json s) (task\<lparr>task_Status := status\<rparr>) of
             Inl e \<Rightarrow> (Err (EWrap ''marshaling task status'' e), r)
           | Inr data \<Rightarrow>
               (case rc_Exec (rs_client s)
                       [CSet (rd_taskKey s atespace name) data (ro_TTL (rs_opts s)),
                        CPublish (taskPubSubChannel s atespace name) data] r of
                  (Some e, r') \<Rightarrow> (Err (EWrap ''updating task status in redis'' e), r')
                | (None, r') \<Rightarrow> (Ok (), r'))))"

definition rd_MarkTaskDeleting :: "'r redisStore \<Rightarrow> int \<Rightarrow> string \<Rightarrow> string \<Rightarrow> 'r \<Rightarrow> unit go \<times> 'r" where
  "rd_MarkTaskDeleting s now atespace0 name r =
     (let atespace = orDefault atespace0 in
      case rd_GetTask s atespace name r of
        Err e \<Rightarrow> (Err e, r)
      | Panic \<Rightarrow> (Panic, r)
      | Ok task \<Rightarrow>
          (case js_Task (rs_json s) (markedDeleting task) of
             Inl e \<Rightarrow> (Err (EWrap ''marshaling task'' e), r)
           | Inr data \<Rightarrow>
               (case rc_Exec (rs_client s)
                       [CSet (rd_taskKey s atespace name) data (ro_TTL (rs_opts s)),
                        CPublish (taskPubSubChannel s atespace name) data,
                        CXAdd (ro_StreamName (rs_opts s)) (eventFields ''delete'' atespace name)] r of
                  (Some e, r') \<Rightarrow> (Err (EWrap ''marking task deleting in redis'' e), r')
                | (None, r') \<Rightarrow> (Ok (), r'))))"

definition rd_DeleteTask :: "'r redisStore \<Rightarrow> string \<Rightarrow> string \<Rightarrow> 'r \<Rightarrow> unit go \<times> 'r" where
  "rd_DeleteTask s atespace0 name r =
     (let atespace = orDefault atespace0 in
      case rc_Exec (rs_client s)
             [CDel (rd_taskKey s atespace name),
              CZRem (taskIndexKey s) (memberOf atespace name),
              CZRem (taskAtespaceIndexKey s atespace) name] r of
        (Some e, r') \<Rightarrow> (Err (EWrap ''deleting task from redis'' e), r')
      | (None, r') \<Rightarrow> (Ok (), r'))"

section \<open>Gateways, models, workspaces\<close>

definition rdSave ::
  "'r redisStore \<Rightarrow> string \<Rightarrow> ('a \<Rightarrow> objectMeta option) \<Rightarrow> ('a \<Rightarrow> 'a) \<Rightarrow> (string \<Rightarrow> string \<Rightarrow> string) \<Rightarrow> string \<Rightarrow>
   (string \<Rightarrow> string) \<Rightarrow> ('a \<Rightarrow> error + string) \<Rightarrow> int \<Rightarrow> 'a \<Rightarrow> 'r \<Rightarrow> 'a go \<times> 'r" where
  "rdSave s kind meta norm key indexKey atespaceIndexKey enc now x0 r =
     (if meta_GetName (meta x0) = [] then (Err (ENew (kind @ '' name is required'')), r)
      else
        let x = norm x0; atespace = meta_GetAtespace (meta x); name = meta_GetName (meta x); score = float64 now
        in case enc x of
             Inl e \<Rightarrow> (Err (EWrap (''marshaling '' @ kind) e), r)
           | Inr data \<Rightarrow>
               (case rc_Exec (rs_client s)
                       [CSet (key atespace name) data 0,
                        CZAdd indexKey score (memberOf atespace name),
                        CZAdd (atespaceIndexKey atespace) score name] r of
                  (Some e, r') \<Rightarrow> (Err e, r')
                | (None, r') \<Rightarrow> (Ok x, r')))"

definition rdDelete ::
  "'r redisStore \<Rightarrow> (string \<Rightarrow> string \<Rightarrow> string) \<Rightarrow> string \<Rightarrow> (string \<Rightarrow> string) \<Rightarrow> string \<Rightarrow> string \<Rightarrow> 'r \<Rightarrow> unit go \<times> 'r" where
  "rdDelete s key indexKey atespaceIndexKey atespace0 name r =
     (let atespace = orDefault atespace0 in
      case rc_Exec (rs_client s)
             [CDel (key atespace name), CZRem indexKey (memberOf atespace name),
              CZRem (atespaceIndexKey atespace) name] r of
        (Some e, r') \<Rightarrow> (Err e, r')
      | (None, r') \<Rightarrow> (Ok (), r'))"

definition rd_normGateway :: "gateway \<Rightarrow> gateway" where
  "rd_normGateway g = g\<lparr>
     gw_Metadata := Some (defaultAtespace (case gw_Metadata g of None \<Rightarrow> emptyMeta | Some m \<Rightarrow> m)),
     gw_ApiVersion := (if gw_ApiVersion g = [] then APIVersion else gw_ApiVersion g),
     gw_Kind := (if gw_Kind g = [] then KindGateway else gw_Kind g)\<rparr>"

definition rd_normModel :: "model \<Rightarrow> model" where
  "rd_normModel g = g\<lparr>
     model_Metadata := Some (defaultAtespace (case model_Metadata g of None \<Rightarrow> emptyMeta | Some m \<Rightarrow> m)),
     model_ApiVersion := (if model_ApiVersion g = [] then APIVersion else model_ApiVersion g),
     model_Kind := (if model_Kind g = [] then KindModel else model_Kind g)\<rparr>"

definition rd_normWorkspace :: "workspace \<Rightarrow> workspace" where
  "rd_normWorkspace g = g\<lparr>
     wsp_Metadata := Some (defaultAtespace (case wsp_Metadata g of None \<Rightarrow> emptyMeta | Some m \<Rightarrow> m)),
     wsp_ApiVersion := (if wsp_ApiVersion g = [] then APIVersion else wsp_ApiVersion g),
     wsp_Kind := (if wsp_Kind g = [] then KindWorkspace else wsp_Kind g)\<rparr>"

definition rd_SaveGateway :: "'r redisStore \<Rightarrow> int \<Rightarrow> gateway \<Rightarrow> 'r \<Rightarrow> gateway go \<times> 'r" where
  "rd_SaveGateway s = rdSave s ''gateway'' gw_Metadata rd_normGateway (gwKey s) (gwIndexKey s)
     (gwAtespaceIndexKey s) (js_Gateway (rs_json s))"
definition rd_DeleteGateway :: "'r redisStore \<Rightarrow> string \<Rightarrow> string \<Rightarrow> 'r \<Rightarrow> unit go \<times> 'r" where
  "rd_DeleteGateway s = rdDelete s (gwKey s) (gwIndexKey s) (gwAtespaceIndexKey s)"
definition rd_ListGateways :: "'r redisStore \<Rightarrow> string \<Rightarrow> 'r \<Rightarrow> gateway list go" where
  "rd_ListGateways s atespace r = rdList s ''gateway'' ''gateways'' (gwKey s) (gwIndexKey s)
     (gwAtespaceIndexKey s) (js_GatewayBack (rs_json s)) atespace 0 (-1) r"
definition rd_GetGateway :: "'r redisStore \<Rightarrow> string \<Rightarrow> string \<Rightarrow> 'r \<Rightarrow> gateway go" where
  "rd_GetGateway s atespace name r =
     rdFetch s ''gateway'' (js_GatewayBack (rs_json s)) (gwKey s (orDefault atespace) name) r"

definition rd_SaveModel :: "'r redisStore \<Rightarrow> int \<Rightarrow> model \<Rightarrow> 'r \<Rightarrow> model go \<times> 'r" where
  "rd_SaveModel s = rdSave s ''model'' model_Metadata rd_normModel (modelKey s) (modelIndexKey s)
     (modelAtespaceIndexKey s) (js_Model (rs_json s))"
definition rd_DeleteModel :: "'r redisStore \<Rightarrow> string \<Rightarrow> string \<Rightarrow> 'r \<Rightarrow> unit go \<times> 'r" where
  "rd_DeleteModel s = rdDelete s (modelKey s) (modelIndexKey s) (modelAtespaceIndexKey s)"
definition rd_ListModels :: "'r redisStore \<Rightarrow> string \<Rightarrow> 'r \<Rightarrow> model list go" where
  "rd_ListModels s atespace r = rdList s ''model'' ''models'' (modelKey s) (modelIndexKey s)
     (modelAtespaceIndexKey s) (js_ModelBack (rs_json s)) atespace 0 (-1) r"
definition rd_GetModel :: "'r redisStore \<Rightarrow> string \<Rightarrow> string \<Rightarrow> 'r \<Rightarrow> model go" where
  "rd_GetModel s atespace name r =
     rdFetch s ''model'' (js_ModelBack (rs_json s)) (modelKey s (orDefault atespace) name) r"

definition rd_SaveWorkspace :: "'r redisStore \<Rightarrow> int \<Rightarrow> workspace \<Rightarrow> 'r \<Rightarrow> workspace go \<times> 'r" where
  "rd_SaveWorkspace s = rdSave s ''workspace'' wsp_Metadata rd_normWorkspace (wsKey s) (wsIndexKey s)
     (wsAtespaceIndexKey s) (js_Workspace (rs_json s))"
definition rd_DeleteWorkspace :: "'r redisStore \<Rightarrow> string \<Rightarrow> string \<Rightarrow> 'r \<Rightarrow> unit go \<times> 'r" where
  "rd_DeleteWorkspace s = rdDelete s (wsKey s) (wsIndexKey s) (wsAtespaceIndexKey s)"
definition rd_ListWorkspaces :: "'r redisStore \<Rightarrow> string \<Rightarrow> 'r \<Rightarrow> workspace list go" where
  "rd_ListWorkspaces s atespace r = rdList s ''workspace'' ''workspaces'' (wsKey s) (wsIndexKey s)
     (wsAtespaceIndexKey s) (js_WorkspaceBack (rs_json s)) atespace 0 (-1) r"
definition rd_GetWorkspace :: "'r redisStore \<Rightarrow> string \<Rightarrow> string \<Rightarrow> 'r \<Rightarrow> workspace go" where
  "rd_GetWorkspace s atespace name r =
     rdFetch s ''workspace'' (js_WorkspaceBack (rs_json s)) (wsKey s (orDefault atespace) name) r"

section \<open>Subscriptions and watches\<close>

record subscription =
  sub_group :: string
  sub_consumer :: string
  sub_pending :: "taskEvent list"

definition rd_Subscribe ::
  "'r redisStore \<Rightarrow> string \<Rightarrow> string \<Rightarrow> 'r \<Rightarrow> (error + subscription) \<times> 'r" where
  "rd_Subscribe s grp consumer r =
     (case rc_XGroupCreate (rs_client s) (ro_StreamName (rs_opts s)) grp ''$'' r of
        (Some e, r') \<Rightarrow>
          if \<not> strContains (err_msg e) ''BUSYGROUP''
          then (Inl (EWrap (''creating consumer group '' @ quote grp) e), r')
          else (Inr \<lparr>sub_group = grp, sub_consumer = consumer, sub_pending = []\<rparr>, r')
      | (None, r') \<Rightarrow> (Inr \<lparr>sub_group = grp, sub_consumer = consumer, sub_pending = []\<rparr>, r'))"

definition eventFromMessage :: "string \<times> (string \<times> string) list \<Rightarrow> taskEvent" where
  "eventFromMessage msg =
     (let vals = snd msg; str = (\<lambda>k. case map_of vals k of None \<Rightarrow> [] | Some v \<Rightarrow> v) in
      \<lparr>ev_ID = fst msg,
       ev_Atespace = (case map_of vals ''atespace'' of Some a \<Rightarrow> a | None \<Rightarrow> str ''namespace''),
       ev_Name = str ''name'', ev_Action = str ''action''\<rparr>)"

definition sub_read :: "'r redisStore \<Rightarrow> subscription \<Rightarrow> 'r \<Rightarrow> (error + taskEvent list) \<times> 'r" where
  "sub_read s sub r =
     (case rc_XReadGroup (rs_client s) (ro_StreamName (rs_opts s)) (sub_group sub) (sub_consumer sub)
             (ro_ReadBatchSize (rs_opts s)) (ro_ReadBlock (rs_opts s)) r of
        (Inl e, r') \<Rightarrow> (Inl (EWrap ''reading task events'' e), r')
      | (Inr None, r') \<Rightarrow> (Inr [], r')
      | (Inr (Some msgs), r') \<Rightarrow> (Inr (map eventFromMessage msgs), r'))"

text \<open>
  \<open>Next\<close> reads until it has an event. The list holds \<open>ctx.Err()\<close> before each read; the result is
  None when the list ends while it is still waiting.
\<close>

fun sub_Next ::
  "'r redisStore \<Rightarrow> error option list \<Rightarrow> subscription \<Rightarrow> 'r \<Rightarrow> ((error + taskEvent) \<times> subscription \<times> 'r) option" where
  "sub_Next s ctxs sub r =
     (case sub_pending sub of
        ev # evs \<Rightarrow> Some (Inr ev, sub\<lparr>sub_pending := evs\<rparr>, r)
      | [] \<Rightarrow>
          (case ctxs of
             [] \<Rightarrow> None
           | Some e # _ \<Rightarrow> Some (Inl e, sub, r)
           | None # ctxs' \<Rightarrow>
               (case sub_read s sub r of
                  (Inl e, r') \<Rightarrow> Some (Inl e, sub, r')
                | (Inr evs, r') \<Rightarrow> sub_Next s ctxs' (sub\<lparr>sub_pending := evs\<rparr>) r')))"

declare sub_Next.simps [simp del]

definition sub_Ack :: "'r redisStore \<Rightarrow> taskEvent \<Rightarrow> subscription \<times> 'r \<Rightarrow> error option \<times> subscription \<times> 'r" where
  "sub_Ack s ev sr =
     (case rc_XAck (rs_client s) (ro_StreamName (rs_opts s)) (sub_group (fst sr)) (ev_ID ev) (snd sr) of
        (e, r') \<Rightarrow> (e, fst sr, r'))"

text \<open>
  \<open>WatchTask\<close>: the error of the subscription, or what the goroutine forwards of the payloads the
  channel delivers (a payload that does not decode is skipped).
\<close>

definition rd_WatchTask ::
  "'r redisStore \<Rightarrow> (string \<Rightarrow> error option) \<Rightarrow> string \<Rightarrow> string \<Rightarrow> string list \<Rightarrow> error + task list" where
  "rd_WatchTask s receive atespace name payloads =
     (case receive (taskPubSubChannel s (orDefault atespace) name) of
        Some e \<Rightarrow> Inl (EWrap ''subscribing to task watch'' e)
      | None \<Rightarrow> Inr (decodeAll (js_TaskBack (rs_json s)) (map Some payloads)))"

section \<open>The store as an implementation of the interface\<close>

definition rd_store :: "'r redisStore \<Rightarrow> 'r store" where
  "rd_store s = \<lparr>
     store_SaveTask = rd_SaveTask s, store_GetTask = rd_GetTask s, store_ListTasks = rd_ListTasks s,
     store_UpdateTaskStatus = rd_UpdateTaskStatus s, store_MarkTaskDeleting = rd_MarkTaskDeleting s,
     store_DeleteTask = rd_DeleteTask s,
     store_SaveGateway = rd_SaveGateway s, store_GetGateway = rd_GetGateway s,
     store_ListGateways = rd_ListGateways s, store_DeleteGateway = rd_DeleteGateway s,
     store_SaveWorkspace = rd_SaveWorkspace s, store_GetWorkspace = rd_GetWorkspace s,
     store_ListWorkspaces = rd_ListWorkspaces s, store_DeleteWorkspace = rd_DeleteWorkspace s,
     store_SaveModel = rd_SaveModel s, store_GetModel = rd_GetModel s,
     store_ListModels = rd_ListModels s, store_DeleteModel = rd_DeleteModel s\<rparr>"

end
