(* ===== verification/Redis_Refinement.thy ===== *)
theory Redis_Refinement
  imports Redis_Store "HOL-Library.Product_Lexorder" "HOL-Library.List_Lexorder" "HOL-Library.Char_ord"
begin

text \<open>
  The Redis store against the contract of the interface. The documented effect of the Redis
  commands is a function on a keyspace of typed values (\<open>runCmd\<close>), and \<open>redis_laws\<close> relates a
  client to it: a transaction that no value of the wrong type stands in the way of has that
  effect. Under these laws, for records without expiry, the store meets \<open>ax_store\<close>, its listing
  is the list of the stored tasks, newest first and cut into pages, and a subscription is an
  \<open>event_queue\<close>. The invariant \<open>rd_wf\<close> ties the four groups of keys to their indexes.
\<close>

section \<open>What the commands do\<close>

datatype rvalue = RStr string | RZSet "(string \<times> int) list" | RStream "(string \<times> string) list list"

type_synonym keyspace = "string \<Rightarrow> rvalue option"

definition zset :: "rvalue option \<Rightarrow> (string \<times> int) list" where
  "zset v = (case v of Some (RZSet z) \<Rightarrow> z | _ \<Rightarrow> [])"

definition isZSet :: "rvalue option \<Rightarrow> bool" where
  "isZSet v = (case v of None \<Rightarrow> True | Some (RZSet _) \<Rightarrow> True | _ \<Rightarrow> False)"

definition isStream :: "rvalue option \<Rightarrow> bool" where
  "isStream v = (case v of None \<Rightarrow> True | Some (RStream _) \<Rightarrow> True | _ \<Rightarrow> False)"

definition streamEntries :: "rvalue option \<Rightarrow> (string \<times> string) list list" where
  "streamEntries v = (case v of Some (RStream es) \<Rightarrow> es | _ \<Rightarrow> [])"

fun runCmd :: "rcmd \<Rightarrow> keyspace \<Rightarrow> keyspace option" where
  "runCmd (CSet k v _) m = Some (m(k \<mapsto> RStr v))"
| "runCmd (CZAdd k sc x) m =
     (if isZSet (m k) then Some (m(k \<mapsto> RZSet ((x, sc) # filter (\<lambda>e. fst e \<noteq> x) (zset (m k))))) else None)"
| "runCmd (CXAdd k fs) m =
     (if isStream (m k) then Some (m(k \<mapsto> RStream (streamEntries (m k) @ [fs]))) else None)"
| "runCmd (CPublish _ _) m = Some m"
| "runCmd (CDel k) m = Some (m(k := None))"
| "runCmd (CZRem k x) m =
     (if isZSet (m k)
      then let z = filter (\<lambda>e. fst e \<noteq> x) (zset (m k)) in Some (m(k := if z = [] then None else Some (RZSet z)))
      else None)"

fun runCmds :: "rcmd list \<Rightarrow> keyspace \<Rightarrow> keyspace option" where
  "runCmds [] m = Some m"
| "runCmds (c # cs) m = (case runCmd c m of None \<Rightarrow> None | Some m' \<Rightarrow> runCmds cs m')"

lemma runCmds_append: "runCmds (cs @ ds) m = Option.bind (runCmds cs m) (runCmds ds)"
  by (induction cs arbitrary: m) (simp_all split: option.split)

text \<open>\<open>ZREVRANGE\<close>: by descending score, then descending member; negative positions count from the end.\<close>

definition zrev :: "(string \<times> int) list \<Rightarrow> string list" where
  "zrev z = rev (map snd (sort (map (\<lambda>(x, sc). (sc, x)) z)))"

definition zslice :: "int \<Rightarrow> int \<Rightarrow> 'a list \<Rightarrow> 'a list" where
  "zslice start stop xs =
     (let n = int (length xs);
          a = max 0 (if start < 0 then start + n else start);
          b = (if stop < 0 then stop + n else stop)
      in take (nat (b + 1 - a)) (drop (nat a) xs))"

definition strOf :: "rvalue option \<Rightarrow> string option" where
  "strOf v = (case v of Some (RStr d) \<Rightarrow> Some d | _ \<Rightarrow> None)"

definition noExpiry :: "rcmd \<Rightarrow> bool" where
  "noExpiry c = (case c of CSet _ _ ttl \<Rightarrow> ttl = 0 | _ \<Rightarrow> True)"

definition redis_laws :: "'r redisClient \<Rightarrow> ('r \<Rightarrow> keyspace) \<Rightarrow> bool" where
  "redis_laws c db \<longleftrightarrow>
     (\<forall>cmds r m. list_all noExpiry cmds \<longrightarrow> runCmds cmds (db r) = Some m \<longrightarrow>
        (\<exists>r'. rc_Exec c cmds r = (None, r') \<and> db r' = m)) \<and>
     (\<forall>k r. (db r k = None \<longrightarrow> rc_Get c k r = Inr None) \<and>
            (\<forall>d. db r k = Some (RStr d) \<longrightarrow> rc_Get c k r = Inr (Some d))) \<and>
     (\<forall>ks r. rc_MGet c ks r = Inr (map (\<lambda>k. strOf (db r k)) ks)) \<and>
     (\<forall>k i j r. isZSet (db r k) \<longrightarrow> rc_ZRevRange c k i j r = Inr (zslice i j (zrev (zset (db r k)))))"

lemma redis_laws_exec:
  assumes "redis_laws c db" and "list_all noExpiry cmds" and "runCmds cmds (db r) = Some m"
  obtains r' where "rc_Exec c cmds r = (None, r')" and "db r' = m"
  using assms unfolding redis_laws_def by blast

lemma redis_laws_reads:
  assumes "redis_laws c db"
  shows "db r k = None \<Longrightarrow> rc_Get c k r = Inr None"
    and "db r k = Some (RStr d) \<Longrightarrow> rc_Get c k r = Inr (Some d)"
    and "rc_MGet c ks r = Inr (map (\<lambda>k. strOf (db r k)) ks)"
    and "isZSet (db r k) \<Longrightarrow> rc_ZRevRange c k i j r = Inr (zslice i j (zrev (zset (db r k))))"
  using assms by (auto simp: redis_laws_def)

section \<open>The keys of one kind\<close>

text \<open>
  Every kind keeps its records under \<open>P @ member\<close> and its indexes under \<open>Q\<close>: the members of all
  its records at \<open>Q @ ''index''\<close>, and the names of one atespace at \<open>Q @ ''atespace:'' @ a\<close>.
\<close>

definition under :: "string \<Rightarrow> string \<Rightarrow> bool" where
  "under p k = (take (length p) k = p)"

lemma under_append [simp]: "under p (p @ k)"
  by (simp add: under_def)

lemma underE:
  assumes "under p k" obtains m where "k = p @ m"
  using assms append_take_drop_id [of "length p" k] by (metis under_def)

definition encodes :: "('a \<Rightarrow> error + string) \<Rightarrow> (string \<Rightarrow> error + 'a) \<Rightarrow> 'a \<Rightarrow> bool" where
  "encodes enc back x \<longleftrightarrow> (case enc x of Inl _ \<Rightarrow> False | Inr d \<Rightarrow> back d = Inr x)"

definition decoded :: "(string \<Rightarrow> error + 'a) \<Rightarrow> rvalue option \<Rightarrow> 'a option" where
  "decoded back v = (case strOf v of None \<Rightarrow> None | Some d \<Rightarrow> (case back d of Inl _ \<Rightarrow> None | Inr x \<Rightarrow> Some x))"

definition kindView :: "string \<Rightarrow> (string \<Rightarrow> error + 'a) \<Rightarrow> keyspace \<Rightarrow> string \<Rightarrow> 'a option" where
  "kindView P back m k = (if under P k then decoded back (m k) else None)"

definition metaMember :: "objectMeta option \<Rightarrow> string" where
  "metaMember md = memberOf (orDefault (meta_GetAtespace md)) (meta_GetName md)"

definition recordOk :: "(string \<Rightarrow> error + 'a) \<Rightarrow> ('a \<Rightarrow> objectMeta option) \<Rightarrow> string \<Rightarrow> rvalue option \<Rightarrow> bool" where
  "recordOk back meta mem v \<longleftrightarrow> v = None \<or> (\<exists>x. decoded back v = Some x \<and> meta x \<noteq> None \<and> metaMember (meta x) = mem)"

definition kindWf ::
  "string \<Rightarrow> string \<Rightarrow> (string \<Rightarrow> error + 'a) \<Rightarrow> ('a \<Rightarrow> objectMeta option) \<Rightarrow> keyspace \<Rightarrow> bool" where
  "kindWf P Q back meta m \<longleftrightarrow>
     (\<forall>mem. recordOk back meta mem (m (P @ mem))) \<and>
     (\<forall>a. isZSet (m (Q @ ''atespace:'' @ a))) \<and>
     isZSet (m (Q @ ''index'')) \<and> distinct (map fst (zset (m (Q @ ''index'')))) \<and>
     (\<forall>mem. mem \<in> fst ` set (zset (m (Q @ ''index''))) \<longleftrightarrow> m (P @ mem) \<noteq> None)"

definition apart :: "string \<Rightarrow> string \<Rightarrow> bool" where
  "apart p q \<longleftrightarrow> (\<forall>x y. p @ x \<noteq> q @ y)"

lemma apart_not_under: "apart p q \<Longrightarrow> under p k \<Longrightarrow> \<not> under q k"
  by (auto simp: apart_def elim!: underE)

text \<open>The invariant looks at the kind's own keys only.\<close>

lemma kindWf_frame:
  assumes "kindWf P Q back meta m" and "\<And>k. under P k \<or> under Q k \<Longrightarrow> m' k = m k"
  shows "kindWf P Q back meta m'"
  using assms by (simp add: kindWf_def)

lemma zset_simps [simp]:
  "zset None = []" "zset (Some (RZSet z)) = z"
  "isZSet None" "isZSet (Some (RZSet z))" "\<not> isZSet (Some (RStr d))" "\<not> isZSet (Some (RStream es))"
  "isStream None" "isStream (Some (RStream es))"
  "strOf None = None" "strOf (Some (RStr d)) = Some d" "strOf (Some (RZSet z)) = None"
  by (simp_all add: zset_def isZSet_def isStream_def strOf_def)

lemma decoded_simps [simp]:
  "decoded back None = None"
  "back d = Inr x \<Longrightarrow> decoded back (Some (RStr d)) = Some x"
  by (simp_all add: decoded_def)

section \<open>Saving and deleting one record\<close>

definition saveCmds :: "string \<Rightarrow> string \<Rightarrow> string \<Rightarrow> string \<Rightarrow> string \<Rightarrow> int \<Rightarrow> rcmd list" where
  "saveCmds P Q a n d sc =
     [CSet (P @ memberOf a n) d 0, CZAdd (Q @ ''index'') sc (memberOf a n), CZAdd (Q @ ''atespace:'' @ a) sc n]"

definition deleteCmds :: "string \<Rightarrow> string \<Rightarrow> string \<Rightarrow> string \<Rightarrow> rcmd list" where
  "deleteCmds P Q a n =
     [CDel (P @ memberOf a n), CZRem (Q @ ''index'') (memberOf a n), CZRem (Q @ ''atespace:'' @ a) n]"

lemma fst_filter_neq [simp]: "fst ` set (filter (\<lambda>e. fst e \<noteq> x) z) = fst ` set z - {x}"
  by auto

lemma distinct_fst_filter [simp]: "distinct (map fst z) \<Longrightarrow> distinct (map fst (filter P z))"
  by (rule distinct_map_filter)

lemma saveCmds_run:
  assumes "kindWf P Q back meta m" and "apart P Q"
    and "back d = Inr x" and "meta x \<noteq> None" and "metaMember (meta x) = memberOf a n"
  obtains m' where "runCmds (saveCmds P Q a n d sc) m = Some m'"
    and "kindWf P Q back meta m'"
    and "\<And>k. \<not> under Q k \<Longrightarrow> m' k = (m(P @ memberOf a n \<mapsto> RStr d)) k"
proof -
  have ap: "P @ u \<noteq> Q @ v" "Q @ v \<noteq> P @ u" for u v using assms(2) by (metis apart_def)+
  let ?i = "Q @ ''index''" and ?j = "Q @ ''atespace:'' @ a" and ?k = "P @ memberOf a n"
  let ?z = "(memberOf a n, sc) # filter (\<lambda>e. fst e \<noteq> memberOf a n) (zset (m ?i))"
  let ?y = "(n, sc) # filter (\<lambda>e. fst e \<noteq> n) (zset (m ?j))"
  let ?m = "m(?k \<mapsto> RStr d, ?i \<mapsto> RZSet ?z, ?j \<mapsto> RZSet ?y)"
  show ?thesis
  proof (rule that [of ?m])
    show "runCmds (saveCmds P Q a n d sc) m = Some ?m"
      using assms(1) by (simp add: saveCmds_def kindWf_def ap)
    show "kindWf P Q back meta ?m"
      using assms unfolding kindWf_def
      by (simp add: ap recordOk_def del: set_filter)
    show "\<And>k. \<not> under Q k \<Longrightarrow> ?m k = (m(?k \<mapsto> RStr d)) k"
      by auto
  qed
qed

lemma deleteCmds_run:
  assumes "kindWf P Q back meta m" and "apart P Q"
  obtains m' where "runCmds (deleteCmds P Q a n) m = Some m'"
    and "kindWf P Q back meta m'"
    and "\<And>k. \<not> under Q k \<Longrightarrow> m' k = (m(P @ memberOf a n := None)) k"
proof -
  have ap: "P @ u \<noteq> Q @ v" "Q @ v \<noteq> P @ u" for u v using assms(2) by (metis apart_def)+
  let ?i = "Q @ ''index''" and ?j = "Q @ ''atespace:'' @ a" and ?k = "P @ memberOf a n"
  let ?z = "filter (\<lambda>e. fst e \<noteq> memberOf a n) (zset (m ?i))"
  let ?y = "filter (\<lambda>e. fst e \<noteq> n) (zset (m ?j))"
  let ?m = "m(?k := None, ?i := if ?z = [] then None else Some (RZSet ?z), ?j := if ?y = [] then None else Some (RZSet ?y))"
  have z: "zset (?m ?i) = ?z" and zi: "isZSet (?m ?i)" by simp_all
  show ?thesis
  proof (rule that [of ?m])
    show "runCmds (deleteCmds P Q a n) m = Some ?m"
      using assms(1) by (simp add: deleteCmds_def kindWf_def ap Let_def)
    show "kindWf P Q back meta ?m"
      unfolding kindWf_def z using assms(1) zi
      by (simp add: kindWf_def ap recordOk_def del: set_filter)
    show "\<And>k. \<not> under Q k \<Longrightarrow> ?m k = (m(?k := None)) k"
      by auto
  qed
qed

text \<open>The commands on the event stream and the watch channel touch the stream only.\<close>

definition streamCmd :: "string \<Rightarrow> rcmd \<Rightarrow> bool" where
  "streamCmd st c = (case c of CXAdd k _ \<Rightarrow> k = st | CPublish _ _ \<Rightarrow> True | _ \<Rightarrow> False)"

lemma streamCmds_run:
  assumes "list_all (streamCmd st) cs" and "isStream (m st)"
  shows "\<exists>m'. runCmds cs m = Some m' \<and> isStream (m' st) \<and> (\<forall>k. k \<noteq> st \<longrightarrow> m' k = m k)"
  using assms
proof (induction cs arbitrary: m)
  case (Cons c cs)
  obtain m1 where m1: "runCmd c m = Some m1" "isStream (m1 st)" "\<forall>k. k \<noteq> st \<longrightarrow> m1 k = m k"
    using Cons.prems by (cases c) (auto simp: streamCmd_def)
  from Cons.IH [of m1] Cons.prems(1) m1 show ?case by auto
qed simp

definition keptOutside :: "string \<Rightarrow> string \<Rightarrow> string \<Rightarrow> keyspace \<Rightarrow> keyspace \<Rightarrow> bool" where
  "keptOutside P Q st m m' \<longleftrightarrow>
     (\<forall>k. \<not> under P k \<longrightarrow> \<not> under Q k \<longrightarrow> k \<noteq> st \<longrightarrow> m' k = m k) \<and> isStream (m' st)"

lemma kindView_upd:
  assumes "\<And>k. \<not> under Q k \<Longrightarrow> k \<noteq> st \<Longrightarrow> m' k = (m(P @ mem := v)) k" and "apart P Q" and "\<not> under P st"
  shows "kindView P back m' = (kindView P back m)(P @ mem := decoded back v)"
proof
  fix k
  show "kindView P back m' k = ((kindView P back m)(P @ mem := decoded back v)) k"
  proof (cases "under P k")
    case True
    then have "k \<noteq> st" using assms(3) by blast
    moreover have "\<not> under Q k" using True apart_not_under [OF assms(2)] by blast
    ultimately have "m' k = (m(P @ mem := v)) k" by (intro assms(1))
    then show ?thesis using True by (simp add: kindView_def)
  next
    case False
    then have "k \<noteq> P @ mem" by auto
    then show ?thesis using False by (simp add: kindView_def)
  qed
qed

lemma kindWf_stream:
  assumes "kindWf P Q back meta m" and "\<forall>k. k \<noteq> st \<longrightarrow> m' k = m k" and "\<not> under P st" and "\<not> under Q st"
  shows "kindWf P Q back meta m'"
proof (rule kindWf_frame [OF assms(1)])
  fix k assume "under P k \<or> under Q k"
  then have "k \<noteq> st" using assms(3,4) by auto
  then show "m' k = m k" using assms(2) by simp
qed

lemma put_step:
  assumes laws: "redis_laws c db" and wf: "kindWf P Q back meta (db r)" "isStream (db r st)"
    and ap: "apart P Q" "\<not> under P st" "\<not> under Q st"
    and x: "back d = Inr x" "meta x \<noteq> None" "metaMember (meta x) = memberOf a n"
    and ex: "list_all (streamCmd st) extra"
  obtains r' where "rc_Exec c (saveCmds P Q a n d sc @ extra) r = (None, r')"
    and "kindWf P Q back meta (db r')" and "keptOutside P Q st (db r) (db r')"
    and "kindView P back (db r') = (kindView P back (db r))(P @ memberOf a n \<mapsto> x)"
proof -
  obtain m1 where m1: "runCmds (saveCmds P Q a n d sc) (db r) = Some m1" "kindWf P Q back meta m1"
      "\<And>k. \<not> under Q k \<Longrightarrow> m1 k = ((db r)(P @ memberOf a n \<mapsto> RStr d)) k"
    using saveCmds_run [OF wf(1) ap(1) x] by metis
  have "isStream (m1 st)" using m1(3)[OF ap(3)] wf(2) ap(2) by auto
  then obtain m2 where m2: "runCmds extra m1 = Some m2" "isStream (m2 st)" "\<forall>k. k \<noteq> st \<longrightarrow> m2 k = m1 k"
    using streamCmds_run [OF ex] by metis
  have run: "runCmds (saveCmds P Q a n d sc @ extra) (db r) = Some m2"
    using m1(1) m2(1) by (simp add: runCmds_append)
  have ne: "list_all noExpiry (saveCmds P Q a n d sc @ extra)"
    using ex by (auto simp: saveCmds_def noExpiry_def streamCmd_def list_all_iff split: rcmd.splits)
  obtain r' where r': "rc_Exec c (saveCmds P Q a n d sc @ extra) r = (None, r')" "db r' = m2"
    by (rule redis_laws_exec [OF laws ne run])
  have k: "m2 k = ((db r)(P @ memberOf a n := Some (RStr d))) k" if "\<not> under Q k" "k \<noteq> st" for k
    using m2(3) m1(3) that by simp
  show ?thesis
  proof (rule that [OF r'(1)])
    show "kindWf P Q back meta (db r')" unfolding r'(2) by (rule kindWf_stream [OF m1(2) m2(3) ap(2,3)])
    show "keptOutside P Q st (db r) (db r')" using k m2(2) by (auto simp: keptOutside_def r'(2))
    show "kindView P back (db r') = (kindView P back (db r))(P @ memberOf a n \<mapsto> x)"
      using kindView_upd [OF k ap(1,2), of "back"] x(1) by (simp add: r'(2))
  qed
qed

lemma drop_step:
  assumes laws: "redis_laws c db" and wf: "kindWf P Q back meta (db r)" "isStream (db r st)"
    and ap: "apart P Q" "\<not> under P st" "\<not> under Q st"
  obtains r' where "rc_Exec c (deleteCmds P Q a n) r = (None, r')"
    and "kindWf P Q back meta (db r')" and "keptOutside P Q st (db r) (db r')"
    and "kindView P back (db r') = (kindView P back (db r))(P @ memberOf a n := None)"
proof -
  obtain m1 where m1: "runCmds (deleteCmds P Q a n) (db r) = Some m1" "kindWf P Q back meta m1"
      "\<And>k. \<not> under Q k \<Longrightarrow> m1 k = ((db r)(P @ memberOf a n := None)) k"
    using deleteCmds_run [OF wf(1) ap(1)] by metis
  have ne: "list_all noExpiry (deleteCmds P Q a n)" by (simp add: deleteCmds_def noExpiry_def)
  obtain r' where r': "rc_Exec c (deleteCmds P Q a n) r = (None, r')" "db r' = m1"
    by (rule redis_laws_exec [OF laws ne m1(1)])
  have "isStream (m1 st)" using m1(3)[OF ap(3)] wf(2) ap(2) by auto
  then have "keptOutside P Q st (db r) (db r')" using m1(3) by (auto simp: keptOutside_def r'(2))
  moreover have "kindView P back (db r') = (kindView P back (db r))(P @ memberOf a n := None)"
    using kindView_upd [OF m1(3) ap(1,2)] by (simp add: r'(2))
  moreover have "kindWf P Q back meta (db r')" using m1(2) by (simp only: r'(2))
  ultimately show ?thesis using r'(1) by (intro that)
qed

lemma fetch_view:
  assumes laws: "redis_laws (rs_client s) db" and wf: "kindWf P Q back meta (db r)"
  shows "rdFetch s kind back (P @ mem) r = found (kindView P back (db r) (P @ mem))"
proof (cases "db r (P @ mem)")
  case None
  then show ?thesis using redis_laws_reads(1) [OF laws None]
    by (simp add: rdFetch_def kindView_def)
next
  case (Some v)
  then have "recordOk back meta mem (Some v)" using wf by (simp add: kindWf_def flip: Some)
  then obtain d x where v: "v = RStr d" "back d = Inr x"
    by (auto simp: recordOk_def decoded_def strOf_def split: rvalue.splits sum.splits)
  show ?thesis using redis_laws_reads(2) [OF laws Some [unfolded v(1)]] v Some
    by (simp add: rdFetch_def kindView_def)
qed

section \<open>The invariant of the store\<close>

definition tagT :: "'r redisStore \<Rightarrow> string" where "tagT s = prefix s @ '':task:''"
definition tagTs :: "'r redisStore \<Rightarrow> string" where "tagTs s = prefix s @ '':tasks:''"
definition tagG :: "'r redisStore \<Rightarrow> string" where "tagG s = prefix s @ '':gw:''"
definition tagGs :: "'r redisStore \<Rightarrow> string" where "tagGs s = prefix s @ '':gateways:''"
definition tagW :: "'r redisStore \<Rightarrow> string" where "tagW s = prefix s @ '':workspace:''"
definition tagWs :: "'r redisStore \<Rightarrow> string" where "tagWs s = prefix s @ '':workspaces:''"
definition tagM :: "'r redisStore \<Rightarrow> string" where "tagM s = prefix s @ '':model:''"
definition tagMs :: "'r redisStore \<Rightarrow> string" where "tagMs s = prefix s @ '':models:''"

lemmas tag_defs = tagT_def tagTs_def tagG_def tagGs_def tagW_def tagWs_def tagM_def tagMs_def

definition tags :: "'r redisStore \<Rightarrow> string list" where
  "tags s = [tagT s, tagTs s, tagG s, tagGs s, tagW s, tagWs s, tagM s, tagMs s]"

text \<open>
  A deployment the laws cover: task records do not expire, and the stream is not one of the
  keys of the records and indexes. Both binaries use \<open>Options{}\<close>, which is such a deployment.
\<close>

definition deployable :: "'r redisStore \<Rightarrow> bool" where
  "deployable s \<longleftrightarrow> ro_TTL (rs_opts s) = 0 \<and> list_all (\<lambda>p. \<not> under p (ro_StreamName (rs_opts s))) (tags s)"

lemma deployable_default:
  "deployable (rd_NewStore c js \<lparr>ro_StreamName = [], ro_KeyPrefix = [], ro_TTL = 0, ro_ReadBatchSize = 0, ro_ReadBlock = 0\<rparr>)"
  by (simp add: deployable_def tags_def tag_defs rd_NewStore_def under_def)

lemma tags_apart:
  "apart (tagT s) (tagTs s)" "apart (tagG s) (tagGs s)" "apart (tagW s) (tagWs s)" "apart (tagM s) (tagMs s)"
  by (simp_all add: apart_def tag_defs)

lemma keys_tagged:
  "rd_taskKey s a n = tagT s @ memberOf a n" "gwKey s a n = tagG s @ memberOf a n"
  "wsKey s a n = tagW s @ memberOf a n" "modelKey s a n = tagM s @ memberOf a n"
  "taskIndexKey s = tagTs s @ ''index''" "gwIndexKey s = tagGs s @ ''index''"
  "wsIndexKey s = tagWs s @ ''index''" "modelIndexKey s = tagMs s @ ''index''"
  "taskAtespaceIndexKey s a = tagTs s @ ''atespace:'' @ a" "gwAtespaceIndexKey s a = tagGs s @ ''atespace:'' @ a"
  "wsAtespaceIndexKey s a = tagWs s @ ''atespace:'' @ a" "modelAtespaceIndexKey s a = tagMs s @ ''atespace:'' @ a"
  by (simp_all add: tag_defs memberOf_def rd_taskKey_def gwKey_def wsKey_def modelKey_def
      taskIndexKey_def gwIndexKey_def wsIndexKey_def modelIndexKey_def taskAtespaceIndexKey_def
      gwAtespaceIndexKey_def wsAtespaceIndexKey_def modelAtespaceIndexKey_def)

definition rd_wf :: "'r redisStore \<Rightarrow> ('r \<Rightarrow> keyspace) \<Rightarrow> 'r \<Rightarrow> bool" where
  "rd_wf s db r \<longleftrightarrow>
     kindWf (tagT s) (tagTs s) (js_TaskBack (rs_json s)) task_Metadata (db r) \<and>
     kindWf (tagG s) (tagGs s) (js_GatewayBack (rs_json s)) gw_Metadata (db r) \<and>
     kindWf (tagW s) (tagWs s) (js_WorkspaceBack (rs_json s)) wsp_Metadata (db r) \<and>
     kindWf (tagM s) (tagMs s) (js_ModelBack (rs_json s)) model_Metadata (db r) \<and>
     isStream (db r (ro_StreamName (rs_opts s)))"

lemma rd_wf_empty: "db r = Map.empty \<Longrightarrow> rd_wf s db r"
  by (simp add: rd_wf_def kindWf_def recordOk_def)

lemma kindWf_kept:
  assumes "kindWf P' Q' back meta m" and "keptOutside P Q st m m'"
    and "apart P P'" "apart P Q'" "apart Q P'" "apart Q Q'" and "\<not> under P' st" "\<not> under Q' st"
  shows "kindWf P' Q' back meta m'"
proof (rule kindWf_frame [OF assms(1)])
  fix k assume k: "under P' k \<or> under Q' k"
  then have "k \<noteq> st" using assms(7,8) by auto
  moreover have "\<not> under P k" and "\<not> under Q k"
    using k assms(3-6) apart_not_under by blast+
  ultimately show "m' k = m k" using assms(2) by (simp add: keptOutside_def)
qed

lemma deployable_stream:
  assumes "deployable s"
  shows "\<not> under (tagT s) (ro_StreamName (rs_opts s))" "\<not> under (tagTs s) (ro_StreamName (rs_opts s))"
    "\<not> under (tagG s) (ro_StreamName (rs_opts s))" "\<not> under (tagGs s) (ro_StreamName (rs_opts s))"
    "\<not> under (tagW s) (ro_StreamName (rs_opts s))" "\<not> under (tagWs s) (ro_StreamName (rs_opts s))"
    "\<not> under (tagM s) (ro_StreamName (rs_opts s))" "\<not> under (tagMs s) (ro_StreamName (rs_opts s))"
  using assms by (simp_all add: deployable_def tags_def)

definition tagTexts :: "string list" where
  "tagTexts = ['':task:'', '':tasks:'', '':gw:'', '':gateways:'', '':workspace:'', '':workspaces:'', '':model:'', '':models:'']"

lemma apart_take: "take (min (length u) (length v)) u \<noteq> take (min (length u) (length v)) v \<Longrightarrow> apart u v"
  unfolding apart_def by (metis append_eq_append_conv_if min.absorb1 min.absorb2 linorder_le_cases take_all_iff)

lemma tagTexts_separate:
  "list_all (\<lambda>u. list_all (\<lambda>v. u = v \<or> take (min (length u) (length v)) u \<noteq> take (min (length u) (length v)) v) tagTexts) tagTexts"
  unfolding tagTexts_def by code_simp

lemma tags_separate:
  assumes "p \<in> set (tags s)" and "q \<in> set (tags s)" and "p \<noteq> q"
  shows "apart p q"
proof -
  have "tags s = map ((@) (prefix s)) tagTexts" by (simp add: tags_def tag_defs tagTexts_def)
  then obtain u v where uv: "p = prefix s @ u" "q = prefix s @ v" "u \<in> set tagTexts" "v \<in> set tagTexts"
    using assms(1,2) by auto
  then have "apart u v" using assms(3) tagTexts_separate by (intro apart_take) (auto simp: list_all_iff)
  then show ?thesis by (simp add: apart_def uv)
qed

lemma tag_neqs:
  "tagT s \<noteq> tagG s" "tagT s \<noteq> tagGs s" "tagT s \<noteq> tagW s" "tagT s \<noteq> tagWs s" "tagT s \<noteq> tagM s" "tagT s \<noteq> tagMs s"
  "tagTs s \<noteq> tagG s" "tagTs s \<noteq> tagGs s" "tagTs s \<noteq> tagW s" "tagTs s \<noteq> tagWs s" "tagTs s \<noteq> tagM s" "tagTs s \<noteq> tagMs s"
  "tagG s \<noteq> tagW s" "tagG s \<noteq> tagWs s" "tagG s \<noteq> tagM s" "tagG s \<noteq> tagMs s"
  "tagGs s \<noteq> tagW s" "tagGs s \<noteq> tagWs s" "tagGs s \<noteq> tagM s" "tagGs s \<noteq> tagMs s"
  "tagW s \<noteq> tagM s" "tagW s \<noteq> tagMs s" "tagWs s \<noteq> tagM s" "tagWs s \<noteq> tagMs s"
  by (simp_all add: tag_defs)

lemma kindWf_other:
  assumes "keptOutside P Q (ro_StreamName (rs_opts s)) m m'" and "deployable s" and "kindWf P' Q' back meta m"
    and "set [P, Q, P', Q'] \<subseteq> set (tags s)" and "P \<noteq> P'" "P \<noteq> Q'" "Q \<noteq> P'" "Q \<noteq> Q'"
  shows "kindWf P' Q' back meta m'"
  using assms by (intro kindWf_kept [OF assms(3,1)] tags_separate) (auto simp: deployable_def list_all_iff)

lemma rd_wf_kept:
  assumes "rd_wf s db r" and "deployable s" and "keptOutside P Q (ro_StreamName (rs_opts s)) (db r) (db r')"
  shows "P = tagT s \<Longrightarrow> Q = tagTs s \<Longrightarrow> kindWf P Q (js_TaskBack (rs_json s)) task_Metadata (db r') \<Longrightarrow> rd_wf s db r'"
    and "P = tagG s \<Longrightarrow> Q = tagGs s \<Longrightarrow> kindWf P Q (js_GatewayBack (rs_json s)) gw_Metadata (db r') \<Longrightarrow> rd_wf s db r'"
    and "P = tagW s \<Longrightarrow> Q = tagWs s \<Longrightarrow> kindWf P Q (js_WorkspaceBack (rs_json s)) wsp_Metadata (db r') \<Longrightarrow> rd_wf s db r'"
    and "P = tagM s \<Longrightarrow> Q = tagMs s \<Longrightarrow> kindWf P Q (js_ModelBack (rs_json s)) model_Metadata (db r') \<Longrightarrow> rd_wf s db r'"
  using assms(1,3) unfolding rd_wf_def
  by (auto simp: tags_def tag_neqs tag_neqs [symmetric] keptOutside_def intro: kindWf_other [OF assms(3,2)])

section \<open>The contract of one kind\<close>

lemma metaMember_norm:
  "md' = Some (defaultAtespace (case md of None \<Rightarrow> emptyMeta | Some m \<Rightarrow> m)) \<Longrightarrow>
   meta_GetName md' = meta_GetName md \<and>
   meta_GetAtespace md' = orDefault (meta_GetAtespace md) \<and>
   GetCreationTimestamp md' = GetCreationTimestamp md \<and>
   metaMember md' = memberOf (orDefault (meta_GetAtespace md)) (meta_GetName md)"
  by (cases md) (simp_all add: metaMember_def emptyMeta_def)

lemma rd_kind_contract:
  fixes meta :: "'a \<Rightarrow> objectMeta option" and enc :: "'a \<Rightarrow> error + string" and wf :: "'r \<Rightarrow> bool"
  assumes laws: "redis_laws (rs_client s) db"
    and ap: "apart P Q" "\<not> under P st" "\<not> under Q st"
    and wfK: "\<And>r. wf r \<Longrightarrow> kindWf P Q back meta (db r) \<and> isStream (db r st)"
    and kept: "\<And>r r'. wf r \<Longrightarrow> kindWf P Q back meta (db r') \<Longrightarrow> keptOutside P Q st (db r) (db r') \<Longrightarrow> wf r'"
    and norm: "\<And>x. meta (norm x) = Some (defaultAtespace (case meta x of None \<Rightarrow> emptyMeta | Some m \<Rightarrow> m))"
    and extra: "\<And>x d. list_all (streamCmd st) (extra x d)"
    and save: "\<And>now x r. save now x r =
       (if meta_GetName (meta x) = [] then (Err (ENew msg), r)
        else case enc (norm x) of
               Inl e \<Rightarrow> (Err (EWrap msg' e), r)
             | Inr d \<Rightarrow>
                 (case rc_Exec (rs_client s)
                         (saveCmds P Q (meta_GetAtespace (meta (norm x))) (meta_GetName (meta (norm x))) d (float64 now)
                          @ extra x d) r of
                    (Some e, r') \<Rightarrow> (Err (g e), r')
                  | (None, r') \<Rightarrow> (Ok (norm x), r')))"
    and get: "\<And>a n r. get a n r = rdFetch s kind back (P @ memberOf (orDefault a) n) r"
    and del: "\<And>a n r. del a n r =
       (case rc_Exec (rs_client s) (deleteCmds P Q (orDefault a) n) r of
          (Some e, r') \<Rightarrow> (Err (h e), r') | (None, r') \<Rightarrow> (Ok (), r'))"
  shows "resource_kind meta norm (\<lambda>a n. P @ memberOf a n) (\<lambda>r. kindView P back (db r)) save get del wf (encodes enc back)"
proof -
  note mm = metaMember_norm [OF norm]
  have saved: "fst (save now x r) = Ok (norm x) \<and> wf (snd (save now x r)) \<and>
      kindView P back (db (snd (save now x r))) =
        (kindView P back (db r))(P @ memberOf (orDefault (meta_GetAtespace (meta x))) (meta_GetName (meta x)) \<mapsto> norm x)"
    if w: "wf r" and n: "meta_GetName (meta x) \<noteq> []" and ok: "encodes enc back (norm x)" for now x r
  proof -
    obtain d where d: "enc (norm x) = Inr d" "back d = Inr (norm x)"
      using ok by (auto simp: encodes_def split: sum.splits)
    have mx: "meta (norm x) \<noteq> None" by (simp add: norm)
    have eq: "metaMember (meta (norm x)) =
        memberOf (meta_GetAtespace (meta (norm x))) (meta_GetName (meta (norm x)))" by (simp add: mm)
    obtain r' where r': "rc_Exec (rs_client s)
          (saveCmds P Q (meta_GetAtespace (meta (norm x))) (meta_GetName (meta (norm x))) d (float64 now) @ extra x d) r
          = (None, r')" "kindWf P Q back meta (db r')" "keptOutside P Q st (db r) (db r')"
        "kindView P back (db r') = (kindView P back (db r))
           (P @ memberOf (meta_GetAtespace (meta (norm x))) (meta_GetName (meta (norm x))) \<mapsto> norm x)"
      by (rule put_step [where meta = meta and x = "norm x" and db = db and r = r,
            OF laws wfK [OF w, THEN conjunct1] wfK [OF w, THEN conjunct2] ap d(2) mx eq extra [of x d]])
    then show ?thesis using n d(1) kept [OF w r'(2,3)] by (simp add: save mm)
  qed
  have dropped: "fst (del a n r) = Ok () \<and> wf (snd (del a n r)) \<and>
      kindView P back (db (snd (del a n r))) = (kindView P back (db r))(P @ memberOf (orDefault a) n := None)"
    if w: "wf r" for a n r
  proof -
    obtain r' where "rc_Exec (rs_client s) (deleteCmds P Q (orDefault a) n) r = (None, r')"
        "kindWf P Q back meta (db r')" "keptOutside P Q st (db r) (db r')"
        "kindView P back (db r') = (kindView P back (db r))(P @ memberOf (orDefault a) n := None)"
      by (rule drop_step [where meta = meta and db = db and r = r,
            OF laws wfK [OF w, THEN conjunct1] wfK [OF w, THEN conjunct2] ap])
    then show ?thesis using kept [OF w] by (simp add: del)
  qed
  have unnamed: "save now x r = (Err (ENew msg), r)" if "meta_GetName (meta x) = []" for now x r
    using that by (simp add: save)
  show ?thesis
  proof (unfold_locales, goal_cases)
    case (7 r x now)
    then show ?case by (cases "meta_GetName (meta x) = []") (simp_all add: unnamed saved)
  next
    case (8 r a n)
    then show ?case by (simp add: get fetch_view [OF laws conjunct1 [OF wfK]])
  qed (simp_all add: mm saved dropped unnamed)
qed

text \<open>Writing a record that is already there leaves the indexes as they are.\<close>

lemma overwrite_step:
  assumes laws: "redis_laws c db" and wf: "kindWf P Q back meta (db r)" "isStream (db r st)"
    and ap: "apart P Q" "\<not> under P st" "\<not> under Q st"
    and x: "back d = Inr x" "meta x \<noteq> None" "metaMember (meta x) = mem"
    and there: "kindView P back (db r) (P @ mem) \<noteq> None" and ex: "list_all (streamCmd st) extra"
  obtains r' where "rc_Exec c (CSet (P @ mem) d 0 # extra) r = (None, r')"
    and "kindWf P Q back meta (db r')" and "keptOutside P Q st (db r) (db r')"
    and "kindView P back (db r') = (kindView P back (db r))(P @ mem \<mapsto> x)"
proof -
  let ?m1 = "(db r)(P @ mem \<mapsto> RStr d)"
  have ne: "P @ u \<noteq> Q @ v" "Q @ v \<noteq> P @ u" for u v using ap(1) by (metis apart_def)+
  have "db r (P @ mem) \<noteq> None" using there by (cases "db r (P @ mem)") (simp_all add: kindView_def)
  then have m1: "kindWf P Q back meta ?m1" using wf(1) x by (simp add: kindWf_def ne recordOk_def)
  have "isStream (?m1 st)" using wf(2) ap(2) by auto
  then obtain m2 where m2: "runCmds extra ?m1 = Some m2" "isStream (m2 st)" "\<forall>k. k \<noteq> st \<longrightarrow> m2 k = ?m1 k"
    using streamCmds_run [OF ex] by metis
  have ne: "list_all noExpiry (CSet (P @ mem) d 0 # extra)"
    using ex by (auto simp: noExpiry_def streamCmd_def list_all_iff split: rcmd.splits)
  obtain r' where r': "rc_Exec c (CSet (P @ mem) d 0 # extra) r = (None, r')" "db r' = m2"
    by (rule redis_laws_exec [OF laws ne, of r m2]) (simp_all add: m2(1))
  have k: "m2 k = ((db r)(P @ mem := Some (RStr d))) k" if "\<not> under Q k" "k \<noteq> st" for k
    using m2(3) that(2) by simp
  show ?thesis
  proof (rule that [OF r'(1)])
    show "kindWf P Q back meta (db r')" unfolding r'(2) by (rule kindWf_stream [OF m1 m2(3) ap(2,3)])
    show "keptOutside P Q st (db r) (db r')" using k m2(2) by (auto simp: keptOutside_def r'(2))
    show "kindView P back (db r') = (kindView P back (db r))(P @ mem \<mapsto> x)"
      using kindView_upd [OF k ap(1,2), of "back"] x(1) by (simp add: r'(2))
  qed
qed

section \<open>The contract of the store\<close>

definition rd_viewT :: "'r redisStore \<Rightarrow> ('r \<Rightarrow> keyspace) \<Rightarrow> 'r \<Rightarrow> string \<Rightarrow> task option" where
  "rd_viewT s db r = kindView (tagT s) (js_TaskBack (rs_json s)) (db r)"
definition rd_viewG :: "'r redisStore \<Rightarrow> ('r \<Rightarrow> keyspace) \<Rightarrow> 'r \<Rightarrow> string \<Rightarrow> gateway option" where
  "rd_viewG s db r = kindView (tagG s) (js_GatewayBack (rs_json s)) (db r)"
definition rd_viewW :: "'r redisStore \<Rightarrow> ('r \<Rightarrow> keyspace) \<Rightarrow> 'r \<Rightarrow> string \<Rightarrow> workspace option" where
  "rd_viewW s db r = kindView (tagW s) (js_WorkspaceBack (rs_json s)) (db r)"
definition rd_viewM :: "'r redisStore \<Rightarrow> ('r \<Rightarrow> keyspace) \<Rightarrow> 'r \<Rightarrow> string \<Rightarrow> model option" where
  "rd_viewM s db r = kindView (tagM s) (js_ModelBack (rs_json s)) (db r)"

definition okTask :: "'r redisStore \<Rightarrow> task \<Rightarrow> bool" where
  "okTask s = encodes (js_Task (rs_json s)) (js_TaskBack (rs_json s))"
definition okGateway :: "'r redisStore \<Rightarrow> gateway \<Rightarrow> bool" where
  "okGateway s = encodes (js_Gateway (rs_json s)) (js_GatewayBack (rs_json s))"
definition okWorkspace :: "'r redisStore \<Rightarrow> workspace \<Rightarrow> bool" where
  "okWorkspace s = encodes (js_Workspace (rs_json s)) (js_WorkspaceBack (rs_json s))"
definition okModel :: "'r redisStore \<Rightarrow> model \<Rightarrow> bool" where
  "okModel s = encodes (js_Model (rs_json s)) (js_ModelBack (rs_json s))"

lemmas kind_defs = rd_viewT_def rd_viewG_def rd_viewW_def rd_viewM_def okTask_def okGateway_def okWorkspace_def okModel_def

lemma key_funs:
  "rd_taskKey s = (\<lambda>a n. tagT s @ memberOf a n)" "gwKey s = (\<lambda>a n. tagG s @ memberOf a n)"
  "wsKey s = (\<lambda>a n. tagW s @ memberOf a n)" "modelKey s = (\<lambda>a n. tagM s @ memberOf a n)"
  by (simp_all add: fun_eq_iff keys_tagged)

lemma eta_views:
  "rd_viewT s db = (\<lambda>r. kindView (tagT s) (js_TaskBack (rs_json s)) (db r))"
  "rd_viewG s db = (\<lambda>r. kindView (tagG s) (js_GatewayBack (rs_json s)) (db r))"
  "rd_viewW s db = (\<lambda>r. kindView (tagW s) (js_WorkspaceBack (rs_json s)) (db r))"
  "rd_viewM s db = (\<lambda>r. kindView (tagM s) (js_ModelBack (rs_json s)) (db r))"
  by (simp_all add: fun_eq_iff kind_defs)

definition saveEvents :: "'r redisStore \<Rightarrow> task \<Rightarrow> string \<Rightarrow> rcmd list" where
  "saveEvents s t d =
     (let a = meta_GetAtespace (task_Metadata (rd_normTask t)); n = meta_GetName (task_Metadata (rd_normTask t)) in
      [CXAdd (ro_StreamName (rs_opts s)) (eventFields ''reconcile'' a n), CPublish (taskPubSubChannel s a n) d])"

lemma rd_tasks_contract:
  assumes laws: "redis_laws (rs_client s) db" and dep: "deployable s"
  shows "resource_kind task_Metadata rd_normTask (rd_taskKey s) (rd_viewT s db)
    (rd_SaveTask s) (rd_GetTask s) (rd_DeleteTask s) (rd_wf s db) (okTask s)"
  unfolding key_funs(1) eta_views okTask_def
proof (rule rd_kind_contract [where Q = "tagTs s" and st = "ro_StreamName (rs_opts s)" and extra = "saveEvents s"
      and kind = "''task''" and msg = "''task name is required''" and msg' = "''marshaling task''"
      and g = "EWrap ''saving task to redis''" and h = "EWrap ''deleting task from redis''", OF laws], goal_cases)
  case (5 r r')
  then show ?case using rd_wf_kept(1) [OF _ dep] by blast
next
  case 8
  then show ?case using dep
    by (simp add: rd_SaveTask_def saveEvents_def saveCmds_def keys_tagged Let_def deployable_def cong: sum.case_cong)
next
  case 10
  then show ?case by (simp add: rd_DeleteTask_def deleteCmds_def keys_tagged Let_def)
qed (use dep in \<open>simp_all add: tags_apart deployable_stream rd_wf_def rd_GetTask_def keys_tagged rd_normTask_def
      Let_def streamCmd_def saveEvents_def\<close>)

lemma rd_gateways_contract:
  assumes laws: "redis_laws (rs_client s) db" and dep: "deployable s"
  shows "resource_kind gw_Metadata rd_normGateway (gwKey s) (rd_viewG s db)
    (rd_SaveGateway s) (rd_GetGateway s) (rd_DeleteGateway s) (rd_wf s db) (okGateway s)"
  unfolding key_funs(2) eta_views okGateway_def
proof (rule rd_kind_contract [where Q = "tagGs s" and st = "ro_StreamName (rs_opts s)" and extra = "\<lambda>_ _. []"
      and kind = "''gateway''" and msg = "''gateway name is required''" and msg' = "''marshaling gateway''"
      and g = "\<lambda>e. e" and h = "\<lambda>e. e", OF laws], goal_cases)
  case (5 r r')
  then show ?case using rd_wf_kept(2) [OF _ dep] by blast
next
  case 8
  then show ?case using dep
    by (simp add: rd_SaveGateway_def rdSave_def saveCmds_def keys_tagged Let_def deployable_def cong: sum.case_cong)
next
  case 10
  then show ?case by (simp add: rd_DeleteGateway_def rdDelete_def deleteCmds_def keys_tagged Let_def)
qed (use dep in \<open>simp_all add: tags_apart deployable_stream rd_wf_def rd_GetGateway_def keys_tagged rd_normGateway_def
      Let_def streamCmd_def\<close>)

lemma rd_workspaces_contract:
  assumes laws: "redis_laws (rs_client s) db" and dep: "deployable s"
  shows "resource_kind wsp_Metadata rd_normWorkspace (wsKey s) (rd_viewW s db)
    (rd_SaveWorkspace s) (rd_GetWorkspace s) (rd_DeleteWorkspace s) (rd_wf s db) (okWorkspace s)"
  unfolding key_funs(3) eta_views okWorkspace_def
proof (rule rd_kind_contract [where Q = "tagWs s" and st = "ro_StreamName (rs_opts s)" and extra = "\<lambda>_ _. []"
      and kind = "''workspace''" and msg = "''workspace name is required''" and msg' = "''marshaling workspace''"
      and g = "\<lambda>e. e" and h = "\<lambda>e. e", OF laws], goal_cases)
  case (5 r r')
  then show ?case using rd_wf_kept(3) [OF _ dep] by blast
next
  case 8
  then show ?case using dep
    by (simp add: rd_SaveWorkspace_def rdSave_def saveCmds_def keys_tagged Let_def deployable_def cong: sum.case_cong)
next
  case 10
  then show ?case by (simp add: rd_DeleteWorkspace_def rdDelete_def deleteCmds_def keys_tagged Let_def)
qed (use dep in \<open>simp_all add: tags_apart deployable_stream rd_wf_def rd_GetWorkspace_def keys_tagged rd_normWorkspace_def
      Let_def streamCmd_def\<close>)

lemma rd_models_contract:
  assumes laws: "redis_laws (rs_client s) db" and dep: "deployable s"
  shows "resource_kind model_Metadata rd_normModel (modelKey s) (rd_viewM s db)
    (rd_SaveModel s) (rd_GetModel s) (rd_DeleteModel s) (rd_wf s db) (okModel s)"
  unfolding key_funs(4) eta_views okModel_def
proof (rule rd_kind_contract [where Q = "tagMs s" and st = "ro_StreamName (rs_opts s)" and extra = "\<lambda>_ _. []"
      and kind = "''model''" and msg = "''model name is required''" and msg' = "''marshaling model''"
      and g = "\<lambda>e. e" and h = "\<lambda>e. e", OF laws], goal_cases)
  case (5 r r')
  then show ?case using rd_wf_kept(4) [OF _ dep] by blast
next
  case 8
  then show ?case using dep
    by (simp add: rd_SaveModel_def rdSave_def saveCmds_def keys_tagged Let_def deployable_def cong: sum.case_cong)
next
  case 10
  then show ?case by (simp add: rd_DeleteModel_def rdDelete_def deleteCmds_def keys_tagged Let_def)
qed (use dep in \<open>simp_all add: tags_apart deployable_stream rd_wf_def rd_GetModel_def keys_tagged rd_normModel_def
      Let_def streamCmd_def\<close>)

lemma rd_store_ops [simp]:
  "store_SaveTask (rd_store s) = rd_SaveTask s" "store_GetTask (rd_store s) = rd_GetTask s"
  "store_DeleteTask (rd_store s) = rd_DeleteTask s" "store_ListTasks (rd_store s) = rd_ListTasks s"
  "store_UpdateTaskStatus (rd_store s) = rd_UpdateTaskStatus s"
  "store_MarkTaskDeleting (rd_store s) = rd_MarkTaskDeleting s"
  "store_SaveGateway (rd_store s) = rd_SaveGateway s" "store_GetGateway (rd_store s) = rd_GetGateway s"
  "store_DeleteGateway (rd_store s) = rd_DeleteGateway s"
  "store_SaveWorkspace (rd_store s) = rd_SaveWorkspace s" "store_GetWorkspace (rd_store s) = rd_GetWorkspace s"
  "store_DeleteWorkspace (rd_store s) = rd_DeleteWorkspace s"
  "store_SaveModel (rd_store s) = rd_SaveModel s" "store_GetModel (rd_store s) = rd_GetModel s"
  "store_DeleteModel (rd_store s) = rd_DeleteModel s"
  by (simp_all add: rd_store_def)

text \<open>What a task record stored under a key tells about that key.\<close>

lemma rd_viewT_key:
  assumes "rd_wf s db r" and "rd_viewT s db r k = Some t"
  shows "k = tagT s @ metaMember (task_Metadata t)" and "task_Metadata t \<noteq> None"
proof -
  have u: "under (tagT s) k" using assms(2) by (simp add: rd_viewT_def kindView_def split: if_splits)
  then obtain mem where k: "k = tagT s @ mem" by (rule underE)
  have "decoded (js_TaskBack (rs_json s)) (db r (tagT s @ mem)) = Some t"
    using assms(2) by (simp add: rd_viewT_def kindView_def k)
  moreover have "recordOk (js_TaskBack (rs_json s)) task_Metadata mem (db r (tagT s @ mem))"
    using assms(1) by (simp add: rd_wf_def kindWf_def)
  ultimately have "task_Metadata t \<noteq> None \<and> metaMember (task_Metadata t) = mem"
    by (auto simp: recordOk_def)
  then show "k = tagT s @ metaMember (task_Metadata t)" and "task_Metadata t \<noteq> None" using k by auto
qed

text \<open>Replacing the status of a stored task, the core of both status operations.\<close>

lemma rd_restatus:
  assumes laws: "redis_laws (rs_client s) db" and dep: "deployable s" and wf: "rd_wf s db r"
    and t: "rd_viewT s db r (rd_taskKey s a n) = Some t" and ok: "okTask s (t\<lparr>task_Status := st\<rparr>)"
    and ex: "\<And>d. list_all (streamCmd (ro_StreamName (rs_opts s))) (extra d)"
  obtains d r' where "js_Task (rs_json s) (t\<lparr>task_Status := st\<rparr>) = Inr d"
    and "rc_Exec (rs_client s) (CSet (rd_taskKey s a n) d (ro_TTL (rs_opts s)) # extra d) r = (None, r')"
    and "rd_wf s db r'" and "rd_viewT s db r' = (rd_viewT s db r)(rd_taskKey s a n \<mapsto> t\<lparr>task_Status := st\<rparr>)"
proof -
  let ?st = "ro_StreamName (rs_opts s)" and ?t = "t\<lparr>task_Status := st\<rparr>"
  obtain d where d: "js_Task (rs_json s) ?t = Inr d" "js_TaskBack (rs_json s) d = Inr ?t"
    using ok by (auto simp: okTask_def encodes_def split: sum.splits)
  have w: "kindWf (tagT s) (tagTs s) (js_TaskBack (rs_json s)) task_Metadata (db r)" "isStream (db r ?st)"
    using wf by (simp_all add: rd_wf_def)
  have key: "rd_taskKey s a n = tagT s @ metaMember (task_Metadata ?t)" and md: "task_Metadata ?t \<noteq> None"
    using rd_viewT_key [OF wf t] by simp_all
  have there: "kindView (tagT s) (js_TaskBack (rs_json s)) (db r) (tagT s @ metaMember (task_Metadata ?t)) \<noteq> None"
    using t unfolding rd_viewT_def key by simp
  obtain r' where r': "rc_Exec (rs_client s) (CSet (tagT s @ metaMember (task_Metadata ?t)) d 0 # extra d) r = (None, r')"
      "kindWf (tagT s) (tagTs s) (js_TaskBack (rs_json s)) task_Metadata (db r')"
      "keptOutside (tagT s) (tagTs s) ?st (db r) (db r')"
      "kindView (tagT s) (js_TaskBack (rs_json s)) (db r') =
        (kindView (tagT s) (js_TaskBack (rs_json s)) (db r))(tagT s @ metaMember (task_Metadata ?t) \<mapsto> ?t)"
    by (rule overwrite_step [where meta = task_Metadata and x = ?t and db = db and r = r and d = d,
          OF laws w tags_apart(1) deployable_stream(1,2) [OF dep] d(2) md refl there ex [of d]])
  show ?thesis
    by (rule that [OF d(1)])
      (use r' dep rd_wf_kept(1) [OF wf dep r'(3) refl refl r'(2)] in \<open>simp_all add: key rd_viewT_def deployable_def\<close>)
qed

lemma orDefault_id [simp]: "a \<noteq> [] \<Longrightarrow> orDefault a = a"
  by (simp add: orDefault_def)

lemma rd_get_view:
  assumes "redis_laws (rs_client s) db" and "deployable s" and "rd_wf s db r"
  shows "rd_GetTask s a n r = found (rd_viewT s db r (rd_taskKey s (orDefault a) n))"
  by (rule resource_kind.get_view [OF rd_tasks_contract [OF assms(1,2)] assms(3)])

lemma rd_ax_store:
  assumes laws: "redis_laws (rs_client s) db" and dep: "deployable s"
  shows "ax_store (rd_store s) (rd_wf s db)
    rd_normTask (rd_taskKey s) (rd_viewT s db) (okTask s)
    rd_normGateway (gwKey s) (rd_viewG s db) (okGateway s)
    rd_normWorkspace (wsKey s) (rd_viewW s db) (okWorkspace s)
    rd_normModel (modelKey s) (rd_viewM s db) (okModel s)"
proof (intro ax_store.intro ax_store_axioms.intro, goal_cases)
  case (6 r k t)
  then show ?case using rd_viewT_key [OF 6] by (simp add: keys_tagged metaMember_def)
next
  case (7 r a n st)
  then show ?case using rd_get_view [OF laws dep 7(1), of a n] by (simp add: rd_UpdateTaskStatus_def)
next
  case (8 r a n t st)
  have get: "rd_GetTask s a n r = Ok t" using rd_get_view [OF laws dep 8(1), of a n] 8 by simp
  obtain d r' where "js_Task (rs_json s) (t\<lparr>task_Status := st\<rparr>) = Inr d"
      "rc_Exec (rs_client s) [CSet (rd_taskKey s a n) d (ro_TTL (rs_opts s)), CPublish (taskPubSubChannel s a n) d] r = (None, r')"
      "rd_wf s db r'" "rd_viewT s db r' = (rd_viewT s db r)(rd_taskKey s a n \<mapsto> t\<lparr>task_Status := st\<rparr>)"
    by (rule rd_restatus [OF laws dep 8(1,3,4), where extra = "\<lambda>d. [CPublish (taskPubSubChannel s a n) d]"])
      (simp_all add: streamCmd_def)
  then show ?case by (simp add: rd_UpdateTaskStatus_def get)
next
  case (9 r a n now)
  then show ?case using rd_get_view [OF laws dep 9(1), of "orDefault a" n]
    by (simp add: rd_MarkTaskDeleting_def Let_def)
next
  case (10 r a n t now)
  let ?a = "orDefault a"
  have get: "rd_GetTask s ?a n r = Ok t" using rd_get_view [OF laws dep 10(1), of ?a n] 10 by simp
  obtain d r' where "js_Task (rs_json s) (markedDeleting t) = Inr d"
      "rc_Exec (rs_client s) [CSet (rd_taskKey s ?a n) d (ro_TTL (rs_opts s)), CPublish (taskPubSubChannel s ?a n) d,
         CXAdd (ro_StreamName (rs_opts s)) (eventFields ''delete'' ?a n)] r = (None, r')"
      "rd_wf s db r'" "rd_viewT s db r' = (rd_viewT s db r)(rd_taskKey s ?a n \<mapsto> markedDeleting t)"
    unfolding markedDeleting_def
    by (rule rd_restatus [OF laws dep 10(1,2) 10(3) [unfolded markedDeleting_def],
          where extra = "\<lambda>d. [CPublish (taskPubSubChannel s ?a n) d,
            CXAdd (ro_StreamName (rs_opts s)) (eventFields ''delete'' ?a n)]"]) (simp_all add: streamCmd_def)
  then show ?case by (simp add: rd_MarkTaskDeleting_def Let_def get)
qed (simp_all add: rd_tasks_contract [OF laws dep] rd_gateways_contract [OF laws dep]
    rd_workspaces_contract [OF laws dep] rd_models_contract [OF laws dep] rd_normTask_def Let_def)

section \<open>Listing\<close>

text \<open>The members of the task index, most recently saved first, and the tasks they name.\<close>

definition newestMembers :: "'r redisStore \<Rightarrow> ('r \<Rightarrow> keyspace) \<Rightarrow> 'r \<Rightarrow> string list" where
  "newestMembers s db r = zrev (zset (db r (taskIndexKey s)))"

definition savedAt :: "'r redisStore \<Rightarrow> ('r \<Rightarrow> keyspace) \<Rightarrow> 'r \<Rightarrow> string \<Rightarrow> int" where
  "savedAt s db r mem = (case map_of (zset (db r (taskIndexKey s))) mem of None \<Rightarrow> 0 | Some sc \<Rightarrow> sc)"

lemma zslice_page: "0 \<le> o' \<Longrightarrow> 0 < l \<Longrightarrow> zslice o' (o' + l - 1) xs = take (nat l) (drop (nat o') xs)"
  by (simp add: zslice_def Let_def)

lemma set_zrev [simp]: "set (zrev z) = fst ` set z"
  by (force simp: zrev_def)

lemma distinct_zrev: "distinct (map fst z) \<Longrightarrow> distinct (zrev z)"
proof -
  assume d: "distinct (map fst z)"
  have "mset (map snd (sort (map (\<lambda>(x, sc). (sc, x)) z))) = mset (map fst z)"
    by (simp add: mset_map [symmetric] case_prod_unfold comp_def del: mset_map)
       (simp add: case_prod_unfold image_mset.compositionality comp_def)
  then show ?thesis using d unfolding zrev_def by (simp only: distinct_rev) (metis mset_eq_imp_distinct_iff)
qed

lemma zrev_sorted:
  assumes "distinct (map fst z)"
  shows "sorted_wrt (\<lambda>x y. the (map_of z y) \<le> the (map_of z x)) (zrev z)"
proof -
  let ?ps = "sort (map (\<lambda>(x, sc). (sc, x)) z)"
  have "sorted ?ps" by simp
  then have "sorted_wrt (\<lambda>p q. fst p \<le> fst q) ?ps"
    by (rule sorted_wrt_mono_rel [rotated]) (auto simp: less_eq_prod_def)
  moreover have "map_of z (snd p) = Some (fst p)" if "p \<in> set ?ps" for p
    using that assms by auto
  ultimately have "sorted_wrt (\<lambda>p q. the (map_of z (snd p)) \<le> the (map_of z (snd q))) ?ps"
    by (auto elim!: sorted_wrt_mono_rel [rotated])
  then show ?thesis by (simp add: zrev_def sorted_wrt_rev sorted_wrt_map)
qed

lemma memberKey_tagged:
  "CHR '':'' \<in> set mem \<Longrightarrow> memberKey (\<lambda>a n. P @ memberOf a n) mem = P @ mem"
proof -
  assume c: "CHR '':'' \<in> set mem"
  then have "dropWhile (\<lambda>x. x \<noteq> CHR '':'') mem = CHR '':'' # tl (dropWhile (\<lambda>x. x \<noteq> CHR '':'') mem)"
    by (induction mem) auto
  then have "takeWhile (\<lambda>x. x \<noteq> CHR '':'') mem @ CHR '':'' # tl (dropWhile (\<lambda>x. x \<noteq> CHR '':'') mem) = mem"
    by (metis takeWhile_dropWhile_id)
  then show ?thesis using c by (simp add: memberKey_def splitN2_def memberOf_def)
qed

lemma decodeAll_present:
  assumes "\<And>v. v \<in> set vs \<Longrightarrow> decoded back v = Some (f v)"
  shows "decodeAll back (map strOf vs) = map f vs"
  using assms
proof (induction vs)
  case (Cons v vs)
  have "decoded back v = Some (f v)" using Cons.prems by simp
  then obtain d where "strOf v = Some d" "back d = Inr (f v)"
    by (auto simp: decoded_def split: option.splits sum.splits)
  with Cons show ?case by simp
qed simp

lemma index_member:
  assumes "kindWf P Q back meta m" and "mem \<in> fst ` set (zset (m (Q @ ''index'')))"
  shows "CHR '':'' \<in> set mem" and "\<exists>x. decoded back (m (P @ mem)) = Some x"
proof -
  have "m (P @ mem) \<noteq> None" and "recordOk back meta mem (m (P @ mem))"
    using assms by (simp_all add: kindWf_def)
  then show "CHR '':'' \<in> set mem" and "\<exists>x. decoded back (m (P @ mem)) = Some x"
    by (auto simp: recordOk_def metaMember_def memberOf_def)
qed

lemma indexed_dom:
  assumes "kindWf P Q back meta m"
  shows "(@) P ` fst ` set (zset (m (Q @ ''index''))) = dom (kindView P back m)"
proof -
  have present: "kindView P back m (P @ mem) \<noteq> None \<longleftrightarrow> mem \<in> fst ` set (zset (m (Q @ ''index'')))" for mem
  proof -
    have "recordOk back meta mem (m (P @ mem))" and "mem \<in> fst ` set (zset (m (Q @ ''index''))) \<longleftrightarrow> m (P @ mem) \<noteq> None"
      using assms by (simp_all add: kindWf_def)
    then show ?thesis by (auto simp: recordOk_def kindView_def)
  qed
  have "k \<in> dom (kindView P back m) \<Longrightarrow> \<exists>mem. k = P @ mem" for k
    by (auto simp: kindView_def split: if_splits elim!: underE)
  then show ?thesis using present by (fastforce simp: image_iff)
qed

lemma rdList_all:
  assumes laws: "redis_laws (rs_client s) db" and wf: "kindWf P Q back meta (db r)"
    and all: "a = [] \<or> a = ''*''"
  shows "rdList s kind kinds (\<lambda>a n. P @ memberOf a n) (Q @ ''index'') aidx back a i j r =
     Ok (map (\<lambda>mem. the (kindView P back (db r) (P @ mem))) (zslice i j (zrev (zset (db r (Q @ ''index''))))))"
proof -
  let ?ms = "zslice i j (zrev (zset (db r (Q @ ''index''))))"
  have sub: "set ?ms \<subseteq> fst ` set (zset (db r (Q @ ''index'')))"
    using set_take_subset set_drop_subset by (fastforce simp: zslice_def Let_def simp flip: set_zrev)
  have mem: "rdMembers s (Q @ ''index'') aidx a i j r = Inr ?ms"
    using all wf redis_laws_reads(4) [OF laws, of r "Q @ ''index''" i j] by (auto simp: rdMembers_def kindWf_def)
  have keys: "map (memberKey (\<lambda>a n. P @ memberOf a n)) ?ms = map ((@) P) ?ms"
    by (intro map_cong refl memberKey_tagged index_member(1) [OF wf]) (erule subsetD [OF sub])
  have "decodeAll back (map strOf (map (\<lambda>mem. db r (P @ mem)) ?ms)) =
      map (\<lambda>v. the (decoded back v)) (map (\<lambda>mem. db r (P @ mem)) ?ms)"
  proof (rule decodeAll_present)
    fix v assume "v \<in> set (map (\<lambda>mem. db r (P @ mem)) ?ms)"
    then obtain mem where "v = db r (P @ mem)" "mem \<in> set ?ms" by auto
    then show "decoded back v = Some (the (decoded back v))"
      using index_member(2) [OF wf subsetD [OF sub], of mem] by auto
  qed
  then show ?thesis
    by (simp add: rdList_def mem keys redis_laws_reads(3) [OF laws] comp_def kindView_def)
qed

lemma bitLen_le: "n < 2 ^ k \<Longrightarrow> bitLen n \<le> k"
proof (induction k arbitrary: n)
  case 0 then show ?case by (simp add: bitLen.simps)
next
  case (Suc k)
  then have "n div 2 < 2 ^ k" by auto
  from Suc.IH [OF this] show ?case by (subst bitLen.simps) simp
qed

text \<open>A time between 1970 and the end of \<open>int64\<close> is rounded by at most 512 nanoseconds.\<close>

lemma float64_near:
  assumes "0 \<le> x" and "x < 2 ^ 63"
  shows "\<bar>float64 x - x\<bar> \<le> 512"
proof -
  define e where "e = bitLen (nat \<bar>x\<bar>) - 53"
  define u :: int where "u = 2 ^ e"
  have "nat x < 2 ^ 63" using assms by (simp add: nat_less_iff)
  then have "e \<le> 10" using bitLen_le [of "nat x" 63] assms(1) by (simp add: e_def)
  then have u: "0 < u" "u \<le> 1024" unfolding u_def using power_increasing [of e 10 "2 :: int"] by simp_all
  have x: "x = x div u * u + x mod u" by simp
  have r: "0 \<le> x mod u" "x mod u < u" using u(1) by simp_all
  have "float64 x = (if 2 * (x mod u) > u \<or> (2 * (x mod u) = u \<and> odd (x div u)) then x div u + 1 else x div u) * u"
    using assms(1) by (simp add: float64_def Let_def u_def e_def)
  then have "float64 x = x - x mod u \<and> 2 * (x mod u) \<le> u \<or> float64 x = x - x mod u + u \<and> u \<le> 2 * (x mod u)"
    using x by (auto simp: algebra_simps)
  moreover define m where "m = x mod u"
  ultimately have "float64 x = x - m \<and> 2 * m \<le> u \<or> float64 x = x - m + u \<and> u \<le> 2 * m" and "0 \<le> m" "m < u"
    using r by simp_all
  then show ?thesis using u by (auto simp: abs_le_iff)
qed

lemma map_of_replace: "map_of ((x, sc) # filter (\<lambda>e. fst e \<noteq> x) z) = (map_of z)(x \<mapsto> sc)"
proof -
  have "map_of (filter (\<lambda>e. fst e \<noteq> x) z) y = (if y = x then None else map_of z y)" for y
    by (induction z) auto
  then show ?thesis by (simp add: fun_eq_iff)
qed

lemma run_index:
  assumes "runCmds (saveCmds P Q a n d sc @ [CXAdd st fs, CPublish ch v]) m = Some m'" and "apart P Q" and "\<not> under Q st"
  shows "map_of (zset (m' (Q @ ''index''))) = (map_of (zset (m (Q @ ''index''))))(memberOf a n \<mapsto> sc)"
proof -
  let ?i = "Q @ ''index''" and ?j = "Q @ ''atespace:'' @ a" and ?k = "P @ memberOf a n"
  have ne: "?i \<noteq> ?k" "?j \<noteq> ?k" "?i \<noteq> ?j" "?i \<noteq> st"
    using assms(2) assms(3) under_append [of Q "''index''"] unfolding apart_def by (metis, metis, simp, metis)
  from assms(1) have "m' ?i = Some (RZSet ((memberOf a n, sc) # filter (\<lambda>e. fst e \<noteq> memberOf a n) (zset (m ?i))))"
    using ne by (simp add: saveCmds_def split: if_split_asm) auto
  then show ?thesis by (simp only: zset_simps map_of_replace)
qed

text \<open>A save is one transaction: the commands of the record and its index, then the event.\<close>

lemma save_exec:
  assumes laws: "redis_laws (rs_client s) db" and dep: "deployable s" and wf: "rd_wf s db r"
    and n: "meta_GetName (task_Metadata t) \<noteq> []" and ok: "okTask s (rd_normTask t)"
  defines "a \<equiv> orDefault (meta_GetAtespace (task_Metadata t))"
  obtains d where
    "runCmds (saveCmds (tagT s) (tagTs s) a (meta_GetName (task_Metadata t)) d (float64 now) @ saveEvents s t d) (db r) =
       Some (db (snd (rd_SaveTask s now t r)))"
    and "rc_Exec (rs_client s) (saveCmds (tagT s) (tagTs s) a (meta_GetName (task_Metadata t)) d (float64 now) @ saveEvents s t d) r =
       (None, snd (rd_SaveTask s now t r))"
proof -
  let ?st = "ro_StreamName (rs_opts s)" and ?t = "rd_normTask t"
  have norm: "task_Metadata ?t = Some (defaultAtespace (case task_Metadata t of None \<Rightarrow> emptyMeta | Some m \<Rightarrow> m))"
    by (simp add: rd_normTask_def Let_def)
  note mm = metaMember_norm [OF norm]
  let ?n = "meta_GetName (task_Metadata t)"
  obtain d where d: "js_Task (rs_json s) ?t = Inr d" "js_TaskBack (rs_json s) d = Inr ?t"
    using ok by (auto simp: okTask_def encodes_def split: sum.splits)
  have w: "kindWf (tagT s) (tagTs s) (js_TaskBack (rs_json s)) task_Metadata (db r)" "isStream (db r ?st)"
    using wf by (simp_all add: rd_wf_def)
  let ?cs = "saveCmds (tagT s) (tagTs s) a ?n d (float64 now)"
  obtain m1 where m1: "runCmds ?cs (db r) = Some m1" "m1 ?st = ((db r)(tagT s @ memberOf a ?n \<mapsto> RStr d)) ?st"
    using saveCmds_run [OF w(1) tags_apart(1) d(2), of a ?n "float64 now"] deployable_stream(2) [OF dep]
    by (metis a_def mm norm option.distinct(1))
  then have m1st: "m1 ?st = db r ?st" using deployable_stream(1) [OF dep] by auto
  have sv: "list_all (streamCmd ?st) (saveEvents s t d)" by (simp add: saveEvents_def Let_def streamCmd_def)
  obtain m2 where m2: "runCmds (saveEvents s t d) m1 = Some m2"
    using streamCmds_run [OF sv, of m1] w(2) m1st by auto
  have run: "runCmds (?cs @ saveEvents s t d) (db r) = Some m2" using m1(1) m2 by (simp add: runCmds_append)
  have ne: "list_all noExpiry (?cs @ saveEvents s t d)"
    by (simp add: saveCmds_def saveEvents_def Let_def noExpiry_def)
  obtain r' where r': "rc_Exec (rs_client s) (?cs @ saveEvents s t d) r = (None, r')" "db r' = m2"
    by (rule redis_laws_exec [OF laws ne run])
  then have "snd (rd_SaveTask s now t r) = r'"
    using n d(1) dep
    by (simp add: rd_SaveTask_def Let_def saveCmds_def saveEvents_def keys_tagged deployable_def mm a_def)
  with run r' show ?thesis by (intro that) simp_all
qed

lemma save_score:
  assumes laws: "redis_laws (rs_client s) db" and dep: "deployable s" and wf: "rd_wf s db r"
    and n: "meta_GetName (task_Metadata t) \<noteq> []" and ok: "okTask s (rd_normTask t)"
  shows "savedAt s db (snd (rd_SaveTask s now t r)) =
    (savedAt s db r)(memberOf (orDefault (meta_GetAtespace (task_Metadata t))) (meta_GetName (task_Metadata t)) := float64 now)"
proof -
  let ?mem = "memberOf (orDefault (meta_GetAtespace (task_Metadata t))) (meta_GetName (task_Metadata t))"
  obtain d where "runCmds (saveCmds (tagT s) (tagTs s) (orDefault (meta_GetAtespace (task_Metadata t)))
      (meta_GetName (task_Metadata t)) d (float64 now) @ saveEvents s t d) (db r) = Some (db (snd (rd_SaveTask s now t r)))"
    by (rule save_exec [OF assms])
  then have "map_of (zset (db (snd (rd_SaveTask s now t r)) (taskIndexKey s))) =
      (map_of (zset (db r (taskIndexKey s))))(?mem \<mapsto> float64 now)"
    unfolding keys_tagged saveEvents_def Let_def
    by (rule run_index [OF _ tags_apart(1) deployable_stream(2) [OF dep]])
  then show ?thesis by (simp add: savedAt_def fun_eq_iff)
qed

text \<open>C23: Listing all tasks pages through the stored tasks, newest first. For a page inside the
  \<open>int64\<close> range, the answer is exactly the requested window of one fixed sequence; that sequence
  names every stored task exactly once and is ordered by the score of the index, highest
  first. The score is the time of the last save: a save at \<open>now\<close> sets the score of its task to
  within 512 nanoseconds of \<open>now\<close> and leaves the scores of all other tasks as they are.
\<close>

theorem redis_list_pages:
  assumes "redis_laws (rs_client s) db" and "rd_wf s db r" and "a = [] \<or> a = ''*''"
    and "0 \<le> offset" and "0 < limit" and "offset + limit < 2 ^ 63"
  shows "rd_ListTasks s a limit offset r =
        Ok (map (\<lambda>mem. the (rd_viewT s db r (tagT s @ mem)))
              (take (nat limit) (drop (nat offset) (newestMembers s db r)))) \<and>
      distinct (newestMembers s db r) \<and>
      (@) (tagT s) ` set (newestMembers s db r) = dom (rd_viewT s db r) \<and>
      sorted_wrt (\<lambda>x y. savedAt s db r y \<le> savedAt s db r x) (newestMembers s db r) \<and>
      (deployable s \<and> 0 \<le> now \<and> now < 2 ^ 63 \<and> meta_GetName (task_Metadata t) \<noteq> [] \<and> okTask s (rd_normTask t) \<longrightarrow>
        (\<exists>score. \<bar>score - now\<bar> \<le> 512 \<and>
           savedAt s db (snd (rd_SaveTask s now t r)) =
             (savedAt s db r)(memberOf (orDefault (meta_GetAtespace (task_Metadata t))) (meta_GetName (task_Metadata t)) := score)))"
proof (intro conjI impI)
  have wf: "kindWf (tagT s) (tagTs s) (js_TaskBack (rs_json s)) task_Metadata (db r)"
    using assms(2) by (simp add: rd_wf_def)
  have "wrap64 (wrap64 (offset + limit) - 1) = offset + limit - 1" using assms(4-6) by (simp add: int64_def)
  then show "rd_ListTasks s a limit offset r =
      Ok (map (\<lambda>mem. the (rd_viewT s db r (tagT s @ mem)))
            (take (nat limit) (drop (nat offset) (newestMembers s db r))))"
    using rdList_all [OF assms(1) wf assms(3)] assms(4,5)
    by (simp add: rd_ListTasks_def key_funs keys_tagged rd_viewT_def newestMembers_def zslice_page)
  show "distinct (newestMembers s db r)"
    using wf by (simp add: newestMembers_def keys_tagged kindWf_def distinct_zrev)
  show "(@) (tagT s) ` set (newestMembers s db r) = dom (rd_viewT s db r)"
    using indexed_dom [OF wf] by (simp add: newestMembers_def keys_tagged rd_viewT_def)
  have "sorted_wrt (\<lambda>x y. the (map_of (zset (db r (taskIndexKey s))) y) \<le> the (map_of (zset (db r (taskIndexKey s))) x))
      (newestMembers s db r)"
    using wf unfolding newestMembers_def by (intro zrev_sorted) (simp add: keys_tagged kindWf_def)
  then show "sorted_wrt (\<lambda>x y. savedAt s db r y \<le> savedAt s db r x) (newestMembers s db r)"
    by (rule sorted_wrt_mono_rel [rotated])
      (auto simp: savedAt_def newestMembers_def dest!: weak_map_of_SomeI split: option.splits)
next
  assume "deployable s \<and> 0 \<le> now \<and> now < 2 ^ 63 \<and> meta_GetName (task_Metadata t) \<noteq> [] \<and> okTask s (rd_normTask t)"
  then show "\<exists>score. \<bar>score - now\<bar> \<le> 512 \<and> savedAt s db (snd (rd_SaveTask s now t r)) =
      (savedAt s db r)(memberOf (orDefault (meta_GetAtespace (task_Metadata t))) (meta_GetName (task_Metadata t)) := score)"
    using float64_near [of now] save_score [OF assms(1) _ assms(2), of t now] by blast
qed

section \<open>The event stream\<close>

text \<open>
  \<open>stream_laws\<close>: \<open>pos r\<close> is how many entries of the stream the consumer group has been handed.
  A read gives some of the entries after it, in order and at least one unless there is none, and moves the
  position past them; a transaction that neither deletes nor replaces the stream
  leaves the position alone.
\<close>

definition keepsKey :: "string \<Rightarrow> rcmd \<Rightarrow> bool" where
  "keepsKey st c = (case c of CSet k _ _ \<Rightarrow> k \<noteq> st | CDel k \<Rightarrow> k \<noteq> st | _ \<Rightarrow> True)"

definition stream_laws :: "'r redisClient \<Rightarrow> ('r \<Rightarrow> keyspace) \<Rightarrow> string \<Rightarrow> string \<Rightarrow> string \<Rightarrow> ('r \<Rightarrow> nat) \<Rightarrow> bool" where
  "stream_laws c db st grp consumer pos \<longleftrightarrow>
     (\<forall>count block r. 0 < count \<longrightarrow>
        (\<exists>r' ids. db r' = db r \<and>
           (let new = drop (pos r) (streamEntries (db r st)); k = length ids in
            pos r' = pos r + k \<and> k \<le> length new \<and> (k = 0 \<longleftrightarrow> new = []) \<and>
            rc_XReadGroup c st grp consumer count block r =
              (Inr (if k = 0 then None else Some (zip ids (take k new))), r')))) \<and>
     (\<forall>cmds r m r'. list_all noExpiry cmds \<longrightarrow> list_all (keepsKey st) cmds \<longrightarrow> runCmds cmds (db r) = Some m \<longrightarrow>
        rc_Exec c cmds r = (None, r') \<longrightarrow> pos r' = pos r)"

text \<open>What is waiting for a subscriber: the rest of its batch, then the entries not handed out.\<close>

definition anonymous :: "taskEvent \<Rightarrow> taskEvent" where
  "anonymous ev = ev\<lparr>ev_ID := []\<rparr>"

definition waiting :: "'r redisStore \<Rightarrow> ('r \<Rightarrow> keyspace) \<Rightarrow> ('r \<Rightarrow> nat) \<Rightarrow> subscription \<Rightarrow> 'r \<Rightarrow> taskEvent list" where
  "waiting s db pos sub r =
     map anonymous (sub_pending sub) @
     map (\<lambda>fs. eventFromMessage ([], fs)) (drop (pos r) (streamEntries (db r (ro_StreamName (rs_opts s)))))"

lemma anonymous_event [simp]: "anonymous (eventFromMessage msg) = eventFromMessage ([], snd msg)"
  by (simp add: eventFromMessage_def anonymous_def Let_def)

lemma read_laws:
  assumes "stream_laws (rs_client s) db (ro_StreamName (rs_opts s)) (sub_group sub) (sub_consumer sub) pos"
    and "0 < ro_ReadBatchSize (rs_opts s)"
  obtains evs r' where "sub_read s sub r = (Inr evs, r')" and "db r' = db r"
    and "waiting s db pos (sub\<lparr>sub_pending := evs\<rparr>) r' = waiting s db pos (sub\<lparr>sub_pending := []\<rparr>) r"
    and "evs = [] \<longleftrightarrow> waiting s db pos (sub\<lparr>sub_pending := []\<rparr>) r = []"
proof -
  let ?st = "ro_StreamName (rs_opts s)"
  let ?new = "drop (pos r) (streamEntries (db r ?st))"
  obtain r' ids where r': "db r' = db r" "pos r' = pos r + length ids" "length ids \<le> length ?new"
      "length ids = 0 \<longleftrightarrow> ?new = []"
      "rc_XReadGroup (rs_client s) ?st (sub_group sub) (sub_consumer sub) (ro_ReadBatchSize (rs_opts s)) (ro_ReadBlock (rs_opts s)) r =
         (Inr (if length ids = 0 then None else Some (zip ids (take (length ids) ?new))), r')"
    using assms unfolding stream_laws_def Let_def by blast
  let ?evs = "map eventFromMessage (zip ids (take (length ids) ?new))"
  have read: "sub_read s sub r = (Inr ?evs, r')" using r'(5) by (cases "ids = []") (simp_all add: sub_read_def)
  have "map anonymous ?evs = map (\<lambda>fs. eventFromMessage ([], fs)) (map snd (zip ids (take (length ids) ?new)))"
    by simp
  also have "map snd (zip ids (take (length ids) ?new)) = take (length ids) ?new"
    using r'(3) by (intro map_snd_zip) simp
  finally have anon: "map anonymous ?evs = map (\<lambda>fs. eventFromMessage ([], fs)) (take (length ids) ?new)" .
  have rest: "drop (pos r') (streamEntries (db r' ?st)) = drop (length ids) ?new"
    by (simp add: r'(1,2) add.commute)
  have sp: "sub_pending (sub\<lparr>sub_pending := es\<rparr>) = es" for es by simp
  show ?thesis
  proof (rule that [OF read r'(1)])
    show "waiting s db pos (sub\<lparr>sub_pending := ?evs\<rparr>) r' = waiting s db pos (sub\<lparr>sub_pending := []\<rparr>) r"
      unfolding waiting_def rest sp anon
      by (simp only: append_take_drop_id list.map append_Nil flip: map_append)
    show "?evs = [] \<longleftrightarrow> waiting s db pos (sub\<lparr>sub_pending := []\<rparr>) r = []"
      using r'(3,4) by (auto simp: waiting_def)
  qed
qed

lemma next_takes_first:
  assumes laws: "stream_laws (rs_client s) db (ro_StreamName (rs_opts s)) (sub_group sub) (sub_consumer sub) pos"
    and "0 < ro_ReadBatchSize (rs_opts s)" and w: "waiting s db pos sub r = e # es"
  obtains ev sub' r' where "sub_Next s (None # ctxs) sub r = Some (Inr ev, sub', r')" and "anonymous ev = e"
    and "waiting s db pos sub' r' = es" and "db r' = db r"
    and "sub_group sub' = sub_group sub" and "sub_consumer sub' = sub_consumer sub"
proof (cases "sub_pending sub")
  case (Cons ev evs)
  show ?thesis
    by (rule that [of ev "sub\<lparr>sub_pending := evs\<rparr>" r]) (use Cons w in \<open>simp_all add: sub_Next.simps waiting_def\<close>)
next
  case Nil
  then have sub: "sub\<lparr>sub_pending := []\<rparr> = sub" by simp
  obtain evs r' where r': "sub_read s sub r = (Inr evs, r')" "db r' = db r"
      "waiting s db pos (sub\<lparr>sub_pending := evs\<rparr>) r' = e # es" "evs \<noteq> []"
    by (rule read_laws [OF laws assms(2), of r]) (simp_all add: sub w)
  then obtain ev rest where "evs = ev # rest" by (cases evs) simp_all
  then show ?thesis
    by (intro that [of ev "sub\<lparr>sub_pending := rest\<rparr>" r'])
      (use Nil r' in \<open>simp_all add: sub_Next.simps waiting_def\<close>)
qed

lemma run_stream:
  "\<not> under (tagTs s) st \<Longrightarrow> \<not> under (tagT s) st \<Longrightarrow> runCmds (saveCmds (tagT s) (tagTs s) a n d sc @ [CXAdd st fs, CPublish ch v]) m = Some m' \<Longrightarrow>
   streamEntries (m' st) = streamEntries (m st) @ [fs]"
  by (auto simp: saveCmds_def runCmds_append streamEntries_def split: if_splits)

lemma save_appends:
  assumes laws: "redis_laws (rs_client s) db" and dep: "deployable s" and wf: "rd_wf s db r"
    and pos: "stream_laws (rs_client s) db (ro_StreamName (rs_opts s)) grp con pos"
    and le: "pos r \<le> length (streamEntries (db r (ro_StreamName (rs_opts s))))"
    and n: "meta_GetName (task_Metadata t) \<noteq> []" and ok: "okTask s (rd_normTask t)"
  shows "waiting s db pos sub (snd (rd_SaveTask s now t r)) = waiting s db pos sub r @
     [eventFromMessage ([], eventFields ''reconcile'' (orDefault (meta_GetAtespace (task_Metadata t))) (meta_GetName (task_Metadata t)))]"
proof -
  let ?st = "ro_StreamName (rs_opts s)" and ?r' = "snd (rd_SaveTask s now t r)"
  let ?a = "orDefault (meta_GetAtespace (task_Metadata t))" and ?n = "meta_GetName (task_Metadata t)"
  obtain d where
    run: "runCmds (saveCmds (tagT s) (tagTs s) ?a ?n d (float64 now) @ saveEvents s t d) (db r) = Some (db ?r')"
    and ex: "rc_Exec (rs_client s) (saveCmds (tagT s) (tagTs s) ?a ?n d (float64 now) @ saveEvents s t d) r = (None, ?r')"
    by (rule save_exec [OF laws dep wf n ok])
  have norm: "task_Metadata (rd_normTask t) = Some (defaultAtespace (case task_Metadata t of None \<Rightarrow> emptyMeta | Some m \<Rightarrow> m))"
    by (simp add: rd_normTask_def Let_def)
  note mm = metaMember_norm [OF norm]
  have "tagT s @ u \<noteq> ?st" for u using deployable_stream(1) [OF dep] by (metis under_append)
  then have ks: "list_all noExpiry (saveCmds (tagT s) (tagTs s) ?a ?n d (float64 now) @ saveEvents s t d)"
      "list_all (keepsKey ?st) (saveCmds (tagT s) (tagTs s) ?a ?n d (float64 now) @ saveEvents s t d)"
    by (auto simp: saveCmds_def saveEvents_def Let_def keepsKey_def noExpiry_def)
  have "pos ?r' = pos r" using pos ks run ex unfolding stream_laws_def by blast
  moreover have "streamEntries (db ?r' ?st) = streamEntries (db r ?st) @ [eventFields ''reconcile'' ?a ?n]"
    using run unfolding saveEvents_def Let_def mm [THEN conjunct1] mm [THEN conjunct2, THEN conjunct1]
    by (rule run_stream [OF deployable_stream(2,1) [OF dep]])
  ultimately show ?thesis using le by (simp add: waiting_def)
qed

text \<open>A Redis server as a state: its keyspace and the position of the one consumer group.\<close>

record simRedis =
  sim_keys :: keyspace
  sim_pos :: nat

definition simClient :: "simRedis redisClient" where
  "simClient = \<lparr>
     rc_Exec = (\<lambda>cmds r. case runCmds cmds (sim_keys r) of
        None \<Rightarrow> (Some (ENew ''WRONGTYPE''), r) | Some m \<Rightarrow> (None, r\<lparr>sim_keys := m\<rparr>)),
     rc_Get = (\<lambda>k r. case sim_keys r k of
        None \<Rightarrow> Inr None | Some (RStr d) \<Rightarrow> Inr (Some d) | _ \<Rightarrow> Inl (ENew ''WRONGTYPE'')),
     rc_MGet = (\<lambda>ks r. Inr (map (\<lambda>k. strOf (sim_keys r k)) ks)),
     rc_ZRevRange = (\<lambda>k i j r. if isZSet (sim_keys r k) then Inr (zslice i j (zrev (zset (sim_keys r k))))
        else Inl (ENew ''WRONGTYPE'')),
     rc_XGroupCreate = (\<lambda>st grp start r. (None, r\<lparr>sim_pos := length (streamEntries (sim_keys r st))\<rparr>)),
     rc_XReadGroup = (\<lambda>st grp con count block r.
        let new = take (nat count) (drop (sim_pos r) (streamEntries (sim_keys r st))) in
        (Inr (if new = [] then None else Some (map (Pair ''1-0'') new)), r\<lparr>sim_pos := sim_pos r + length new\<rparr>)),
     rc_XAck = (\<lambda>st grp i r. (None, r))\<rparr>"

lemma sim_laws: "redis_laws simClient sim_keys"
  by (auto simp: redis_laws_def simClient_def split: option.splits)

text \<open>A codec that knows two tasks: the example as saved, and the same with a new status.\<close>

definition runningStatus :: "taskStatus option" where
  "runningStatus = Some (emptyStatus\<lparr>st_Phase := ''Running''\<rparr>)"

definition simCodec :: codec where
  "simCodec = \<lparr>
     js_Task = (\<lambda>t. if t = rd_normTask exampleTask then Inr ''saved''
        else if t = (rd_normTask exampleTask)\<lparr>task_Status := runningStatus\<rparr> then Inr ''running''
        else Inl (ENew ''invalid UTF-8'')),
     js_TaskBack = (\<lambda>d. if d = ''saved'' then Inr (rd_normTask exampleTask)
        else if d = ''running'' then Inr ((rd_normTask exampleTask)\<lparr>task_Status := runningStatus\<rparr>)
        else Inl (ENew ''syntax error'')),
     js_Gateway = (\<lambda>_. Inl (ENew [])), js_GatewayBack = (\<lambda>_. Inl (ENew [])),
     js_Model = (\<lambda>_. Inl (ENew [])), js_ModelBack = (\<lambda>_. Inl (ENew [])),
     js_Workspace = (\<lambda>_. Inl (ENew [])), js_WorkspaceBack = (\<lambda>_. Inl (ENew []))\<rparr>"

definition simStore :: "simRedis redisStore" where
  "simStore = rd_NewStore simClient simCodec
     \<lparr>ro_StreamName = [], ro_KeyPrefix = [], ro_TTL = 0, ro_ReadBatchSize = 0, ro_ReadBlock = 0\<rparr>"

definition simEmpty :: simRedis where
  "simEmpty = \<lparr>sim_keys = Map.empty, sim_pos = 0\<rparr>"

definition simSaved :: simRedis where
  "simSaved = snd (rd_SaveTask simStore 7 exampleTask simEmpty)"

lemma simStore_simps [simp]:
  "rs_client simStore = simClient" "rs_json simStore = simCodec" "deployable simStore"
  "ro_StreamName (rs_opts simStore) = ''ax:stream:tasks''" "ro_ReadBatchSize (rs_opts simStore) = 10"
  "rd_wf simStore sim_keys simEmpty"
  using deployable_default [of simClient simCodec]
  by (simp_all add: simStore_def rd_NewStore_def rd_wf_empty simEmpty_def)

lemma simCodec_ok [simp]:
  "okTask simStore (rd_normTask exampleTask)"
  "okTask simStore ((rd_normTask exampleTask)\<lparr>task_Status := runningStatus\<rparr>)"
proof -
  have "st_Phase (the (task_Status (rd_normTask exampleTask))) = ''Pending''"
    by (simp add: rd_normTask_def Let_def example_defs)
  then have "(rd_normTask exampleTask)\<lparr>task_Status := runningStatus\<rparr> \<noteq> rd_normTask exampleTask"
    by (auto simp: runningStatus_def dest: arg_cong [where f = "\<lambda>t. st_Phase (the (task_Status t))"])
  then show "okTask simStore (rd_normTask exampleTask)"
    "okTask simStore ((rd_normTask exampleTask)\<lparr>task_Status := runningStatus\<rparr>)"
    by (simp_all add: okTask_def encodes_def simCodec_def)
qed

lemma simSaved_view:
  "rd_wf simStore sim_keys simSaved"
  "rd_viewT simStore sim_keys simSaved = [rd_taskKey simStore ''default'' ''demo'' \<mapsto> rd_normTask exampleTask]"
proof -
  have c: "resource_kind task_Metadata rd_normTask (rd_taskKey simStore) (rd_viewT simStore sim_keys)
    (rd_SaveTask simStore) (rd_GetTask simStore) (rd_DeleteTask simStore) (rd_wf simStore sim_keys) (okTask simStore)"
    by (rule rd_tasks_contract) (simp_all add: sim_laws)
  have e: "rd_viewT simStore sim_keys simEmpty = Map.empty"
    by (simp add: fun_eq_iff rd_viewT_def kindView_def simEmpty_def)
  show "rd_wf simStore sim_keys simSaved"
    "rd_viewT simStore sim_keys simSaved = [rd_taskKey simStore ''default'' ''demo'' \<mapsto> rd_normTask exampleTask]"
    using resource_kind.save_wf [OF c, of simEmpty exampleTask 7] resource_kind.save_view [OF c, of simEmpty exampleTask 7] e
    by (simp_all add: simSaved_def orDefault_def)
qed

lemma sim_stream_laws: "stream_laws simClient sim_keys st grp con sim_pos"
  unfolding stream_laws_def
proof (intro conjI allI impI)
  fix count block :: int and r :: simRedis
  assume "0 < count"
  let ?new = "drop (sim_pos r) (streamEntries (sim_keys r st))"
  let ?k = "min (nat count) (length ?new)"
  have "take (nat count) ?new = take ?k ?new" by (simp add: min_def)
  moreover have "map (Pair ''1-0'') (take ?k ?new) = zip (replicate ?k ''1-0'') (take ?k ?new)"
    by (simp add: zip_replicate1 min_def)
  ultimately show "\<exists>r' ids. sim_keys r' = sim_keys r \<and>
      (let new = ?new; k = length ids in
       sim_pos r' = sim_pos r + k \<and> k \<le> length new \<and> (k = 0 \<longleftrightarrow> new = []) \<and>
       rc_XReadGroup simClient st grp con count block r = (Inr (if k = 0 then None else Some (zip ids (take k new))), r'))"
    using \<open>0 < count\<close>
    by (intro exI [of _ "r\<lparr>sim_pos := sim_pos r + ?k\<rparr>"] exI [of _ "replicate ?k ''1-0''"])
      (auto simp: simClient_def Let_def)
qed (auto simp: simClient_def split: option.splits)

theorem redis_list_pages_witness:
  "rd_ListTasks simStore ''*'' 5 0 simSaved = Ok [rd_normTask exampleTask] \<and>
   \<bar>savedAt simStore sim_keys (snd (rd_SaveTask simStore 1700000000000000000 exampleTask simSaved)) (memberOf ''default'' ''demo'') -
     1700000000000000000\<bar> \<le> 512"
proof -
  let ?N = "newestMembers simStore sim_keys simSaved" and ?m = "memberOf ''default'' ''demo''"
  have im: "(@) (tagT simStore) ` set ?N = (@) (tagT simStore) ` {?m}"
    and d: "distinct ?N"
    and l: "rd_ListTasks simStore ''*'' 5 0 simSaved =
      Ok (map (\<lambda>mem. the (rd_viewT simStore sim_keys simSaved (tagT simStore @ mem))) (take 5 ?N))"
    using redis_list_pages [of simStore sim_keys simSaved "''*''" 0 5]
    by (simp_all add: sim_laws simSaved_view keys_tagged)
  have "inj ((@) (tagT simStore))" by (simp add: inj_def)
  then have N: "set ?N = {?m}" using im by (simp only: inj_image_eq_iff)
  then have "length ?N = 1" using distinct_card [OF d] by simp
  then have "?N = [?m]" using N by (cases ?N) auto
  moreover have "\<bar>savedAt simStore sim_keys (snd (rd_SaveTask simStore 1700000000000000000 exampleTask simSaved)) ?m - 1700000000000000000\<bar> \<le> 512"
    using redis_list_pages [of simStore sim_keys simSaved "''*''" 0 5 1700000000000000000 exampleTask]
    by (auto simp: sim_laws simSaved_view orDefault_def)
  ultimately show ?thesis using l by (simp add: simSaved_view keys_tagged)
qed

text \<open>C6: The Redis-backed store keeps the contract of the storage interface. Over any server that
  follows the documented commands, the invariant holds of an empty database, every operation
  keeps it, and saving, reading, deleting, updating a status and marking a task as deleting have
  the abstract effect the interface promises, for every value the encoding preserves.
\<close>

theorem redis_meets_contract:
  assumes "redis_laws (rs_client s) db" and "deployable s"
  shows "(\<forall>r. db r = Map.empty \<longrightarrow> rd_wf s db r) \<and>
    ax_store (rd_store s) (rd_wf s db)
      rd_normTask (rd_taskKey s) (rd_viewT s db) (okTask s)
      rd_normGateway (gwKey s) (rd_viewG s db) (okGateway s)
      rd_normWorkspace (wsKey s) (rd_viewW s db) (okWorkspace s)
      rd_normModel (modelKey s) (rd_viewM s db) (okModel s)"
  using rd_ax_store [OF assms] by (intro conjI allI impI rd_wf_empty)

theorem redis_meets_contract_witness:
  "rd_GetTask simStore [] ''demo'' (snd (rd_SaveTask simStore 7 exampleTask simEmpty)) = Ok (rd_normTask exampleTask)"
proof -
  have "ax_store (rd_store simStore) (rd_wf simStore sim_keys)
      rd_normTask (rd_taskKey simStore) (rd_viewT simStore sim_keys) (okTask simStore)
      rd_normGateway (gwKey simStore) (rd_viewG simStore sim_keys) (okGateway simStore)
      rd_normWorkspace (wsKey simStore) (rd_viewW simStore sim_keys) (okWorkspace simStore)
      rd_normModel (modelKey simStore) (rd_viewM simStore sim_keys) (okModel simStore)"
    by (rule redis_meets_contract [of simStore sim_keys, unfolded simStore_simps(1), OF sim_laws simStore_simps(3), THEN conjunct2])
  then have "resource_kind task_Metadata rd_normTask (rd_taskKey simStore) (rd_viewT simStore sim_keys)
      (rd_SaveTask simStore) (rd_GetTask simStore) (rd_DeleteTask simStore) (rd_wf simStore sim_keys) (okTask simStore)"
    unfolding ax_store_def rd_store_ops by (elim conjE)
  note kind = resource_kind.get_after_save [OF this]
  show ?thesis by (rule kind) simp_all
qed

text \<open>C19: Events reach a subscriber in the order they were published, each once. Saving a task adds one
  reconcile event with the task's atespace and name behind those already waiting, and \<open>Next\<close>,
  unless its context is done, returns the oldest waiting event and leaves exactly the others.
\<close>

theorem redis_events_in_order:
  assumes "redis_laws (rs_client s) db" and "deployable s" and "rd_wf s db r"
    and "stream_laws (rs_client s) db (ro_StreamName (rs_opts s)) (sub_group sub) (sub_consumer sub) pos"
    and "pos r \<le> length (streamEntries (db r (ro_StreamName (rs_opts s))))" and "0 < ro_ReadBatchSize (rs_opts s)"
  shows "(meta_GetName (task_Metadata t) \<noteq> [] \<and> okTask s (rd_normTask t) \<longrightarrow>
      waiting s db pos sub (snd (rd_SaveTask s now t r)) = waiting s db pos sub r @
        [\<lparr>ev_ID = [], ev_Atespace = orDefault (meta_GetAtespace (task_Metadata t)),
          ev_Name = meta_GetName (task_Metadata t), ev_Action = ''reconcile''\<rparr>]) \<and>
    (\<forall>e es. waiting s db pos sub r = e # es \<longrightarrow>
      (\<exists>ev sub' r'. sub_Next s (None # ctxs) sub r = Some (Inr ev, sub', r') \<and> anonymous ev = e \<and>
         waiting s db pos sub' r' = es \<and> db r' = db r))"
proof (intro conjI impI allI)
  assume "meta_GetName (task_Metadata t) \<noteq> [] \<and> okTask s (rd_normTask t)"
  then show "waiting s db pos sub (snd (rd_SaveTask s now t r)) = waiting s db pos sub r @
        [\<lparr>ev_ID = [], ev_Atespace = orDefault (meta_GetAtespace (task_Metadata t)),
          ev_Name = meta_GetName (task_Metadata t), ev_Action = ''reconcile''\<rparr>]"
    using save_appends [OF assms(1-5), of t sub now] by (simp add: eventFromMessage_def eventFields_def)
next
  fix e es assume "waiting s db pos sub r = e # es"
  then show "\<exists>ev sub' r'. sub_Next s (None # ctxs) sub r = Some (Inr ev, sub', r') \<and> anonymous ev = e \<and>
         waiting s db pos sub' r' = es \<and> db r' = db r"
    using next_takes_first [OF assms(4,6)] by metis
qed

theorem redis_events_in_order_witness:
  "waiting simStore sim_keys sim_pos \<lparr>sub_group = ''g'', sub_consumer = ''c'', sub_pending = []\<rparr> simSaved =
     [\<lparr>ev_ID = [], ev_Atespace = ''default'', ev_Name = ''demo'', ev_Action = ''reconcile''\<rparr>]"
  using redis_events_in_order [of simStore sim_keys simEmpty "\<lparr>sub_group = ''g'', sub_consumer = ''c'', sub_pending = []\<rparr>" sim_pos exampleTask 7]
  by (simp add: sim_laws sim_stream_laws simSaved_def) (simp add: waiting_def simEmpty_def streamEntries_def orDefault_def)

text \<open>With an empty atespace, \<open>UpdateTaskStatus\<close> reports success and changes nothing a reader can
  see: the task is read from the \<open>default\<close> atespace and written under the empty one.
\<close>

theorem redis_update_empty_atespace:
  assumes "redis_laws (rs_client s) db" and "deployable s" and "rd_wf s db r"
    and "rd_viewT s db r (rd_taskKey s ''default'' n) = Some t" and "okTask s (t\<lparr>task_Status := st\<rparr>)"
  shows "fst (rd_UpdateTaskStatus s [] n st r) = Ok () \<and>
    rd_GetTask s [] n (snd (rd_UpdateTaskStatus s [] n st r)) = Ok t \<and>
    rd_GetTask s ''default'' n (snd (rd_UpdateTaskStatus s [] n st r)) = Ok t"
proof -
  let ?t = "t\<lparr>task_Status := st\<rparr>" and ?k = "rd_taskKey s [] n"
  obtain d where d: "js_Task (rs_json s) ?t = Inr d"
    using assms(5) by (auto simp: okTask_def encodes_def split: sum.splits)
  have get: "rd_GetTask s [] n r = Ok t" using rd_get_view [OF assms(1-3), of "[]" n] assms(4) by (simp add: orDefault_def)
  obtain v where v: "db r (rd_taskKey s ''default'' n) = Some (RStr v)" "js_TaskBack (rs_json s) v = Inr t"
    using assms(4) by (auto simp: rd_viewT_def kindView_def decoded_def strOf_def split: if_splits option.splits rvalue.splits sum.splits)
  let ?cs = "[CSet ?k d 0, CPublish (taskPubSubChannel s [] n) d]"
  obtain r' where r': "rc_Exec (rs_client s) ?cs r = (None, r')" "db r' = (db r)(?k \<mapsto> RStr d)"
    by (rule redis_laws_exec [OF assms(1), of ?cs]) (simp_all add: noExpiry_def)
  have upd: "rd_UpdateTaskStatus s [] n st r = (Ok (), r')"
    using assms(2) by (simp add: rd_UpdateTaskStatus_def get d r'(1) deployable_def)
  have "?k \<noteq> rd_taskKey s ''default'' n" by (auto simp: rd_taskKey_def)
  then have "rc_Get (rs_client s) (rd_taskKey s ''default'' n) r' = Inr (Some v)"
    using v by (intro redis_laws_reads(2) [OF assms(1)]) (simp add: r'(2))
  then show ?thesis by (simp add: upd rd_GetTask_def rdFetch_def v(2) orDefault_def)
qed

theorem redis_update_empty_atespace_witness:
  "rd_GetTask simStore [] ''demo'' (snd (rd_UpdateTaskStatus simStore [] ''demo'' runningStatus simSaved)) =
     Ok (rd_normTask exampleTask)"
  using redis_update_empty_atespace [of simStore sim_keys simSaved "''demo''" "rd_normTask exampleTask" runningStatus]
  by (simp add: sim_laws simSaved_view)

end
