(* ===== verification/Go_Flags.thy ===== *)
theory Go_Flags
  imports Prelude
begin

text \<open>
  What the programs under \<open>cmd\<close> use of Go's \<open>flag\<close> package: string, Boolean and integer flags,
  parsed left to right up to the first argument that is no flag, a failure ending the program
  with status 2 and a request for help with status 0. Integers are read as \<open>strconv.ParseInt\<close>
  reads them with base 0 and 64 bits.
\<close>

section \<open>Values\<close>

datatype flagKind = StringKind | BoolKind | IntKind

datatype flagValue = FlagString string | FlagBool bool | FlagInt int

definition parseBool :: "string \<Rightarrow> bool option" where
  "parseBool s =
     (if s \<in> set [''1'', ''t'', ''T'', ''TRUE'', ''true'', ''True''] then Some True
      else if s \<in> set [''0'', ''f'', ''F'', ''FALSE'', ''false'', ''False''] then Some False
      else None)"

definition digitValue :: "char \<Rightarrow> int option" where
  "digitValue c =
     (let k = int (of_char c) in
      if 48 \<le> k \<and> k \<le> 57 then Some (k - 48)
      else if 97 \<le> k \<and> k \<le> 122 then Some (k - 87)
      else if 65 \<le> k \<and> k \<le> 90 then Some (k - 55)
      else None)"

fun baseValue :: "int \<Rightarrow> int \<Rightarrow> string \<Rightarrow> int option" where
  "baseValue base n [] = Some n"
| "baseValue base n (c # cs) =
     (if c = CHR ''_'' then baseValue base n cs
      else case digitValue c of
             Some d \<Rightarrow> if d < base then baseValue base (n * base + d) cs else None
           | None \<Rightarrow> None)"

text \<open>Underscores stand between digits; a base prefix counts as a digit.\<close>

fun underscoresOk :: "bool \<Rightarrow> string \<Rightarrow> bool" where
  "underscoresOk digit [] = True"
| "underscoresOk digit [c] = (c \<noteq> CHR ''_'')"
| "underscoresOk digit (c # cs) = (if c = CHR ''_'' then digit \<and> underscoresOk False cs else underscoresOk True cs)"

definition basePrefix :: "string \<Rightarrow> int \<times> bool \<times> string" where
  "basePrefix s =
     (if s \<noteq> [] \<and> hd s = CHR ''0''
      then if length s \<ge> 3 \<and> s ! 1 \<in> {CHR ''b'', CHR ''B''} then (2, True, drop 2 s)
           else if length s \<ge> 3 \<and> s ! 1 \<in> {CHR ''o'', CHR ''O''} then (8, True, drop 2 s)
           else if length s \<ge> 3 \<and> s ! 1 \<in> {CHR ''x'', CHR ''X''} then (16, True, drop 2 s)
           else (8, False, s)
      else (10, False, s))"

definition parseInt :: "string \<Rightarrow> int option" where
  "parseInt s =
     (let neg = (s \<noteq> [] \<and> hd s = CHR ''-'');
          u = (if s \<noteq> [] \<and> hd s \<in> {CHR ''-'', CHR ''+''} then tl s else s)
      in case basePrefix u of
           (base, prefixed, ds) \<Rightarrow>
             if u = [] \<or> \<not> underscoresOk prefixed ds then None
             else (case baseValue base 0 ds of
                     None \<Rightarrow> None
                   | Some n \<Rightarrow>
                       if neg then (if n \<le> 2 ^ 63 then Some (- n) else None)
                       else if n < 2 ^ 63 then Some n else None))"

definition setFlag :: "flagKind \<Rightarrow> string \<Rightarrow> flagValue option" where
  "setFlag kind v =
     (case kind of
        StringKind \<Rightarrow> Some (FlagString v)
      | BoolKind \<Rightarrow> map_option FlagBool (parseBool v)
      | IntKind \<Rightarrow> map_option FlagInt (parseInt v))"

section \<open>Parsing\<close>

text \<open>The name part of an argument, unless the argument ends the flags.\<close>

definition flagName :: "string \<Rightarrow> string option" where
  "flagName s =
     (if length s < 2 \<or> hd s \<noteq> CHR ''-'' \<or> s = ''--'' then None
      else Some (if s ! 1 = CHR ''-'' then drop 2 s else tl s))"

definition flagKey :: "string \<Rightarrow> string" where
  "flagKey name = hd name # takeWhile (\<lambda>c. c \<noteq> CHR ''='') (tl name)"

definition inlineValue :: "string \<Rightarrow> string option" where
  "inlineValue name = (case dropWhile (\<lambda>c. c \<noteq> CHR ''='') (tl name) of [] \<Rightarrow> None | _ # v \<Rightarrow> Some v)"

text \<open>
  \<open>flag.Parse\<close>: the values set, latest first, or the status the program exits with. A Boolean flag
  takes a value only after an equals sign, any other takes the next argument if it has none.
\<close>

fun parseFlags :: "(string \<times> flagKind) list \<Rightarrow> (string \<times> flagValue) list \<Rightarrow> string list \<Rightarrow> int + (string \<times> flagValue) list" where
  "parseFlags flags vals [] = Inr vals"
| "parseFlags flags vals (s # args) =
     (case flagName s of
        None \<Rightarrow> Inr vals
      | Some name \<Rightarrow>
          if name = [] \<or> hd name = CHR ''-'' \<or> hd name = CHR ''='' then Inl 2
          else (let k = flagKey name in
            case map_of flags k of
              None \<Rightarrow> Inl (if k = ''help'' \<or> k = ''h'' then 0 else 2)
            | Some kind \<Rightarrow>
                (case (if kind = BoolKind \<and> inlineValue name = None then Some ''true'' else inlineValue name) of
                   Some v \<Rightarrow>
                     (case setFlag kind v of
                        None \<Rightarrow> Inl 2
                      | Some x \<Rightarrow> parseFlags flags ((k, x) # vals) args)
                 | None \<Rightarrow>
                     (case args of
                        [] \<Rightarrow> Inl 2
                      | v # args' \<Rightarrow>
                          (case setFlag kind v of
                             None \<Rightarrow> Inl 2
                           | Some x \<Rightarrow> parseFlags flags ((k, x) # vals) args')))))"

definition stringFlag :: "(string \<times> flagValue) list \<Rightarrow> string \<Rightarrow> string \<Rightarrow> string" where
  "stringFlag vals name dflt = (case map_of vals name of Some (FlagString v) \<Rightarrow> v | _ \<Rightarrow> dflt)"

definition boolFlag :: "(string \<times> flagValue) list \<Rightarrow> string \<Rightarrow> bool \<Rightarrow> bool" where
  "boolFlag vals name dflt = (case map_of vals name of Some (FlagBool b) \<Rightarrow> b | _ \<Rightarrow> dflt)"

definition intFlag :: "(string \<times> flagValue) list \<Rightarrow> string \<Rightarrow> int \<Rightarrow> int" where
  "intFlag vals name dflt = (case map_of vals name of Some (FlagInt n) \<Rightarrow> n | _ \<Rightarrow> dflt)"

text \<open>Every value a repeatable flag was given, in order.\<close>

definition allValues :: "(string \<times> flagValue) list \<Rightarrow> string \<Rightarrow> string list" where
  "allValues vals name = rev (map (\<lambda>e. case snd e of FlagString v \<Rightarrow> v | _ \<Rightarrow> []) (filter (\<lambda>e. fst e = name) vals))"

lemmas flag_defs = flagName_def flagKey_def inlineValue_def setFlag_def parseBool_def stringFlag_def boolFlag_def
  intFlag_def allValues_def

end
