(* ===== verification/Daemons.thy ===== *)
theory Daemons
  imports Worker Redis_Refinement Go_Flags
begin

text \<open>
  \<open>cmd/ax-server/main.go\<close> and \<open>cmd/ax-controller/main.go\<close>: the two long-running programs. They
  share nothing but a Redis server: each reads its flags and environment, connects and builds its
  store. What their \<open>main\<close> takes from outside is the record \<open>daemonEnv\<close>; the command line is
  parsed as Go's \<open>flag\<close> package does. The controller's loop runs the worker over the Redis
  store together with its subscription. The lemmas say that the two programs, given the same
  address and password, hand tasks over to each other, and that whatever they do keeps every key
  of the database at its type.
\<close>

section \<open>The surroundings of the programs\<close>

definition envOr :: "(string \<Rightarrow> string) \<Rightarrow> string \<Rightarrow> string \<Rightarrow> string" where
  "envOr getenv name v = (if getenv name \<noteq> [] then getenv name else v)"

text \<open>
  \<open>dm_connect\<close> is the Redis client for an address and a password, \<open>dm_control\<close> the control service
  behind a dialled connection, \<open>dm_listen\<close> the error with which \<open>ListenAndServe\<close> returns before a
  signal arrives.
\<close>

record ('r, 'c) daemonEnv =
  dm_getenv :: "string \<Rightarrow> string"
  dm_stat :: "string \<Rightarrow> bool"
  dm_readFile :: "string \<Rightarrow> error + string"
  dm_parsesPEM :: "string \<Rightarrow> bool"
  dm_dial :: "dialPlan \<Rightarrow> error option"
  dm_control :: "dialPlan \<Rightarrow> 'c control"
  dm_kubeSecret :: "string \<Rightarrow> string \<Rightarrow> string \<Rightarrow> error + string"
  dm_hostname :: string
  dm_nanos :: int
  dm_connect :: "string \<Rightarrow> string \<Rightarrow> 'r redisClient"
  dm_json :: codec
  dm_listen :: "string \<Rightarrow> error option"

definition zeroOptions :: redisOptions where
  "zeroOptions = \<lparr>ro_StreamName = [], ro_KeyPrefix = [], ro_TTL = 0, ro_ReadBatchSize = 0, ro_ReadBlock = 0\<rparr>"

text \<open>The store either program builds.\<close>

definition daemonStore :: "('r, 'c) daemonEnv \<Rightarrow> string \<Rightarrow> string \<Rightarrow> 'r redisStore" where
  "daemonStore env addr password = rd_NewStore (dm_connect env addr password) (dm_json env) zeroOptions"

section \<open>The API server\<close>

record serverConfig =
  sc_listenAddr :: string
  sc_redisAddr :: string
  sc_redisPassword :: string

definition axServerFlags :: "(string \<times> flagKind) list" where
  "axServerFlags = [(''addr'', StringKind), (''redis-addr'', StringKind), (''redis-password'', StringKind)]"

definition axServerConfig :: "(string \<Rightarrow> string) \<Rightarrow> string list \<Rightarrow> int + serverConfig" where
  "axServerConfig getenv args =
     (case parseFlags axServerFlags [] args of
        Inl code \<Rightarrow> Inl code
      | Inr vals \<Rightarrow> Inr
          \<lparr>sc_listenAddr = envOr getenv ''ADDR'' (stringFlag vals ''addr'' '':8080''),
           sc_redisAddr = envOr getenv ''REDIS_ADDR'' (stringFlag vals ''redis-addr'' ''localhost:6379''),
           sc_redisPassword = envOr getenv ''REDIS_PASSWORD'' (stringFlag vals ''redis-password'' [])\<rparr>)"

definition axServerStore :: "('r, 'c) daemonEnv \<Rightarrow> string list \<Rightarrow> int + 'r redisStore" where
  "axServerStore env args =
     (case axServerConfig (dm_getenv env) args of
        Inl code \<Rightarrow> Inl code
      | Inr cfg \<Rightarrow> Inr (daemonStore env (sc_redisAddr cfg) (sc_redisPassword cfg)))"

definition errServerClosed :: error where
  "errServerClosed = ENew ''http: Server closed''"

text \<open>The exit status: 0 when the server runs until a signal stops it.\<close>

definition axServer_main :: "('r, 'c) daemonEnv \<Rightarrow> string list \<Rightarrow> int" where
  "axServer_main env args =
     (case axServerConfig (dm_getenv env) args of
        Inl code \<Rightarrow> code
      | Inr cfg \<Rightarrow>
          (case dm_listen env (sc_listenAddr cfg) of
             None \<Rightarrow> 0
           | Some e \<Rightarrow> if e \<noteq> errServerClosed then 1 else 0))"

section \<open>The controller\<close>

record controllerConfig =
  cc_client :: clientOptions
  cc_template :: string
  cc_templateAtespace :: string
  cc_redisAddr :: string
  cc_redisPassword :: string
  cc_redisGroup :: string
  cc_redisConsumer :: string

definition axControllerFlags :: "(string \<times> flagKind) list" where
  "axControllerFlags =
     [(''redis-addr'', StringKind), (''redis-password'', StringKind), (''redis-group'', StringKind), (''redis-consumer'', StringKind),
      (''substrate-endpoint'', StringKind), (''substrate-authority'', StringKind), (''substrate-token-file'', StringKind),
      (''substrate-ca-file'', StringKind), (''substrate-insecure-tls'', BoolKind), (''substrate-plaintext'', BoolKind),
      (''template'', StringKind), (''template-atespace'', StringKind)]"

text \<open>The password of the environment counts only when the flag gives none.\<close>

definition axControllerConfig :: "(string \<Rightarrow> string) \<Rightarrow> string list \<Rightarrow> int + controllerConfig" where
  "axControllerConfig getenv args =
     (case parseFlags axControllerFlags [] args of
        Inl code \<Rightarrow> Inl code
      | Inr vals \<Rightarrow>
          (let password = stringFlag vals ''redis-password'' [] in
           Inr
             \<lparr>cc_client =
                \<lparr>co_Target = stringFlag vals ''substrate-endpoint'' ''api.ate-system.svc.cluster.local:443'',
                 co_Authority = stringFlag vals ''substrate-authority'' ''api.ate-system.svc'',
                 co_TokenFile = stringFlag vals ''substrate-token-file'' [],
                 co_CAFile = stringFlag vals ''substrate-ca-file'' [],
                 co_InsecureTLS = boolFlag vals ''substrate-insecure-tls'' False,
                 co_Plaintext = boolFlag vals ''substrate-plaintext'' False\<rparr>,
              cc_template = stringFlag vals ''template'' ''default-template'',
              cc_templateAtespace = stringFlag vals ''template-atespace'' ''ax-system'',
              cc_redisAddr = envOr getenv ''REDIS_ADDR'' (stringFlag vals ''redis-addr'' ''localhost:6379''),
              cc_redisPassword = (if password = [] then envOr getenv ''REDIS_PASSWORD'' password else password),
              cc_redisGroup = stringFlag vals ''redis-group'' ''ax-controllers'',
              cc_redisConsumer = stringFlag vals ''redis-consumer'' []\<rparr>))"

text \<open>What the controller builds before it runs.\<close>

record 'r controllerParts =
  cp_plan :: dialPlan
  cp_reconciler :: taskReconciler
  cp_store :: "'r redisStore"
  cp_worker :: worker

definition axControllerParts :: "('r, 'c) daemonEnv \<Rightarrow> string list \<Rightarrow> int + 'r controllerParts" where
  "axControllerParts env args =
     (case axControllerConfig (dm_getenv env) args of
        Inl code \<Rightarrow> Inl code
      | Inr cfg \<Rightarrow>
          (case NewClientWithOptions (dm_getenv env) (dm_stat env) (dm_readFile env) (dm_parsesPEM env) (dm_dial env)
                  (cc_client cfg) of
             Inl _ \<Rightarrow> Inl 1
           | Inr plan \<Rightarrow> Inr
               \<lparr>cp_plan = plan,
                cp_reconciler = NewTaskReconciler (dm_kubeSecret env) (cc_template cfg) (cc_templateAtespace cfg),
                cp_store = daemonStore env (cc_redisAddr cfg) (cc_redisPassword cfg),
                cp_worker = NewWorker (dm_hostname env) (dm_nanos env) (cc_redisGroup cfg) (cc_redisConsumer cfg)\<rparr>))"

text \<open>
  The worker runs over the database, its subscription and, for each call of \<open>Next\<close> to come, what
  \<open>ctx.Err()\<close> answers before each read. The operations of the store act on the database.
\<close>

type_synonym 'r session = "'r \<times> subscription \<times> error option list list"

definition onDb :: "('r \<Rightarrow> 'a \<times> 'r) \<Rightarrow> 'r session \<Rightarrow> 'a \<times> 'r session" where
  "onDb f w = (case f (fst w) of (x, r') \<Rightarrow> (x, r', snd w))"

definition sessionStore :: "'r redisStore \<Rightarrow> 'r session store" where
  "sessionStore s = \<lparr>
     store_SaveTask = (\<lambda>now t. onDb (rd_SaveTask s now t)), store_GetTask = (\<lambda>a n w. rd_GetTask s a n (fst w)),
     store_ListTasks = (\<lambda>a l f w. rd_ListTasks s a l f (fst w)),
     store_UpdateTaskStatus = (\<lambda>a n st. onDb (rd_UpdateTaskStatus s a n st)),
     store_MarkTaskDeleting = (\<lambda>now a n. onDb (rd_MarkTaskDeleting s now a n)),
     store_DeleteTask = (\<lambda>a n. onDb (rd_DeleteTask s a n)),
     store_SaveGateway = (\<lambda>now g. onDb (rd_SaveGateway s now g)), store_GetGateway = (\<lambda>a n w. rd_GetGateway s a n (fst w)),
     store_ListGateways = (\<lambda>a w. rd_ListGateways s a (fst w)), store_DeleteGateway = (\<lambda>a n. onDb (rd_DeleteGateway s a n)),
     store_SaveWorkspace = (\<lambda>now x. onDb (rd_SaveWorkspace s now x)), store_GetWorkspace = (\<lambda>a n w. rd_GetWorkspace s a n (fst w)),
     store_ListWorkspaces = (\<lambda>a w. rd_ListWorkspaces s a (fst w)), store_DeleteWorkspace = (\<lambda>a n. onDb (rd_DeleteWorkspace s a n)),
     store_SaveModel = (\<lambda>now m. onDb (rd_SaveModel s now m)), store_GetModel = (\<lambda>a n w. rd_GetModel s a n (fst w)),
     store_ListModels = (\<lambda>a w. rd_ListModels s a (fst w)), store_DeleteModel = (\<lambda>a n. onDb (rd_DeleteModel s a n))\<rparr>"

definition sessionNext :: "'r redisStore \<Rightarrow> 'r session \<Rightarrow> ((error + taskEvent) \<times> 'r session) option" where
  "sessionNext s w =
     (case w of (r, sub, ctxss) \<Rightarrow>
        (case ctxss of
           [] \<Rightarrow> None
         | ctxs # rest \<Rightarrow>
             (case sub_Next s ctxs sub r of
                None \<Rightarrow> None
              | Some (res, sub', r') \<Rightarrow> Some (res, r', sub', rest))))"

definition sessionAck :: "'r redisStore \<Rightarrow> taskEvent \<Rightarrow> 'r session \<Rightarrow> error option \<times> 'r session" where
  "sessionAck s ev w =
     (case w of (r, sub, ctxss) \<Rightarrow> (case sub_Ack s ev (sub, r) of (e, sub', r') \<Rightarrow> (e, r', sub', ctxss)))"

definition sessionQueue :: "'r redisStore \<Rightarrow> 'r session eventQueue" where
  "sessionQueue s = \<lparr>queue_Next = sessionNext s, queue_Ack = sessionAck s\<rparr>"

text \<open>The exit status; None while the worker is still at work.\<close>

definition exitStatus :: "workerState \<Rightarrow> int option" where
  "exitStatus st =
     (case st of
        WReturned e \<Rightarrow> Some (if e \<noteq> ECanceled then 1 else 0)
      | WCrashed \<Rightarrow> Some 2
      | _ \<Rightarrow> None)"

definition axController_main ::
  "('r, 'c) daemonEnv \<Rightarrow> turn list \<Rightarrow> error option list list \<Rightarrow> string list \<Rightarrow> 'r \<times> 'c \<Rightarrow> int option \<times> 'r \<times> 'c" where
  "axController_main env tns ctxss args rc =
     (case axControllerParts env args of
        Inl code \<Rightarrow> (Some code, rc)
      | Inr p \<Rightarrow>
          (let s = cp_store p; ctl = dm_control env (cp_plan p) in
           case rd_Subscribe s (wk_group (cp_worker p)) (wk_consumer (cp_worker p)) (fst rc) of
             (Inl e, r1) \<Rightarrow>
               (case worker_Run (rd_store s) (Inl e :: error + 'r eventQueue) ctl (cp_reconciler p) tns (r1, snd rc) of
                  (st, sc) \<Rightarrow> (exitStatus st, sc))
           | (Inr sub, r1) \<Rightarrow>
               (case worker_Run (sessionStore s) (Inr (sessionQueue s)) ctl (cp_reconciler p) tns ((r1, sub, ctxss), snd rc) of
                  (st, w, c) \<Rightarrow> (exitStatus st, fst w, c))))"

section \<open>How the controller ends\<close>

text \<open>
  A failed subscription ends the controller with status 1. The comparison is by identity and
  \<open>Run\<close> wraps the error, so this holds of a context canceled during the subscription too;
  once subscribed, a canceled context ends it with status 0 before an event is taken.
\<close>

lemma controller_subscription_fails:
  assumes "axControllerParts env args = Inr p"
    and "rd_Subscribe (cp_store p) (wk_group (cp_worker p)) (wk_consumer (cp_worker p)) r = (Inl e, r1)"
  shows "axController_main env tns ctxss args (r, c) = (Some 1, r1, c)"
  using assms by (simp add: axController_main_def worker_Run_def exitStatus_def Let_def)

lemma controller_canceled:
  assumes "axControllerParts env args = Inr p"
    and "rd_Subscribe (cp_store p) (wk_group (cp_worker p)) (wk_consumer (cp_worker p)) r = (Inr sub, r1)"
    and "turn_ctxErr tn = Some ECanceled"
  shows "axController_main env (tn # tns) ((Some ECanceled # ctxs) # rest) args (r, c) = (Some 0, r1, c)"
proof -
  have "sub_pending sub = []" using assms(2) by (auto simp: rd_Subscribe_def split: prod.splits option.splits if_splits)
  then have "sub_Next s (Some ECanceled # ctxs) sub r1 = Some (Inl ECanceled, sub, r1)" for s :: "'a redisStore"
    by (simp add: sub_Next.simps)
  with assms show ?thesis
    by (simp add: axController_main_def worker_Run_def workerTurn_def sessionQueue_def sessionNext_def exitStatus_def Let_def)
qed

section \<open>Both programs over one database\<close>

lemma daemonStore_simps [simp]:
  "deployable (daemonStore env addr password)"
  "rs_client (daemonStore env addr password) = dm_connect env addr password"
  "rs_json (daemonStore env addr password) = dm_json env"
  "ro_ReadBatchSize (rs_opts (daemonStore env addr password)) = 10"
  "ro_StreamName (rs_opts (daemonStore env addr password)) = ''ax:stream:tasks''"
  using deployable_default [of "dm_connect env addr password" "dm_json env"]
  by (simp_all add: daemonStore_def zeroOptions_def rd_NewStore_def)

lemma sessionStore_ops [simp]:
  "store_GetTask (sessionStore s) a n w = rd_GetTask s a n (fst w)"
  "store_UpdateTaskStatus (sessionStore s) a n st w = onDb (rd_UpdateTaskStatus s a n st) w"
  "store_DeleteTask (sessionStore s) a n w = onDb (rd_DeleteTask s a n) w"
  by (simp_all add: sessionStore_def)

lemma same_store:
  assumes "axServerConfig (dm_getenv env) sargs = Inr sc" and "axControllerConfig (dm_getenv env') cargs = Inr cc"
    and "cc_redisAddr cc = sc_redisAddr sc" and "cc_redisPassword cc = sc_redisPassword sc"
    and "dm_connect env' = dm_connect env" and "dm_json env' = dm_json env"
    and "axControllerParts env' cargs = Inr p"
  shows "axServerStore env sargs = Inr (cp_store p)"
    and "cp_store p = daemonStore env (sc_redisAddr sc) (sc_redisPassword sc)"
  using assms by (auto simp: axServerStore_def axControllerParts_def daemonStore_def split: sum.splits)

lemma rd_wf_db: "db r' = db r \<Longrightarrow> rd_wf s db r' = rd_wf s db r"
  by (simp add: rd_wf_def)

section \<open>The types of the keys\<close>

text \<open>protojson decodes what it has encoded.\<close>

definition faithful :: "codec \<Rightarrow> bool" where
  "faithful js \<longleftrightarrow>
     (\<forall>x d. js_Task js x = Inr d \<longrightarrow> js_TaskBack js d = Inr x) \<and>
     (\<forall>x d. js_Gateway js x = Inr d \<longrightarrow> js_GatewayBack js d = Inr x) \<and>
     (\<forall>x d. js_Workspace js x = Inr d \<longrightarrow> js_WorkspaceBack js d = Inr x) \<and>
     (\<forall>x d. js_Model js x = Inr d \<longrightarrow> js_ModelBack js d = Inr x)"

lemma faithful_ok:
  assumes "faithful (rs_json s)"
  shows "okTask s t \<longleftrightarrow> (\<exists>d. js_Task (rs_json s) t = Inr d)" "okGateway s g \<longleftrightarrow> (\<exists>d. js_Gateway (rs_json s) g = Inr d)"
    "okWorkspace s w \<longleftrightarrow> (\<exists>d. js_Workspace (rs_json s) w = Inr d)" "okModel s m \<longleftrightarrow> (\<exists>d. js_Model (rs_json s) m = Inr d)"
  using assms by (auto simp: faithful_def kind_defs encodes_def split: sum.splits)

text \<open>A value that cannot be encoded is not stored.\<close>

lemma save_refused:
  assumes "faithful (rs_json s)"
  shows "\<not> okTask s (rd_normTask t) \<Longrightarrow> snd (rd_SaveTask s now t r) = r"
    and "\<not> okGateway s (rd_normGateway g) \<Longrightarrow> snd (rd_SaveGateway s now g r) = r"
    and "\<not> okWorkspace s (rd_normWorkspace w) \<Longrightarrow> snd (rd_SaveWorkspace s now w r) = r"
    and "\<not> okModel s (rd_normModel m) \<Longrightarrow> snd (rd_SaveModel s now m r) = r"
  by (auto simp: faithful_ok [OF assms] rd_SaveTask_def rd_SaveGateway_def rd_SaveWorkspace_def rd_SaveModel_def
      rdSave_def Let_def split: sum.splits)

lemma save_del_wf:
  assumes laws: "redis_laws (rs_client s) db" and dep: "deployable s" and f: "faithful (rs_json s)" and wf: "rd_wf s db r"
  shows "rd_wf s db (snd (rd_SaveTask s now t r))" "rd_wf s db (snd (rd_DeleteTask s a n r))"
    and "rd_wf s db (snd (rd_SaveGateway s now g r))" "rd_wf s db (snd (rd_DeleteGateway s a n r))"
    and "rd_wf s db (snd (rd_SaveWorkspace s now w r))" "rd_wf s db (snd (rd_DeleteWorkspace s a n r))"
    and "rd_wf s db (snd (rd_SaveModel s now m r))" "rd_wf s db (snd (rd_DeleteModel s a n r))"
proof -
  note ts = rd_tasks_contract [OF laws dep] and gs = rd_gateways_contract [OF laws dep]
    and ws = rd_workspaces_contract [OF laws dep] and ms = rd_models_contract [OF laws dep]
  show "rd_wf s db (snd (rd_SaveTask s now t r))"
    by (cases "okTask s (rd_normTask t)") (simp_all add: save_refused(1) [OF f] wf resource_kind.save_wf [OF ts wf])
  show "rd_wf s db (snd (rd_SaveGateway s now g r))"
    by (cases "okGateway s (rd_normGateway g)") (simp_all add: save_refused(2) [OF f] wf resource_kind.save_wf [OF gs wf])
  show "rd_wf s db (snd (rd_SaveWorkspace s now w r))"
    by (cases "okWorkspace s (rd_normWorkspace w)") (simp_all add: save_refused(3) [OF f] wf resource_kind.save_wf [OF ws wf])
  show "rd_wf s db (snd (rd_SaveModel s now m r))"
    by (cases "okModel s (rd_normModel m)") (simp_all add: save_refused(4) [OF f] wf resource_kind.save_wf [OF ms wf])
qed (rule resource_kind.del_wf [OF rd_tasks_contract [OF laws dep] wf] resource_kind.del_wf [OF rd_gateways_contract [OF laws dep] wf]
    resource_kind.del_wf [OF rd_workspaces_contract [OF laws dep] wf] resource_kind.del_wf [OF rd_models_contract [OF laws dep] wf])+

text \<open>
  A step of a program that uses the store: an operation with any arguments, or anything that
  leaves the keys alone (a read, the bookkeeping of the consumer group). A status update names a
  non-empty atespace: the worker, its only caller, takes the one of the reconciled task
  (\<open>reconcile_atespace\<close>).
\<close>

inductive dbStep :: "'r redisStore \<Rightarrow> ('r \<Rightarrow> keyspace) \<Rightarrow> 'r \<Rightarrow> 'r \<Rightarrow> bool" for s db where
  saveTask: "dbStep s db r (snd (rd_SaveTask s now t r))"
| updateStatus: "a \<noteq> [] \<Longrightarrow> dbStep s db r (snd (rd_UpdateTaskStatus s a n st r))"
| markDeleting: "dbStep s db r (snd (rd_MarkTaskDeleting s now a n r))"
| deleteTask: "dbStep s db r (snd (rd_DeleteTask s a n r))"
| saveGateway: "dbStep s db r (snd (rd_SaveGateway s now g r))"
| deleteGateway: "dbStep s db r (snd (rd_DeleteGateway s a n r))"
| saveWorkspace: "dbStep s db r (snd (rd_SaveWorkspace s now w r))"
| deleteWorkspace: "dbStep s db r (snd (rd_DeleteWorkspace s a n r))"
| saveModel: "dbStep s db r (snd (rd_SaveModel s now m r))"
| deleteModel: "dbStep s db r (snd (rd_DeleteModel s a n r))"
| quiet: "db r' = db r \<Longrightarrow> dbStep s db r r'"

lemma dbStep_wf:
  assumes "dbStep s db r r'" and laws: "redis_laws (rs_client s) db" and dep: "deployable s"
    and f: "faithful (rs_json s)" and wf: "rd_wf s db r"
  shows "rd_wf s db r'"
  using assms(1)
proof cases
  case (updateStatus a n st)
  note ax = rd_ax_store [OF laws dep]
  show ?thesis
  proof (cases "rd_viewT s db r (rd_taskKey s a n)")
    case None
    then show ?thesis using ax_store.update_missing [OF ax wf updateStatus(2) None, of st] wf updateStatus(1) by simp
  next
    case (Some t)
    then have get: "rd_GetTask s a n r = Ok t" using rd_get_view [OF laws dep wf, of a n] updateStatus(2) by simp
    show ?thesis
    proof (cases "okTask s (t\<lparr>task_Status := st\<rparr>)")
      case True
      then show ?thesis using ax_store.update_present [OF ax wf updateStatus(2) Some] updateStatus(1) by simp
    next
      case False
      then show ?thesis
        using wf get updateStatus(1) by (auto simp: faithful_ok [OF f] rd_UpdateTaskStatus_def split: sum.splits)
    qed
  qed
next
  case (markDeleting now a n)
  note ax = rd_ax_store [OF laws dep]
  show ?thesis
  proof (cases "rd_viewT s db r (rd_taskKey s (orDefault a) n)")
    case None
    then show ?thesis using ax_store.mark_missing [OF ax wf None, of now] wf markDeleting by simp
  next
    case (Some t)
    then have get: "rd_GetTask s (orDefault a) n r = Ok t" using rd_get_view [OF laws dep wf, of "orDefault a" n] by simp
    show ?thesis
    proof (cases "okTask s (markedDeleting t)")
      case True
      then show ?thesis using ax_store.mark_present [OF ax wf Some] markDeleting by simp
    next
      case False
      then show ?thesis
        using wf get markDeleting
        by (auto simp: faithful_ok [OF f] rd_MarkTaskDeleting_def markedDeleting_def Let_def split: sum.splits)
    qed
  qed
next
  case (quiet)
  then show ?thesis using wf by (simp add: rd_wf_def)
qed (simp_all only: save_del_wf [OF laws dep f wf])

text \<open>An accepted update is a save with the metadata completed.\<close>

lemma update_is_save:
  assumes laws: "redis_laws (rs_client s) db" and dep: "deployable s" and wf: "rd_wf s db r"
    and f: "faithful (rs_json s)" and acc: "srv_UpdateTask (rd_store s) now (Some (Some t)) r = (Ok t', r')"
  obtains m where "meta_Name m = meta_GetName (task_Metadata t)" and "meta_Name m \<noteq> []"
    and "meta_Atespace m = orDefault (meta_GetAtespace (task_Metadata t))"
    and "okTask s (rd_normTask (t\<lparr>task_Metadata := Some m\<rparr>))"
    and "t' = rd_normTask (t\<lparr>task_Metadata := Some m\<rparr>)" and "r' = snd (rd_SaveTask s now (t\<lparr>task_Metadata := Some m\<rparr>) r)"
proof -
  note kind = rd_tasks_contract [OF laws dep]
  define m where "m = resource_kind.updatedMeta task_Metadata (rd_taskKey s) (rd_viewT s db) now t r"
  have mm: "meta_Name m = meta_GetName (task_Metadata t)" "meta_Atespace m = orDefault (meta_GetAtespace (task_Metadata t))"
    by (simp_all add: m_def resource_kind.updatedMeta_def [OF kind])
  have d: "defaultMetadata now (task_Metadata t) (existingMeta task_Metadata (rd_GetTask s) r) = Ok m"
    unfolding m_def by (rule resource_kind.defaultMetadata_eq [OF kind wf])
  let ?t = "t\<lparr>task_Metadata := Some m\<rparr>"
  have save: "rd_SaveTask s now ?t r = (Ok t', r')"
    using acc d by (auto simp: srv_UpdateTask_def srvUpdate_def split: option.splits prod.splits go.splits)
  have n: "meta_Name m \<noteq> []"
    using resource_kind.save_noname [OF kind wf, of ?t now] save by auto
  have ok: "okTask s (rd_normTask ?t)"
    using save n by (auto simp: faithful_ok [OF f] rd_SaveTask_def Let_def split: sum.splits if_splits)
  have "fst (rd_SaveTask s now ?t r) = Ok (rd_normTask ?t)"
    by (rule resource_kind.save_result [OF kind wf]) (use n ok in simp_all)
  then show ?thesis using that [OF mm(1) n mm(2) ok] save by simp
qed

inductive dbReachable :: "'r redisStore \<Rightarrow> ('r \<Rightarrow> keyspace) \<Rightarrow> 'r \<Rightarrow> bool" for s db where
  empty: "db r = Map.empty \<Longrightarrow> dbReachable s db r"
| step: "dbReachable s db r \<Longrightarrow> dbStep s db r r' \<Longrightarrow> dbReachable s db r'"

lemma dbReachable_wf:
  assumes "dbReachable s db r" and "redis_laws (rs_client s) db" and "deployable s" and "faithful (rs_json s)"
  shows "rd_wf s db r"
  using assms by induction (auto intro: rd_wf_empty dbStep_wf)

text \<open>Surroundings for the witnesses: the simulated server, service and codec.\<close>

definition exampleDaemon where
  "exampleDaemon =
     \<lparr>dm_getenv = (\<lambda>_. []), dm_stat = (\<lambda>_. False), dm_readFile = (\<lambda>_. Inl ENotFound), dm_parsesPEM = (\<lambda>_. True),
      dm_dial = (\<lambda>_. None), dm_control = (\<lambda>_. sim_egress), dm_kubeSecret = (\<lambda>_ _ _. Inl ENotFound),
      dm_hostname = ''host'', dm_nanos = 42, dm_connect = (\<lambda>_ _. simClient), dm_json = simCodec, dm_listen = (\<lambda>_. None)\<rparr>"

lemma exampleDaemon_simps [simp]:
  "dm_getenv exampleDaemon = (\<lambda>_. [])" "dm_connect exampleDaemon = (\<lambda>_ _. simClient)" "dm_json exampleDaemon = simCodec"
  "dm_stat exampleDaemon = (\<lambda>_. False)" "dm_dial exampleDaemon = (\<lambda>_. None)"
  "daemonStore exampleDaemon addr password = simStore"
  by (simp_all add: exampleDaemon_def daemonStore_def simStore_def zeroOptions_def)

lemma simCodec_faithful: "faithful simCodec"
  by (auto simp: faithful_def simCodec_def split: if_splits)

text \<open>A task, a codec that knows it, and a subscription with nothing waiting.\<close>

definition handTask :: task where
  "handTask = exampleTask\<lparr>task_Metadata := Some \<lparr>meta_Name = ''demo'', meta_Atespace = ''default'', meta_CreationTimestamp = Some 7\<rparr>\<rparr>"

definition handCodec :: codec where
  "handCodec = simCodec\<lparr>
     js_Task := (\<lambda>t. if t = rd_normTask handTask then Inr ''task'' else Inl (ENew ''invalid UTF-8'')),
     js_TaskBack := (\<lambda>d. if d = ''task'' then Inr (rd_normTask handTask) else Inl (ENew ''syntax error''))\<rparr>"

definition handDaemon where
  "handDaemon = exampleDaemon\<lparr>dm_json := handCodec\<rparr>"

definition handSub :: subscription where
  "handSub = \<lparr>sub_group = ''ax-controllers'', sub_consumer = ''host-42'', sub_pending = []\<rparr>"

lemma handDaemon_simps [simp]:
  "dm_getenv handDaemon = (\<lambda>_. [])" "dm_connect handDaemon = (\<lambda>_ _. simClient)" "dm_json handDaemon = handCodec"
  "dm_stat handDaemon = (\<lambda>_. False)" "dm_dial handDaemon = (\<lambda>_. None)" "dm_kubeSecret handDaemon = (\<lambda>_ _ _. Inl ENotFound)"
  by (simp_all add: handDaemon_def exampleDaemon_def)

lemma handCodec_faithful: "faithful handCodec"
  by (auto simp: faithful_def handCodec_def simCodec_def split: if_splits)

lemma handTask_valid: "ValidateTask handTask = None"
  by (simp add: handTask_def ValidateTask_def example_defs WorkspaceRefs_def Let_def mountKey_def
      refPath_def api_const_defs hasPrefix_def trimRightChar_def)

lemma handTask_update:
  assumes "s = daemonStore handDaemon addr password"
  shows "srv_UpdateTask (rd_store s) now (Some (Some handTask)) simEmpty =
    (Ok (rd_normTask handTask), snd (rd_SaveTask s now handTask simEmpty))"
proof -
  have dep: "deployable s" and laws: "redis_laws (rs_client s) sim_keys" by (simp_all add: assms sim_laws)
  note kind = rd_tasks_contract [OF laws dep]
  have wf: "rd_wf s sim_keys simEmpty" by (rule rd_wf_empty) (simp add: simEmpty_def)
  have "resource_kind.updatedMeta task_Metadata (rd_taskKey s) (rd_viewT s sim_keys) now handTask simEmpty =
      \<lparr>meta_Name = ''demo'', meta_Atespace = ''default'', meta_CreationTimestamp = Some 7\<rparr>"
    by (simp add: resource_kind.updatedMeta_def [OF kind] resource_kind.created_def [OF kind] handTask_def)
  from resource_kind.defaultMetadata_eq [OF kind wf, of now handTask, unfolded this]
  have d: "defaultMetadata now (task_Metadata handTask) (existingMeta task_Metadata (rd_GetTask s) simEmpty) =
      Ok \<lparr>meta_Name = ''demo'', meta_Atespace = ''default'', meta_CreationTimestamp = Some 7\<rparr>" .
  have same: "handTask\<lparr>task_Metadata := Some \<lparr>meta_Name = ''demo'', meta_Atespace = ''default'', meta_CreationTimestamp = Some 7\<rparr>\<rparr> = handTask"
    by (simp add: handTask_def)
  have "okTask s (rd_normTask handTask)" by (simp add: okTask_def encodes_def assms handCodec_def)
  moreover have "meta_GetName (task_Metadata handTask) \<noteq> []" by (simp add: handTask_def)
  ultimately have "fst (rd_SaveTask s now handTask simEmpty) = Ok (rd_normTask handTask)"
    using resource_kind.save_result [OF kind wf] by blast
  then show ?thesis
    using d by (cases "rd_SaveTask s now handTask simEmpty") (simp add: srv_UpdateTask_def srvUpdate_def handTask_valid same)
qed

section \<open>Properties\<close>

text \<open>C8: the database stays well typed. However the operations of the store are interleaved, with any
  arguments but one, starting from an empty database (\<open>dbReachable\<close>), every task record is a string that decodes, the index is a sorted set and
  the event queue a stream; so no lookup of any kind fails with a type or decoding error (it finds
  a record or reports not found), and a task found under a name bears that name. The exception: a
  status update has to name a non-empty atespace, as the worker's always do (\<open>reconcile_atespace\<close>); for an
  empty one \<open>UpdateTaskStatus\<close> reads the task of the atespace \<open>default\<close> and writes it under the key of the
  empty atespace, which the record does not bear.\<close>

theorem redis_keyspace_typed:
  assumes "s = daemonStore env addr password" and "redis_laws (dm_connect env addr password) db"
    and "faithful (dm_json env)" and "dbReachable s db r"
  shows "(\<forall>k v. db r (''ax:task:'' @ k) = Some v \<longrightarrow> (\<exists>d t. v = RStr d \<and> js_TaskBack (dm_json env) d = Inr t)) \<and>
    isZSet (db r ''ax:tasks:index'') \<and> isStream (db r ''ax:stream:tasks'') \<and>
    (\<forall>a n. rd_GetTask s a n r = Err ENotFound \<or>
      (\<exists>t. rd_GetTask s a n r = Ok t \<and> metaMember (task_Metadata t) = memberOf (orDefault a) n)) \<and>
    (\<forall>a n. rd_GetGateway s a n r = Err ENotFound \<or> (\<exists>g. rd_GetGateway s a n r = Ok g)) \<and>
    (\<forall>a n. rd_GetWorkspace s a n r = Err ENotFound \<or> (\<exists>w. rd_GetWorkspace s a n r = Ok w)) \<and>
    (\<forall>a n. rd_GetModel s a n r = Err ENotFound \<or> (\<exists>m. rd_GetModel s a n r = Ok m))"
proof -
  have dep: "deployable s" and laws: "redis_laws (rs_client s) db" and js: "rs_json s = dm_json env"
    using assms(1,2) by simp_all
  have wf: "rd_wf s db r" using dbReachable_wf [OF assms(4) laws dep] assms(3) js by simp
  have pre: "prefix s = ''ax''" by (simp add: assms(1) daemonStore_def rd_NewStore_def zeroOptions_def)
  then have tag: "tagT s = ''ax:task:''" "tagTs s = ''ax:tasks:''" by (simp_all add: tag_defs)
  have k: "kindWf ''ax:task:'' ''ax:tasks:'' (js_TaskBack (dm_json env)) task_Metadata (db r)"
    using wf by (simp add: rd_wf_def tag js)
  have rec: "recordOk (js_TaskBack (dm_json env)) task_Metadata u (db r (''ax:task:'' @ u))" for u
    using k unfolding kindWf_def by blast
  have "\<forall>u v. db r (''ax:task:'' @ u) = Some v \<longrightarrow> (\<exists>d t. v = RStr d \<and> js_TaskBack (dm_json env) d = Inr t)"
  proof (intro allI impI)
    fix u v assume "db r (''ax:task:'' @ u) = Some v"
    with rec [of u] show "\<exists>d t. v = RStr d \<and> js_TaskBack (dm_json env) d = Inr t"
      by (cases v) (auto simp: recordOk_def decoded_def strOf_def split: sum.splits)
  qed
  moreover have "isZSet (db r (''ax:tasks:'' @ ''index''))" using k unfolding kindWf_def by blast
  moreover have "isStream (db r ''ax:stream:tasks'')" using wf by (simp add: rd_wf_def assms(1))
  moreover have "rd_GetTask s a n r = Err ENotFound \<or>
      (\<exists>t. rd_GetTask s a n r = Ok t \<and> metaMember (task_Metadata t) = memberOf (orDefault a) n)" for a n
  proof (cases "rd_viewT s db r (rd_taskKey s (orDefault a) n)")
    case (Some t)
    from rd_viewT_key(1) [OF wf Some] have "metaMember (task_Metadata t) = memberOf (orDefault a) n"
      by (simp add: keys_tagged)
    then show ?thesis using Some rd_get_view [OF laws dep wf, of a n] by simp
  qed (use rd_get_view [OF laws dep wf, of a n] in simp)
  moreover have "rd_GetGateway s a n r = Err ENotFound \<or> (\<exists>g. rd_GetGateway s a n r = Ok g)" for a n
    using resource_kind.get_view [OF rd_gateways_contract [OF laws dep] wf, of a n]
    by (cases "rd_viewG s db r (gwKey s (orDefault a) n)") simp_all
  moreover have "rd_GetWorkspace s a n r = Err ENotFound \<or> (\<exists>w. rd_GetWorkspace s a n r = Ok w)" for a n
    using resource_kind.get_view [OF rd_workspaces_contract [OF laws dep] wf, of a n]
    by (cases "rd_viewW s db r (wsKey s (orDefault a) n)") simp_all
  moreover have "rd_GetModel s a n r = Err ENotFound \<or> (\<exists>m. rd_GetModel s a n r = Ok m)" for a n
    using resource_kind.get_view [OF rd_models_contract [OF laws dep] wf, of a n]
    by (cases "rd_viewM s db r (modelKey s (orDefault a) n)") simp_all
  ultimately show ?thesis by simp
qed

theorem redis_keyspace_typed_witness:
  "dbReachable simStore sim_keys simSaved \<and> isZSet (sim_keys simSaved ''ax:tasks:index'') \<and>
   isStream (sim_keys simSaved ''ax:stream:tasks'') \<and>
   (\<exists>t. rd_GetTask simStore [] ''demo'' simSaved = Ok t \<and> metaMember (task_Metadata t) = memberOf ''default'' ''demo'')"
proof -
  have r: "dbReachable simStore sim_keys simSaved"
    unfolding simSaved_def by (rule dbReachable.step [OF dbReachable.empty dbStep.saveTask]) (simp add: simEmpty_def)
  from redis_keyspace_typed [of simStore exampleDaemon "[]" "[]" sim_keys simSaved] r sim_laws simCodec_faithful
  have "isZSet (sim_keys simSaved ''ax:tasks:index'')" "isStream (sim_keys simSaved ''ax:stream:tasks'')"
    and "rd_GetTask simStore [] ''demo'' simSaved = Err ENotFound \<or>
      (\<exists>t. rd_GetTask simStore [] ''demo'' simSaved = Ok t \<and> metaMember (task_Metadata t) = memberOf (orDefault []) ''demo'')"
    by simp_all
  moreover have "rd_GetTask simStore [] ''demo'' simSaved \<noteq> Err ENotFound"
    using rd_get_view [of simStore sim_keys simSaved "[]" "''demo''"] simSaved_view
    by (simp add: sim_laws orDefault_def)
  ultimately show ?thesis using r by (auto simp: orDefault_def)
qed
text \<open>C3: the two programs hand tasks over to each other. When the server and the controller resolve
  their flags and environments to the same Redis address and password, they build the same store;
  when the controller's subscription is drained, an update that the server accepts is the next
  event the controller takes, and processing that event reconciles exactly the task the server
  answered with.\<close>

theorem daemons_hand_over:
  assumes "axServerConfig (dm_getenv env) sargs = Inr sc" and "axControllerConfig (dm_getenv env') cargs = Inr cc"
    and "cc_redisAddr cc = sc_redisAddr sc" and "cc_redisPassword cc = sc_redisPassword sc"
    and "dm_connect env' = dm_connect env" and "dm_json env' = dm_json env"
    and "axServerStore env sargs = Inr s" and "axControllerParts env' cargs = Inr p"
    and "redis_laws (rs_client s) db" and "faithful (rs_json s)" and "dbReachable s db r"
    and "stream_laws (rs_client s) db (ro_StreamName (rs_opts s)) (sub_group sub) (sub_consumer sub) pos"
    and "pos r \<le> length (streamEntries (db r (ro_StreamName (rs_opts s))))" and "waiting s db pos sub r = []"
    and "srv_UpdateTask (rd_store s) now (Some (Some t)) r = (Ok t', r')"
  shows "cp_store p = s \<and>
    (\<exists>ev w. queue_Next (sessionQueue (cp_store p)) (r', sub, (None # ctxs) # rest) = Some (Inr ev, w) \<and>
       processEvent (sessionStore (cp_store p)) ctl (cp_reconciler p) tenv ev (w, c) =
         processReconcile (sessionStore (cp_store p)) ctl (cp_reconciler p) tenv t' w c)"
proof -
  have p: "cp_store p = s" and s: "s = daemonStore env (sc_redisAddr sc) (sc_redisPassword sc)"
    using same_store [OF assms(1-6,8)] assms(7) by simp_all
  then have dep: "deployable s" and batch: "0 < ro_ReadBatchSize (rs_opts s)" by simp_all
  have wf0: "rd_wf s db r" by (rule dbReachable_wf [OF assms(11,9) dep assms(10)])
  obtain m where m: "meta_Name m = meta_GetName (task_Metadata t)" "meta_Name m \<noteq> []"
      "meta_Atespace m = orDefault (meta_GetAtespace (task_Metadata t))"
    and ok: "okTask s (rd_normTask (t\<lparr>task_Metadata := Some m\<rparr>))"
    and t': "t' = rd_normTask (t\<lparr>task_Metadata := Some m\<rparr>)"
    and r': "r' = snd (rd_SaveTask s now (t\<lparr>task_Metadata := Some m\<rparr>) r)"
    by (rule update_is_save [OF assms(9) dep wf0 assms(10,15)])
  let ?t = "t\<lparr>task_Metadata := Some m\<rparr>"
  have n: "meta_GetName (task_Metadata ?t) \<noteq> []" using m(2) by simp
  have "waiting s db pos sub r' = [eventFromMessage ([], eventFields ''reconcile'' (meta_Atespace m) (meta_Name m))]"
    using save_appends [OF assms(9) dep wf0 assms(12,13) n ok, of sub now] assms(14) m(3) r' by simp
  then obtain ev sub' r2 where nx: "sub_Next s (None # ctxs) sub r' = Some (Inr ev, sub', r2)"
    and ev: "anonymous ev = eventFromMessage ([], eventFields ''reconcile'' (meta_Atespace m) (meta_Name m))"
    and db: "db r2 = db r'"
    by (rule next_takes_first [OF assms(12) batch])
  have e: "ev_Atespace ev = meta_Atespace m" "ev_Name ev = meta_Name m" "ev_Action ev = ''reconcile''"
    using arg_cong [OF ev, of ev_Atespace] arg_cong [OF ev, of ev_Name] arg_cong [OF ev, of ev_Action]
    by (simp_all add: anonymous_def eventFromMessage_def eventFields_def)
  note kind = rd_tasks_contract [OF assms(9) dep]
  have wf: "rd_wf s db r'" unfolding r' by (rule resource_kind.save_wf [OF kind wf0 ok])
  then have wf2: "rd_wf s db r2" using db by (simp add: rd_wf_def)
  have "rd_viewT s db r2 = rd_viewT s db r'" by (simp add: rd_viewT_def db fun_eq_iff)
  then have "rd_GetTask s (ev_Atespace ev) (ev_Name ev) r2 = rd_GetTask s (meta_Atespace m) (meta_Name m) r'"
    by (simp add: rd_get_view [OF assms(9) dep wf] rd_get_view [OF assms(9) dep wf2] e)
  also have "\<dots> = Ok t'"
    unfolding t' r' by (rule resource_kind.get_after_save [OF kind wf0 n ok]) simp_all
  finally have "processEvent (sessionStore s) ctl (cp_reconciler p) tenv ev ((r2, sub', rest), c) =
      processReconcile (sessionStore s) ctl (cp_reconciler p) tenv t' (r2, sub', rest) c"
    using e(3) by (simp add: processEvent_def)
  moreover have "queue_Next (sessionQueue s) (r', sub, (None # ctxs) # rest) = Some (Inr ev, r2, sub', rest)"
    by (simp add: sessionQueue_def sessionNext_def nx)
  ultimately show ?thesis unfolding p by blast
qed

theorem daemons_hand_over_witness:
  "\<exists>s p t' r' ev w. axServerStore handDaemon [] = Inr s \<and> axControllerParts handDaemon [''-substrate-plaintext''] = Inr p \<and>
     srv_UpdateTask (rd_store s) 9 (Some (Some handTask)) simEmpty = (Ok t', r') \<and>
     queue_Next (sessionQueue (cp_store p)) (r', handSub, [[None]]) = Some (Inr ev, w) \<and>
     processEvent (sessionStore (cp_store p)) sim_egress (cp_reconciler p) exampleEnv ev (w, (Map.empty, 0)) =
       processReconcile (sessionStore (cp_store p)) sim_egress (cp_reconciler p) exampleEnv t' w (Map.empty, 0)"
proof -
  obtain sc where sc: "axServerConfig (dm_getenv handDaemon) [] = Inr sc" "sc_redisAddr sc = ''localhost:6379''" "sc_redisPassword sc = []"
    by (simp add: axServerConfig_def stringFlag_def envOr_def)
  obtain cc where cc: "axControllerConfig (dm_getenv handDaemon) [''-substrate-plaintext''] = Inr cc"
      "cc_redisAddr cc = ''localhost:6379''" "cc_redisPassword cc = []" "co_Plaintext (cc_client cc)"
    by (simp add: axControllerConfig_def axControllerFlags_def flag_defs envOr_def)
  obtain p where p: "axControllerParts handDaemon [''-substrate-plaintext''] = Inr p"
    using cc by (simp add: axControllerParts_def NewClientWithOptions_def Let_def)
  let ?s = "daemonStore handDaemon ''localhost:6379'' []"
  have s: "axServerStore handDaemon [] = Inr ?s" using sc by (simp add: axServerStore_def)
  have laws: "redis_laws (rs_client ?s) sim_keys" by (simp add: sim_laws)
  have f: "faithful (rs_json ?s)" by (simp add: handCodec_faithful)
  have r: "dbReachable ?s sim_keys simEmpty" by (rule dbReachable.empty) (simp add: simEmpty_def)
  have acc: "srv_UpdateTask (rd_store ?s) 9 (Some (Some handTask)) simEmpty =
      (Ok (rd_normTask handTask), snd (rd_SaveTask ?s 9 handTask simEmpty))"
    by (rule handTask_update [OF refl])
  have "cp_store p = ?s \<and>
    (\<exists>ev w. queue_Next (sessionQueue (cp_store p)) (snd (rd_SaveTask ?s 9 handTask simEmpty), handSub, (None # []) # []) = Some (Inr ev, w) \<and>
       processEvent (sessionStore (cp_store p)) sim_egress (cp_reconciler p) exampleEnv ev (w, (Map.empty, 0)) =
         processReconcile (sessionStore (cp_store p)) sim_egress (cp_reconciler p) exampleEnv (rd_normTask handTask) w (Map.empty, 0))"
    by (rule daemons_hand_over [where pos = sim_pos, OF sc(1) cc(1) _ _ refl refl s p(1) laws f r _ _ _ acc])
      (simp_all add: sc cc sim_stream_laws, simp_all add: simEmpty_def waiting_def handSub_def streamEntries_def)
  then show ?thesis using s p acc by blast
qed

text \<open>The two programs need not resolve them alike: given both the flag and the variable, the server
  takes the password of the environment and the controller that of the flag.\<close>

theorem password_sources_differ:
  assumes "getenv ''REDIS_PASSWORD'' \<noteq> []" and "pw \<noteq> []"
  shows "\<exists>sc cc. axServerConfig getenv [''-redis-password'', pw] = Inr sc \<and>
    axControllerConfig getenv [''-redis-password'', pw] = Inr cc \<and>
    sc_redisPassword sc = getenv ''REDIS_PASSWORD'' \<and> cc_redisPassword cc = pw"
  using assms
  by (simp add: axServerConfig_def axControllerConfig_def axServerFlags_def axControllerFlags_def flag_defs envOr_def)

end
