(* ===== verification/Model_Client.thy ===== *)
theory Model_Client
  imports Model_Config
begin

text \<open>
  \<open>internal/model\<close>, the request half: \<open>Client.Generate\<close> (\<open>client.go\<close>) and the provider adapters
  (\<open>provider.go\<close>). A request is translated into the JSON payload of the OpenAI, Anthropic or
  Gemini protocol, sent with a bounded number of retries, and the answer is translated back. The
  HTTP client acts on a state \<open>'h\<close>; it, the JSON encoder and decoder, the URL functions, the timer
  and the iteration order of the configured headers are the record \<open>modelEnv\<close>, about which nothing is assumed.
\<close>

section \<open>Requests and responses\<close>

record toolCall =
  tc_ID :: string
  tc_Name :: string
  tc_Arguments :: string

record message =
  msg_Role :: string
  msg_Content :: string
  msg_ToolCallID :: string
  msg_ToolName :: string
  msg_ToolCalls :: "toolCall list"

record toolDefinition =
  td_Name :: string
  td_Description :: string
  td_Parameters :: string

text \<open>A \<open>float64\<close>: a finite one is a significand times a power of two.\<close>

datatype gofloat = Finite int int | PosInf | NegInf | NaN

definition positive :: "gofloat \<Rightarrow> bool" where
  "positive f = (case f of Finite m _ \<Rightarrow> m > 0 | PosInf \<Rightarrow> True | _ \<Rightarrow> False)"

record generateRequest =
  gr_Model :: string
  gr_Prompt :: string
  gr_SystemInstruction :: string
  gr_Temperature :: gofloat
  gr_MaxTokens :: int
  gr_Messages :: "message list"
  gr_Tools :: "toolDefinition list"

record tokenUsage =
  tu_PromptTokens :: int
  tu_CompletionTokens :: int
  tu_TotalTokens :: int

record generateResponse =
  gs_Model :: string
  gs_Content :: string
  gs_ToolCalls :: "toolCall list"
  gs_Usage :: tokenUsage

text \<open>What a payload holds: configured values as they are, and the values the adapters build.\<close>

datatype jval = JAny any | JStr string | JInt int | JFloat gofloat | JRaw string
  | JList "jval list" | JObj "(string \<times> jval) list"

section \<open>The world around the client\<close>

record httpRequest =
  hq_URL :: string
  hq_Header :: "(string \<times> string) list"
  hq_Body :: string

record httpResponse =
  hr_StatusCode :: int
  hr_RetryAfter :: string
  hr_Body :: string

record oaCall =
  oc_ID :: string
  oc_Name :: string
  oc_Arguments :: string

record oaChoice =
  och_FinishReason :: string
  och_Content :: string
  och_ToolCalls :: "oaCall list"

record oaCompletion =
  oa_Model :: string
  oa_Choices :: "oaChoice list"
  oa_PromptTokens :: int
  oa_CompletionTokens :: int
  oa_TotalTokens :: int

record anBlock =
  ab_Type :: string
  ab_Text :: string
  ab_ID :: string
  ab_Name :: string
  ab_Input :: string

record anMessage =
  an_Model :: string
  an_StopReason :: string
  an_Content :: "anBlock list"
  an_InputTokens :: int
  an_OutputTokens :: int

record geResponse =
  ge_Candidates :: "string list list"   \<comment> \<open>the texts of each candidate's parts\<close>
  ge_PromptTokens :: int
  ge_CandidatesTokens :: int
  ge_TotalTokens :: int

record 'h modelEnv =
  me_url :: urlLib
  me_SetKey :: "string \<Rightarrow> string \<Rightarrow> string"    \<comment> \<open>a raw query with its \<open>key\<close> parameter set\<close>
  me_Marshal :: "jval \<Rightarrow> error + string"
  me_NewRequest :: "string \<Rightarrow> error option"
  me_Do :: "httpRequest \<Rightarrow> 'h \<Rightarrow> (error + httpResponse) \<times> 'h"
  me_Wait :: "int \<Rightarrow> 'h \<Rightarrow> error option \<times> 'h"
  me_ParseTime :: "string \<Rightarrow> int option"
  me_Now :: "'h \<Rightarrow> int"
  me_order :: "(string \<times> string) list \<Rightarrow> (string \<times> string) list"
  me_Valid :: "string \<Rightarrow> bool"
  me_String :: "string \<Rightarrow> string option"
  me_Parts :: "string \<Rightarrow> (string \<times> string) list option"
  me_OpenAI :: "string \<Rightarrow> error + oaCompletion"
  me_Anthropic :: "string \<Rightarrow> error + anMessage"
  me_Gemini :: "string \<Rightarrow> error + geResponse"

section \<open>Messages and tools\<close>

text \<open>The system instruction goes into the first system message, or in front as a new one.\<close>

fun withInstruction :: "string \<Rightarrow> message list \<Rightarrow> message list option" where
  "withInstruction inst [] = None"
| "withInstruction inst (m # ms) =
     (if msg_Role m = ''system''
      then Some (m\<lparr>msg_Content := (if msg_Content m = [] then inst
                                   else inst @ [CHR 0x0A, CHR 0x0A] @ msg_Content m)\<rparr> # ms)
      else map_option ((#) m) (withInstruction inst ms))"

definition plainMessage :: "string \<Rightarrow> string \<Rightarrow> message" where
  "plainMessage role content =
     \<lparr>msg_Role = role, msg_Content = content, msg_ToolCallID = [], msg_ToolName = [], msg_ToolCalls = []\<rparr>"

definition requestMessages :: "generateRequest \<Rightarrow> message list" where
  "requestMessages req =
     (if gr_Messages req \<noteq> [] then
        if gr_SystemInstruction req \<noteq> [] then
          (case withInstruction (gr_SystemInstruction req) (gr_Messages req) of
             Some ms \<Rightarrow> ms
           | None \<Rightarrow> plainMessage ''system'' (gr_SystemInstruction req) # gr_Messages req)
        else gr_Messages req
      else (if gr_SystemInstruction req \<noteq> [] then [plainMessage ''system'' (gr_SystemInstruction req)] else [])
         @ (if gr_Prompt req \<noteq> [] then [plainMessage ''user'' (gr_Prompt req)] else []))"

definition orEmptyObject :: "string \<Rightarrow> string" where
  "orEmptyObject raw = (if raw = [] then ''{}'' else raw)"

definition openAIMessage :: "message \<Rightarrow> (string \<times> jval) list" where
  "openAIMessage m =
     [(''role'', JStr (msg_Role m))]
     @ (if msg_Content m \<noteq> [] \<or> msg_ToolCalls m = [] then [(''content'', JStr (msg_Content m))] else [])
     @ (if msg_Role m = ''tool'' then [(''tool_call_id'', JStr (msg_ToolCallID m))] else [])
     @ (if msg_ToolCalls m \<noteq> []
        then [(''tool_calls'', JList (map (\<lambda>c. JObj [(''id'', JStr (tc_ID c)), (''type'', JStr ''function''),
                (''function'', JObj [(''name'', JStr (tc_Name c)), (''arguments'', JStr (orEmptyObject (tc_Arguments c)))])])
                (msg_ToolCalls m)))]
        else [])"

definition openAIMessages :: "generateRequest \<Rightarrow> jval" where
  "openAIMessages req = JList (map (JObj \<circ> openAIMessage) (requestMessages req))"

definition toolSchema :: "toolDefinition \<Rightarrow> jval" where
  "toolSchema t = JRaw (if td_Parameters t = []
     then ''{'' @ [CHR 0x22] @ ''type'' @ [CHR 0x22] @ '':'' @ [CHR 0x22] @ ''object'' @ [CHR 0x22] @ '',''
          @ [CHR 0x22] @ ''properties'' @ [CHR 0x22] @ '':{}}''
     else td_Parameters t)"

definition openAITools :: "toolDefinition list \<Rightarrow> jval" where
  "openAITools tools = JList (map (\<lambda>t. JObj [(''type'', JStr ''function''),
     (''function'', JObj [(''name'', JStr (td_Name t)), (''description'', JStr (td_Description t)),
        (''parameters'', toolSchema t)])]) tools)"

definition anthropicTools :: "toolDefinition list \<Rightarrow> jval" where
  "anthropicTools tools = JList (map (\<lambda>t. JObj [(''name'', JStr (td_Name t)),
     (''description'', JStr (td_Description t)), (''input_schema'', toolSchema t)]) tools)"

definition toolResult :: "message \<Rightarrow> jval" where
  "toolResult m = JObj [(''type'', JStr ''tool_result''), (''tool_use_id'', JStr (msg_ToolCallID m)),
     (''content'', JStr (msg_Content m))]"

definition anthropicBlocks :: "message \<Rightarrow> jval list" where
  "anthropicBlocks m =
     (let blocks = (if msg_Content m \<noteq> [] then [JObj [(''type'', JStr ''text''), (''text'', JStr (msg_Content m))]] else [])
        @ map (\<lambda>c. JObj [(''type'', JStr ''tool_use''), (''id'', JStr (tc_ID c)), (''name'', JStr (tc_Name c)),
                (''input'', JRaw (orEmptyObject (tc_Arguments c)))]) (msg_ToolCalls m)
      in if blocks = [] then [JObj [(''type'', JStr ''text''), (''text'', JStr [])]] else blocks)"

definition anMsg :: "string \<Rightarrow> jval list \<Rightarrow> string \<times> jval list" where
  "anMsg role blocks = (role, blocks)"

text \<open>
  The loop of \<open>anthropicMessages\<close>: system messages are collected, a run of tool messages becomes
  one user message, every other message is translated alone. A message is a role with its blocks.
\<close>

function anthropicLoop :: "message list \<Rightarrow> string \<Rightarrow> string \<times> (string \<times> jval list) list" where
  "anthropicLoop [] system = (system, [])"
| "anthropicLoop (m # ms) system =
     (if msg_Role m = ''system'' then
        anthropicLoop ms ((if system \<noteq> [] then system @ [CHR 0x0A, CHR 0x0A] else system) @ msg_Content m)
      else if msg_Role m = ''tool'' then
        (let run = m # takeWhile (\<lambda>x. msg_Role x = ''tool'') ms;
             (sys, enc) = anthropicLoop (dropWhile (\<lambda>x. msg_Role x = ''tool'') ms) system
         in (sys, anMsg ''user'' (map toolResult run) # enc))
      else
        (let (sys, enc) = anthropicLoop ms system in (sys, anMsg (msg_Role m) (anthropicBlocks m) # enc)))"
  by pat_completeness auto
termination
  by (relation "measure (\<lambda>(ms, _). length ms)") (auto simp: le_imp_less_Suc length_dropWhile_le)

definition anthropicMessages :: "generateRequest \<Rightarrow> string \<times> (string \<times> jval list) list" where
  "anthropicMessages req =
     (let (system, enc) = anthropicLoop (requestMessages req) []
      in (if system = [] then gr_SystemInstruction req else system, enc))"

definition anJson :: "string \<times> jval list \<Rightarrow> jval" where
  "anJson m = JObj [(''role'', JStr (fst m)), (''content'', JList (snd m))]"

section \<open>Parameters\<close>

type_synonym parameters = "(string \<times> jval) list"

definition requestParameters :: "config \<Rightarrow> parameters" where
  "requestParameters cfg =
     map (\<lambda>(k, v). (k, JAny v)) (filter (\<lambda>(k, _). k \<noteq> systemInstructionParam) (cfg_Parameters cfg))"

definition rejectStreaming :: "parameters \<Rightarrow> error option" where
  "rejectStreaming ps =
     (if map_of ps ''stream'' = Some (JAny (ABool True)) then Some (ENew ''streaming is not supported by AX Generate'') else None)"

definition moveParameter :: "string \<Rightarrow> string \<Rightarrow> parameters \<Rightarrow> parameters" where
  "moveParameter from to ps =
     (if map_of ps to \<noteq> None then AList.delete from ps
      else case map_of ps from of
             None \<Rightarrow> ps
           | Some v \<Rightarrow> AList.delete from (AList.update to v ps))"

definition hasJSONValue :: "string \<Rightarrow> bool" where
  "hasJSONValue raw \<longleftrightarrow> raw \<noteq> [] \<and> trimSpace raw \<noteq> ''null''"

definition responseText :: "'h modelEnv \<Rightarrow> string \<Rightarrow> error + string" where
  "responseText env raw =
     (if \<not> hasJSONValue raw then Inr []
      else case me_String env raw of
             Some text \<Rightarrow> Inr text
           | None \<Rightarrow>
               (case me_Parts env raw of
                  Some parts \<Rightarrow> Inr (concat (map snd (filter (\<lambda>(ty, _). ty = [] \<or> ty = ''text'') parts)))
                | None \<Rightarrow> Inl (ENew ''content must be a string or text parts'')))"

section \<open>Sending a request\<close>

text \<open>\<open>strconv.Atoi\<close>: an optional sign and decimal digits, within \<open>int64\<close>.\<close>

definition isDigit :: "char \<Rightarrow> bool" where
  "isDigit c \<longleftrightarrow> 48 \<le> (of_char c :: nat) \<and> (of_char c :: nat) \<le> 57"

definition digitsValue :: "string \<Rightarrow> int" where
  "digitsValue ds = foldl (\<lambda>n c. 10 * n + int (of_char c - 48)) 0 ds"

definition atoi :: "string \<Rightarrow> int option" where
  "atoi s =
     (let (neg, ds) = (case s of c # cs \<Rightarrow> if c = CHR ''-'' then (True, cs) else if c = CHR ''+'' then (False, cs) else (False, s)
                       | [] \<Rightarrow> (False, []));
          v = (if neg then - digitsValue ds else digitsValue ds)
      in if ds \<noteq> [] \<and> list_all isDigit ds \<and> int64 v then Some v else None)"

text \<open>The canonical form of a header name; a name with a byte that is not a token byte is kept.\<close>

definition isTokenByte :: "char \<Rightarrow> bool" where
  "isTokenByte c \<longleftrightarrow> isDigit c \<or> (let n = of_char c :: nat in (65 \<le> n \<and> n \<le> 90) \<or> (97 \<le> n \<and> n \<le> 122))
     \<or> c \<in> set ''!#$%&*+-.^_`|~'' \<or> c = CHR 0x27"

definition upper_char :: "char \<Rightarrow> char" where
  "upper_char c = (if 97 \<le> (of_char c :: nat) \<and> (of_char c :: nat) \<le> 122 then char_of (of_char c - 32 :: nat) else c)"

fun canonicalLoop :: "bool \<Rightarrow> string \<Rightarrow> string" where
  "canonicalLoop up [] = []"
| "canonicalLoop up (c # cs) = (let c' = (if up then upper_char c else lower_char c) in c' # canonicalLoop (c' = CHR ''-'') cs)"

definition canonicalHeader :: "string \<Rightarrow> string" where
  "canonicalHeader name = (if list_all isTokenByte name then canonicalLoop True name else name)"

definition setHeader :: "string \<Rightarrow> string \<Rightarrow> (string \<times> string) list \<Rightarrow> (string \<times> string) list" where
  "setHeader name v hs = AList.update (canonicalHeader name) v hs"

definition getHeader :: "string \<Rightarrow> (string \<times> string) list \<Rightarrow> string" where
  "getHeader name hs = (case map_of hs (canonicalHeader name) of None \<Rightarrow> [] | Some v \<Rightarrow> v)"

definition defaultAPIKeyAuth :: "string \<Rightarrow> string \<times> string" where
  "defaultAPIKeyAuth protocol = (if protocol = ProtocolAnthropic then (''x-api-key'', []) else (''Authorization'', ''Bearer ''))"

definition safeEndpoint :: "urlLib \<Rightarrow> string \<Rightarrow> string" where
  "safeEndpoint lib endpoint =
     (case url_Parse lib endpoint of
        Inl _ \<Rightarrow> ''configured endpoint''
      | Inr parsed \<Rightarrow> url_Redacted lib (parsed\<lparr>url_RawQuery := [], url_Fragment := []\<rparr>))"

definition configuredHeaders :: "'h modelEnv \<Rightarrow> config \<Rightarrow> (string \<times> string) list" where
  "configuredHeaders env cfg =
     foldl (\<lambda>hs (name, v). setHeader name v hs) (setHeader ''Content-Type'' ''application/json'' []) (me_order env (cfg_Headers cfg))"

definition requestHeaders :: "'h modelEnv \<Rightarrow> config \<Rightarrow> string \<Rightarrow> (string \<times> string) list" where
  "requestHeaders env cfg protocol =
     (let hs = configuredHeaders env cfg;
          hs1 = (if protocol = ProtocolAnthropic \<and> getHeader ''anthropic-version'' hs = []
                 then setHeader ''anthropic-version'' ''2023-06-01'' hs else hs);
          (header0, prefix0) = defaultAPIKeyAuth protocol;
          header = (if cfg_APIKeyHeader cfg \<noteq> [] then cfg_APIKeyHeader cfg else header0);
          prefix1 = (if cfg_APIKeyHeader cfg \<noteq> [] then [] else prefix0);
          prefix2 = (if cfg_APIKeyPrefix cfg \<noteq> [] then cfg_APIKeyPrefix cfg else prefix1)
      in if cfg_APIKey cfg \<noteq> [] then setHeader header (prefix2 @ cfg_APIKey cfg) hs1 else hs1)"

definition retryableStatus :: "int \<Rightarrow> bool" where
  "retryableStatus status \<longleftrightarrow> status = 429 \<or> status = 502 \<or> status = 503 \<or> status = 504"

definition maxProviderRetries :: nat where "maxProviderRetries = 2"
definition maxRetryDelay :: int where "maxRetryDelay = 5 * 1000000000"

text \<open>The delay \<open>waitForProviderRetry\<close> sets its timer to, in nanoseconds.\<close>

definition retryDelay :: "(string \<Rightarrow> int option) \<Rightarrow> int \<Rightarrow> string \<Rightarrow> nat \<Rightarrow> int" where
  "retryDelay parseTime now retryAfter attempt =
     (let backoff = wrap64 (wrap64 (250 * 2 ^ attempt) * 1000000);
          delay = (case atoi (trimSpace retryAfter) of
                     Some seconds \<Rightarrow>
                       if seconds \<ge> 0 then wrap64 (seconds * 1000000000)
                       else (case parseTime retryAfter of Some t \<Rightarrow> t - now | None \<Rightarrow> backoff)
                   | None \<Rightarrow> (case parseTime retryAfter of Some t \<Rightarrow> t - now | None \<Rightarrow> backoff));
          d1 = (if delay < 0 then 0 else delay)
      in if d1 > maxRetryDelay then maxRetryDelay else d1)"

definition waitForProviderRetry :: "'h modelEnv \<Rightarrow> string \<Rightarrow> nat \<Rightarrow> 'h \<Rightarrow> error option \<times> 'h" where
  "waitForProviderRetry env retryAfter attempt h =
     me_Wait env (retryDelay (me_ParseTime env) (me_Now env h) retryAfter attempt) h"

definition success :: "int \<Rightarrow> bool" where
  "success status \<longleftrightarrow> 200 \<le> status \<and> status < 300"

text \<open>The loop of \<open>postJSON\<close>; the request is built again for each attempt, from the same values.\<close>

function postAttempts :: "'h modelEnv \<Rightarrow> config \<Rightarrow> string \<Rightarrow> httpRequest \<Rightarrow> nat \<Rightarrow> 'h \<Rightarrow> (error + httpResponse) \<times> 'h" where
  "postAttempts env cfg endpoint request attempt h =
     (case me_NewRequest env endpoint of
        Some e \<Rightarrow> (Inl (EWrap (''creating '' @ cfg_Provider cfg @ '' request for '' @ safeEndpoint (me_url env) endpoint) e), h)
      | None \<Rightarrow>
          (case me_Do env request h of
             (Inl e, h1) \<Rightarrow> (Inl (EWrap (''calling '' @ cfg_Provider cfg @ '' at '' @ safeEndpoint (me_url env) endpoint) e), h1)
           | (Inr resp, h1) \<Rightarrow>
               if success (hr_StatusCode resp) then (Inr resp, h1)
               else if attempt \<ge> maxProviderRetries \<or> \<not> retryableStatus (hr_StatusCode resp)
               then (Inl (ENew (cfg_Provider cfg @ '' request failed with status '' @ itoa (hr_StatusCode resp) @ '': ''
                      @ trimSpace (take 4096 (hr_Body resp)))), h1)
               else (case waitForProviderRetry env (hr_RetryAfter resp) attempt h1 of
                       (Some e, h2) \<Rightarrow> (Inl (EWrap (''waiting to retry '' @ cfg_Provider cfg @ '' request'') e), h2)
                     | (None, h2) \<Rightarrow> postAttempts env cfg endpoint request (attempt + 1) h2)))"
  by pat_completeness auto
termination
  by (relation "measure (\<lambda>(_, _, _, _, attempt, _). maxProviderRetries - attempt)") auto

declare postAttempts.simps [simp del]

definition postJSON :: "'h modelEnv \<Rightarrow> config \<Rightarrow> string \<Rightarrow> string \<Rightarrow> jval \<Rightarrow> 'h \<Rightarrow> (error + httpResponse) \<times> 'h" where
  "postJSON env cfg protocol endpoint payload h =
     (case me_Marshal env payload of
        Inl e \<Rightarrow> (Inl (EWrap (''encoding '' @ cfg_Provider cfg @ '' request'') e), h)
      | Inr body \<Rightarrow>
          postAttempts env cfg endpoint \<lparr>hq_URL = endpoint, hq_Header = requestHeaders env cfg protocol, hq_Body = body\<rparr> 0 h)"

section \<open>The OpenAI adapter\<close>

definition openAIParameters :: "config \<Rightarrow> generateRequest \<Rightarrow> parameters" where
  "openAIParameters cfg req =
     (let ps = moveParameter ''maxOutputTokens'' ''max_tokens'' (moveParameter ''maxTokens'' ''max_tokens'' (requestParameters cfg));
          ps1 = AList.update ''messages'' (openAIMessages req) (AList.update ''model'' (JStr (gr_Model req)) ps);
          ps2 = (if gr_Tools req \<noteq> [] then AList.update ''tools'' (openAITools (gr_Tools req)) ps1 else ps1);
          ps3 = (if positive (gr_Temperature req) then AList.update ''temperature'' (JFloat (gr_Temperature req)) ps2 else ps2)
      in if gr_MaxTokens req > 0 then AList.update ''max_tokens'' (JInt (gr_MaxTokens req)) ps3 else ps3)"

fun openAICalls :: "'h modelEnv \<Rightarrow> string \<Rightarrow> oaCall list \<Rightarrow> error + toolCall list" where
  "openAICalls env provider [] = Inr []"
| "openAICalls env provider (c # cs) =
     (let arguments = orEmptyObject (oc_Arguments c) in
      if \<not> me_Valid env arguments
      then Inl (ENew (provider @ '' returned invalid JSON arguments for tool '' @ quote (oc_Name c)))
      else case openAICalls env provider cs of
             Inl e \<Rightarrow> Inl e
           | Inr ts \<Rightarrow> Inr (\<lparr>tc_ID = oc_ID c, tc_Name = oc_Name c, tc_Arguments = arguments\<rparr> # ts))"

definition openAIResponse :: "'h modelEnv \<Rightarrow> config \<Rightarrow> generateRequest \<Rightarrow> oaCompletion \<Rightarrow> error + generateResponse" where
  "openAIResponse env cfg req completion =
     (case oa_Choices completion of
        [] \<Rightarrow> Inl (ENew (cfg_Provider cfg @ '' returned no completion choices''))
      | choice # _ \<Rightarrow>
          (case openAICalls env (cfg_Provider cfg) (och_ToolCalls choice) of
             Inl e \<Rightarrow> Inl e
           | Inr toolCalls \<Rightarrow>
               (case responseText env (och_Content choice) of
                  Inl e \<Rightarrow> Inl (EWrap (''reading '' @ cfg_Provider cfg @ '' response text'') e)
                | Inr content \<Rightarrow>
                    if content = [] \<and> toolCalls = []
                    then Inl (ENew (cfg_Provider cfg @ '' returned no text content (finish reason '' @ quote (och_FinishReason choice) @ '')''))
                    else Inr \<lparr>gs_Model = (if oa_Model completion = [] then gr_Model req else oa_Model completion),
                              gs_Content = content, gs_ToolCalls = toolCalls,
                              gs_Usage = \<lparr>tu_PromptTokens = oa_PromptTokens completion,
                                tu_CompletionTokens = oa_CompletionTokens completion,
                                tu_TotalTokens = (if oa_TotalTokens completion = 0
                                  then wrap64 (oa_PromptTokens completion + oa_CompletionTokens completion)
                                  else oa_TotalTokens completion)\<rparr>\<rparr>)))"

definition openAI_Generate :: "'h modelEnv \<Rightarrow> config \<Rightarrow> generateRequest \<Rightarrow> 'h \<Rightarrow> (error + generateResponse) \<times> 'h" where
  "openAI_Generate env cfg req h =
     (case endpointFor (me_url env) cfg ProtocolOpenAI ''/chat/completions'' of
        Inl e \<Rightarrow> (Inl e, h)
      | Inr endpoint \<Rightarrow>
          (let ps = openAIParameters cfg req in
           case rejectStreaming ps of
             Some e \<Rightarrow> (Inl e, h)
           | None \<Rightarrow>
               (case postJSON env cfg ProtocolOpenAI endpoint (JObj ps) h of
                  (Inl e, h1) \<Rightarrow> (Inl e, h1)
                | (Inr resp, h1) \<Rightarrow>
                    (case me_OpenAI env (hr_Body resp) of
                       Inl e \<Rightarrow> (Inl (EWrap (''decoding '' @ cfg_Provider cfg @ '' response'') e), h1)
                     | Inr completion \<Rightarrow> (openAIResponse env cfg req completion, h1)))))"

section \<open>The Anthropic adapter\<close>

definition anthropicParameters :: "config \<Rightarrow> generateRequest \<Rightarrow> parameters" where
  "anthropicParameters cfg req =
     (let ps = moveParameter ''maxOutputTokens'' ''max_tokens'' (moveParameter ''maxTokens'' ''max_tokens'' (requestParameters cfg));
          ps1 = AList.update ''model'' (JStr (gr_Model req)) ps;
          (system, messages) = anthropicMessages req;
          ps2 = AList.update ''messages'' (JList (map anJson messages)) ps1;
          ps3 = (if system \<noteq> [] then AList.update ''system'' (JStr system) ps2 else ps2);
          ps4 = (if gr_Tools req \<noteq> [] then AList.update ''tools'' (anthropicTools (gr_Tools req)) ps3 else ps3);
          ps5 = (if map_of ps4 ''max_tokens'' = None then AList.update ''max_tokens'' (JInt 1024) ps4 else ps4);
          ps6 = (if positive (gr_Temperature req) then AList.update ''temperature'' (JFloat (gr_Temperature req)) ps5 else ps5)
      in if gr_MaxTokens req > 0 then AList.update ''max_tokens'' (JInt (gr_MaxTokens req)) ps6 else ps6)"

fun anthropicContent :: "'h modelEnv \<Rightarrow> anBlock list \<Rightarrow> error + string \<times> toolCall list" where
  "anthropicContent env [] = Inr ([], [])"
| "anthropicContent env (b # bs) =
     (if ab_Type b = ''text'' then
        (case anthropicContent env bs of Inl e \<Rightarrow> Inl e | Inr (text, calls) \<Rightarrow> Inr (ab_Text b @ text, calls))
      else if ab_Type b = ''tool_use'' then
        (let arguments = orEmptyObject (ab_Input b) in
         if \<not> me_Valid env arguments
         then Inl (ENew (''Anthropic returned invalid JSON arguments for tool '' @ quote (ab_Name b)))
         else case anthropicContent env bs of
                Inl e \<Rightarrow> Inl e
              | Inr (text, calls) \<Rightarrow>
                  Inr (text, \<lparr>tc_ID = ab_ID b, tc_Name = ab_Name b, tc_Arguments = arguments\<rparr> # calls))
      else anthropicContent env bs)"

definition anthropicResponse :: "'h modelEnv \<Rightarrow> generateRequest \<Rightarrow> anMessage \<Rightarrow> error + generateResponse" where
  "anthropicResponse env req m =
     (case anthropicContent env (an_Content m) of
        Inl e \<Rightarrow> Inl e
      | Inr (content, toolCalls) \<Rightarrow>
          if content = [] \<and> toolCalls = []
          then Inl (ENew (''Anthropic returned no text content (stop reason '' @ quote (an_StopReason m) @ '')''))
          else Inr \<lparr>gs_Model = (if an_Model m = [] then gr_Model req else an_Model m),
                    gs_Content = content, gs_ToolCalls = toolCalls,
                    gs_Usage = \<lparr>tu_PromptTokens = an_InputTokens m, tu_CompletionTokens = an_OutputTokens m,
                      tu_TotalTokens = wrap64 (an_InputTokens m + an_OutputTokens m)\<rparr>\<rparr>)"

definition anthropic_Generate :: "'h modelEnv \<Rightarrow> config \<Rightarrow> generateRequest \<Rightarrow> 'h \<Rightarrow> (error + generateResponse) \<times> 'h" where
  "anthropic_Generate env cfg req h =
     (if cfg_APIKey cfg = [] then (Inl (ENew (''provider '' @ quote (cfg_Provider cfg) @ '' requires an API key'')), h)
      else case endpointFor (me_url env) cfg ProtocolAnthropic ''/v1/messages'' of
        Inl e \<Rightarrow> (Inl e, h)
      | Inr endpoint \<Rightarrow>
          (let ps = anthropicParameters cfg req in
           case rejectStreaming ps of
             Some e \<Rightarrow> (Inl e, h)
           | None \<Rightarrow>
               (case postJSON env cfg ProtocolAnthropic endpoint (JObj ps) h of
                  (Inl e, h1) \<Rightarrow> (Inl e, h1)
                | (Inr resp, h1) \<Rightarrow>
                    (case me_Anthropic env (hr_Body resp) of
                       Inl e \<Rightarrow> (Inl (EWrap ''decoding Anthropic response'' e), h1)
                     | Inr m \<Rightarrow> (anthropicResponse env req m, h1)))))"

section \<open>The Gemini adapter and the entry point\<close>

definition fallbackResponse :: "generateRequest \<Rightarrow> generateResponse" where
  "fallbackResponse req =
     (let content = ''Synthesized plan using '' @ gr_Model req
            @ '': Workspace environment configured with development toolchain and dependencies matching declared goal.''
      in \<lparr>gs_Model = gr_Model req, gs_Content = content, gs_ToolCalls = [],
          gs_Usage = \<lparr>tu_PromptTokens = int (length (gr_Prompt req)) div 4,
            tu_CompletionTokens = int (length content) div 4,
            tu_TotalTokens = int (length (gr_Prompt req) + length content) div 4\<rparr>\<rparr>)"

definition textPart :: "string \<Rightarrow> jval" where
  "textPart t = JObj [(''parts'', JList [JObj [(''text'', JStr t)]])]"

definition geminiConfig :: "config \<Rightarrow> generateRequest \<Rightarrow> parameters" where
  "geminiConfig cfg req =
     (let ps = requestParameters cfg;
          ps1 = (if positive (gr_Temperature req) then AList.update ''temperature'' (JFloat (gr_Temperature req)) ps else ps)
      in if gr_MaxTokens req > 0 then AList.update ''maxOutputTokens'' (JInt (gr_MaxTokens req)) ps1 else ps1)"

definition geminiPayload :: "config \<Rightarrow> generateRequest \<Rightarrow> parameters" where
  "geminiPayload cfg req =
     [(''contents'', JList [textPart (gr_Prompt req)])]
     @ (if gr_SystemInstruction req \<noteq> [] then [(''systemInstruction'', textPart (gr_SystemInstruction req))] else [])
     @ (if geminiConfig cfg req \<noteq> [] then [(''generationConfig'', JObj (geminiConfig cfg req))] else [])"

definition geminiHeaders :: "'h modelEnv \<Rightarrow> config \<Rightarrow> (string \<times> string) list" where
  "geminiHeaders env cfg =
     (let hs = configuredHeaders env cfg in
      if cfg_APIKeyHeader cfg \<noteq> [] then setHeader (cfg_APIKeyHeader cfg) (cfg_APIKeyPrefix cfg @ cfg_APIKey cfg) hs else hs)"

definition geminiResponse :: "generateRequest \<Rightarrow> geResponse \<Rightarrow> generateResponse" where
  "geminiResponse req g =
     \<lparr>gs_Model = gr_Model req, gs_Content = (case ge_Candidates g of [] \<Rightarrow> [] | parts # _ \<Rightarrow> concat parts), gs_ToolCalls = [],
      gs_Usage = \<lparr>tu_PromptTokens = ge_PromptTokens g, tu_CompletionTokens = ge_CandidatesTokens g,
        tu_TotalTokens = ge_TotalTokens g\<rparr>\<rparr>"

definition geminiURL :: "'h modelEnv \<Rightarrow> config \<Rightarrow> url \<Rightarrow> url" where
  "geminiURL env cfg u =
     (if cfg_APIKeyHeader cfg = [] then u\<lparr>url_RawQuery := me_SetKey env (url_RawQuery u) (cfg_APIKey cfg)\<rparr> else u)"

definition generateGoogle :: "'h modelEnv \<Rightarrow> config \<Rightarrow> generateRequest \<Rightarrow> 'h \<Rightarrow> (error + generateResponse) \<times> 'h" where
  "generateGoogle env cfg req h =
     (if cfg_DisableRemote cfg \<or> cfg_APIKey cfg = [] then (Inr (fallbackResponse req), h)
      else if list_ex (\<lambda>c. c \<in> set ''/?#'') (gr_Model req)
      then (Inl (ENew ''Gemini model name must be a single path segment''), h)
      else case endpointFor (me_url env) cfg ProtocolGoogle (''/v1beta/models/'' @ gr_Model req @ '':generateContent'') of
        Inl e \<Rightarrow> (Inl e, h)
      | Inr endpoint0 \<Rightarrow>
          (case url_Parse (me_url env) endpoint0 of
             Inl e \<Rightarrow> (Inl (EWrap ''parsing Gemini endpoint'' e), h)
           | Inr parsed \<Rightarrow>
               (let u = geminiURL env cfg parsed;
                    endpoint = url_String (me_url env) u;
                    safe = url_Redacted (me_url env) (u\<lparr>url_RawQuery := []\<rparr>)
                in case me_Marshal env (JObj (geminiPayload cfg req)) of
                     Inl e \<Rightarrow> (Inl (EWrap ''marshaling request'' e), h)
                   | Inr body \<Rightarrow>
                       (case me_NewRequest env endpoint of
                          Some e \<Rightarrow> (Inl (EWrap ''creating http request'' e), h)
                        | None \<Rightarrow>
                            (case me_Do env \<lparr>hq_URL = endpoint, hq_Header = geminiHeaders env cfg, hq_Body = body\<rparr> h of
                               (Inl e, h1) \<Rightarrow> (Inl (EWrap (''calling Gemini at '' @ safe) e), h1)
                             | (Inr resp, h1) \<Rightarrow>
                                 if hr_StatusCode resp \<noteq> 200
                                 then (Inl (ENew (''gemini api error '' @ itoa (hr_StatusCode resp) @ '': ''
                                        @ trimSpace (take 4096 (hr_Body resp)))), h1)
                                 else (case me_Gemini env (hr_Body resp) of
                                         Inl e \<Rightarrow> (Inl (EWrap ''decoding gemini response'' e), h1)
                                       | Inr g \<Rightarrow> (Inr (geminiResponse req g), h1)))))))"

text \<open>\<open>adapterFor\<close>, with the method the result is called with.\<close>

definition adapterFor ::
  "string \<Rightarrow> error + ('h modelEnv \<Rightarrow> config \<Rightarrow> generateRequest \<Rightarrow> 'h \<Rightarrow> (error + generateResponse) \<times> 'h)" where
  "adapterFor protocol =
     (if protocol = ProtocolOpenAI then Inr openAI_Generate
      else if protocol = ProtocolAnthropic then Inr anthropic_Generate
      else if protocol = ProtocolGoogle then Inr generateGoogle
      else Inl (ENew (''unsupported protocol '' @ quote protocol)))"

definition effectiveInstruction :: "config \<Rightarrow> generateRequest \<Rightarrow> string" where
  "effectiveInstruction cfg req =
     (if gr_SystemInstruction req \<noteq> [] then gr_SystemInstruction req
      else case map_of (cfg_Parameters cfg) systemInstructionParam of Some (AStr s) \<Rightarrow> s | _ \<Rightarrow> [])"

definition model_Generate :: "'h modelEnv \<Rightarrow> client \<Rightarrow> generateRequest option \<Rightarrow> 'h \<Rightarrow> (error + generateResponse) \<times> 'h" where
  "model_Generate env c req0 h =
     (case req0 of
        None \<Rightarrow> (Inl (ENew ''request cannot be nil''), h)
      | Some req \<Rightarrow>
          if gr_Prompt req = [] \<and> gr_Messages req = [] then (Inl (ENew ''prompt or messages must be set''), h)
          else
            let cfg = cl_cfg c; protocol = protocolFor (cfg_Provider cfg) (cfg_Protocol cfg) in
            if protocol = ProtocolGoogle \<and> (gr_Messages req \<noteq> [] \<or> gr_Tools req \<noteq> [])
            then (Inl (ENew (''native Google API does not use AX'' @ [CHR 0x27] @ ''s OpenAI-style message and tool format; use protocol: openai for the Gemini compatibility endpoint'')), h)
            else
              let name0 = (if gr_Model req = [] then cfg_Model cfg else gr_Model req) in
              if name0 = [] \<and> protocol \<noteq> ProtocolGoogle
              then (Inl (ENew (''model must be set for provider '' @ quote (cfg_Provider cfg))), h)
              else
                let modelName = (if name0 = [] then DefaultModel else name0);
                    effective = req\<lparr>gr_Model := modelName, gr_SystemInstruction := effectiveInstruction cfg req\<rparr>
                in if cfg_DisableRemote cfg then (Inr (fallbackResponse effective), h)
                   else if protocol = ProtocolGoogle \<and> cfg_APIKey cfg = [] then (Inr (fallbackResponse effective), h)
                   else case adapterFor protocol of
                          Inl e \<Rightarrow> (Inl (EWrap (''provider '' @ quote (cfg_Provider cfg)) e), h)
                        | Inr gen \<Rightarrow> gen env cfg effective h)"

section \<open>Retries\<close>

lemma retryDelay_bounds: "0 \<le> retryDelay p now ra n \<and> retryDelay p now ra n \<le> maxRetryDelay"
  by (simp add: retryDelay_def Let_def maxRetryDelay_def)

lemma retryable_not_success: "retryableStatus st \<Longrightarrow> \<not> success st"
  by (auto simp: retryableStatus_def success_def)

text \<open>
  An environment that also records every HTTP call with its answer, and every delay waited for,
  oldest first.
\<close>

type_synonym 'h recorded = "'h \<times> (httpRequest \<times> (error + httpResponse)) list \<times> int list"

definition recordedEnv :: "'h modelEnv \<Rightarrow> 'h recorded modelEnv" where
  "recordedEnv env =
     \<lparr>me_url = me_url env, me_SetKey = me_SetKey env, me_Marshal = me_Marshal env, me_NewRequest = me_NewRequest env,
      me_Do = (\<lambda>q (h, calls, waits). case me_Do env q h of (a, h') \<Rightarrow> (a, h', calls @ [(q, a)], waits)),
      me_Wait = (\<lambda>d (h, calls, waits). case me_Wait env d h of (e, h') \<Rightarrow> (e, h', calls, waits @ [d])),
      me_ParseTime = me_ParseTime env, me_Now = (\<lambda>(h, _, _). me_Now env h), me_order = me_order env,
      me_Valid = me_Valid env, me_String = me_String env, me_Parts = me_Parts env,
      me_OpenAI = me_OpenAI env, me_Anthropic = me_Anthropic env, me_Gemini = me_Gemini env\<rparr>"

lemma recordedEnv_simps [simp]:
  "me_NewRequest (recordedEnv env) = me_NewRequest env" "me_Marshal (recordedEnv env) = me_Marshal env"
  "me_url (recordedEnv env) = me_url env" "me_ParseTime (recordedEnv env) = me_ParseTime env"
  "me_Do (recordedEnv env) q (h, calls, waits) = (case me_Do env q h of (a, h') \<Rightarrow> (a, h', calls @ [(q, a)], waits))"
  "me_Wait (recordedEnv env) d (h, calls, waits) = (case me_Wait env d h of (e, h') \<Rightarrow> (e, h', calls, waits @ [d]))"
  "requestHeaders (recordedEnv env) = requestHeaders env"
  by (simp_all add: recordedEnv_def fun_eq_iff requestHeaders_def configuredHeaders_def)

definition retryAnswer :: "error + httpResponse \<Rightarrow> bool" where
  "retryAnswer a = (case a of Inl _ \<Rightarrow> False | Inr resp \<Rightarrow> retryableStatus (hr_StatusCode resp))"

text \<open>The result is a response exactly when the last answer is a success, and then it is that answer.\<close>

definition endsWith :: "(error + httpResponse) \<Rightarrow> (error + httpResponse) list \<Rightarrow> bool" where
  "endsWith res ans \<longleftrightarrow> (\<forall>resp. res = Inr resp \<longleftrightarrow> ans \<noteq> [] \<and> last ans = Inr resp \<and> success (hr_StatusCode resp))"

lemma endsWith_Cons: "ans \<noteq> [] \<Longrightarrow> endsWith res (a # ans) = endsWith res ans"
  by (simp add: endsWith_def)

text \<open>What the loop has done when it ends, started at the given attempt.\<close>

definition sentRight :: "nat \<Rightarrow> httpRequest \<Rightarrow> (error + httpResponse) \<Rightarrow> (error + httpResponse) list \<Rightarrow> int list \<Rightarrow> bool" where
  "sentRight attempt request res ans ds \<longleftrightarrow>
     attempt + length ans \<le> Suc maxProviderRetries \<and> attempt + length ds \<le> maxProviderRetries \<and>
     list_all retryAnswer (butlast ans) \<and> list_all (\<lambda>d. 0 \<le> d \<and> d \<le> maxRetryDelay) ds \<and>
     endsWith res ans"

lemma sentRight_retry:
  assumes "sentRight (Suc attempt) request res ans ds" and "retryAnswer a" and "0 \<le> d" "d \<le> maxRetryDelay" and "ans \<noteq> []"
  shows "sentRight attempt request res (a # ans) (d # ds)"
  using assms by (simp add: sentRight_def endsWith_Cons)

lemma postAttempts_sent:
  assumes "attempt \<le> maxProviderRetries" and new: "me_NewRequest env endpoint = None"
  shows "\<exists>res h' ans ds. postAttempts (recordedEnv env) cfg endpoint request attempt (h, calls, waits) =
      (res, h', calls @ map (Pair request) ans, waits @ ds) \<and> ans \<noteq> [] \<and> sentRight attempt request res ans ds"
  using assms(1)
proof (induction "maxProviderRetries - attempt" arbitrary: attempt h calls waits rule: less_induct)
  case less
  let ?run = "postAttempts (recordedEnv env) cfg endpoint request attempt (h, calls, waits)"
  obtain a h1 where d: "me_Do env request h = (a, h1)" by fastforce
  have last_call: ?case if "?run = (res, h1, calls @ [(request, a)], waits)"
      and "\<forall>resp. res = Inr resp \<longleftrightarrow> a = Inr resp \<and> success (hr_StatusCode resp)" for res
    using that less.prems
    by (intro exI [of _ res] exI [of _ h1] exI [of _ "[a]"] exI [of _ "[]"]) (auto simp: sentRight_def endsWith_def)
  consider (stop) "\<not> retryAnswer a \<or> attempt = maxProviderRetries" | (again) "retryAnswer a" "attempt < maxProviderRetries"
    using less.prems by fastforce
  then show ?case
  proof cases
    case stop
    show ?thesis
    proof (cases a)
      case (Inl e)
      show ?thesis by (rule last_call, subst postAttempts.simps) (auto simp: new d Inl)
    next
      case (Inr resp)
      with stop have "\<not> success (hr_StatusCode resp) \<Longrightarrow> attempt \<ge> maxProviderRetries \<or> \<not> retryableStatus (hr_StatusCode resp)"
        by (auto simp: retryAnswer_def)
      then show ?thesis
        by (cases "success (hr_StatusCode resp)"; intro last_call; (subst postAttempts.simps)?) (auto simp: new d Inr)
    qed
  next
    case again
    then obtain resp where resp: "a = Inr resp" "retryableStatus (hr_StatusCode resp)"
      by (auto simp: retryAnswer_def split: sum.splits)
    let ?d = "retryDelay (me_ParseTime env) (me_Now env h1) (hr_RetryAfter resp) attempt"
    obtain e h2 where w: "me_Wait env ?d h1 = (e, h2)" by fastforce
    have dl: "0 \<le> ?d" "?d \<le> maxRetryDelay" using retryDelay_bounds by simp_all
    have now: "me_Now (recordedEnv env) (h1, cs, ws) = me_Now env h1" for cs ws by (simp add: recordedEnv_def)
    have run: "?run = (case e of
        Some e \<Rightarrow> (Inl (EWrap (''waiting to retry '' @ cfg_Provider cfg @ '' request'') e), h2, calls @ [(request, a)], waits @ [?d])
      | None \<Rightarrow> postAttempts (recordedEnv env) cfg endpoint request (Suc attempt) (h2, calls @ [(request, a)], waits @ [?d]))"
      using again resp w
      by (subst postAttempts.simps) (auto simp: new d retryable_not_success waitForProviderRetry_def now split: option.split)
    show ?thesis
    proof (cases e)
      case (Some e')
      then show ?thesis using run resp again dl
        by (intro exI [of _ "Inl (EWrap (''waiting to retry '' @ cfg_Provider cfg @ '' request'') e')"] exI [of _ h2]
            exI [of _ "[a]"] exI [of _ "[?d]"]) (auto simp: sentRight_def endsWith_def retryable_not_success)
    next
      case None
      have "maxProviderRetries - Suc attempt < maxProviderRetries - attempt" "Suc attempt \<le> maxProviderRetries"
        using again(2) by simp_all
      from less.hyps [OF this, of h2 "calls @ [(request, a)]" "waits @ [?d]"] obtain res h' ans ds where
        ih: "?run = (res, h', calls @ map (Pair request) (a # ans), waits @ ?d # ds)" "ans \<noteq> []"
          "sentRight (Suc attempt) request res ans ds"
        using run None by auto
      then show ?thesis using sentRight_retry [OF ih(3) again(1) dl ih(2)] by blast
    qed
  qed
qed

text \<open>An environment that answers from a script of responses and decodes nothing but one reply.\<close>

definition scriptedEnv :: "(error + httpResponse) list modelEnv" where
  "scriptedEnv =
     \<lparr>me_url = exampleURLLib, me_SetKey = (\<lambda>q k. ''key='' @ k), me_Marshal = (\<lambda>_. Inr ''{}''), me_NewRequest = (\<lambda>_. None),
      me_Do = (\<lambda>_ h. case h of [] \<Rightarrow> (Inl (ENew ''connection refused''), []) | a # as \<Rightarrow> (a, as)),
      me_Wait = (\<lambda>_ h. (None, h)), me_ParseTime = (\<lambda>_. None), me_Now = (\<lambda>_. 0), me_order = id,
      me_Valid = (\<lambda>_. True), me_String = (\<lambda>s. Some s), me_Parts = (\<lambda>_. None),
      me_OpenAI = (\<lambda>b. Inr \<lparr>oa_Model = [], oa_Choices = [\<lparr>och_FinishReason = ''stop'', och_Content = b, och_ToolCalls = []\<rparr>],
        oa_PromptTokens = 1, oa_CompletionTokens = 2, oa_TotalTokens = 0\<rparr>),
      me_Anthropic = (\<lambda>_. Inl (ENew [])), me_Gemini = (\<lambda>_. Inl (ENew []))\<rparr>"

definition answer :: "int \<Rightarrow> string \<Rightarrow> httpResponse" where
  "answer st b = \<lparr>hr_StatusCode = st, hr_RetryAfter = [], hr_Body = b\<rparr>"

text \<open>C32: A call to a provider is bounded and never replays an ambiguous outcome. Recording every HTTP
  call and every wait: the same request is sent at most three times; each call but the last was
  answered with a status that invites a retry (so a transport failure is final), every wait is
  between zero and five seconds, and the call succeeds exactly when the last answer was a 2xx one.
\<close>

theorem postJSON_calls:
  assumes "me_NewRequest env endpoint = None" and "me_Marshal env payload = Inr body"
  shows "\<exists>res h' ans ds.
    postJSON (recordedEnv env) cfg protocol endpoint payload (h, [], []) =
      (res, h', map (Pair \<lparr>hq_URL = endpoint, hq_Header = requestHeaders env cfg protocol, hq_Body = body\<rparr>) ans, ds) \<and>
    1 \<le> length ans \<and> length ans \<le> 3 \<and> length ds \<le> 2 \<and>
    list_all retryAnswer (butlast ans) \<and> list_all (\<lambda>d. 0 \<le> d \<and> d \<le> maxRetryDelay) ds \<and>
    (\<forall>resp. res = Inr resp \<longleftrightarrow> last ans = Inr resp \<and> success (hr_StatusCode resp))"
proof -
  let ?q = "\<lparr>hq_URL = endpoint, hq_Header = requestHeaders env cfg protocol, hq_Body = body\<rparr>"
  obtain res h' ans ds where r: "postAttempts (recordedEnv env) cfg endpoint ?q 0 (h, [], []) = (res, h', map (Pair ?q) ans, ds)"
      "ans \<noteq> []" "sentRight 0 ?q res ans ds"
    using postAttempts_sent [of 0 env endpoint cfg ?q h "[]" "[]"] assms(1) by auto
  have "postJSON (recordedEnv env) cfg protocol endpoint payload (h, [], []) = (res, h', map (Pair ?q) ans, ds)"
    using r(1) assms(2) by (simp add: postJSON_def)
  moreover have "1 \<le> length ans" "length ans \<le> 3" "list_all retryAnswer (butlast ans)"
      "list_all (\<lambda>d. 0 \<le> d \<and> d \<le> maxRetryDelay) ds"
      "\<forall>resp. res = Inr resp \<longleftrightarrow> last ans = Inr resp \<and> success (hr_StatusCode resp)"
    using r(2,3) by (cases ans; simp add: sentRight_def endsWith_def maxProviderRetries_def)+
  moreover have "length ds \<le> 2" using r(3) by (simp add: sentRight_def maxProviderRetries_def)
  ultimately show ?thesis by blast
qed

theorem postJSON_calls_witness:
  "fst (postJSON (recordedEnv scriptedEnv) DefaultConfig ProtocolOpenAI ''u'' (JObj []) ([Inr (answer 503 []), Inr (answer 200 ''ok'')], [], [])) =
     Inr (answer 200 ''ok'') \<and>
   (\<exists>ans :: (error + httpResponse) list. length ans \<le> 3 \<and> last ans = Inr (answer 200 ''ok''))"
proof -
  let ?h = "[Inr (answer 503 []), Inr (answer 200 ''ok'')]"
  have run: "fst (postJSON (recordedEnv scriptedEnv) DefaultConfig ProtocolOpenAI ''u'' (JObj []) (?h, [], [])) = Inr (answer 200 ''ok'')"
    by (simp add: postJSON_def postAttempts.simps scriptedEnv_def recordedEnv_def answer_def success_def retryableStatus_def
        maxProviderRetries_def waitForProviderRetry_def)
  have "me_NewRequest scriptedEnv ''u'' = None" "me_Marshal scriptedEnv (JObj []) = Inr ''{}''" by (simp_all add: scriptedEnv_def)
  from postJSON_calls [OF this, of DefaultConfig ProtocolOpenAI ?h] run show ?thesis by auto
qed

section \<open>Conversations\<close>

definition addSystem :: "string \<Rightarrow> string \<Rightarrow> string" where
  "addSystem system content = (if system \<noteq> [] then system @ [CHR 0x0A, CHR 0x0A] else system) @ content"

abbreviation isRole :: "string \<Rightarrow> message \<Rightarrow> bool" where
  "isRole r m \<equiv> msg_Role m = r"

lemma anthropicLoop_system:
  "fst (anthropicLoop ms system) = foldl addSystem system (map msg_Content (filter (isRole ''system'') ms))"
proof (induction ms system rule: anthropicLoop.induct)
  case (2 m ms system)
  have "filter (isRole ''system'') (dropWhile (isRole ''tool'') ms) = filter (isRole ''system'') ms"
    by (induction ms) auto
  with 2 show ?case by (auto simp: addSystem_def Let_def split: prod.splits)
qed simp

definition messageBlocks :: "message \<Rightarrow> jval list" where
  "messageBlocks m = (if isRole ''tool'' m then [toolResult m] else anthropicBlocks m)"

lemma anthropicBlocks_nonempty [simp]: "anthropicBlocks m \<noteq> []"
  by (simp add: anthropicBlocks_def Let_def)

lemma tool_run:
  "concat (map messageBlocks (filter (\<lambda>m. \<not> isRole ''system'' m) ms)) =
   map toolResult (takeWhile (isRole ''tool'') ms) @
   concat (map messageBlocks (filter (\<lambda>m. \<not> isRole ''system'' m) (dropWhile (isRole ''tool'') ms)))"
  by (induction ms) (auto simp: messageBlocks_def)

lemma anthropicLoop_messages:
  "list_all (\<lambda>(role, blocks). role \<noteq> ''system'' \<and> role \<noteq> ''tool'' \<and> blocks \<noteq> []) (snd (anthropicLoop ms system)) \<and>
   concat (map snd (snd (anthropicLoop ms system))) =
     concat (map messageBlocks (filter (\<lambda>m. \<not> isRole ''system'' m) ms))"
proof (induction ms system rule: anthropicLoop.induct)
  case (2 m ms system)
  consider "isRole ''system'' m" | "isRole ''tool'' m" | "\<not> isRole ''system'' m" "\<not> isRole ''tool'' m" by blast
  then show ?case
  proof cases
    case 1 with 2 show ?thesis by simp
  next
    case c: 2
    then have mb: "messageBlocks m = [toolResult m]" by (simp add: messageBlocks_def)
    from c 2(2) show ?thesis
      by (auto simp: Let_def anMsg_def mb tool_run [of ms, symmetric] split: prod.splits)
  next
    case 3
    with 2(3) show ?thesis by (auto simp: Let_def anMsg_def messageBlocks_def split: prod.splits)
  qed
qed simp

lemma withInstruction_filter:
  "withInstruction inst ms = Some ms' \<Longrightarrow>
   \<exists>c cs. map msg_Content (filter (isRole ''system'') ms') = (inst @ c) # cs"
  by (induction ms arbitrary: ms') (auto split: if_splits)

lemma requestMessages_instruction:
  assumes "gr_SystemInstruction req \<noteq> []"
  obtains c cs where "map msg_Content (filter (isRole ''system'') (requestMessages req)) = (gr_SystemInstruction req @ c) # cs"
proof (cases "gr_Messages req \<noteq> [] \<and> withInstruction (gr_SystemInstruction req) (gr_Messages req) \<noteq> None")
  case True
  then obtain ms' where w: "withInstruction (gr_SystemInstruction req) (gr_Messages req) = Some ms'" by blast
  from withInstruction_filter [OF w] True assms w that show ?thesis by (auto simp: requestMessages_def)
next
  case False
  then show ?thesis using assms
    by (intro that [of "[]" "map msg_Content (filter (isRole ''system'') (tl (requestMessages req)))"])
      (auto simp: requestMessages_def plainMessage_def)
qed

lemma foldl_addSystem_prefix: "\<exists>t. foldl addSystem system cs = system @ t"
  by (induction cs arbitrary: system) (auto simp: addSystem_def, metis append.assoc)

lemma hasPrefix_append [simp]: "hasPrefix (p @ t) p" "hasPrefix s []"
  by (simp_all add: hasPrefix_def)

text \<open>C33: Anthropic conversations lose nothing. No translated message has the role \<open>system\<close> or
  \<open>tool\<close> or is empty; the blocks, in order, are those of the messages that are not system messages,
  a tool message giving one tool result; and a system instruction opens the system text.
\<close>

theorem anthropicMessages_complete:
  "list_all (\<lambda>(role, blocks). role \<noteq> ''system'' \<and> role \<noteq> ''tool'' \<and> blocks \<noteq> []) (snd (anthropicMessages req)) \<and>
   concat (map snd (snd (anthropicMessages req))) =
     concat (map (\<lambda>m. if msg_Role m = ''tool'' then [toolResult m] else anthropicBlocks m)
       (filter (\<lambda>m. msg_Role m \<noteq> ''system'') (requestMessages req))) \<and>
   hasPrefix (fst (anthropicMessages req)) (gr_SystemInstruction req)"
proof (intro conjI)
  have snd_eq: "snd (anthropicMessages req) = snd (anthropicLoop (requestMessages req) [])"
    by (simp add: anthropicMessages_def split: prod.split)
  show "list_all (\<lambda>(role, blocks). role \<noteq> ''system'' \<and> role \<noteq> ''tool'' \<and> blocks \<noteq> []) (snd (anthropicMessages req))"
    "concat (map snd (snd (anthropicMessages req))) =
     concat (map (\<lambda>m. if msg_Role m = ''tool'' then [toolResult m] else anthropicBlocks m)
       (filter (\<lambda>m. msg_Role m \<noteq> ''system'') (requestMessages req)))"
    using anthropicLoop_messages [of "requestMessages req" "[]"] unfolding snd_eq messageBlocks_def by blast+
  show "hasPrefix (fst (anthropicMessages req)) (gr_SystemInstruction req)"
  proof (cases "gr_SystemInstruction req = []")
    case False
    then obtain c cs where "map msg_Content (filter (isRole ''system'') (requestMessages req)) = (gr_SystemInstruction req @ c) # cs"
      by (rule requestMessages_instruction)
    then have "fst (anthropicLoop (requestMessages req) []) = foldl addSystem (gr_SystemInstruction req @ c) cs"
      by (simp add: anthropicLoop_system) (simp add: addSystem_def)
    moreover obtain t where "foldl addSystem (gr_SystemInstruction req @ c) cs = (gr_SystemInstruction req @ c) @ t"
      using foldl_addSystem_prefix by blast
    ultimately have "fst (anthropicLoop (requestMessages req) []) = gr_SystemInstruction req @ c @ t" by simp
    then show ?thesis using False by (simp add: anthropicMessages_def case_prod_beta)
  qed simp
qed

section \<open>Payloads\<close>

text \<open>
  The payload as a specification of each key: what the request sets wins over what the model
  configures, the three spellings of the token cap become one, and the system instruction is not a parameter.
\<close>

definition configuredCap :: "config \<Rightarrow> jval option" where
  "configuredCap cfg =
     (let get = (\<lambda>k. map_option JAny (map_of (cfg_Parameters cfg) k)) in
      case get ''max_tokens'' of Some v \<Rightarrow> Some v
      | None \<Rightarrow> (case get ''maxTokens'' of Some v \<Rightarrow> Some v | None \<Rightarrow> get ''maxOutputTokens''))"

definition payloadSpec :: "config \<Rightarrow> generateRequest \<Rightarrow> jval option \<Rightarrow> jval \<Rightarrow> jval \<Rightarrow> string option \<Rightarrow> string \<Rightarrow> jval option" where
  "payloadSpec cfg req cap messages tools system k =
     (if k = ''max_tokens'' then (if gr_MaxTokens req > 0 then Some (JInt (gr_MaxTokens req)) else cap)
      else if k = ''maxTokens'' \<or> k = ''maxOutputTokens'' \<or> k = ''systemInstruction'' then None
      else if k = ''model'' then Some (JStr (gr_Model req))
      else if k = ''messages'' then Some messages
      else if k = ''tools'' \<and> gr_Tools req \<noteq> [] then Some tools
      else if k = ''temperature'' \<and> positive (gr_Temperature req) then Some (JFloat (gr_Temperature req))
      else if k = ''system'' \<and> system \<noteq> None then map_option JStr system
      else map_option JAny (map_of (cfg_Parameters cfg) k))"

lemma map_of_requestParameters:
  "map_of (requestParameters cfg) k =
     (if k = ''systemInstruction'' then None else map_option JAny (map_of (cfg_Parameters cfg) k))"
proof -
  have "map_of (map (\<lambda>(k, v). (k, JAny v)) (filter (\<lambda>(k, _). k \<noteq> s) ps)) k =
      (if k = s then None else map_option JAny (map_of ps k))" for s ps
    by (induction ps) auto
  then show ?thesis by (simp add: requestParameters_def systemInstructionParam_def)
qed

lemma map_of_moveParameter:
  assumes "from \<noteq> to"
  shows "map_of (moveParameter from to ps) k =
     (if k = from then None
      else if k = to then (case map_of ps to of Some v \<Rightarrow> Some v | None \<Rightarrow> map_of ps from)
      else map_of ps k)"
  using assms by (auto simp: moveParameter_def delete_conv' update_conv' split: option.splits)

lemma map_of_moved:
  "map_of (moveParameter ''maxOutputTokens'' ''max_tokens'' (moveParameter ''maxTokens'' ''max_tokens'' (requestParameters cfg))) k =
     (if k = ''max_tokens'' then configuredCap cfg
      else if k = ''maxTokens'' \<or> k = ''maxOutputTokens'' \<or> k = ''systemInstruction'' then None
      else map_option JAny (map_of (cfg_Parameters cfg) k))"
  by (auto simp: map_of_moveParameter map_of_requestParameters configuredCap_def split: option.split)

lemma key_cases:
  assumes "k = a1 \<Longrightarrow> P" "k = a2 \<Longrightarrow> P" "k = a3 \<Longrightarrow> P" "k = a4 \<Longrightarrow> P" "k = a5 \<Longrightarrow> P" "k = a6 \<Longrightarrow> P"
    "k = a7 \<Longrightarrow> P" "k = a8 \<Longrightarrow> P" "k = a9 \<Longrightarrow> P" "k \<notin> {a1, a2, a3, a4, a5, a6, a7, a8, a9} \<Longrightarrow> P"
  shows P
  using assms by blast

lemma map_of_update_if:
  "map_of (if c then AList.update a v ps else ps) k = (if c \<and> k = a then Some v else map_of ps k)"
  by (simp add: update_conv')

text \<open>C36: The payload of both chat protocols is the one the specification names, key by key: for OpenAI
  with the configured cap if any, for Anthropic with a cap always, 1024 unless one is configured.
\<close>

theorem chat_parameters_spec:
  "map_of (openAIParameters cfg req) k =
     payloadSpec cfg req (configuredCap cfg) (openAIMessages req) (openAITools (gr_Tools req)) None k \<and>
   map_of (anthropicParameters cfg req) k =
     payloadSpec cfg req (case configuredCap cfg of None \<Rightarrow> Some (JInt 1024) | Some v \<Rightarrow> Some v)
       (JList (map anJson (snd (anthropicMessages req)))) (anthropicTools (gr_Tools req))
       (if fst (anthropicMessages req) = [] then None else Some (fst (anthropicMessages req))) k"
proof
  note simps = Let_def payloadSpec_def map_of_update_if update_conv' map_of_moved case_prod_beta
  note keys = key_cases [of k "''max_tokens''" _ "''maxTokens''" "''maxOutputTokens''" "''systemInstruction''" "''model''" "''messages''" "''tools''" "''temperature''" "''system''"]
  show "map_of (openAIParameters cfg req) k =
     payloadSpec cfg req (configuredCap cfg) (openAIMessages req) (openAITools (gr_Tools req)) None k"
    by (rule keys) (simp_all add: openAIParameters_def simps)
  show "map_of (anthropicParameters cfg req) k =
     payloadSpec cfg req (case configuredCap cfg of None \<Rightarrow> Some (JInt 1024) | Some v \<Rightarrow> Some v)
       (JList (map anJson (snd (anthropicMessages req)))) (anthropicTools (gr_Tools req))
       (if fst (anthropicMessages req) = [] then None else Some (fst (anthropicMessages req))) k"
    by (rule keys) (simp_all add: anthropicParameters_def simps split: option.split)
qed

section \<open>Results\<close>

lemma openAICalls_valid:
  "openAICalls env p cs = Inr ts \<Longrightarrow> list_all (\<lambda>t. me_Valid env (tc_Arguments t)) ts"
  by (induction cs arbitrary: ts) (auto simp: Let_def split: if_splits sum.splits)

lemma anthropicContent_valid:
  "anthropicContent env bs = Inr (content, ts) \<Longrightarrow> list_all (\<lambda>t. me_Valid env (tc_Arguments t)) ts"
  by (induction bs arbitrary: content ts) (auto simp: Let_def split: if_splits sum.splits)

definition usable :: "'h modelEnv \<Rightarrow> generateResponse \<Rightarrow> bool" where
  "usable env resp \<longleftrightarrow> (gs_Content resp \<noteq> [] \<or> gs_ToolCalls resp \<noteq> []) \<and>
     list_all (\<lambda>t. me_Valid env (tc_Arguments t)) (gs_ToolCalls resp)"

lemma openAI_usable: "openAI_Generate env cfg req h = (Inr resp, h') \<Longrightarrow> usable env resp"
  by (auto simp: openAI_Generate_def openAIResponse_def Let_def usable_def dest!: openAICalls_valid
      split: sum.splits option.splits prod.splits list.splits if_splits)

lemma anthropic_usable: "anthropic_Generate env cfg req h = (Inr resp, h') \<Longrightarrow> usable env resp"
  by (auto simp: anthropic_Generate_def anthropicResponse_def Let_def usable_def dest!: anthropicContent_valid
      split: sum.splits option.splits prod.splits if_splits)

lemma fallback_usable: "usable env (fallbackResponse req)"
  by (simp add: usable_def fallbackResponse_def Let_def)

text \<open>C39: An answer of a chat protocol is usable: it has text or a tool call, and the arguments of every
  tool call are valid JSON. (The native Gemini protocol makes no such promise.)
\<close>

theorem generate_usable:
  assumes "model_Generate env c req h = (Inr resp, h')"
    and "protocolFor (cfg_Provider (cl_cfg c)) (cfg_Protocol (cl_cfg c)) \<noteq> ProtocolGoogle"
  shows "usable env resp"
  using assms
  by (auto simp: model_Generate_def Let_def adapterFor_def fallback_usable openAI_usable anthropic_usable
      split: option.splits if_splits sum.splits)

definition exampleRequest :: generateRequest where
  "exampleRequest = \<lparr>gr_Model = ''m'', gr_Prompt = ''hello'', gr_SystemInstruction = [], gr_Temperature = Finite 0 0,
     gr_MaxTokens = 0, gr_Messages = [], gr_Tools = []\<rparr>"

definition exampleClient :: client where
  "exampleClient = \<lparr>cl_cfg = DefaultConfig\<lparr>cfg_Provider := ''openai'', cfg_APIKey := ''k''\<rparr>, cl_secretResolver = None\<rparr>"

theorem generate_usable_witness:
  "\<exists>resp h'. model_Generate scriptedEnv exampleClient (Some exampleRequest) [Inr (answer 200 ''hi'')] = (Inr resp, h') \<and> usable scriptedEnv resp"
proof -
  have p: "protocolFor (cfg_Provider (cl_cfg exampleClient)) (cfg_Protocol (cl_cfg exampleClient)) = ProtocolOpenAI"
    unfolding exampleClient_def DefaultConfig_def by code_simp
  have "case model_Generate scriptedEnv exampleClient (Some exampleRequest) [Inr (answer 200 ''hi'')] of (Inr _, _) \<Rightarrow> True | _ \<Rightarrow> False"
    by code_simp
  then obtain resp h' where r: "model_Generate scriptedEnv exampleClient (Some exampleRequest) [Inr (answer 200 ''hi'')] = (Inr resp, h')"
    by (auto split: prod.splits sum.splits)
  show ?thesis using generate_usable [OF r] r p by (simp add: protocol_defs)
qed

text \<open>
  A \<open>Retry-After\<close> of 9223372037 seconds overflows the multiplication by \<open>time.Second\<close> to a
  negative duration, so the client does not wait at all where it should wait for its maximum.
\<close>

lemma retry_after_overflow: "retryDelay (\<lambda>_. None) now ''9223372037'' 0 = 0 \<and> retryDelay (\<lambda>_. None) now ''9223372036'' 0 = maxRetryDelay"
proof -
  have "atoi (trimSpace ''9223372037'') = Some 9223372037" "atoi (trimSpace ''9223372036'') = Some 9223372036" by code_simp+
  then show ?thesis by (simp add: retryDelay_def Let_def wrap64_def maxRetryDelay_def)
qed

end
