(* ===== verification/Workspace_Setup.thy ===== *)
theory Workspace_Setup
  imports Model_Client
begin

text \<open>
  \<open>internal/workspace\<close>: preparing the directories a task runs in (\<open>setup.go\<close>), the bootstrap of a
  workspace by a model that may run commands (\<open>model_bootstrap.go\<close>), and the planner
  (\<open>planner.go\<close>). The operating system is the record \<open>osEnv\<close> of calls on a world \<open>'o\<close>: the file
  system, the environment, git, child processes and timers. \<open>filepath.Clean\<close> and \<open>filepath.Join\<close>
  are written out. Calls that only log are left out.
\<close>

section \<open>Paths\<close>

fun splitSlash :: "string \<Rightarrow> string list" where
  "splitSlash [] = [[]]"
| "splitSlash (c # cs) =
     (if c = CHR ''/'' then [] # splitSlash cs
      else case splitSlash cs of [] \<Rightarrow> [[c]] | p # ps \<Rightarrow> (c # p) # ps)"

text \<open>The elements of a cleaned path, innermost first on the stack.\<close>

fun cleanParts :: "bool \<Rightarrow> string list \<Rightarrow> string list \<Rightarrow> string list" where
  "cleanParts rooted stack [] = rev stack"
| "cleanParts rooted stack (p # ps) =
     (if p = [] \<or> p = ''.'' then cleanParts rooted stack ps
      else if p = ''..'' then
        (case stack of
           [] \<Rightarrow> cleanParts rooted (if rooted then [] else [p]) ps
         | q # qs \<Rightarrow> cleanParts rooted (if q = ''..'' then p # stack else qs) ps)
      else cleanParts rooted (p # stack) ps)"

definition isAbs :: "string \<Rightarrow> bool" where
  "isAbs p = hasPrefix p ''/''"

definition path_Clean :: "string \<Rightarrow> string" where
  "path_Clean p =
     (let parts = cleanParts (isAbs p) [] (splitSlash p) in
      if isAbs p then ''/'' @ joinWith ''/'' parts
      else if parts = [] then ''.'' else joinWith ''/'' parts)"

definition path_Join :: "string list \<Rightarrow> string" where
  "path_Join elems =
     (let es = filter (\<lambda>e. e \<noteq> []) elems in if es = [] then [] else path_Clean (joinWith ''/'' es))"

section \<open>The operating system\<close>

record 'o osEnv =
  os_Abs :: "string \<Rightarrow> 'o \<Rightarrow> error + string"
  os_MkdirAll :: "string \<Rightarrow> 'o \<Rightarrow> error option \<times> 'o"
  os_Stat :: "string \<Rightarrow> 'o \<Rightarrow> error option"
  os_WriteFile :: "string \<Rightarrow> string \<Rightarrow> 'o \<Rightarrow> error option \<times> 'o"
  os_Getenv :: "string \<Rightarrow> 'o \<Rightarrow> string"
  os_Git :: "string \<Rightarrow> string list \<Rightarrow> 'o \<Rightarrow> (string \<times> error option) \<times> 'o"
  os_After :: "int \<Rightarrow> 'o \<Rightarrow> error option \<times> 'o"   \<comment> \<open>the context's error if it is done first\<close>
  os_Python :: "string list \<Rightarrow> string \<Rightarrow> int \<Rightarrow> 'o \<Rightarrow> error option \<times> 'o"
  os_Shell :: "string \<Rightarrow> string \<Rightarrow> int \<Rightarrow> 'o \<Rightarrow> (string list \<times> error option) \<times> 'o"   \<comment> \<open>directory, command, timeout; the writes to its output\<close>
  os_Timestamp :: "'o \<Rightarrow> string"
  os_ParseDuration :: "string \<Rightarrow> int option"
  os_ParseModel :: "string \<Rightarrow> error + model"
  os_ParseCommand :: "string \<Rightarrow> error + string"
  os_kube :: kubeEnv
  os_model :: "'o modelEnv"

definition AXDir :: string where "AXDir = ''/ax''"
definition InitializedMarkerFilename :: string where "InitializedMarkerFilename = ''initialized''"
definition defaultWorkspacePath :: string where "defaultWorkspacePath = ''/workspace''"
definition defaultBranch :: string where "defaultBranch = ''main''"
definition defaultRepoDirName :: string where "defaultRepoDirName = ''repo''"
definition gitSuccessLog :: string where "gitSuccessLog = ''git-success.log''"
definition gitErrorLog :: string where "gitErrorLog = ''git-error.log''"
definition gitRetries :: nat where "gitRetries = 5"
definition gitRetryDelay :: int where "gitRetryDelay = 2 * 1000000000"
definition bootstrapScriptPath :: string where "bootstrapScriptPath = ''/usr/local/bin/antigravity_bootstrap.py''"
definition defaultBootstrapTimeout :: int where "defaultBootstrapTimeout = 10 * 60 * 1000000000"

section \<open>Markers and destinations\<close>

definition replaceSlash :: "string \<Rightarrow> string" where
  "replaceSlash s = map (\<lambda>c. if c = CHR ''/'' then CHR ''-'' else c) s"

definition trimSlashes :: "string \<Rightarrow> string" where
  "trimSlashes s = trimRightChar CHR ''/'' (trimLeftChar CHR ''/'' s)"

definition MarkerName :: "string \<Rightarrow> string" where
  "MarkerName path0 =
     (let path = (if path0 = [] then defaultWorkspacePath else path0);
          clean0 = trimSlashes (path_Clean path);
          clean = (if clean0 = [] then ''root'' else clean0)
      in InitializedMarkerFilename @ ''-'' @ replaceSlash clean)"

definition RepoDirName :: "string \<Rightarrow> string" where
  "RepoDirName repoURL =
     (let trimmed = trimSuffix (trimSuffix (trimSpace repoURL) ''/'') ''.git'' in
      rev (takeWhile (\<lambda>c. c \<noteq> CHR ''/'' \<and> c \<noteq> CHR '':'') (rev trimmed)))"

definition cloneDestination :: "gitRepo \<Rightarrow> string \<Rightarrow> string" where
  "cloneDestination repo targetPath =
     (if git_Dir repo \<noteq> [] then
        (if git_Dir repo = ''.'' then targetPath
         else if isAbs (git_Dir repo) then git_Dir repo
         else path_Join [targetPath, git_Dir repo])
      else
        let name0 = git_Name repo;
            name = (if name0 = [] \<or> name0 = defaultRepoDirName \<or> name0 = ''origin''
                    then (let derived = RepoDirName (git_Repo repo) in
                          if derived \<noteq> [] then derived else if name0 = [] then defaultRepoDirName else name0)
                    else name0)
        in path_Join [targetPath, name])"

section \<open>Git\<close>

text \<open>One git call of \<open>fetchRepo\<close>: its output is appended to what there is.\<close>

definition git_run :: "'o osEnv \<Rightarrow> string \<Rightarrow> string list \<Rightarrow> string \<times> 'o \<Rightarrow> error option \<times> string \<times> 'o" where
  "git_run env dir args co =
     (case os_Git env dir args (snd co) of
        ((out, e), o1) \<Rightarrow>
          ((case e of None \<Rightarrow> None | Some e \<Rightarrow> Some (EWrap (''git '' @ hd args) e)), fst co @ out, o1))"

definition fetchArgs :: "string \<Rightarrow> int \<Rightarrow> string list" where
  "fetchArgs branch depth = [''fetch''] @ (if depth > 0 then [''--depth='' @ itoa depth] else []) @ [''origin'', branch]"

definition fetchRepo :: "'o osEnv \<Rightarrow> string \<Rightarrow> string \<Rightarrow> string \<Rightarrow> int \<Rightarrow> 'o \<Rightarrow> (string \<times> error option) \<times> 'o" where
  "fetchRepo env dir repoURL branch depth o0 =
     (case git_run env dir [''init''] ([], o0) of
        (Some e, out, o1) \<Rightarrow> ((out, Some e), o1)
      | (None, co1) \<Rightarrow>
          (let (e2, co2) =
             (case git_run env dir [''remote'', ''add'', ''origin'', repoURL] co1 of
                (None, co) \<Rightarrow> (None, co)
              | (Some _, co) \<Rightarrow> git_run env dir [''remote'', ''set-url'', ''origin'', repoURL] co)
           in case e2 of
                Some e \<Rightarrow> ((fst co2, Some e), snd co2)
              | None \<Rightarrow>
                  (case git_run env dir (fetchArgs branch depth) co2 of
                     (Some e, out, o3) \<Rightarrow> ((out, Some e), o3)
                   | (None, co3) \<Rightarrow>
                       (case git_run env dir [''checkout'', ''-f'', ''FETCH_HEAD''] co3 of
                          (Some e, out, o4) \<Rightarrow> ((out, Some e), o4)
                        | (None, out, o4) \<Rightarrow> ((out, None), o4)))))"

text \<open>\<open>retry\<close>, with the number of attempts left; \<open>wait\<close> is the select between the context and the timer.\<close>

fun retry :: "(int \<Rightarrow> 'o \<Rightarrow> error option \<times> 'o) \<Rightarrow> nat \<Rightarrow> int \<Rightarrow> ('o \<Rightarrow> (string \<times> error option) \<times> 'o) \<Rightarrow> 'o \<Rightarrow> (string \<times> error option) \<times> 'o" where
  "retry wait 0 delay op o0 = (([], None), o0)"
| "retry wait (Suc n) delay op o0 =
     (case op o0 of
        ((out, None), o1) \<Rightarrow> ((out, None), o1)
      | ((out, Some e), o1) \<Rightarrow>
          if n = 0 then ((out, Some e), o1)
          else case wait delay o1 of
                 (Some ctxErr, o2) \<Rightarrow> ((out, Some (EJoin [e, ctxErr])), o2)
               | (None, o2) \<Rightarrow> retry wait n delay op o2)"

definition writeStateFile :: "'o osEnv \<Rightarrow> string \<Rightarrow> string \<Rightarrow> 'o \<Rightarrow> 'o" where
  "writeStateFile env name dat o0 = snd (os_WriteFile env (path_Join [AXDir, name]) dat o0)"

fun cloneRepos :: "'o osEnv \<Rightarrow> gitRepo option list \<Rightarrow> string \<Rightarrow> 'o \<Rightarrow> (string list \<times> bool) \<times> 'o" where
  "cloneRepos env [] targetPath o0 = (([], True), o0)"
| "cloneRepos env (r # rs) targetPath o0 =
     (case r of
        None \<Rightarrow> cloneRepos env rs targetPath o0
      | Some repo \<Rightarrow>
          if git_Repo repo = [] then cloneRepos env rs targetPath o0
          else
            let dest = cloneDestination repo targetPath;
                o1 = snd (os_MkdirAll env dest o0);
                branch = (if git_Branch repo = [] then defaultBranch else git_Branch repo)
            in case retry (os_After env) gitRetries gitRetryDelay (fetchRepo env dest (git_Repo repo) branch (git_Depth repo)) o1 of
                 ((out, Some e), o2) \<Rightarrow>
                   (let o3 = writeStateFile env gitErrorLog (''error: '' @ err_msg e @ [CHR 0x0A] @ ''output: '' @ out @ [CHR 0x0A]) o2;
                        ((cloned, _), o4) = cloneRepos env rs targetPath o3
                    in ((cloned, False), o4))
               | ((out, None), o2) \<Rightarrow>
                   (let o3 = writeStateFile env gitSuccessLog out o2;
                        ((cloned, ok), o4) = cloneRepos env rs targetPath o3
                    in ((git_Repo repo # cloned, ok), o4)))"

definition setupSkills :: "'o osEnv \<Rightarrow> skillsConfig option \<Rightarrow> 'o \<Rightarrow> string \<times> 'o" where
  "setupSkills env skills o0 =
     (case skills of
        None \<Rightarrow> ([], o0)
      | Some sk \<Rightarrow> if sk_Path sk = [] then ([], o0) else (sk_Path sk, snd (os_MkdirAll env (sk_Path sk) o0)))"

definition writeMarker :: "'o osEnv \<Rightarrow> string \<Rightarrow> workspace option \<Rightarrow> 'o \<Rightarrow> 'o" where
  "writeMarker env path ws o0 =
     (let name = (case ws of
                    None \<Rightarrow> ''unknown''
                  | Some w \<Rightarrow> if meta_GetName (wsp_Metadata w) \<noteq> [] then meta_GetName (wsp_Metadata w) else ''unknown'')
      in snd (os_WriteFile env path (''workspace: '' @ name @ [CHR 0x0A] @ ''initialized_at: '' @ os_Timestamp env o0 @ [CHR 0x0A]) o0))"

definition bootstrapTimeout :: "'o osEnv \<Rightarrow> 'o \<Rightarrow> int" where
  "bootstrapTimeout env o0 =
     (let raw = os_Getenv env ''AX_BOOTSTRAP_TIMEOUT'' o0 in
      if raw = [] then defaultBootstrapTimeout
      else case os_ParseDuration env raw of
             None \<Rightarrow> defaultBootstrapTimeout
           | Some d \<Rightarrow> if d \<le> 0 then defaultBootstrapTimeout else d)"

definition runAntigravityBootstrap :: "'o osEnv \<Rightarrow> string \<Rightarrow> string \<Rightarrow> 'o \<Rightarrow> bool \<times> 'o" where
  "runAntigravityBootstrap env goal targetPath o0 =
     (if os_Stat env bootstrapScriptPath o0 \<noteq> None then (False, o0)
      else if os_Getenv env ''GEMINI_API_KEY'' o0 = [] then (False, o0)
      else
        let timeout = bootstrapTimeout env o0;
            dataDir = path_Join [AXDir, ''antigravity''];
            o1 = snd (os_MkdirAll env dataDir o0)
        in case os_Python env [bootstrapScriptPath, ''--goal'', goal, ''--workspace'', targetPath, ''--data-dir'', dataDir]
                  targetPath timeout o1 of
             (Some _, o2) \<Rightarrow> (False, o2)
           | (None, o2) \<Rightarrow> (True, o2))"

section \<open>The bootstrap by a model\<close>

definition maxBootstrapTurns :: nat where "maxBootstrapTurns = 24"
definition maxBootstrapToolCalls :: nat where "maxBootstrapToolCalls = 48"
definition bootstrapCommandTimeout :: int where "bootstrapCommandTimeout = 2 * 60 * 1000000000"
definition maxBootstrapOutput :: int where "maxBootstrapOutput = 32 * 1024"
definition maxBootstrapTranscript :: int where "maxBootstrapTranscript = 128 * 1024"
definition maxBootstrapCommandSize :: nat where "maxBootstrapCommandSize = 16 * 1024"

record limitedOutput =
  lo_output :: string
  lo_limit :: int
  lo_truncated :: bool

definition lo_Write :: "string \<Rightarrow> limitedOutput \<Rightarrow> limitedOutput" where
  "lo_Write p w =
     (let remaining = lo_limit w - int (length (lo_output w)) in
      if remaining > 0 then
        (if int (length p) > remaining
         then w\<lparr>lo_output := lo_output w @ take (nat remaining) p, lo_truncated := True\<rparr>
         else w\<lparr>lo_output := lo_output w @ p\<rparr>)
      else if p \<noteq> [] then w\<lparr>lo_truncated := True\<rparr> else w)"

definition truncatedNote :: string where
  "truncatedNote = [CHR 0x0A] @ ''[command output truncated]''"

definition lo_String :: "limitedOutput \<Rightarrow> string" where
  "lo_String w = lo_output w @ (if lo_truncated w then truncatedNote else [])"

definition executeWorkspaceCommand :: "'o osEnv \<Rightarrow> string \<Rightarrow> toolCall \<Rightarrow> int \<Rightarrow> 'o \<Rightarrow> string \<times> 'o" where
  "executeWorkspaceCommand env workspacePath call outputLimit o0 =
     (if tc_Name call \<noteq> ''run_command'' then (''unknown tool '' @ quote (tc_Name call) @ ''; use run_command'', o0)
      else case os_ParseCommand env (tc_Arguments call) of
        Inl e \<Rightarrow> (''invalid run_command arguments: '' @ err_msg e, o0)
      | Inr command \<Rightarrow>
          if command = [] then (''run_command requires a non-empty command'', o0)
          else if length command > maxBootstrapCommandSize
          then (''run_command is limited to '' @ utoa maxBootstrapCommandSize @ '' bytes'', o0)
          else case os_Shell env workspacePath command bootstrapCommandTimeout o0 of
                 ((writes, e), o1) \<Rightarrow>
                   (let out = lo_String (foldl (\<lambda>w p. lo_Write p w) \<lparr>lo_output = [], lo_limit = outputLimit, lo_truncated = False\<rparr> writes)
                    in ((case e of Some e \<Rightarrow> ''command failed: '' @ err_msg e @ [CHR 0x0A] @ out | None \<Rightarrow> out), o1)))"

definition modelBootstrapSelected :: "'o osEnv \<Rightarrow> 'o \<Rightarrow> bool" where
  "modelBootstrapSelected env o0 =
     (let raw = os_Getenv env ''AX_MODEL_YAML'' o0 in
      raw \<noteq> [] \<and>
      (case os_ParseModel env raw of
         Inl _ \<Rightarrow> True
       | Inr m \<Rightarrow> EffectiveProtocol (ConfigFromCRD (Some m)) \<noteq> ProtocolGoogle))"

text \<open>
  The tool calls of one turn. The state is the number of calls so far, the bytes of output so far
  and the messages; the result is None when a limit is exceeded.
\<close>

record bootState =
  bs_toolCalls :: nat
  bs_transcript :: int
  bs_messages :: "message list"

fun bootCalls :: "'o osEnv \<Rightarrow> string \<Rightarrow> toolCall list \<Rightarrow> bootState \<Rightarrow> 'o \<Rightarrow> bootState option \<times> 'o" where
  "bootCalls env ws [] b o0 = (Some b, o0)"
| "bootCalls env ws (call0 # calls) b o0 =
     (let n = bs_toolCalls b + 1 in
      if n > maxBootstrapToolCalls then (None, o0)
      else
        let call = (if tc_ID call0 = [] then call0\<lparr>tc_ID := ''workspace-setup-'' @ utoa n\<rparr> else call0);
            remaining = maxBootstrapTranscript - bs_transcript b
        in if remaining \<le> 0 then (None, o0)
           else
             let outputLimit = (if remaining < maxBootstrapOutput then remaining else maxBootstrapOutput);
                 (result, o1) = executeWorkspaceCommand env ws call outputLimit o0
             in bootCalls env ws calls
                  (b\<lparr>bs_toolCalls := n, bs_transcript := bs_transcript b + int (length result),
                     bs_messages := bs_messages b @ [\<lparr>msg_Role = ''tool'', msg_Content = result, msg_ToolCallID = tc_ID call,
                       msg_ToolName = tc_Name call, msg_ToolCalls = []\<rparr>]\<rparr>) o1)"

text \<open>The one tool the model is offered.\<close>

definition quoted :: "string \<Rightarrow> string" where
  "quoted s = [CHR 0x22] @ s @ [CHR 0x22]"

definition runCommandTool :: toolDefinition where
  "runCommandTool = \<lparr>td_Name = ''run_command'',
     td_Description = ''Run one shell command with the workspace as its working directory. Use this to inspect files, install dependencies, or prepare the project. The command runs inside the task container and its output is returned to you.'',
     td_Parameters =
       (let nl = [CHR 0x0A]; tab = [CHR 0x09] in
        ''{'' @ nl @ tab @ tab @ tab @ quoted ''type'' @ '':'' @ quoted ''object'' @ '','' @ nl
        @ tab @ tab @ tab @ quoted ''properties'' @ '':{'' @ quoted ''command'' @ '':{'' @ quoted ''type'' @ '':'' @ quoted ''string'' @ '',''
        @ quoted ''description'' @ '':'' @ quoted ''A shell command to run from the workspace directory.'' @ ''}},'' @ nl
        @ tab @ tab @ tab @ quoted ''required'' @ '':['' @ quoted ''command'' @ ''],'' @ nl
        @ tab @ tab @ tab @ quoted ''additionalProperties'' @ '':false'' @ nl @ tab @ tab @ ''}'')\<rparr>"

text \<open>The turns, with the number left; a model that does not stop within them has failed.\<close>

fun bootTurns :: "'o osEnv \<Rightarrow> client \<Rightarrow> string \<Rightarrow> nat \<Rightarrow> bootState \<Rightarrow> 'o \<Rightarrow> bool \<times> 'o" where
  "bootTurns env client ws 0 b o0 = (False, o0)"
| "bootTurns env client ws (Suc k) b o0 =
     (case model_Generate (os_model env) client
             (Some \<lparr>gr_Model = [], gr_Prompt = [], gr_SystemInstruction = [], gr_Temperature = Finite 0 0,
                    gr_MaxTokens = 4096, gr_Messages = bs_messages b, gr_Tools = [runCommandTool]\<rparr>) o0 of
        (Inl _, o1) \<Rightarrow> (False, o1)
      | (Inr resp, o1) \<Rightarrow>
          if gs_ToolCalls resp = [] then (trimSpace (gs_Content resp) \<noteq> [], o1)
          else
            let b1 = b\<lparr>bs_messages := bs_messages b @ [\<lparr>msg_Role = ''assistant'', msg_Content = gs_Content resp,
                        msg_ToolCallID = [], msg_ToolName = [], msg_ToolCalls = gs_ToolCalls resp\<rparr>]\<rparr>
            in case bootCalls env ws (gs_ToolCalls resp) b1 o1 of
                 (None, o2) \<Rightarrow> (False, o2)
               | (Some b2, o2) \<Rightarrow> bootTurns env client ws k b2 o2)"

definition bootMessages :: "string \<Rightarrow> string \<Rightarrow> message list" where
  "bootMessages workspacePath goal =
     [plainMessage ''system'' (''You prepare an AX workspace for a task. The workspace directory is '' @ quote workspacePath @ ''. ''
        @ ''Use the run_command tool to inspect the project and make only the changes needed for the goal. ''
        @ ''Run commands from the workspace directory, keep all project files there, and stop when setup is complete.''),
      plainMessage ''user'' (''Prepare this workspace for the following goal: '' @ goal)]"

definition runModelBootstrap :: "'o osEnv \<Rightarrow> string \<Rightarrow> string \<Rightarrow> 'o \<Rightarrow> bool \<times> 'o" where
  "runModelBootstrap env goal workspacePath o0 =
     (case os_ParseModel env (os_Getenv env ''AX_MODEL_YAML'' o0) of
        Inl _ \<Rightarrow> (False, o0)
      | Inr configured \<Rightarrow>
          (let cfg = (ConfigFromCRD (Some configured))\<lparr>cfg_APIKey := os_Getenv env ''AX_MODEL_API_KEY'' o0, cfg_SecretKey := None\<rparr>;
               client = model_NewClient (os_kube env) cfg []
           in bootTurns env client workspacePath maxBootstrapTurns
                \<lparr>bs_toolCalls = 0, bs_transcript = 0, bs_messages = bootMessages workspacePath goal\<rparr> o0))"

definition runBootstrap :: "'o osEnv \<Rightarrow> string \<Rightarrow> string \<Rightarrow> 'o \<Rightarrow> bool \<times> 'o" where
  "runBootstrap env goal targetPath o0 =
     (if modelBootstrapSelected env o0 then runModelBootstrap env goal targetPath o0
      else runAntigravityBootstrap env goal targetPath o0)"

section \<open>The setup of a workspace\<close>

record setupResult =
  sr_WorkspacePath :: string
  sr_ClonedRepos :: "string list"
  sr_SkillsMounted :: string
  sr_IsMaidenRun :: bool
  sr_BootstrapRan :: bool

definition markerPath :: "string \<Rightarrow> string" where
  "markerPath targetPath = path_Join [AXDir, MarkerName targetPath]"

definition absTarget :: "'o osEnv \<Rightarrow> string \<Rightarrow> 'o \<Rightarrow> string" where
  "absTarget env targetPath0 o0 =
     (let target = (if targetPath0 = [] then defaultWorkspacePath else targetPath0) in
      case os_Abs env target o0 of Inr absolute \<Rightarrow> absolute | Inl _ \<Rightarrow> target)"

definition SetupWorkspace ::
  "'o osEnv \<Rightarrow> workspace option \<Rightarrow> string \<Rightarrow> string \<Rightarrow> 'o \<Rightarrow> (setupResult option \<times> error option) \<times> 'o" where
  "SetupWorkspace env ws targetPath0 goal o0 =
     (let targetPath = absTarget env targetPath0 o0;
          res = \<lparr>sr_WorkspacePath = targetPath, sr_ClonedRepos = [], sr_SkillsMounted = [], sr_IsMaidenRun = False, sr_BootstrapRan = False\<rparr>
      in case os_MkdirAll env targetPath o0 of
           (Some e, o1) \<Rightarrow> ((None, Some (EWrap (''creating workspace directory '' @ targetPath) e)), o1)
         | (None, o1) \<Rightarrow>
             (let o2 = snd (os_MkdirAll env AXDir o1) in
              if os_Stat env (markerPath targetPath) o2 = None then ((Some res, None), o2)
              else
                let res1 = res\<lparr>sr_IsMaidenRun := True\<rparr>;
                    (res2, gitOK, o4) =
                      (case Option.bind ws wsp_Spec of
                         None \<Rightarrow> (res1, True, o2)
                       | Some spec \<Rightarrow>
                           (let ((cloned, ok), o3) = cloneRepos env (ws_Git spec) targetPath o2;
                                (skills, o3') = setupSkills env (ws_Skills spec) o3
                            in (res1\<lparr>sr_ClonedRepos := cloned, sr_SkillsMounted := skills\<rparr>, ok, o3')));
                    finish = (\<lambda>res o5. if gitOK then ((Some res, None), writeMarker env (markerPath targetPath) ws o5)
                                       else ((Some res, None), o5))
                in if goal = [] then finish res2 o4
                   else
                     let selected = modelBootstrapSelected env o4;
                         (ran, o5) = runBootstrap env goal targetPath o4;
                         res3 = res2\<lparr>sr_BootstrapRan := ran\<rparr>
                     in if selected \<and> \<not> ran
                        then ((Some res3, Some (ENew ''configured model bootstrap did not complete'')), o5)
                        else finish res3 o5))"

section \<open>The planner\<close>

record environmentPlan =
  ep_WorkspaceName :: string
  ep_Goal :: string
  ep_ModelUsed :: string
  ep_PlanSummary :: string
  ep_GitRepos :: "gitRepo option list"
  ep_MCPConfig :: "mcpConfig option"
  ep_Skills :: "skillsConfig option"

definition NewPlanner :: "kubeEnv \<Rightarrow> client option \<Rightarrow> client" where
  "NewPlanner k client = (case client of None \<Rightarrow> NewDefaultClient k [] | Some c \<Rightarrow> c)"

definition NewPlannerWithConfig :: "kubeEnv \<Rightarrow> config \<Rightarrow> clientOption list \<Rightarrow> client" where
  "NewPlannerWithConfig k cfg opts = NewPlanner k (Some (model_NewClient k cfg opts))"

definition NewPlannerFromStore :: "kubeEnv \<Rightarrow> 's store \<Rightarrow> string \<Rightarrow> clientOption list \<Rightarrow> 's \<Rightarrow> client go" where
  "NewPlannerFromStore k ops atespace opts s =
     (case NewDefaultClientFromStore k ops atespace opts s of
        Ok client \<Rightarrow> Ok (NewPlanner k (Some client))
      | Err e \<Rightarrow> Err e
      | Panic \<Rightarrow> Panic)"

definition planPrompt :: "string \<Rightarrow> string \<Rightarrow> nat \<Rightarrow> bool \<Rightarrow> string" where
  "planPrompt wsName goal repos mcp =
     ''Synthesize an environment bootstrap and toolchain plan for workspace '' @ quote wsName @ '' with goal '' @ quote goal
     @ ''. Git repositories: '' @ utoa repos @ '', MCP servers: '' @ (if mcp then ''true'' else ''false'')"

definition PlanEnvironment ::
  "'h modelEnv \<Rightarrow> client \<Rightarrow> workspace option \<Rightarrow> string \<Rightarrow> 'h \<Rightarrow> (error + environmentPlan) \<times> 'h" where
  "PlanEnvironment env p ws0 goal h =
     (case ws0 of
        None \<Rightarrow> (Inl (ENew ''workspace cannot be nil''), h)
      | Some ws \<Rightarrow>
          (let wsName = meta_GetName (wsp_Metadata ws);
               gitRepos = (case wsp_Spec ws of None \<Rightarrow> [] | Some sp \<Rightarrow> ws_Git sp);
               mcpConfig = (case wsp_Spec ws of None \<Rightarrow> None | Some sp \<Rightarrow> ws_Mcp sp);
               skills = (case wsp_Spec ws of None \<Rightarrow> None | Some sp \<Rightarrow> ws_Skills sp)
           in case model_Generate env p
                     (Some \<lparr>gr_Model = [], gr_Prompt = planPrompt wsName goal (length gitRepos) (mcpConfig \<noteq> None),
                        gr_SystemInstruction = ''You are the AX system workspace environment planner. Output concise bootstrap plans for agent workspaces.'',
                        gr_Temperature = Finite 0 0, gr_MaxTokens = 0, gr_Messages = [], gr_Tools = []\<rparr>) h of
                (Inl e, h1) \<Rightarrow> (Inl (EWrap (''generating environment plan for workspace '' @ wsName) e), h1)
              | (Inr resp, h1) \<Rightarrow>
                  (Inr \<lparr>ep_WorkspaceName = wsName, ep_Goal = goal, ep_ModelUsed = gs_Model resp, ep_PlanSummary = gs_Content resp,
                        ep_GitRepos = gitRepos, ep_MCPConfig = mcpConfig, ep_Skills = skills\<rparr>, h1)))"

section \<open>Retries\<close>

text \<open>An operation and a wait that count how often they are called.\<close>

definition countOp :: "('o \<Rightarrow> 'r \<times> 'o) \<Rightarrow> 'o \<times> 'r list \<times> nat \<Rightarrow> 'r \<times> 'o \<times> 'r list \<times> nat" where
  "countOp op s = (case op (fst s) of (r, o1) \<Rightarrow> (r, o1, fst (snd s) @ [r], snd (snd s)))"

definition countWait :: "(int \<Rightarrow> 'o \<Rightarrow> error option \<times> 'o) \<Rightarrow> int \<Rightarrow> 'o \<times> 'r list \<times> nat \<Rightarrow> error option \<times> 'o \<times> 'r list \<times> nat" where
  "countWait wait d s = (case wait d (fst s) of (e, o1) \<Rightarrow> (e, o1, fst (snd s), Suc (snd (snd s))))"

text \<open>Retrying is bounded and stops at the first success. With at least one attempt allowed, the
  operation runs at least once and at most that often; every run but the last failed; the waits
  lie between the runs; and the result is an error exactly when the last run failed.
\<close>

theorem retry_bounded:
  assumes "0 < n"
  shows "\<exists>res o1 rs w. retry (countWait wait) n delay (countOp op) (o0, [], 0) = (res, o1, rs, w) \<and>
    1 \<le> length rs \<and> length rs \<le> n \<and> w \<le> length rs \<and> w < n \<and>
    list_all (\<lambda>r. snd r \<noteq> None) (butlast rs) \<and> (snd res = None \<longleftrightarrow> snd (last rs) = None) \<and>
    (snd res = None \<longrightarrow> res = last rs)"
proof -
  have "\<exists>res o1 rs w. retry (countWait wait) (Suc m) delay (countOp op) (o0, rs0, w0) = (res, o1, rs0 @ rs, w0 + w) \<and>
      1 \<le> length rs \<and> length rs \<le> Suc m \<and> w \<le> length rs \<and> w \<le> m \<and>
      list_all (\<lambda>r. snd r \<noteq> None) (butlast rs) \<and> (snd res = None \<longleftrightarrow> snd (last rs) = None) \<and>
      (snd res = None \<longrightarrow> res = last rs)" for m rs0 w0
  proof (induction m arbitrary: o0 rs0 w0)
    case 0
    obtain out e o1 where op: "op o0 = ((out, e), o1)" by (metis surj_pair)
    then show ?case
      by (intro exI [of _ "(out, e)"] exI [of _ o1] exI [of _ "[(out, e)]"] exI [of _ 0])
        (cases e; simp add: countOp_def)
  next
    case (Suc m)
    obtain out e o1 where op: "op o0 = ((out, e), o1)" by (metis surj_pair)
    show ?case
    proof (cases e)
      case None
      with op show ?thesis
        by (intro exI [of _ "(out, e)"] exI [of _ o1] exI [of _ "[(out, e)]"] exI [of _ 0]) (simp add: countOp_def)
    next
      case (Some err)
      obtain ce o2 where w: "wait delay o1 = (ce, o2)" by fastforce
      show ?thesis
      proof (cases ce)
        case (Some c)
        with op w \<open>e = Some err\<close> show ?thesis
          by (intro exI [of _ "(out, Some (EJoin [err, c]))"] exI [of _ o2] exI [of _ "[(out, e)]"] exI [of _ 1])
            (simp add: countOp_def countWait_def)
      next
        case None
        from Suc.IH [of o2 "rs0 @ [(out, Some err)]" "Suc w0"] obtain res o3 rs w where ih:
          "retry (countWait wait) (Suc m) delay (countOp op) (o2, rs0 @ [(out, Some err)], Suc w0) = (res, o3, (rs0 @ [(out, Some err)]) @ rs, Suc w0 + w)"
          "1 \<le> length rs" "length rs \<le> Suc m" "w \<le> length rs" "w \<le> m" "list_all (\<lambda>r. snd r \<noteq> None) (butlast rs)"
          "snd res = None \<longleftrightarrow> snd (last rs) = None" "snd res = None \<longrightarrow> res = last rs"
          by (elim exE conjE) (rule that)
        have "retry (countWait wait) (Suc (Suc m)) delay (countOp op) (o0, rs0, w0) = (res, o3, rs0 @ (out, Some err) # rs, w0 + Suc w)"
          using ih(1) op w None Some by (simp add: countOp_def countWait_def)
        with ih(2-8) show ?thesis
          by (intro exI [of _ res] exI [of _ o3] exI [of _ "(out, Some err) # rs"] exI [of _ "Suc w"]) (cases rs; simp)
      qed
    qed
  qed
  note bounded = this [of "n - 1" "[]" 0]
  have "w \<le> n - 1 \<longleftrightarrow> w < n" and "Suc (n - 1) = n" for w using assms by auto
  with bounded show ?thesis by (simp only: append_Nil add_0)
qed

theorem retry_bounded_witness:
  "\<exists>res o1 rs w. retry (countWait (\<lambda>_ k. (None, k))) gitRetries gitRetryDelay
      (countOp (\<lambda>k. ((''out'', if k = (2::nat) then None else Some (ENew ''busy'')), Suc k))) (0, [], 0) = (res, o1, rs, w) \<and>
    length rs \<le> 5"
  using retry_bounded [of gitRetries "\<lambda>_ k. (None, k)" gitRetryDelay
      "\<lambda>k. ((''out'', if k = (2::nat) then None else Some (ENew ''busy'')), Suc k)" 0]
  by (auto simp: gitRetries_def)

section \<open>Bounded output\<close>

text \<open>The bounded writer keeps a prefix: whatever the pieces the output arrives in, the text is the
  whole output when it fits the limit, and else its first bytes up to the limit and the note.
\<close>

theorem limited_output_prefix:
  assumes "0 \<le> limit"
  shows "lo_String (foldl (\<lambda>w p. lo_Write p w) \<lparr>lo_output = [], lo_limit = limit, lo_truncated = False\<rparr> writes) =
     (let total = concat writes in
      if int (length total) \<le> limit then total else take (nat limit) total @ truncatedNote)"
proof -
  have "foldl (\<lambda>w p. lo_Write p w) \<lparr>lo_output = [], lo_limit = limit, lo_truncated = False\<rparr> ws =
      \<lparr>lo_output = take (nat limit) (concat ws), lo_limit = limit, lo_truncated = (int (length (concat ws)) > limit)\<rparr>" for ws
  proof (induction ws rule: rev_induct)
    case (snoc p ws)
    with assms show ?case
      by (cases p; cases "int (length (concat ws)) \<ge> limit") (auto simp: lo_Write_def Let_def nat_diff_distrib)
  qed (use assms in simp)
  then show ?thesis by (simp add: lo_String_def Let_def)
qed

theorem limited_output_prefix_witness:
  "lo_String (foldl (\<lambda>w p. lo_Write p w) \<lparr>lo_output = [], lo_limit = 3, lo_truncated = False\<rparr> [''ab'', ''cd'']) = ''abc'' @ truncatedNote"
  using limited_output_prefix [of 3 "[''ab'', ''cd'']"] by simp

section \<open>Answering tool calls\<close>

text \<open>C34: Within one turn every tool call is answered exactly once, in order. When the turn goes through,
  the conversation grows by one tool message per call, with the call's name and its identifier (or
  a generated one when it had none); the number of calls stays within its limit; and a turn
  beyond the limit on calls or on transcript bytes stops the bootstrap.
\<close>

theorem bootstrap_answers_calls:
  assumes "bootCalls env ws calls b o0 = (Some b', o1)"
  shows "bs_toolCalls b' = bs_toolCalls b + length calls \<and>
    (calls \<noteq> [] \<longrightarrow> bs_toolCalls b' \<le> maxBootstrapToolCalls) \<and>
    (\<exists>answers. bs_messages b' = bs_messages b @ answers \<and> length answers = length calls \<and>
       bs_transcript b' = bs_transcript b + (\<Sum>m\<leftarrow>answers. int (length (msg_Content m))) \<and>
       list_all2 (\<lambda>call m. msg_Role m = ''tool'' \<and> msg_ToolName m = tc_Name call \<and> msg_ToolCallID m \<noteq> [] \<and>
           (tc_ID call \<noteq> [] \<longrightarrow> msg_ToolCallID m = tc_ID call)) calls answers)"
  using assms
proof (induction calls arbitrary: b o0)
  case (Cons call0 calls)
  let ?n = "bs_toolCalls b + 1"
  let ?call = "if tc_ID call0 = [] then call0\<lparr>tc_ID := ''workspace-setup-'' @ utoa ?n\<rparr> else call0"
  let ?remaining = "maxBootstrapTranscript - bs_transcript b"
  let ?limit = "if ?remaining < maxBootstrapOutput then ?remaining else maxBootstrapOutput"
  obtain result o2 where ex: "executeWorkspaceCommand env ws ?call ?limit o0 = (result, o2)" by fastforce
  let ?m = "\<lparr>msg_Role = ''tool'', msg_Content = result, msg_ToolCallID = tc_ID ?call, msg_ToolName = tc_Name ?call, msg_ToolCalls = []\<rparr>"
  let ?b = "b\<lparr>bs_toolCalls := ?n, bs_transcript := bs_transcript b + int (length result), bs_messages := bs_messages b @ [?m]\<rparr>"
  have le: "?n \<le> maxBootstrapToolCalls" and rec: "bootCalls env ws calls ?b o2 = (Some b', o1)"
    using Cons.prems ex by (auto simp: Let_def split: if_splits)
  from Cons.IH [OF rec] obtain answers where ih: "bs_toolCalls b' = ?n + length calls"
      "calls \<noteq> [] \<longrightarrow> bs_toolCalls b' \<le> maxBootstrapToolCalls" "bs_messages b' = bs_messages b @ ?m # answers"
      "length answers = length calls"
      "bs_transcript b' = bs_transcript b + int (length result) + (\<Sum>m\<leftarrow>answers. int (length (msg_Content m)))"
      "list_all2 (\<lambda>call m. msg_Role m = ''tool'' \<and> msg_ToolName m = tc_Name call \<and> msg_ToolCallID m \<noteq> [] \<and>
           (tc_ID call \<noteq> [] \<longrightarrow> msg_ToolCallID m = tc_ID call)) calls answers"
    by auto
  show ?case
    using ih le by (intro conjI exI [of _ "?m # answers"]) (cases "calls = []"; simp)+
qed simp

definition offlineModel :: "'o modelEnv" where
  "offlineModel = \<lparr>me_url = exampleURLLib, me_SetKey = (\<lambda>q k. k), me_Marshal = (\<lambda>_. Inr []), me_NewRequest = (\<lambda>_. None),
     me_Do = (\<lambda>_ w. (Inl (ENew []), w)), me_Wait = (\<lambda>_ w. (None, w)), me_ParseTime = (\<lambda>_. None), me_Now = (\<lambda>_. 0), me_order = id,
     me_Valid = (\<lambda>_. True), me_String = (\<lambda>_. None), me_Parts = (\<lambda>_. None), me_OpenAI = (\<lambda>_. Inl (ENew [])),
     me_Anthropic = (\<lambda>_. Inl (ENew [])), me_Gemini = (\<lambda>_. Inl (ENew []))\<rparr>"

text \<open>An operating system with an empty file system whose shell echoes the command.\<close>

definition exampleOs :: "unit osEnv" where
  "exampleOs = \<lparr>os_Abs = (\<lambda>p _. Inr (path_Clean p)), os_MkdirAll = (\<lambda>_ w. (None, w)), os_Stat = (\<lambda>_ _. Some (ENew ''no such file'')),
     os_WriteFile = (\<lambda>_ _ w. (None, w)), os_Getenv = (\<lambda>_ _. []), os_Git = (\<lambda>_ _ w. (([], None), w)), os_After = (\<lambda>_ w. (None, w)),
     os_Python = (\<lambda>_ _ _ w. (None, w)), os_Shell = (\<lambda>_ c _ w. (([c], None), w)), os_Timestamp = (\<lambda>_. []), os_ParseDuration = (\<lambda>_. None),
     os_ParseModel = (\<lambda>_. Inl (ENew [])), os_ParseCommand = (\<lambda>c. Inr c), os_kube = exampleKube,
     os_model = offlineModel\<rparr>"

definition exampleCalls :: "toolCall list" where
  "exampleCalls = [\<lparr>tc_ID = ''c1'', tc_Name = ''run_command'', tc_Arguments = ''ls''\<rparr>, \<lparr>tc_ID = [], tc_Name = ''other'', tc_Arguments = []\<rparr>]"

theorem bootstrap_answers_calls_witness:
  "\<exists>b' o1. bootCalls exampleOs ''/w'' exampleCalls \<lparr>bs_toolCalls = 0, bs_transcript = 0, bs_messages = []\<rparr> () = (Some b', o1) \<and>
     bs_toolCalls b' = 2"
proof -
  have "fst (bootCalls exampleOs ''/w'' exampleCalls \<lparr>bs_toolCalls = 0, bs_transcript = 0, bs_messages = []\<rparr> ()) \<noteq> None"
    by code_simp
  then obtain b' o1 where r: "bootCalls exampleOs ''/w'' exampleCalls \<lparr>bs_toolCalls = 0, bs_transcript = 0, bs_messages = []\<rparr> () = (Some b', o1)"
    by (metis prod.collapse option.exhaust)
  from bootstrap_answers_calls [OF r] r show ?thesis by (simp add: exampleCalls_def)
qed

section \<open>The maiden run\<close>

definition declaredRepos :: "gitRepo option list \<Rightarrow> string list" where
  "declaredRepos rs = filter (\<lambda>u. u \<noteq> []) (map git_Repo (map the (filter (\<lambda>r. r \<noteq> None) rs)))"

lemma cloneRepos_complete:
  "cloneRepos env rs target o0 = ((cloned, ok), o1) \<Longrightarrow>
   (ok \<longrightarrow> cloned = declaredRepos rs) \<and> (\<not> ok \<longrightarrow> length cloned < length (declaredRepos rs)) \<and> length cloned \<le> length (declaredRepos rs)"
proof (induction rs arbitrary: o0 cloned ok o1)
  case (Cons r rs)
  show ?case
  proof (cases "r = None \<or> git_Repo (the r) = []")
    case True
    with Cons show ?thesis by (cases r) (auto simp: declaredRepos_def)
  next
    case False
    then obtain repo where r: "r = Some repo" "git_Repo repo \<noteq> []" by auto
    obtain out e o2 where t: "retry (os_After env) gitRetries gitRetryDelay
        (fetchRepo env (cloneDestination repo target) (git_Repo repo) (if git_Branch repo = [] then defaultBranch else git_Branch repo) (git_Depth repo))
        (snd (os_MkdirAll env (cloneDestination repo target) o0)) = ((out, e), o2)" by (metis surj_pair)
    let ?o3 = "case e of Some e \<Rightarrow> writeStateFile env gitErrorLog (''error: '' @ err_msg e @ [CHR 0x0A] @ ''output: '' @ out @ [CHR 0x0A]) o2
      | None \<Rightarrow> writeStateFile env gitSuccessLog out o2"
    obtain cl ok' o4 where rec: "cloneRepos env rs target ?o3 = ((cl, ok'), o4)" by (metis surj_pair)
    have "declaredRepos (r # rs) = git_Repo repo # declaredRepos rs" using r by (simp add: declaredRepos_def)
    with Cons.IH [OF rec] Cons.prems r t rec show ?thesis by (cases e) (auto simp: Let_def)
  qed
qed (simp add: declaredRepos_def)

text \<open>
  What the file system promises: an absolute path is only cleaned, a file that was written is there,
  and creating directories removes no file.
\<close>

definition fs_laws :: "'o osEnv \<Rightarrow> bool" where
  "fs_laws env \<longleftrightarrow>
     (\<forall>p w. isAbs p \<longrightarrow> os_Abs env p w = Inr (path_Clean p)) \<and>
     (\<forall>p d w. fst (os_WriteFile env p d w) = None \<longrightarrow> os_Stat env p (snd (os_WriteFile env p d w)) = None) \<and>
     (\<forall>p q w. os_Stat env p w = None \<longrightarrow> os_Stat env p (snd (os_MkdirAll env q w)) = None)"

lemma isAbs_nonempty: "isAbs p \<Longrightarrow> p \<noteq> []"
  by (auto simp: isAbs_def hasPrefix_def)

lemma absTarget_clean: "fs_laws env \<Longrightarrow> isAbs p \<Longrightarrow> absTarget env p w = path_Clean p"
  by (auto simp: absTarget_def fs_laws_def dest: isAbs_nonempty)

text \<open>A setup that finds the marker does nothing but make sure the directories are there.\<close>

lemma setup_skips:
  assumes "fs_laws env" and "isAbs p" and "os_Stat env (markerPath (path_Clean p)) w = None"
    and "fst (os_MkdirAll env (path_Clean p) w) = None"
  shows "SetupWorkspace env ws p goal w =
     ((Some \<lparr>sr_WorkspacePath = path_Clean p, sr_ClonedRepos = [], sr_SkillsMounted = [], sr_IsMaidenRun = False, sr_BootstrapRan = False\<rparr>, None),
      snd (os_MkdirAll env AXDir (snd (os_MkdirAll env (path_Clean p) w))))"
proof -
  have "os_Stat env (markerPath (path_Clean p)) (snd (os_MkdirAll env AXDir (snd (os_MkdirAll env (path_Clean p) w)))) = None"
    using assms(1,3) by (simp add: fs_laws_def)
  then show ?thesis using assms(4)
    by (cases "os_MkdirAll env (path_Clean p) w") (simp add: SetupWorkspace_def absTarget_clean [OF assms(1,2)] Let_def)
qed

text \<open>A maiden run that reports no error and every declared repository ends by writing the marker.\<close>

definition workspaceRepos :: "workspace option \<Rightarrow> string list" where
  "workspaceRepos ws = (case Option.bind ws wsp_Spec of None \<Rightarrow> [] | Some sp \<Rightarrow> declaredRepos (ws_Git sp))"

lemma setup_writes_marker:
  assumes "SetupWorkspace env ws p goal w = ((Some res, None), w1)" and "sr_IsMaidenRun res"
    and "sr_ClonedRepos res = workspaceRepos ws"
  shows "\<exists>w'. w1 = writeMarker env (markerPath (absTarget env p w)) ws w'"
proof -
  obtain e w2 where m: "os_MkdirAll env (absTarget env p w) w = (e, w2)" by fastforce
  let ?w3 = "snd (os_MkdirAll env AXDir w2)"
  show ?thesis
  proof (cases "Option.bind ws wsp_Spec")
    case None
    with assms m show ?thesis
      by (auto simp: SetupWorkspace_def Let_def split: option.splits if_splits prod.splits)
  next
    case (Some spec)
    obtain cl ok w4 where c: "cloneRepos env (ws_Git spec) (absTarget env p w) ?w3 = ((cl, ok), w4)" by (metis surj_pair)
    have r: "sr_ClonedRepos res = cl"
      using assms(1,2) m c Some by (auto simp: SetupWorkspace_def Let_def split: option.splits if_splits prod.splits)
    then have ok
      using cloneRepos_complete [OF c] assms(3) Some by (auto simp: workspaceRepos_def)
    with assms(1,2) m c Some show ?thesis
      by (auto simp: SetupWorkspace_def Let_def split: option.splits if_splits prod.splits)
  qed
qed

text \<open>C29: Setting a workspace up happens once. After a maiden run without error that cloned every declared
  repository and could write its marker, setting up the same path again, for any workspace and goal,
  fetches nothing, runs no bootstrap and reports that it was not the maiden run.
\<close>

theorem setup_once:
  assumes "fs_laws env" and "\<forall>q d v. fst (os_WriteFile env q d v) = None" and "isAbs p"
    and "SetupWorkspace env ws p goal w = ((Some res, None), w1)" and "sr_IsMaidenRun res"
    and "sr_ClonedRepos res = workspaceRepos ws" and "fst (os_MkdirAll env (path_Clean p) w1) = None"
  shows "\<exists>res2. SetupWorkspace env ws' p goal' w1 =
      ((Some res2, None), snd (os_MkdirAll env AXDir (snd (os_MkdirAll env (path_Clean p) w1)))) \<and>
    \<not> sr_IsMaidenRun res2 \<and> sr_ClonedRepos res2 = [] \<and> \<not> sr_BootstrapRan res2"
proof -
  obtain w' where w': "w1 = writeMarker env (markerPath (path_Clean p)) ws w'"
    using setup_writes_marker [OF assms(4-6)] by (auto simp: absTarget_clean [OF assms(1,3)])
  have "os_Stat env (markerPath (path_Clean p)) w1 = None"
    unfolding w' writeMarker_def Let_def using assms(1,2) by (simp add: fs_laws_def)
  from setup_skips [OF assms(1,3) this assms(7)] show ?thesis by auto
qed

text \<open>A file system that remembers which files were written.\<close>

definition rememberOs :: "string list osEnv" where
  "rememberOs = \<lparr>os_Abs = (\<lambda>p _. Inr (path_Clean p)), os_MkdirAll = (\<lambda>_ w. (None, w)),
     os_Stat = (\<lambda>p w. if p \<in> set w then None else Some (ENew ''no such file'')),
     os_WriteFile = (\<lambda>p _ w. (None, p # w)), os_Getenv = (\<lambda>_ _. []), os_Git = (\<lambda>_ _ w. (([], None), w)), os_After = (\<lambda>_ w. (None, w)),
     os_Python = (\<lambda>_ _ _ w. (None, w)), os_Shell = (\<lambda>_ c _ w. (([c], None), w)), os_Timestamp = (\<lambda>_. []), os_ParseDuration = (\<lambda>_. None),
     os_ParseModel = (\<lambda>_. Inl (ENew [])), os_ParseCommand = (\<lambda>c. Inr c), os_kube = exampleKube,
     os_model = offlineModel\<rparr>"

definition exampleWorkspace :: workspace where
  "exampleWorkspace = \<lparr>wsp_ApiVersion = [], wsp_Kind = [], wsp_Metadata = Some (emptyMeta\<lparr>meta_Name := ''code''\<rparr>),
     wsp_Spec = Some \<lparr>ws_Git = [Some \<lparr>git_Name = [], git_Repo = ''https://h/x/repo.git'', git_Branch = [], git_Dir = [], git_Depth = 1\<rparr>],
       ws_Mcp = None, ws_Skills = None\<rparr>\<rparr>"

lemma rememberOs_laws: "fs_laws rememberOs"
  by (simp add: fs_laws_def rememberOs_def)

theorem setup_once_witness:
  "\<exists>w1 res2 w2. SetupWorkspace rememberOs (Some exampleWorkspace) ''/work'' [] [] = ((fst (fst (SetupWorkspace rememberOs (Some exampleWorkspace) ''/work'' [] [])), None), w1) \<and>
    SetupWorkspace rememberOs None ''/work'' ''goal'' w1 = ((Some res2, None), w2) \<and> \<not> sr_IsMaidenRun res2"
proof -
  let ?run = "SetupWorkspace rememberOs (Some exampleWorkspace) ''/work'' [] []"
  have e: "case ?run of ((Some res, None), w1) \<Rightarrow> sr_IsMaidenRun res \<and> sr_ClonedRepos res = workspaceRepos (Some exampleWorkspace) | _ \<Rightarrow> False"
    by code_simp
  then obtain res w1 where r: "?run = ((Some res, None), w1)" "sr_IsMaidenRun res" "sr_ClonedRepos res = workspaceRepos (Some exampleWorkspace)"
    by (auto split: prod.splits option.splits)
  have a: "isAbs ''/work''" by code_simp
  have "\<forall>q d v. fst (os_WriteFile rememberOs q d v) = None" "fst (os_MkdirAll rememberOs (path_Clean ''/work'') w1) = None"
    by (simp_all add: rememberOs_def)
  from setup_once [OF rememberOs_laws this(1) a r this(2), of None "''goal''"] r show ?thesis by auto
qed

definition collidingTask :: task where
  "collidingTask = exampleTask\<lparr>task_Spec := Some (emptySpec\<lparr>ts_Workspaces :=
     [Some \<lparr>wref_Name = ''one'', wref_Path = ''/work/a'', wref_Goal = []\<rparr>,
      Some \<lparr>wref_Name = ''two'', wref_Path = ''/work-a'', wref_Goal = []\<rparr>]\<rparr>)\<rparr>"

text \<open>Two workspaces of one task can share a marker. A task that validation accepts can bind two
  workspaces at different paths whose markers have the same name; once the first is set up, the
  setup of the second is skipped and its repositories are never fetched.
\<close>

theorem marker_collision:
  "ValidateTask collidingTask = None \<and> WorkspacePaths (task_Spec collidingTask) = [''/work/a'', ''/work-a''] \<and>
   fst (SetupWorkspace rememberOs (Some exampleWorkspace) ''/work-a'' []
     (snd (SetupWorkspace rememberOs None ''/work/a'' [] []))) =
   (Some \<lparr>sr_WorkspacePath = ''/work-a'', sr_ClonedRepos = [], sr_SkillsMounted = [], sr_IsMaidenRun = False, sr_BootstrapRan = False\<rparr>, None)"
  by code_simp

end
