(* ===== verification/Tunnel.thy ===== *)
theory Tunnel
  imports Workspace_Setup "HOL-Library.Countable"
begin

text \<open>
  \<open>internal/tunnel\<close>: how the command line finds its server. \<open>CurrentContext\<close> (\<open>context.go\<close>)
  names the Kubernetes context; \<open>EnsureServerURL\<close> (\<open>tunnel.go\<close>) reuses the tunnel recorded for
  it or starts a \<open>kubectl port-forward\<close>, reads the local port out of its log and records it; and
  \<open>PortForward\<close> starts one for the time of a command. Files, processes, the clock and HTTP are the
  record \<open>tunEnv\<close> of calls on a world \<open>'o\<close>; the regular expression is written out. The two polling
  loops carry a number of rounds that is shown to be enough when sleeping advances the clock.
\<close>

section \<open>The world\<close>

record tunnelInfo =
  ti_Context :: string
  ti_Namespace :: string
  ti_Service :: string
  ti_Port :: int
  ti_PID :: int
  ti_CreatedAt :: int

record tunOptions =
  to_ServerURL :: string
  to_Context :: string
  to_Namespace :: string
  to_Service :: string
  to_Target :: string
  to_Port :: int

record 'o tunEnv =
  tn_Getenv :: "string \<Rightarrow> 'o \<Rightarrow> string"
  tn_HomeDir :: "'o \<Rightarrow> error + string"
  tn_MkdirAll :: "string \<Rightarrow> 'o \<Rightarrow> error option \<times> 'o"
  tn_ReadFile :: "string \<Rightarrow> 'o \<Rightarrow> error + string"
  tn_WriteFile :: "string \<Rightarrow> string \<Rightarrow> 'o \<Rightarrow> error option \<times> 'o"
  tn_Remove :: "string \<Rightarrow> 'o \<Rightarrow> 'o"
  tn_ReadDir :: "string \<Rightarrow> 'o \<Rightarrow> error + (string \<times> bool) list"   \<comment> \<open>names, and whether each is a directory\<close>
  tn_OpenLog :: "string \<Rightarrow> 'o \<Rightarrow> error option \<times> 'o"
  tn_Kubectl :: "string list \<Rightarrow> string \<Rightarrow> 'o \<Rightarrow> (error + int) \<times> 'o"   \<comment> \<open>arguments, log file; the process id\<close>
  tn_Output :: "string list \<Rightarrow> 'o \<Rightarrow> string \<times> error option"
  tn_Signal :: "int \<Rightarrow> int \<Rightarrow> 'o \<Rightarrow> error option \<times> 'o"   \<comment> \<open>process id, signal\<close>
  tn_Get :: "string \<Rightarrow> 'o \<Rightarrow> (error + int) \<times> 'o"   \<comment> \<open>the status of an HTTP GET\<close>
  tn_Now :: "'o \<Rightarrow> int"
  tn_Sleep :: "int \<Rightarrow> 'o \<Rightarrow> 'o"
  tn_Marshal :: "tunnelInfo \<Rightarrow> error + string"
  tn_Unmarshal :: "string \<Rightarrow> error + tunnelInfo"
  tn_KubeConfig :: "string \<Rightarrow> error + string"   \<comment> \<open>the current context of a parsed kubeconfig\<close>

definition SIGKILL :: int where "SIGKILL = 9"
definition SIGTERM :: int where "SIGTERM = 15"
definition millisecond :: int where "millisecond = 1000000"

section \<open>The context\<close>

definition kubeconfigPath :: "'o tunEnv \<Rightarrow> 'o \<Rightarrow> string" where
  "kubeconfigPath env w =
     (let p = tn_Getenv env ''KUBECONFIG'' w in
      if p \<noteq> [] then p
      else case tn_HomeDir env w of Inl _ \<Rightarrow> [] | Inr home \<Rightarrow> path_Join [home, ''.kube'', ''config''])"

text \<open>The context, and the error of \<open>kubectl\<close> when none was found.\<close>

definition CurrentContext :: "'o tunEnv \<Rightarrow> string \<Rightarrow> 'o \<Rightarrow> string \<times> error option" where
  "CurrentContext env override w =
     (if override \<noteq> [] then (override, None)
      else if tn_Getenv env ''KUBECONTEXT'' w \<noteq> [] then (tn_Getenv env ''KUBECONTEXT'' w, None)
      else
        let path = kubeconfigPath env w;
            fast = (if path \<noteq> [] \<and> \<not> strContains path '':''
                    then (case tn_ReadFile env path w of
                            Inl _ \<Rightarrow> []
                          | Inr dat \<Rightarrow> (case tn_KubeConfig env dat of Inl _ \<Rightarrow> [] | Inr c \<Rightarrow> c))
                    else [])
        in if fast \<noteq> [] then (fast, None)
           else case tn_Output env [''config'', ''current-context''] w of
                  (out, None) \<Rightarrow> (trimSpace out, None)
                | (_, Some e) \<Rightarrow> ([], Some e))"

section \<open>The state files\<close>

definition nameChar :: "char \<Rightarrow> bool" where
  "nameChar c \<longleftrightarrow> (let n = (of_char c :: nat) in
     (97 \<le> n \<and> n \<le> 122) \<or> (65 \<le> n \<and> n \<le> 90) \<or> (48 \<le> n \<and> n \<le> 57) \<or> c = CHR ''-'' \<or> c = CHR ''_'')"

text \<open>
  Ranging over a string yields its runes: \<open>runeWidth\<close> is the number of bytes of the first one, by the
  table of well-formed UTF-8 sequences; a byte that starts none of them counts as a rune of its own.
\<close>

definition byteIn :: "nat \<Rightarrow> nat \<Rightarrow> string \<Rightarrow> nat \<Rightarrow> bool" where
  "byteIn lo hi s i \<longleftrightarrow> i < length s \<and> lo \<le> of_char (s ! i) \<and> of_char (s ! i) \<le> hi"

definition runeWidth :: "string \<Rightarrow> nat" where
  "runeWidth s =
     (let b = (\<lambda>lo hi. byteIn lo hi s 0); c = byteIn 0x80 0xBF s in
      if b 0xC2 0xDF \<and> c 1 then 2
      else if (b 0xE0 0xE0 \<and> byteIn 0xA0 0xBF s 1 \<or> b 0xED 0xED \<and> byteIn 0x80 0x9F s 1 \<or>
               (b 0xE1 0xEC \<or> b 0xEE 0xEF) \<and> c 1) \<and> c 2 then 3
      else if (b 0xF0 0xF0 \<and> byteIn 0x90 0xBF s 1 \<or> b 0xF4 0xF4 \<and> byteIn 0x80 0x8F s 1 \<or>
               b 0xF1 0xF3 \<and> c 1) \<and> c 2 \<and> c 3 then 4
      else 1)"

fun runes :: "string \<Rightarrow> string list" where
  "runes [] = []"
| "runes (c # cs) =
     (let n = runeWidth (c # cs) - 1 in (c # take n cs) # runes (drop n cs))"

text \<open>A rune of one byte that may stand in the name is kept; every other rune becomes one underscore.\<close>

definition nameRune :: "string \<Rightarrow> char" where
  "nameRune r = (case r of [c] \<Rightarrow> if nameChar c then c else CHR ''_'' | _ \<Rightarrow> CHR ''_'')"

definition SanitizeContext :: "string \<Rightarrow> string" where
  "SanitizeContext name = (let s = map nameRune (runes name) in if s = [] then ''default'' else s)"

lemma concat_runes: "concat (runes s) = s"
  by (induction s rule: runes.induct) (simp_all add: Let_def)

lemma runes_ascii: "list_all (\<lambda>c. (of_char c :: nat) < 0x80) s \<Longrightarrow> runes s = map (\<lambda>c. [c]) s"
  by (induction s) (simp_all add: runeWidth_def byteIn_def Let_def)

text \<open>A file name made from a context has no separator and no dot, whatever the context is called.\<close>

lemma SanitizeContext_chars: "list_all nameChar (SanitizeContext name)"
proof -
  have "nameChar (nameRune r)" for r by (simp add: nameRune_def nameChar_def split: list.split)
  moreover have "list_all nameChar ''default''" by (simp add: nameChar_def)
  ultimately show ?thesis by (simp add: SanitizeContext_def Let_def list_all_iff)
qed

text \<open>An umlaut of two bytes, and a byte that starts no rune.\<close>

lemma SanitizeContext_umlaut: "SanitizeContext [CHR ''b'', CHR 0xC3, CHR 0xBC, CHR ''1'', CHR 0xFF] = ''b_1_''"
  by code_simp

definition TunnelDir :: "'o tunEnv \<Rightarrow> 'o \<Rightarrow> (error + string) \<times> 'o" where
  "TunnelDir env w =
     (let make = (\<lambda>p. case tn_MkdirAll env p w of (Some e, w1) \<Rightarrow> (Inl e, w1) | (None, w1) \<Rightarrow> (Inr p, w1));
          dir = tn_Getenv env ''AX_HOME'' w
      in if dir \<noteq> [] then make (path_Join [dir, ''tunnels''])
         else case tn_HomeDir env w of
                Inl e \<Rightarrow> (Inl e, w)
              | Inr home \<Rightarrow> make (path_Join [home, ''.ax'', ''tunnels'']))"

definition statePath :: "string \<Rightarrow> string \<Rightarrow> string" where
  "statePath dir ctxName = path_Join [dir, SanitizeContext ctxName @ ''.json'']"

definition GetTunnel :: "'o tunEnv \<Rightarrow> string \<Rightarrow> 'o \<Rightarrow> (error + tunnelInfo) \<times> 'o" where
  "GetTunnel env ctxName w =
     (case TunnelDir env w of
        (Inl e, w1) \<Rightarrow> (Inl e, w1)
      | (Inr dir, w1) \<Rightarrow>
          (case tn_ReadFile env (statePath dir ctxName) w1 of
             Inl e \<Rightarrow> (Inl e, w1)
           | Inr dat \<Rightarrow> (tn_Unmarshal env dat, w1)))"

definition SaveTunnel :: "'o tunEnv \<Rightarrow> tunnelInfo \<Rightarrow> 'o \<Rightarrow> error option \<times> 'o" where
  "SaveTunnel env info w =
     (case TunnelDir env w of
        (Inl e, w1) \<Rightarrow> (Some e, w1)
      | (Inr dir, w1) \<Rightarrow>
          (case tn_Marshal env info of
             Inl e \<Rightarrow> (Some e, w1)
           | Inr dat \<Rightarrow> tn_WriteFile env (statePath dir (ti_Context info)) dat w1))"

definition StopTunnel :: "'o tunEnv \<Rightarrow> tunnelInfo option \<Rightarrow> 'o \<Rightarrow> 'o" where
  "StopTunnel env info w =
     (case info of
        None \<Rightarrow> w
      | Some i \<Rightarrow>
          let w1 = (if ti_PID i > 0
                    then snd (tn_Signal env (ti_PID i) SIGTERM (snd (tn_Signal env (- ti_PID i) SIGTERM w))) else w)
          in case TunnelDir env w1 of
               (Inl _, w2) \<Rightarrow> w2
             | (Inr dir, w2) \<Rightarrow> tn_Remove env (statePath dir (ti_Context i)) w2)"

definition StopTunnelByContext :: "'o tunEnv \<Rightarrow> string \<Rightarrow> 'o \<Rightarrow> error option \<times> 'o" where
  "StopTunnelByContext env ctxName w =
     (case GetTunnel env ctxName w of
        (Inl e, w1) \<Rightarrow> (Some e, w1)
      | (Inr info, w1) \<Rightarrow> (None, StopTunnel env (Some info) w1))"

text \<open>The records of the entries that are JSON files and can be read and decoded.\<close>

fun readTunnels :: "'o tunEnv \<Rightarrow> string \<Rightarrow> (string \<times> bool) list \<Rightarrow> 'o \<Rightarrow> tunnelInfo list" where
  "readTunnels env dir [] w = []"
| "readTunnels env dir ((name, isDir) # entries) w =
     (if isDir \<or> \<not> hasSuffix name ''.json'' then readTunnels env dir entries w
      else case tn_ReadFile env (path_Join [dir, name]) w of
             Inl _ \<Rightarrow> readTunnels env dir entries w
           | Inr dat \<Rightarrow>
               (case tn_Unmarshal env dat of
                  Inl _ \<Rightarrow> readTunnels env dir entries w
                | Inr info \<Rightarrow> info # readTunnels env dir entries w))"

definition ListTunnels :: "'o tunEnv \<Rightarrow> 'o \<Rightarrow> (error + tunnelInfo list) \<times> 'o" where
  "ListTunnels env w =
     (case TunnelDir env w of
        (Inl e, w1) \<Rightarrow> (Inl e, w1)
      | (Inr dir, w1) \<Rightarrow>
          (case tn_ReadDir env dir w1 of
             Inl e \<Rightarrow> (Inl e, w1)
           | Inr entries \<Rightarrow> (Inr (readTunnels env dir entries w1), w1)))"

definition localURL :: "int \<Rightarrow> string" where
  "localURL port = ''http://127.0.0.1:'' @ itoa port"

definition IsTunnelHealthy :: "'o tunEnv \<Rightarrow> int \<Rightarrow> 'o \<Rightarrow> bool \<times> 'o" where
  "IsTunnelHealthy env port w =
     (if port \<le> 0 then (False, w)
      else case tn_Get env (localURL port @ ''/healthz'') w of
             (Inl _, w1) \<Rightarrow> (False, w1)
           | (Inr st, w1) \<Rightarrow> (st = 200, w1))"

section \<open>The port in the log\<close>

text \<open>
  \<open>Forwarding from .*:(\d+)\s+->\<close>. \<open>portAt\<close> matches from the colon on; \<open>greedyDot\<close> tries the longest
  run of characters of the line first; \<open>findForward\<close> takes the leftmost match.
\<close>

definition reSpace :: "char \<Rightarrow> bool" where
  "reSpace c \<longleftrightarrow> c \<in> {CHR '' '', CHR 0x09, CHR 0x0A, CHR 0x0C, CHR 0x0D}"

definition portAt :: "string \<Rightarrow> string option" where
  "portAt s =
     (let ds = takeWhile isDigit (tl s); rest = dropWhile isDigit (tl s) in
      if take 1 s = '':'' \<and> ds \<noteq> [] \<and> takeWhile reSpace rest \<noteq> [] \<and> hasPrefix (dropWhile reSpace rest) ''->''
      then Some ds else None)"

fun greedyDot :: "string \<Rightarrow> string option" where
  "greedyDot [] = None"
| "greedyDot (c # cs) =
     (case (if c = CHR 0x0A then None else greedyDot cs) of
        Some ds \<Rightarrow> Some ds
      | None \<Rightarrow> portAt (c # cs))"

fun findForward :: "string \<Rightarrow> string option" where
  "findForward [] = None"
| "findForward (c # cs) =
     (case (if hasPrefix (c # cs) ''Forwarding from '' then greedyDot (drop 16 (c # cs)) else None) of
        Some ds \<Rightarrow> Some ds
      | None \<Rightarrow> findForward cs)"

definition forwardedPort :: "string \<Rightarrow> int option" where
  "forwardedPort log =
     (case findForward log of
        None \<Rightarrow> None
      | Some ds \<Rightarrow> (case atoi ds of None \<Rightarrow> None | Some p \<Rightarrow> if p > 0 then Some p else None))"

section \<open>The server's URL\<close>

text \<open>
  Waiting for the port: the port found, 0 when the deadline passed, an error when \<open>kubectl\<close> ended;
  None when the rounds are used up.
\<close>

fun awaitPort :: "'o tunEnv \<Rightarrow> string \<Rightarrow> string \<Rightarrow> int \<Rightarrow> int \<Rightarrow> nat \<Rightarrow> 'o \<Rightarrow> (error + int) option \<times> 'o" where
  "awaitPort env ctxName logPath pid deadline 0 w = (None, w)"
| "awaitPort env ctxName logPath pid deadline (Suc k) w =
     (if \<not> tn_Now env w < deadline then (Some (Inr 0), w)
      else
        let w1 = tn_Sleep env (50 * millisecond) w in
        case tn_ReadFile env logPath w1 of
          Inl _ \<Rightarrow> awaitPort env ctxName logPath pid deadline k w1
        | Inr logData \<Rightarrow>
            (case forwardedPort logData of
               Some p \<Rightarrow> (Some (Inr p), w1)
             | None \<Rightarrow>
                 (case tn_Signal env pid 0 w1 of
                    (Some _, w2) \<Rightarrow>
                      (Some (Inl (ENew (''kubectl port-forward exited for context '' @ quote ctxName @ '': '' @ trimSpace logData))), w2)
                  | (None, w2) \<Rightarrow> awaitPort env ctxName logPath pid deadline k w2)))"

fun awaitHealthy :: "'o tunEnv \<Rightarrow> int \<Rightarrow> int \<Rightarrow> nat \<Rightarrow> 'o \<Rightarrow> bool option \<times> 'o" where
  "awaitHealthy env port deadline 0 w = (None, w)"
| "awaitHealthy env port deadline (Suc k) w =
     (if \<not> tn_Now env w < deadline then (Some False, w)
      else case IsTunnelHealthy env port w of
             (True, w1) \<Rightarrow> (Some True, w1)
           | (False, w1) \<Rightarrow> awaitHealthy env port deadline k (tn_Sleep env (100 * millisecond) w1))"

text \<open>Five seconds in steps of 50 milliseconds, three in steps of 100, and the look at the clock that ends each.\<close>

definition portRounds :: nat where "portRounds = 101"
definition healthRounds :: nat where "healthRounds = 31"

definition ensureDefaults :: "'o tunEnv \<Rightarrow> tunOptions \<Rightarrow> 'o \<Rightarrow> tunOptions" where
  "ensureDefaults env opts w =
     (let ns = (if to_Namespace opts \<noteq> [] then to_Namespace opts
                else if tn_Getenv env ''AX_SYSTEM_NAMESPACE'' w \<noteq> [] then tn_Getenv env ''AX_SYSTEM_NAMESPACE'' w
                else ''ax-system'')
      in opts\<lparr>to_Namespace := ns, to_Service := (if to_Service opts = [] then ''ax-server'' else to_Service opts),
              to_Port := (if to_Port opts = 0 then 8080 else to_Port opts)\<rparr>)"

definition kubectlArgs :: "string \<Rightarrow> tunOptions \<Rightarrow> string list" where
  "kubectlArgs ctxName opts =
     (if ctxName \<noteq> [] then [''--context'', ctxName] else []) @
     [''port-forward'', ''-n'', to_Namespace opts, (if to_Target opts \<noteq> [] then to_Target opts else ''svc/'' @ to_Service opts),
      '':'' @ itoa (to_Port opts)]"

text \<open>From a running \<open>kubectl\<close> to the recorded tunnel.\<close>

definition finishTunnel ::
  "'o tunEnv \<Rightarrow> string \<Rightarrow> tunOptions \<Rightarrow> string \<Rightarrow> int \<Rightarrow> 'o \<Rightarrow> (error + string) option \<times> 'o" where
  "finishTunnel env ctxName opts logPath pid w =
     (case awaitPort env ctxName logPath pid (tn_Now env w + 5 * 1000 * millisecond) portRounds w of
        (None, w1) \<Rightarrow> (None, w1)
      | (Some (Inl e), w1) \<Rightarrow> (Some (Inl e), w1)
      | (Some (Inr localPort), w1) \<Rightarrow>
          if localPort = 0 then
            (let w2 = snd (tn_Signal env pid SIGKILL w1);
                 logData = (case tn_ReadFile env logPath w2 of Inl _ \<Rightarrow> [] | Inr d \<Rightarrow> d)
             in (Some (Inl (ENew (''timeout waiting for kubectl port-forward on context '' @ quote ctxName @ '': '' @ trimSpace logData))), w2))
          else
            (case awaitHealthy env localPort (tn_Now env w1 + 3 * 1000 * millisecond) healthRounds w1 of
               (None, w2) \<Rightarrow> (None, w2)
             | (Some False, w2) \<Rightarrow>
                 (Some (Inl (ENew (''tunnel started on port '' @ itoa localPort @ '' but health check failed for context '' @ quote ctxName))),
                  snd (tn_Signal env pid SIGKILL w2))
             | (Some True, w2) \<Rightarrow>
                 (Some (Inr (localURL localPort)),
                  snd (SaveTunnel env \<lparr>ti_Context = ctxName, ti_Namespace = to_Namespace opts, ti_Service = to_Service opts,
                    ti_Port = localPort, ti_PID = pid, ti_CreatedAt = tn_Now env w2\<rparr> w2))))"

definition startTunnel :: "'o tunEnv \<Rightarrow> string \<Rightarrow> tunOptions \<Rightarrow> 'o \<Rightarrow> (error + string) option \<times> 'o" where
  "startTunnel env ctxName opts w =
     (case TunnelDir env w of
        (Inl e, w1) \<Rightarrow> (Some (Inl (EWrap ''creating tunnel directory'' e)), w1)
      | (Inr dir, w1) \<Rightarrow>
          (let logPath = path_Join [dir, SanitizeContext ctxName @ ''.log''] in
           case tn_OpenLog env logPath w1 of
             (Some e, w2) \<Rightarrow> (Some (Inl (EWrap ''opening tunnel log'' e)), w2)
           | (None, w2) \<Rightarrow>
               (case tn_Kubectl env (kubectlArgs ctxName opts) logPath w2 of
                  (Inl e, w3) \<Rightarrow> (Some (Inl (EWrap (''spawning kubectl port-forward for context '' @ quote ctxName) e)), w3)
                | (Inr pid, w3) \<Rightarrow> finishTunnel env ctxName opts logPath pid w3)))"

definition EnsureServerURL :: "'o tunEnv \<Rightarrow> tunOptions \<Rightarrow> 'o \<Rightarrow> (error + string) option \<times> 'o" where
  "EnsureServerURL env opts0 w =
     (if to_ServerURL opts0 \<noteq> [] then (Some (Inr (to_ServerURL opts0)), w)
      else if tn_Getenv env ''AX_SERVER'' w \<noteq> [] then (Some (Inr (tn_Getenv env ''AX_SERVER'' w)), w)
      else
        let (ctxName, e) = CurrentContext env (to_Context opts0) w in
        if e \<noteq> None \<or> ctxName = [] then (Some (Inr ''http://localhost:8080''), w)
        else
          let opts = ensureDefaults env opts0 w in
          case GetTunnel env ctxName w of
            (Inl _, w1) \<Rightarrow> startTunnel env ctxName opts w1
          | (Inr existing, w1) \<Rightarrow>
              (case IsTunnelHealthy env (ti_Port existing) w1 of
                 (True, w2) \<Rightarrow> (Some (Inr (localURL (ti_Port existing))), w2)
               | (False, w2) \<Rightarrow> startTunnel env ctxName opts (StopTunnel env (Some existing) w2)))"

section \<open>A port-forward for one command\<close>

text \<open>
  The goroutine that reads \<open>kubectl\<close>'s output: after every chunk it searches all output so far and
  sends the port it finds. The channel has one slot and is received from once, so two sends go
  through and a third blocks for good. The result is the ports sent, the output read, and the
  chunks never read when it is blocked (None when it reached the end of the output).
\<close>

fun pumpOutput :: "nat \<Rightarrow> string \<Rightarrow> string list \<Rightarrow> int list \<times> string \<times> string list option" where
  "pumpOutput room output [] = ([], output, None)"
| "pumpOutput room output (buf # bufs) =
     (let output' = output @ buf in
      case (if buf = [] then None else forwardedPort output') of
        None \<Rightarrow> pumpOutput room output' bufs
      | Some p \<Rightarrow>
          (case room of
             0 \<Rightarrow> ([], output', Some bufs)
           | Suc r \<Rightarrow> (let (ps, out, stuck) = pumpOutput r output' bufs in (p # ps, out, stuck))))"

definition portSlots :: nat where "portSlots = 2"

text \<open>Which branch of the \<open>select\<close> is taken, and the world it leaves.\<close>

datatype pfChoice = PfPort | PfExit | PfTimeout | PfDone error

record 'o pfEnv =
  pf_tun :: "'o tunEnv"
  pf_Pipe :: "'o \<Rightarrow> error option"
  pf_Start :: "string list \<Rightarrow> 'o \<Rightarrow> (error + int) \<times> 'o"
  pf_Output :: "'o \<Rightarrow> string list"
  pf_Select :: "'o \<Rightarrow> pfChoice"

definition portForwardArgs :: "string \<Rightarrow> string \<Rightarrow> string \<Rightarrow> int \<Rightarrow> string list" where
  "portForwardArgs ctxName namespace targetResource remotePort =
     (if ctxName \<noteq> [] then [''--context'', ctxName] else []) @ (if namespace \<noteq> [] then [''-n'', namespace] else []) @
     [''port-forward'', targetResource, '':'' @ itoa remotePort]"

definition pf_cleanup :: "'o pfEnv \<Rightarrow> int \<Rightarrow> 'o \<Rightarrow> 'o" where
  "pf_cleanup env pid w = snd (tn_Signal (pf_tun env) pid SIGKILL (snd (tn_Signal (pf_tun env) (- pid) SIGTERM w)))"

text \<open>The local port and the process to clean up, or the error; a branch that cannot be ready is None.\<close>

definition PortForward ::
  "'o pfEnv \<Rightarrow> string \<Rightarrow> string \<Rightarrow> string \<Rightarrow> int \<Rightarrow> 'o \<Rightarrow> (error + int \<times> int) option \<times> 'o" where
  "PortForward env kubeContext namespace targetResource remotePort w =
     (let (ctx0, e) = CurrentContext (pf_tun env) kubeContext w;
          ctxName = (if e \<noteq> None then [] else ctx0)
      in case pf_Pipe env w of
           Some e \<Rightarrow> (Some (Inl (EWrap ''creating pipe'' e)), w)
         | None \<Rightarrow>
             (case pf_Start env (portForwardArgs ctxName namespace targetResource remotePort) w of
                (Inl e, w1) \<Rightarrow> (Some (Inl (EWrap (''spawning kubectl port-forward for '' @ targetResource) e)), w1)
              | (Inr pid, w1) \<Rightarrow>
                  (let (ports, output, stuck) = pumpOutput portSlots [] (pf_Output env w1) in
                   case pf_Select env w1 of
                     PfPort \<Rightarrow> (case ports of [] \<Rightarrow> (None, w1) | p # _ \<Rightarrow> (Some (Inr (p, pid)), w1))
                   | PfExit \<Rightarrow>
                       (if stuck = None
                        then (Some (Inl (ENew (''kubectl port-forward exited: '' @ trimSpace output))), pf_cleanup env pid w1)
                        else (None, w1))
                   | PfTimeout \<Rightarrow>
                       (Some (Inl (ENew (''timed out waiting for port-forward to '' @ targetResource))), pf_cleanup env pid w1)
                   | PfDone e \<Rightarrow> (Some (Inl e), pf_cleanup env pid w1))))"

section \<open>The polling ends\<close>

text \<open>Sleeping takes at least its time, and no call turns the clock back.\<close>

definition clock_laws :: "'o tunEnv \<Rightarrow> bool" where
  "clock_laws env \<longleftrightarrow>
     (\<forall>d w. tn_Now env w + d \<le> tn_Now env (tn_Sleep env d w)) \<and>
     (\<forall>p s w. tn_Now env w \<le> tn_Now env (snd (tn_Signal env p s w))) \<and>
     (\<forall>u w. tn_Now env w \<le> tn_Now env (snd (tn_Get env u w)))"

lemma awaitPort_returns:
  assumes "clock_laws env"
  shows "deadline \<le> tn_Now env w + int k * (50 * millisecond) \<Longrightarrow>
    fst (awaitPort env ctxName logPath pid deadline (Suc k) w) \<noteq> None"
proof (induction k arbitrary: w)
  case (Suc k)
  let ?w1 = "tn_Sleep env (50 * millisecond) w"
  have "deadline \<le> tn_Now env ?w1 + int k * (50 * millisecond)"
    using Suc.prems assms unfolding clock_laws_def by (simp add: algebra_simps) (smt (verit))
  moreover have "tn_Now env ?w1 \<le> tn_Now env (snd (tn_Signal env pid 0 ?w1))"
    using assms by (simp add: clock_laws_def)
  ultimately have ih: "fst (awaitPort env ctxName logPath pid deadline (Suc k) ?w1) \<noteq> None"
    "fst (awaitPort env ctxName logPath pid deadline (Suc k) (snd (tn_Signal env pid 0 ?w1))) \<noteq> None"
    by (intro Suc.IH; linarith)+
  have step: "awaitPort env ctxName logPath pid deadline (Suc (Suc k)) w =
     (if \<not> tn_Now env w < deadline then (Some (Inr 0), w)
      else case tn_ReadFile env logPath ?w1 of
          Inl _ \<Rightarrow> awaitPort env ctxName logPath pid deadline (Suc k) ?w1
        | Inr logData \<Rightarrow>
            (case forwardedPort logData of
               Some p \<Rightarrow> (Some (Inr p), ?w1)
             | None \<Rightarrow>
                 (case tn_Signal env pid 0 ?w1 of
                    (Some _, w2) \<Rightarrow>
                      (Some (Inl (ENew (''kubectl port-forward exited for context '' @ quote ctxName @ '': '' @ trimSpace logData))), w2)
                  | (None, w2) \<Rightarrow> awaitPort env ctxName logPath pid deadline (Suc k) w2)))"
    by (subst awaitPort.simps) (simp only: Let_def)
  show ?case unfolding step using ih
    by (auto simp del: awaitPort.simps split: sum.split option.split prod.split)
qed simp

lemma healthy_clock: "clock_laws env \<Longrightarrow> tn_Now env w \<le> tn_Now env (snd (IsTunnelHealthy env p w))"
  by (auto simp: IsTunnelHealthy_def clock_laws_def split: prod.split sum.split) (metis snd_conv)+

lemma awaitHealthy_returns:
  assumes "clock_laws env"
  shows "deadline \<le> tn_Now env w + int k * (100 * millisecond) \<Longrightarrow> fst (awaitHealthy env port deadline (Suc k) w) \<noteq> None"
proof (induction k arbitrary: w)
  case 0
  then show ?case by simp
next
  case (Suc k)
  let ?w1 = "snd (IsTunnelHealthy env port w)"
  let ?w2 = "tn_Sleep env (100 * millisecond) ?w1"
  have "tn_Now env ?w1 + 100 * millisecond \<le> tn_Now env ?w2" using assms by (simp add: clock_laws_def)
  then have "deadline \<le> tn_Now env ?w2 + int k * (100 * millisecond)"
    using Suc.prems healthy_clock [OF assms, of w port] by (simp add: algebra_simps)
  from Suc.IH [OF this] show ?case
    by (subst awaitHealthy.simps) (auto simp del: awaitHealthy.simps split: prod.split bool.split)
qed

text \<open>C35: Finding the server ends. When sleeping takes its time and the clock does not go back, the two
  polling loops stop within their deadlines, whatever \<open>kubectl\<close>, the log and the health check do, so
  the call returns a URL or an error.\<close>

theorem ensure_returns:
  assumes "clock_laws env"
  shows "\<exists>r. fst (EnsureServerURL env opts w) = Some r"
proof -
  have f: "fst (finishTunnel env c o' l pid v) \<noteq> None" for c o' l pid v
  proof -
    let ?d = "tn_Now env v + 5 * 1000 * millisecond"
    have p: "fst (awaitPort env c l pid ?d portRounds v) \<noteq> None"
      using awaitPort_returns [OF assms, of ?d v 100 c l pid] by (simp add: portRounds_def eval_nat_numeral del: awaitPort.simps)
    have h: "fst (awaitHealthy env q (tn_Now env u + 3 * 1000 * millisecond) healthRounds u) \<noteq> None" for q u
      using awaitHealthy_returns [OF assms, of "tn_Now env u + 3 * 1000 * millisecond" u 30 q]
      by (simp add: healthRounds_def eval_nat_numeral del: awaitHealthy.simps)
    show ?thesis using p h
      by (auto simp: finishTunnel_def Let_def split: prod.split option.split sum.split bool.split)
        (metis fst_conv option.distinct(1))+
  qed
  have s: "fst (startTunnel env c o' v) \<noteq> None" for c o' v
    using f by (auto simp: startTunnel_def Let_def split: prod.split sum.split option.split)
  then have "fst (EnsureServerURL env opts w) \<noteq> None"
    by (auto simp: EnsureServerURL_def Let_def split: prod.split sum.split bool.split)
  then show ?thesis by auto
qed

section \<open>A recorded tunnel is found again\<close>

text \<open>
  What is relied on of files and encoding: a file that was written reads back; creating directories
  and HTTP requests change no file; the environment and the home directory stay; an encoded
  record decodes to one with the same port (of its strings, JSON replaces ill-formed UTF-8). \<open>tunnel_works\<close> says that nothing fails.
\<close>

definition tunnel_laws :: "'o tunEnv \<Rightarrow> bool" where
  "tunnel_laws env \<longleftrightarrow>
     (\<forall>p d w. fst (tn_WriteFile env p d w) = None \<longrightarrow> tn_ReadFile env p (snd (tn_WriteFile env p d w)) = Inr d) \<and>
     (\<forall>p q w. tn_ReadFile env p (snd (tn_MkdirAll env q w)) = tn_ReadFile env p w) \<and>
     (\<forall>p u w. tn_ReadFile env p (snd (tn_Get env u w)) = tn_ReadFile env p w) \<and>
     (\<forall>k q w. tn_Getenv env k (snd (tn_MkdirAll env q w)) = tn_Getenv env k w) \<and>
     (\<forall>k p d w. tn_Getenv env k (snd (tn_WriteFile env p d w)) = tn_Getenv env k w) \<and>
     (\<forall>k u w. tn_Getenv env k (snd (tn_Get env u w)) = tn_Getenv env k w) \<and>
     (\<forall>q w. tn_HomeDir env (snd (tn_MkdirAll env q w)) = tn_HomeDir env w) \<and>
     (\<forall>p d w. tn_HomeDir env (snd (tn_WriteFile env p d w)) = tn_HomeDir env w) \<and>
     (\<forall>u w. tn_HomeDir env (snd (tn_Get env u w)) = tn_HomeDir env w) \<and>
     (\<forall>i d. tn_Marshal env i = Inr d \<longrightarrow> (\<exists>j. tn_Unmarshal env d = Inr j \<and> ti_Port j = ti_Port i))"

definition tunnel_works :: "'o tunEnv \<Rightarrow> bool" where
  "tunnel_works env \<longleftrightarrow> (\<forall>q w. fst (tn_MkdirAll env q w) = None) \<and> (\<forall>p d w. fst (tn_WriteFile env p d w) = None) \<and>
     (\<forall>i. \<exists>d. tn_Marshal env i = Inr d) \<and> (\<forall>w. \<exists>h. tn_HomeDir env w = Inr h)"

definition dirPath :: "'o tunEnv \<Rightarrow> 'o \<Rightarrow> string" where
  "dirPath env w =
     (if tn_Getenv env ''AX_HOME'' w \<noteq> [] then path_Join [tn_Getenv env ''AX_HOME'' w, ''tunnels'']
      else path_Join [projr (tn_HomeDir env w), ''.ax'', ''tunnels''])"

lemma TunnelDir_works:
  assumes "tunnel_works env"
  shows "TunnelDir env w = (Inr (dirPath env w), snd (tn_MkdirAll env (dirPath env w) w))"
proof -
  from assms obtain h where "tn_HomeDir env w = Inr h" unfolding tunnel_works_def by blast
  moreover have "fst (tn_MkdirAll env q w) = None" for q using assms by (simp add: tunnel_works_def)
  then have "tn_MkdirAll env q w = (None, snd (tn_MkdirAll env q w))" for q by (metis prod.collapse)
  then have "(case tn_MkdirAll env q w of (Some e, w1) \<Rightarrow> (Inl e, w1) | (None, w1) \<Rightarrow> (Inr q, w1)) = (Inr q, snd (tn_MkdirAll env q w))"
    for q by (metis (no_types, lifting) case_prod_conv option.case(1))
  ultimately show ?thesis by (simp add: TunnelDir_def dirPath_def Let_def)
qed

lemma dirPath_stable:
  assumes "tunnel_laws env"
  shows "dirPath env (snd (tn_MkdirAll env q w)) = dirPath env w" "dirPath env (snd (tn_WriteFile env p d w)) = dirPath env w"
    "dirPath env (snd (tn_Get env u w)) = dirPath env w"
  using assms by (simp_all add: dirPath_def tunnel_laws_def)

lemma healthy_world: "snd (IsTunnelHealthy env p w) = w \<or> (\<exists>u. snd (IsTunnelHealthy env p w) = snd (tn_Get env u w))"
  by (auto simp: IsTunnelHealthy_def split: prod.split sum.split) (metis snd_conv)+

lemma GetTunnel_works:
  assumes "tunnel_laws env" "tunnel_works env"
  shows "GetTunnel env c w =
    ((case tn_ReadFile env (statePath (dirPath env w) c) w of Inl e \<Rightarrow> Inl e | Inr dat \<Rightarrow> tn_Unmarshal env dat),
     snd (tn_MkdirAll env (dirPath env w) w))"
  using assms(1) by (auto simp: GetTunnel_def TunnelDir_works [OF assms(2)] tunnel_laws_def split: sum.split)

lemma GetTunnel_again:
  assumes "tunnel_laws env" "tunnel_works env" "GetTunnel env c w = (Inr i, v)"
  shows "fst (GetTunnel env c (snd (IsTunnelHealthy env p v))) = Inr i"
proof -
  have v: "v = snd (tn_MkdirAll env (dirPath env w) w)" using assms by (simp add: GetTunnel_works)
  have "dirPath env (snd (IsTunnelHealthy env p v)) = dirPath env w"
    "tn_ReadFile env q (snd (IsTunnelHealthy env p v)) = tn_ReadFile env q w" for q
    using healthy_world [of env p v] dirPath_stable [OF assms(1)] assms(1) by (auto simp: v tunnel_laws_def)
  then show ?thesis using assms by (simp add: GetTunnel_works)
qed

text \<open>A lookup of the context of a saved tunnel returns a record of its port.\<close>

lemma save_get_tunnel:
  assumes "tunnel_laws env" "tunnel_works env"
  shows "\<exists>j. fst (GetTunnel env (ti_Context i) (snd (SaveTunnel env i w))) = Inr j \<and> ti_Port j = ti_Port i"
proof -
  obtain d where d: "tn_Marshal env i = Inr d" using assms(2) unfolding tunnel_works_def by blast
  then obtain j :: tunnelInfo where j: "tn_Unmarshal env d = Inr j" "ti_Port j = ti_Port i" using assms(1) unfolding tunnel_laws_def by metis
  let ?w1 = "snd (tn_MkdirAll env (dirPath env w) w)"
  let ?w2 = "snd (tn_WriteFile env (statePath (dirPath env w) (ti_Context i)) d ?w1)"
  have "snd (SaveTunnel env i w) = ?w2" by (simp add: SaveTunnel_def TunnelDir_works [OF assms(2)] d)
  moreover have "tn_ReadFile env (statePath (dirPath env w) (ti_Context i)) ?w2 = Inr d"
    using assms by (simp_all add: tunnel_laws_def tunnel_works_def)
  ultimately show ?thesis by (simp add: GetTunnel_works [OF assms] dirPath_stable [OF assms(1)] j)
qed

lemma startTunnel_saves:
  assumes "startTunnel env c opts w = (Some (Inr url), w1)"
  shows "\<exists>i v. w1 = snd (SaveTunnel env i v) \<and> ti_Context i = c \<and> url = localURL (ti_Port i)"
proof -
  have "\<exists>l pid v. finishTunnel env c opts l pid v = (Some (Inr url), w1)"
    using assms by (auto simp: startTunnel_def Let_def split: prod.splits sum.splits option.splits)
  then obtain l pid v where "finishTunnel env c opts l pid v = (Some (Inr url), w1)" by blast
  then show ?thesis
    by (auto simp: finishTunnel_def Let_def split: prod.splits sum.splits option.splits if_splits bool.splits)
qed

lemma GetTunnel_alias: "SanitizeContext c' = SanitizeContext c \<Longrightarrow> GetTunnel env c' w = GetTunnel env c w"
proof -
  assume "SanitizeContext c' = SanitizeContext c"
  then have "statePath dir c' = statePath dir c" for dir by (simp add: statePath_def)
  then show ?thesis by (simp add: GetTunnel_def split: prod.split sum.split)
qed

text \<open>C31: A recorded tunnel is used again by every context of the same file name. The conditions: both
  calls name their context explicitly and no server URL, neither in the options nor in \<open>AX_SERVER\<close>,
  and no file call, look-up of the home directory or encoding of a record fails (\<open>tunnel_works\<close>: the code
  ignores the error of \<open>SaveTunnel\<close>, and nothing would be recorded). After the first call has
  returned a URL, the record found under its context names the port of the URL. When that port
  answers the health check, a second call for any context whose name gives the same file name
  returns the same URL and does nothing but look the record up and check it, whatever namespace,
  service or port it asks for. For one and the same context this is the caching the code means to
  do; for two contexts such as \<open>prod.eu\<close> and \<open>prod_eu\<close>, which only \<open>SanitizeContext\<close> makes equal, it is a defect: the
  second is connected to the cluster of the first, against the README's promise that \<open>ax\<close> follows the
  active context to that cluster's control plane.\<close>

theorem ensure_reuses:
  assumes "tunnel_laws env" and "tunnel_works env"
    and "to_ServerURL opts = []" and "to_Context opts \<noteq> []" and "tn_Getenv env ''AX_SERVER'' w = []"
    and "EnsureServerURL env opts w = (Some (Inr url), w1)"
    and "to_ServerURL opts' = []" and "to_Context opts' \<noteq> []" and "tn_Getenv env ''AX_SERVER'' w1 = []"
    and "SanitizeContext (to_Context opts') = SanitizeContext (to_Context opts)"
  shows "\<exists>i. fst (GetTunnel env (to_Context opts) w1) = Inr i \<and> url = localURL (ti_Port i) \<and>
    (let check = IsTunnelHealthy env (ti_Port i) (snd (GetTunnel env (to_Context opts) w1)) in
     fst check \<longrightarrow> EnsureServerURL env opts' w1 = (Some (Inr url), snd check))"
proof -
  let ?c = "to_Context opts"
  have ctx: "x \<noteq> [] \<Longrightarrow> CurrentContext env x v = (x, None)" for x v by (simp add: CurrentContext_def)
  have "\<exists>i. fst (GetTunnel env ?c w1) = Inr i \<and> url = localURL (ti_Port i)"
  proof (cases "\<exists>o' v. startTunnel env ?c o' v = (Some (Inr url), w1)")
    case True
    then obtain i v where "w1 = snd (SaveTunnel env i v)" "ti_Context i = ?c" "url = localURL (ti_Port i)"
      using startTunnel_saves by metis
    then show ?thesis using save_get_tunnel [OF assms(1,2), of i v] by force
  next
    case False
    then obtain i v where g: "GetTunnel env ?c w = (Inr i, v)" "w1 = snd (IsTunnelHealthy env (ti_Port i) v)" "url = localURL (ti_Port i)"
      using assms(6) unfolding EnsureServerURL_def
      by (auto simp: assms(3-5) ctx Let_def split: prod.splits sum.splits bool.splits)
    then show ?thesis using GetTunnel_again [OF assms(1,2) g(1)] by auto
  qed
  then obtain i where i: "fst (GetTunnel env ?c w1) = Inr i" "url = localURL (ti_Port i)" by blast
  then obtain v where v: "GetTunnel env ?c w1 = (Inr i, v)" by (metis prod.collapse)
  have "fst (IsTunnelHealthy env (ti_Port i) v) \<longrightarrow>
      EnsureServerURL env opts' w1 = (Some (Inr url), snd (IsTunnelHealthy env (ti_Port i) v))"
    unfolding EnsureServerURL_def
    by (auto simp: assms(7-9) ctx i v GetTunnel_alias [OF assms(10)] Let_def split: prod.split)
  then show ?thesis using i v by (intro exI [of _ i]) (simp add: Let_def)
qed

section \<open>Examples\<close>

text \<open>
  A world of a clock and files, in which \<open>kubectl\<close> writes its usual line with a port of its own
  into its log and every local port answers.
\<close>

type_synonym exWorld = "int \<times> (string \<times> string) list"

definition encodeInfo :: "tunnelInfo \<Rightarrow> string" where
  "encodeInfo i = replicate
     (to_nat (ti_Context i, ti_Namespace i, ti_Service i, ti_Port i, ti_PID i, ti_CreatedAt i)) CHR ''x''"

definition decodeInfo :: "string \<Rightarrow> tunnelInfo" where
  "decodeInfo d = (case from_nat (length d) of (c, n, s, p, pid, t) \<Rightarrow>
     \<lparr>ti_Context = c, ti_Namespace = n, ti_Service = s, ti_Port = p, ti_PID = pid, ti_CreatedAt = t\<rparr>)"

definition exampleTun :: "(tunnelInfo \<Rightarrow> string) \<Rightarrow> (string \<Rightarrow> tunnelInfo) \<Rightarrow> exWorld tunEnv" where
  "exampleTun enc dec = \<lparr>tn_Getenv = (\<lambda>_ _. []), tn_HomeDir = (\<lambda>_. Inr ''/home''), tn_MkdirAll = (\<lambda>_ w. (None, w)),
     tn_ReadFile = (\<lambda>p w. case map_of (snd w) p of None \<Rightarrow> Inl (ENew ''no such file'') | Some d \<Rightarrow> Inr d),
     tn_WriteFile = (\<lambda>p d w. (None, fst w, (p, d) # snd w)), tn_Remove = (\<lambda>p w. (fst w, filter (\<lambda>e. fst e \<noteq> p) (snd w))),
     tn_ReadDir = (\<lambda>_ _. Inr []), tn_OpenLog = (\<lambda>p w. (None, fst w, (p, []) # snd w)),
     tn_Kubectl = (\<lambda>_ p w. (Inr 77, fst w, (p, ''Forwarding from 127.0.0.1:4'' @ utoa (length (snd w)) @ '' -> 8080'') # snd w)),
     tn_Output = (\<lambda>_ _. ([], Some (ENew ''no kubectl''))), tn_Signal = (\<lambda>_ _ w. (None, w)), tn_Get = (\<lambda>_ w. (Inr 200, w)),
     tn_Now = fst, tn_Sleep = (\<lambda>d w. (fst w + d, snd w)), tn_Marshal = (\<lambda>i. Inr (enc i)), tn_Unmarshal = (\<lambda>d. Inr (dec d)),
     tn_KubeConfig = (\<lambda>_. Inr [])\<rparr>"

definition optionsFor :: "string \<Rightarrow> string \<Rightarrow> tunOptions" where
  "optionsFor ctxName ns = \<lparr>to_ServerURL = [], to_Context = ctxName, to_Namespace = ns, to_Service = [], to_Target = [], to_Port = 0\<rparr>"

lemma exampleTun_laws: "tunnel_laws (exampleTun encodeInfo decodeInfo)" "tunnel_works (exampleTun enc dec)"
  by (simp_all add: tunnel_laws_def tunnel_works_def exampleTun_def encodeInfo_def decodeInfo_def)

lemma exampleTun_clock: "clock_laws (exampleTun enc dec)"
  by (simp add: clock_laws_def exampleTun_def)

theorem ensure_returns_witness:
  "\<exists>r. fst (EnsureServerURL (exampleTun encodeInfo decodeInfo) (optionsFor ''prod.eu'' []) (0, [])) = Some r"
  by (rule ensure_returns [OF exampleTun_clock])

text \<open>The first call in the example world, step by step.\<close>

lemma example_port:
  assumes "t < d" "forwardedPort log = Some p"
  shows "awaitPort (exampleTun enc dec) c l 77 d portRounds (t, (l, log) # fs) = (Some (Inr p), t + 50 * millisecond, (l, log) # fs)"
proof -
  have r: "portRounds = Suc 100" by (simp add: portRounds_def)
  show ?thesis unfolding r awaitPort.simps(2) using assms by (simp add: exampleTun_def)
qed

lemma example_healthy:
  assumes "t < d" "0 < p"
  shows "awaitHealthy (exampleTun enc dec) p d healthRounds (t, fs) = (Some True, t, fs)"
proof -
  have r: "healthRounds = Suc 30" by (simp add: healthRounds_def)
  show ?thesis unfolding r awaitHealthy.simps(2) using assms by (simp add: exampleTun_def IsTunnelHealthy_def)
qed

lemma example_ensure:
  "fst (EnsureServerURL (exampleTun enc dec) (optionsFor ''prod.eu'' []) (0, [])) = Some (Inr (localURL 41))"
proof -
  let ?e = "exampleTun enc dec" and ?l = "path_Join [''/home/.ax/tunnels'', ''prod_eu.log'']"
  have dir: "TunnelDir ?e w = (Inr ''/home/.ax/tunnels'', w)" for w
  proof -
    have "path_Join [''/home'', ''.ax'', ''tunnels''] = ''/home/.ax/tunnels''" by code_simp
    then show ?thesis by (simp add: TunnelDir_def exampleTun_def)
  qed
  have log: "tn_OpenLog ?e p (0, []) = (None, 0, [(p, [])])"
    "tn_Kubectl ?e as p (0, [(p, [])]) = (Inr 77, 0, [(p, ''Forwarding from 127.0.0.1:41 -> 8080''), (p, [])])" for p as
  proof -
    have "utoa 1 = ''1''" by code_simp
    then show "tn_OpenLog ?e p (0, []) = (None, 0, [(p, [])])"
      "tn_Kubectl ?e as p (0, [(p, [])]) = (Inr 77, 0, [(p, ''Forwarding from 127.0.0.1:41 -> 8080''), (p, [])])"
      by (simp_all add: exampleTun_def)
  qed
  have port: "forwardedPort ''Forwarding from 127.0.0.1:41 -> 8080'' = Some 41" by code_simp
  have now: "tn_Now ?e = fst" by (simp add: exampleTun_def)
  have fin: "fst (finishTunnel ?e c o' p 77 (0, (p, ''Forwarding from 127.0.0.1:41 -> 8080'') # fs)) = Some (Inr (localURL 41))" for c o' p fs
    by (simp add: finishTunnel_def now example_port [OF _ port] example_healthy millisecond_def)
  have none: "GetTunnel ?e c (0, []) = (Inl (ENew ''no such file''), 0, [])" for c
    by (simp add: GetTunnel_def dir) (simp add: exampleTun_def)
  have "fst (startTunnel ?e c o' (0, [])) = Some (Inr (localURL 41))" for c o'
    by (simp add: startTunnel_def dir log fin Let_def)
  then show ?thesis
    by (simp add: EnsureServerURL_def optionsFor_def CurrentContext_def none) (simp add: exampleTun_def)
qed

theorem ensure_reuses_witness:
  "\<exists>w1. EnsureServerURL (exampleTun encodeInfo decodeInfo) (optionsFor ''prod.eu'' []) (0, []) = (Some (Inr (localURL 41)), w1) \<and>
     fst (EnsureServerURL (exampleTun encodeInfo decodeInfo) (optionsFor ''prod_eu'' ''other'') w1) = Some (Inr (localURL 41))"
proof -
  let ?e = "exampleTun encodeInfo decodeInfo"
  obtain w1 where w1: "EnsureServerURL ?e (optionsFor ''prod.eu'' []) (0, []) = (Some (Inr (localURL 41)), w1)"
    using example_ensure by (metis prod.collapse)
  have env: "tn_Getenv ?e k w = []" for k w by (simp add: exampleTun_def)
  have s: "SanitizeContext (to_Context (optionsFor ''prod_eu'' ''other'')) = SanitizeContext (to_Context (optionsFor ''prod.eu'' []))"
    by code_simp
  have o: "to_ServerURL (optionsFor c ns) = []" "to_Context (optionsFor c ns) = c" for c ns by (simp_all add: optionsFor_def)
  have "to_Context (optionsFor ''prod.eu'' []) \<noteq> []" "to_Context (optionsFor ''prod_eu'' ''other'') \<noteq> []" by (simp_all add: o)
  from ensure_reuses [OF exampleTun_laws o(1) this(1) env w1 o(1) this(2) env s, unfolded Let_def]
  obtain i :: tunnelInfo where i: "localURL 41 = localURL (ti_Port i)"
    "fst (IsTunnelHealthy ?e (ti_Port i) (snd (GetTunnel ?e (to_Context (optionsFor ''prod.eu'' [])) w1))) \<longrightarrow>
      EnsureServerURL ?e (optionsFor ''prod_eu'' ''other'') w1 = (Some (Inr (localURL 41)),
        snd (IsTunnelHealthy ?e (ti_Port i) (snd (GetTunnel ?e (to_Context (optionsFor ''prod.eu'' [])) w1))))"
    by blast
  have "itoa 41 = ''41''" by code_simp
  then have "itoa (ti_Port i) = ''41''" using i(1) by (simp add: localURL_def)
  then have "0 < ti_Port i" by (cases "ti_Port i" "0 :: int" rule: linorder_cases) (simp_all add: itoa_def)
  then have "fst (IsTunnelHealthy ?e (ti_Port i) v)" for v by (simp add: IsTunnelHealthy_def exampleTun_def)
  then show ?thesis using i(2) w1 by simp
qed

section \<open>The reader of a port-forward\<close>

text \<open>The lines \<open>kubectl\<close> prints: one when it listens, one for every connection.\<close>

definition listening :: string where "listening = ''Forwarding from 127.0.0.1:4 -> 80'' @ [CHR 0x0A]"
definition handling :: string where "handling = ''Handling connection for 4'' @ [CHR 0x0A]"

text \<open>The reader stops reading. Once \<open>kubectl\<close> has announced its port and reported two connections,
  the goroutine is blocked on the channel nobody receives from any more: whatever \<open>kubectl\<close> prints
  afterwards is never read, so \<open>kubectl\<close> itself blocks when the pipe is full.\<close>

theorem port_forward_stalls:
  "pumpOutput portSlots [] (listening # handling # handling # later) =
     ([4, 4], listening @ handling @ handling, Some later)"
proof -
  have "forwardedPort listening = Some 4" "forwardedPort (listening @ handling) = Some 4"
    "forwardedPort ((listening @ handling) @ handling) = Some 4" by code_simp+
  moreover have "listening \<noteq> []" "handling \<noteq> []" by (simp_all add: listening_def handling_def)
  moreover have p: "portSlots = Suc (Suc 0)" by (simp add: portSlots_def)
  ultimately show ?thesis unfolding p by (simp add: Let_def)
qed

end
