(* ===== verification/Guest_Client.thy ===== *)
theory Guest_Client
  imports Prelude
begin

text \<open>
  \<open>internal/guest/client.go\<close>: running a command through the guest services of a task. The process
  service is the record \<open>processSvc\<close> of its calls on a server state \<open>'g\<close>, among them the receive
  call of the output stream and the wait between two polls. Neither the stream nor the polling
  need ever end, so both loops are partial functions: None is a call that does not return. What
  was written to the two writers is returned with the result.
\<close>

section \<open>Connecting\<close>

text \<open>The target a connection was made to, and the actor named in the header of every call, if any.\<close>

record guestConn =
  gc_Target :: string
  gc_Actor :: "string option"

definition DialTarget :: "(string \<Rightarrow> error option) \<Rightarrow> string \<Rightarrow> string \<Rightarrow> error + guestConn" where
  "DialTarget newClient target0 targetActor =
     (let target = trimPrefix (trimPrefix target0 ''http://'') ''https://'' in
      case newClient target of
        Some e \<Rightarrow> Inl (EWrap (''connecting to guest at '' @ target) e)
      | None \<Rightarrow> Inr \<lparr>gc_Target = target, gc_Actor = (if targetActor \<noteq> [] then Some targetActor else None)\<rparr>)"

definition guest_Dial :: "(string \<Rightarrow> error option) \<Rightarrow> string \<Rightarrow> error + guestConn" where
  "guest_Dial newClient target = DialTarget newClient target []"

section \<open>The process service\<close>

record processOutput =
  po_Exit :: "int option"
  po_Stdout :: string
  po_Stderr :: string

datatype received = Eof | Failed error | Received processOutput

record 'g processSvc =
  ps_StartProcess :: "string list \<Rightarrow> string \<Rightarrow> (string \<times> string) list \<Rightarrow> 'g \<Rightarrow> (error + string) \<times> 'g"
  ps_StreamProcessOutput :: "string \<Rightarrow> 'g \<Rightarrow> error option \<times> 'g"
  ps_Recv :: "'g \<Rightarrow> received \<times> 'g"
  ps_GetProcess :: "string \<Rightarrow> 'g \<Rightarrow> (error + bool \<times> int) \<times> 'g"   \<comment> \<open>running, exit code\<close>
  ps_Wait :: "'g \<Rightarrow> error option \<times> 'g"   \<comment> \<open>50 milliseconds, or the context's error\<close>

record execOptions =
  eo_Command :: "string list"
  eo_Cwd :: string
  eo_Env :: "(string \<times> string) list"
  eo_Stdout :: bool   \<comment> \<open>whether there is a writer\<close>
  eo_Stderr :: bool

section \<open>Running a command\<close>

record execResult =
  ex_Code :: int
  ex_Err :: "error option"
  ex_Out :: string
  ex_ErrOut :: string

definition execFail :: "string \<Rightarrow> error \<Rightarrow> string \<times> string \<Rightarrow> execResult" where
  "execFail what e ws = \<lparr>ex_Code = 1, ex_Err = Some (EWrap what e), ex_Out = fst ws, ex_ErrOut = snd ws\<rparr>"

definition execExit :: "int \<Rightarrow> string \<times> string \<Rightarrow> execResult" where
  "execExit c ws = \<lparr>ex_Code = c, ex_Err = None, ex_Out = fst ws, ex_ErrOut = snd ws\<rparr>"

definition writeOutput :: "execOptions \<Rightarrow> processOutput \<Rightarrow> string \<times> string \<Rightarrow> string \<times> string" where
  "writeOutput opts out ws =
     (if eo_Stdout opts then fst ws @ po_Stdout out else fst ws, if eo_Stderr opts then snd ws @ po_Stderr out else snd ws)"

text \<open>The stream: a result, or None when it closed without an exit.\<close>

partial_function (option) streamLoop ::
  "'g processSvc \<Rightarrow> execOptions \<Rightarrow> string \<times> string \<Rightarrow> 'g \<Rightarrow> (execResult option \<times> (string \<times> string) \<times> 'g) option" where
  "streamLoop svc opts ws g =
     (case ps_Recv svc g of
        (Eof, g1) \<Rightarrow> Some (None, ws, g1)
      | (Failed e, g1) \<Rightarrow> Some (Some (execFail ''receiving output stream'' e ws), ws, g1)
      | (Received out, g1) \<Rightarrow>
          (case po_Exit out of
             Some c \<Rightarrow> Some (Some (execExit c ws), ws, g1)
           | None \<Rightarrow> streamLoop svc opts (writeOutput opts out ws) g1))"

partial_function (option) pollLoop ::
  "'g processSvc \<Rightarrow> string \<Rightarrow> string \<times> string \<Rightarrow> 'g \<Rightarrow> (execResult \<times> 'g) option" where
  "pollLoop svc pid ws g =
     (case ps_GetProcess svc pid g of
        (Inl e, g1) \<Rightarrow> Some (execFail ''getting process state'' e ws, g1)
      | (Inr (running, code), g1) \<Rightarrow>
          if \<not> running then Some (execExit code ws, g1)
          else (case ps_Wait svc g1 of
                  (Some e, g2) \<Rightarrow> Some (\<lparr>ex_Code = 1, ex_Err = Some e, ex_Out = fst ws, ex_ErrOut = snd ws\<rparr>, g2)
                | (None, g2) \<Rightarrow> pollLoop svc pid ws g2))"

definition guest_Exec :: "'g processSvc \<Rightarrow> execOptions \<Rightarrow> 'g \<Rightarrow> (execResult \<times> 'g) option" where
  "guest_Exec svc opts g =
     (if eo_Command opts = [] then
        Some (\<lparr>ex_Code = 1, ex_Err = Some (ENew ''exec: command cannot be empty''), ex_Out = [], ex_ErrOut = []\<rparr>, g)
      else case ps_StartProcess svc (eo_Command opts) (eo_Cwd opts) (eo_Env opts) g of
        (Inl e, g1) \<Rightarrow> Some (execFail ''starting process'' e ([], []), g1)
      | (Inr pid, g1) \<Rightarrow>
          (case ps_StreamProcessOutput svc pid g1 of
             (Some e, g2) \<Rightarrow> Some (execFail ''streaming process output'' e ([], []), g2)
           | (None, g2) \<Rightarrow>
               (case streamLoop svc opts ([], []) g2 of
                  None \<Rightarrow> None
                | Some (Some r, _, g3) \<Rightarrow> Some (r, g3)
                | Some (None, ws, g3) \<Rightarrow> pollLoop svc pid ws g3)))"

section \<open>What a server does next\<close>

text \<open>The next messages of the stream, none of them an exit, and the polls that find the process running.\<close>

fun delivers :: "'g processSvc \<Rightarrow> 'g \<Rightarrow> processOutput list \<Rightarrow> 'g \<Rightarrow> bool" where
  "delivers svc g [] g' = (g = g')"
| "delivers svc g (out # outs) g' =
     (case ps_Recv svc g of
        (Received o', g1) \<Rightarrow> o' = out \<and> po_Exit out = None \<and> delivers svc g1 outs g'
      | _ \<Rightarrow> False)"

fun runsFor :: "'g processSvc \<Rightarrow> string \<Rightarrow> 'g \<Rightarrow> nat \<Rightarrow> 'g \<Rightarrow> bool" where
  "runsFor svc pid g 0 g' = (g = g')"
| "runsFor svc pid g (Suc k) g' =
     (case ps_GetProcess svc pid g of
        (Inr (True, _), g1) \<Rightarrow> (case ps_Wait svc g1 of (None, g2) \<Rightarrow> runsFor svc pid g2 k g' | _ \<Rightarrow> False)
      | _ \<Rightarrow> False)"

definition writtenAll :: "execOptions \<Rightarrow> processOutput list \<Rightarrow> string \<times> string" where
  "writtenAll opts outs =
     (if eo_Stdout opts then concat (map po_Stdout outs) else [], if eo_Stderr opts then concat (map po_Stderr outs) else [])"

lemma streamLoop_delivers:
  "delivers svc g outs g' \<Longrightarrow> streamLoop svc opts ws g =
     streamLoop svc opts (fst ws @ fst (writtenAll opts outs), snd ws @ snd (writtenAll opts outs)) g'"
proof (induction outs arbitrary: g ws)
  case (Cons out outs)
  from Cons.prems obtain g1 where r: "ps_Recv svc g = (Received out, g1)" "po_Exit out = None" "delivers svc g1 outs g'"
    by (auto split: prod.splits received.splits)
  have "streamLoop svc opts ws g = streamLoop svc opts (writeOutput opts out ws) g1"
    by (subst streamLoop.simps) (simp add: r)
  also have "\<dots> = streamLoop svc opts (fst (writeOutput opts out ws) @ fst (writtenAll opts outs),
      snd (writeOutput opts out ws) @ snd (writtenAll opts outs)) g'"
    by (rule Cons.IH [OF r(3)])
  finally show ?case by (simp add: writeOutput_def writtenAll_def)
qed (simp add: writtenAll_def)

lemma pollLoop_runs: "runsFor svc pid g k g' \<Longrightarrow> pollLoop svc pid ws g = pollLoop svc pid ws g'"
proof (induction k arbitrary: g)
  case (Suc k)
  from Suc.prems obtain c g1 g2 where "ps_GetProcess svc pid g = (Inr (True, c), g1)" "ps_Wait svc g1 = (None, g2)" "runsFor svc pid g2 k g'"
    by (auto split: prod.splits sum.splits bool.splits option.splits)
  then show ?case using Suc.IH by (subst pollLoop.simps) simp
qed simp

text \<open>C37: Running a command returns its exit code and its output. When the process starts and its output
  is streamed, \<open>Exec\<close> returns as soon as the stream reports the exit, or, when the stream closes
  without one, as soon as a poll finds the process stopped; either way it has written exactly the
  chunks received before, each to its own writer and in order.\<close>

theorem exec_exit_code:
  assumes "eo_Command opts \<noteq> []" and "ps_StartProcess svc (eo_Command opts) (eo_Cwd opts) (eo_Env opts) g = (Inr pid, g1)"
    and "ps_StreamProcessOutput svc pid g1 = (None, g2)" and "delivers svc g2 outs g3"
  shows "(ps_Recv svc g3 = (Received out, g4) \<and> po_Exit out = Some c \<longrightarrow>
      guest_Exec svc opts g = Some (execExit c (writtenAll opts outs), g4)) \<and>
    (ps_Recv svc g3 = (Eof, g4) \<and> runsFor svc pid g4 k g5 \<and> ps_GetProcess svc pid g5 = (Inr (False, c), g6) \<longrightarrow>
      guest_Exec svc opts g = Some (execExit c (writtenAll opts outs), g6))"
proof -
  have s: "streamLoop svc opts ([], []) g2 = streamLoop svc opts (writtenAll opts outs) g3"
    using streamLoop_delivers [OF assms(4), of opts "([], [])"] by simp
  have exit: "guest_Exec svc opts g = Some (execExit c (writtenAll opts outs), g4)"
    if "ps_Recv svc g3 = (Received out, g4)" "po_Exit out = Some c"
  proof -
    have "streamLoop svc opts (writtenAll opts outs) g3 = Some (Some (execExit c (writtenAll opts outs)), writtenAll opts outs, g4)"
      by (subst streamLoop.simps) (simp add: that)
    with s assms show ?thesis by (simp add: guest_Exec_def)
  qed
  have poll: "guest_Exec svc opts g = Some (execExit c (writtenAll opts outs), g6)"
    if "ps_Recv svc g3 = (Eof, g4)" "runsFor svc pid g4 k g5" "ps_GetProcess svc pid g5 = (Inr (False, c), g6)"
  proof -
    have "streamLoop svc opts (writtenAll opts outs) g3 = Some (None, writtenAll opts outs, g4)"
      by (subst streamLoop.simps) (simp add: that(1))
    moreover have "pollLoop svc pid (writtenAll opts outs) g4 = Some (execExit c (writtenAll opts outs), g6)"
      unfolding pollLoop_runs [OF that(2)] by (subst pollLoop.simps) (simp add: that(3))
    ultimately show ?thesis using s assms by (simp add: guest_Exec_def)
  qed
  show ?thesis using exit poll by blast
qed

text \<open>A server that prints once, closes the stream, and has the process running for two more polls.\<close>

definition exampleSvc :: "nat processSvc" where
  "exampleSvc = \<lparr>ps_StartProcess = (\<lambda>_ _ _ g. (Inr ''p1'', 0)), ps_StreamProcessOutput = (\<lambda>_ g. (None, g)),
     ps_Recv = (\<lambda>g. if g = 0 then (Received \<lparr>po_Exit = None, po_Stdout = ''hi'', po_Stderr = ''warn''\<rparr>, 1) else (Eof, 2)),
     ps_GetProcess = (\<lambda>_ g. (Inr (g < 4, 3), g)), ps_Wait = (\<lambda>g. (None, g + 1))\<rparr>"

definition exampleExec :: execOptions where
  "exampleExec = \<lparr>eo_Command = [''ls''], eo_Cwd = [], eo_Env = [], eo_Stdout = True, eo_Stderr = False\<rparr>"

theorem exec_exit_code_witness:
  "guest_Exec exampleSvc exampleExec 9 = Some (execExit 3 (''hi'', []), 4)"
proof -
  let ?out = "\<lparr>po_Exit = None, po_Stdout = ''hi'', po_Stderr = ''warn''\<rparr>"
  have "eo_Command exampleExec \<noteq> []"
    "ps_StartProcess exampleSvc (eo_Command exampleExec) (eo_Cwd exampleExec) (eo_Env exampleExec) 9 = (Inr ''p1'', 0)"
    "ps_StreamProcessOutput exampleSvc ''p1'' 0 = (None, 0)" "delivers exampleSvc 0 [?out] 1"
    by (simp_all add: exampleSvc_def exampleExec_def)
  note exec = exec_exit_code [OF this, of ?out 2 3 2 4 4]
  have "ps_Recv exampleSvc 1 = (Eof, 2)" "runsFor exampleSvc ''p1'' 2 2 4" "ps_GetProcess exampleSvc ''p1'' 4 = (Inr (False, 3), 4)"
    "writtenAll exampleExec [?out] = (''hi'', [])"
    by (simp_all add: exampleSvc_def eval_nat_numeral writtenAll_def exampleExec_def)
  with exec show ?thesis by simp
qed

end
