(* ===== verification/Task_Runner.thy ===== *)
theory Task_Runner
  imports Workspace_Setup Go_Flags
begin

text \<open>
  What runs inside a task's container: the metadata server (\<open>internal/metadata/server.go\<close>), the
  runner (\<open>runner/runner.go\<close>) and the loading of its inputs (\<open>cmd/ax-task-runner/main.go\<close>). The
  server's state is a record and its handlers are functions of it; a run of the runner is a
  sequence of visible events (listening, becoming ready, starting, signalling and reporting the
  command, shutting down) over a world of which the operating system of \<open>Workspace_Setup\<close> and the
  process calls are arguments. The order in which the command's exit, the end of the context and
  the grace period happen is an argument.
\<close>

section \<open>Getters\<close>

definition GetDebug :: "taskSpec option \<Rightarrow> bool" where
  "GetDebug s = (case s of None \<Rightarrow> False | Some sp \<Rightarrow> ts_Debug sp)"
definition GetEnv :: "taskSpec option \<Rightarrow> envVar list" where
  "GetEnv s = (case s of None \<Rightarrow> [] | Some sp \<Rightarrow> ts_Env sp)"
definition GetCommand :: "taskSpec option \<Rightarrow> string list" where
  "GetCommand s = (case s of None \<Rightarrow> [] | Some sp \<Rightarrow> ts_Command sp)"

section \<open>The metadata server\<close>

record metaServer =
  meta_port :: int
  meta_guest :: "(string \<times> string) option"   \<comment> \<open>the guest services' workspace and log directory, when they are served\<close>
  meta_task :: "task option"
  meta_workspaces :: "workspace list"
  meta_ready :: bool

definition compactWorkspaces :: "workspace option list \<Rightarrow> workspace list" where
  "compactWorkspaces ws = map the (filter (\<lambda>w. w \<noteq> None) ws)"

text \<open>\<open>guest.DefaultConfig\<close> and whether \<open>guest.NewServer\<close> fails for a configuration are arguments.\<close>

record guestLib =
  guest_Default :: "string \<times> string"
  guest_NewServer :: "string \<times> string \<Rightarrow> error option"

definition meta_NewServer :: "guestLib \<Rightarrow> int \<Rightarrow> task option \<Rightarrow> workspace option list \<Rightarrow> string \<Rightarrow> string \<Rightarrow> metaServer" where
  "meta_NewServer lib port0 task workspaces workspacePath logDir =
     (let port = (if port0 \<le> 0 then 9999 else port0);
          cfg = ((if workspacePath \<noteq> [] then workspacePath else fst (guest_Default lib)),
                 (if logDir \<noteq> [] then logDir else snd (guest_Default lib)));
          guest = (if GetDebug (Option.bind task task_Spec) \<and> guest_NewServer lib cfg = None then Some cfg else None)
      in \<lparr>meta_port = port, meta_guest = guest, meta_task = task, meta_workspaces = compactWorkspaces workspaces, meta_ready = False\<rparr>)"

definition UpdateState :: "task option \<Rightarrow> workspace option list \<Rightarrow> metaServer \<Rightarrow> metaServer" where
  "UpdateState task workspaces s = s\<lparr>meta_task := task, meta_workspaces := compactWorkspaces workspaces\<rparr>"

definition SetWorkspaceReady :: "bool \<Rightarrow> metaServer \<Rightarrow> metaServer" where
  "SetWorkspaceReady ready s = s\<lparr>meta_ready := ready\<rparr>"

definition IsWorkspaceReady :: "metaServer \<Rightarrow> bool" where
  "IsWorkspaceReady s = meta_ready s"

record metaRequest =
  mq_Path :: string
  mq_ProtoMajor :: int
  mq_ContentType :: string

record metaResponse =
  mr_Status :: int
  mr_ContentType :: string
  mr_Body :: string

text \<open>
  A handler's answer: from the guest services, from the mux itself (a path no handler is registered
  for), or a response. \<open>http.Error\<close> after bytes were written only adds its text.
\<close>

datatype metaAnswer = FromGuest | FromMux | Response metaResponse

definition httpError :: "string \<Rightarrow> int \<Rightarrow> metaAnswer" where
  "httpError msg code = Response \<lparr>mr_Status = code, mr_ContentType = ''text/plain; charset=utf-8'', mr_Body = msg @ [CHR 0x0A]\<rparr>"

definition okResponse :: metaAnswer where
  "okResponse = Response \<lparr>mr_Status = 200, mr_ContentType = [], mr_Body = ''ok'' @ [CHR 0x0A]\<rparr>"

definition handleHealthz :: "metaServer \<Rightarrow> metaAnswer" where
  "handleHealthz s = okResponse"

definition handleReadyz :: "metaServer \<Rightarrow> metaAnswer" where
  "handleReadyz s = (if \<not> meta_ready s then httpError ''workspace initializing'' 503 else okResponse)"

text \<open>What an encoder has written, and whether it failed then.\<close>

definition written :: "string \<times> error option \<Rightarrow> metaAnswer" where
  "written r =
     (case snd r of
        None \<Rightarrow> Response \<lparr>mr_Status = 200, mr_ContentType = ''application/yaml'', mr_Body = fst r\<rparr>
      | Some e \<Rightarrow>
          if fst r = [] then httpError (err_msg e) 500
          else Response \<lparr>mr_Status = 200, mr_ContentType = ''application/yaml'', mr_Body = fst r @ err_msg e @ [CHR 0x0A]\<rparr>)"

record yamlLib =
  yaml_Task :: "task \<Rightarrow> string \<times> error option"
  yaml_Workspace :: "nat \<Rightarrow> workspace \<Rightarrow> string \<times> error option"   \<comment> \<open>the document with the given position in the stream\<close>
  yaml_Close :: "string \<times> error option"

definition handleTask :: "yamlLib \<Rightarrow> metaServer \<Rightarrow> metaAnswer" where
  "handleTask y s =
     (case meta_task s of
        None \<Rightarrow> httpError ''task metadata not available'' 404
      | Some t \<Rightarrow> written (yaml_Task y t))"

fun encodeAll :: "yamlLib \<Rightarrow> nat \<Rightarrow> workspace list \<Rightarrow> string \<times> error option" where
  "encodeAll y i [] = yaml_Close y"
| "encodeAll y i (w # ws) =
     (case yaml_Workspace y i w of
        (out, Some e) \<Rightarrow> (out, Some e)
      | (out, None) \<Rightarrow> (let (rest, e) = encodeAll y (Suc i) ws in (out @ rest, e)))"

definition handleWorkspaces :: "yamlLib \<Rightarrow> metaServer \<Rightarrow> metaAnswer" where
  "handleWorkspaces y s =
     (if meta_workspaces s = [] then httpError ''workspace metadata not available'' 404
      else written (encodeAll y 0 (meta_workspaces s)))"

definition serveHTTP :: "yamlLib \<Rightarrow> metaServer \<Rightarrow> metaRequest \<Rightarrow> metaAnswer" where
  "serveHTTP y s r =
     (if meta_guest s \<noteq> None \<and> mq_ProtoMajor r = 2 \<and> hasPrefix (mq_ContentType r) ''application/grpc'' then FromGuest
      else if mq_Path r = ''/healthz'' then handleHealthz s
      else if mq_Path r = ''/readyz'' then handleReadyz s
      else if mq_Path r = ''/metadata/v1alpha1/ax/task'' then handleTask y s
      else if mq_Path r = ''/metadata/v1alpha1/ax/workspaces'' then handleWorkspaces y s
      else FromMux)"

section \<open>The runner\<close>

definition DefaultPort :: int where "DefaultPort = 80"

record runConfig =
  run_Port :: int
  run_Task :: "task option"
  run_Workspaces :: "workspace option list"

record mount =
  mnt_Ref :: workspaceRef
  mnt_Ws :: "workspace option"
  mnt_Path :: string

text \<open>Later workspaces of a name replace earlier ones in the map.\<close>

definition byName :: "workspace option list \<Rightarrow> string \<Rightarrow> workspace option" where
  "byName ws = foldl (\<lambda>m w. case w of None \<Rightarrow> m | Some w \<Rightarrow> m(meta_GetName (wsp_Metadata w) \<mapsto> w)) Map.empty ws"

definition resolveMounts :: "runConfig \<Rightarrow> mount list" where
  "resolveMounts cfg =
     (let spec = Option.bind (run_Task cfg) task_Spec in
      map (\<lambda>(r, p). \<lparr>mnt_Ref = r, mnt_Ws = byName (run_Workspaces cfg) (wref_Name r), mnt_Path = p\<rparr>)
        (zip (WorkspaceRefs spec) (WorkspacePaths spec)))"

record commandExit =
  ce_Pid :: int
  ce_ExitCode :: int
  ce_Err :: "error option"

datatype runEvent =
    EvSetenv string string
  | EvListen string
  | EvReady
  | EvStart "string list" string "string list"   \<comment> \<open>arguments, directory, environment\<close>
  | EvTerm int
  | EvKill int
  | EvExit commandExit
  | EvShutdown

text \<open>
  How a started command ends: by itself before the context does, within the grace period after
  SIGTERM, or after SIGKILL; with the result of \<open>Wait\<close> and the exit code of the process state, if any.
\<close>

datatype ending = Finished | Stopped | Killed

record 'o procEnv =
  pr_os :: "'o osEnv"
  pr_guest :: guestLib
  pr_Listen :: "string \<Rightarrow> 'o \<Rightarrow> error option \<times> 'o"
  pr_Environ :: "'o \<Rightarrow> string list"
  pr_Setenv :: "string \<Rightarrow> string \<Rightarrow> 'o \<Rightarrow> 'o"
  pr_Start :: "string list \<Rightarrow> string \<Rightarrow> string list \<Rightarrow> 'o \<Rightarrow> (error + int) \<times> 'o"
  pr_Ending :: "'o \<Rightarrow> ending"
  pr_Wait :: "'o \<Rightarrow> error option"
  pr_State :: "'o \<Rightarrow> int option"

definition commandEnv :: "'o procEnv \<Rightarrow> task option \<Rightarrow> int \<Rightarrow> 'o \<Rightarrow> string list" where
  "commandEnv env task port w =
     pr_Environ env w @ [''AX_METADATA_URL=http://127.0.0.1:'' @ itoa port]
     @ map (\<lambda>e. env_Name e @ ''='' @ env_Value e) (GetEnv (Option.bind task task_Spec))"

definition reportExit :: "'o procEnv \<Rightarrow> int \<Rightarrow> 'o \<Rightarrow> runEvent" where
  "reportExit env pid w = EvExit \<lparr>ce_Pid = pid, ce_ExitCode = (case pr_State env w of None \<Rightarrow> -1 | Some c \<Rightarrow> c), ce_Err = pr_Wait env w\<rparr>"

definition stopCommand :: "'o procEnv \<Rightarrow> int \<Rightarrow> 'o \<Rightarrow> runEvent list" where
  "stopCommand env pid w = EvTerm pid # (if pr_Ending env w = Killed then [EvKill pid] else [])"

fun setupMounts :: "'o osEnv \<Rightarrow> mount list \<Rightarrow> 'o \<Rightarrow> bool \<times> 'o" where
  "setupMounts env [] w = (True, w)"
| "setupMounts env (m # ms) w =
     (case SetupWorkspace env (mnt_Ws m) (mnt_Path m) (wref_Goal (mnt_Ref m)) w of
        ((_, e), w1) \<Rightarrow> (let (ok, w2) = setupMounts env ms w1 in (e = None \<and> ok, w2)))"

text \<open>\<open>Run\<close>: its result, the events it makes visible, and the server it leaves behind.\<close>

definition defaultMount :: mount where
  "defaultMount = \<lparr>mnt_Ref = \<lparr>wref_Name = [], wref_Path = [], wref_Goal = []\<rparr>, mnt_Ws = None, mnt_Path = DefaultWorkspacePath\<rparr>"

definition runMounts :: "runConfig \<Rightarrow> mount list" where
  "runMounts cfg = (if resolveMounts cfg = [] then [defaultMount] else resolveMounts cfg)"

definition runCommand :: "'o procEnv \<Rightarrow> runConfig \<Rightarrow> int \<Rightarrow> string \<Rightarrow> 'o \<Rightarrow> error option \<times> runEvent list" where
  "runCommand env cfg port wsPath w =
     (let cmdArgs = GetCommand (Option.bind (run_Task cfg) task_Spec) in
      if cmdArgs = [] then (None, [])
      else
        let cmdEnv = commandEnv env (run_Task cfg) port w in
        case pr_Start env cmdArgs wsPath cmdEnv w of
          (Inl e, _) \<Rightarrow> (Some (EWrap (''starting task command ['' @ joinWith '' '' cmdArgs @ '']'') e), [EvStart cmdArgs wsPath cmdEnv])
        | (Inr pid, w1) \<Rightarrow>
            (None, EvStart cmdArgs wsPath cmdEnv #
               (if pr_Ending env w1 = Finished then [] else stopCommand env pid w1) @ [reportExit env pid w1]))"

definition runPort :: "runConfig \<Rightarrow> int" where
  "runPort cfg = (if run_Port cfg \<le> 0 then DefaultPort else run_Port cfg)"

text \<open>The variables a run sets in its own environment, in order.\<close>

definition runVars :: "runConfig \<Rightarrow> (string \<times> string) list" where
  "runVars cfg = (''AX_METADATA_URL'', ''http://127.0.0.1:'' @ itoa (runPort cfg)) #
     map (\<lambda>e. (env_Name e, env_Value e)) (GetEnv (Option.bind (run_Task cfg) task_Spec))"

definition setVars :: "'o procEnv \<Rightarrow> (string \<times> string) list \<Rightarrow> 'o \<Rightarrow> 'o" where
  "setVars env vars w = foldl (\<lambda>w (n, v). pr_Setenv env n v w) w vars"

definition runServer :: "'o procEnv \<Rightarrow> runConfig \<Rightarrow> metaServer" where
  "runServer env cfg =
     meta_NewServer (pr_guest env) (runPort cfg) (run_Task cfg) (filter (\<lambda>ws. ws \<noteq> None) (map mnt_Ws (runMounts cfg)))
       (mnt_Path (hd (runMounts cfg))) []"

definition runner_Run :: "'o procEnv \<Rightarrow> runConfig \<Rightarrow> 'o \<Rightarrow> error option \<times> runEvent list \<times> metaServer" where
  "runner_Run env cfg w =
     (let mounts = runMounts cfg;
          w1 = setVars env (runVars cfg) w;
          evs = map (\<lambda>(n, v). EvSetenv n v) (runVars cfg);
          server = runServer env cfg;
          addr = '':'' @ itoa (meta_port server)
      in case pr_Listen env addr w1 of
           (Some e, _) \<Rightarrow> (Some (EWrap ''starting metadata server'' (EWrap (''metadata server listening on '' @ addr) e)), evs, server)
         | (None, w2) \<Rightarrow>
             (let (ready, w3) = setupMounts (pr_os env) mounts w2;
                  server1 = (if ready then SetWorkspaceReady True server else server);
                  (err, cmdEvs) = runCommand env cfg (runPort cfg) (mnt_Path (hd mounts)) w3
              in (err, evs @ [EvListen addr] @ (if ready then [EvReady] else []) @ cmdEvs @ [EvShutdown], server1)))"

section \<open>Loading the inputs\<close>

text \<open>
  \<open>loadSpec\<close> leaves its output alone when there is no source; a task without metadata does not
  count. A workspace source is a stream of documents, decoded up to the first error.
\<close>

record inputEnv =
  in_ReadFile :: "string \<Rightarrow> error + string"
  in_Getenv :: "string \<Rightarrow> string"
  in_Task :: "string \<Rightarrow> error + task"
  in_Documents :: "string \<Rightarrow> workspace list \<times> error option"

definition loadSpec :: "inputEnv \<Rightarrow> string \<Rightarrow> string \<Rightarrow> error + task option" where
  "loadSpec env file envVar =
     (let decode = (\<lambda>raw. case in_Task env raw of Inl e \<Rightarrow> Inl (EWrap ''parsing *v1alpha1.Task'' e) | Inr t \<Rightarrow> Inr (Some t)) in
      if file \<noteq> [] then
        (case in_ReadFile env file of Inl e \<Rightarrow> Inl (EWrap (''reading '' @ file) e) | Inr raw \<Rightarrow> decode raw)
      else if in_Getenv env envVar \<noteq> [] then decode (in_Getenv env envVar)
      else Inr None)"

fun readFiles :: "inputEnv \<Rightarrow> string list \<Rightarrow> error + string list" where
  "readFiles env [] = Inr []"
| "readFiles env (f # fs) =
     (case in_ReadFile env f of
        Inl e \<Rightarrow> Inl (EWrap (''reading '' @ f) e)
      | Inr d \<Rightarrow> (case readFiles env fs of Inl e \<Rightarrow> Inl e | Inr ds \<Rightarrow> Inr (d # ds)))"

fun decodeSources :: "inputEnv \<Rightarrow> string list \<Rightarrow> error + workspace list" where
  "decodeSources env [] = Inr []"
| "decodeSources env (src # srcs) =
     (case in_Documents env src of
        (_, Some e) \<Rightarrow> Inl (EWrap ''parsing workspace yaml'' e)
      | (docs, None) \<Rightarrow>
          (case decodeSources env srcs of
             Inl e \<Rightarrow> Inl e
           | Inr ws \<Rightarrow> Inr (filter (\<lambda>w. wsp_Metadata w \<noteq> None) docs @ ws)))"

definition loadWorkspaces :: "inputEnv \<Rightarrow> string list \<Rightarrow> error + workspace list" where
  "loadWorkspaces env files =
     (case (if files \<noteq> [] then readFiles env files
            else if in_Getenv env ''AX_WORKSPACES_YAML'' \<noteq> [] then Inr [in_Getenv env ''AX_WORKSPACES_YAML'']
            else Inr []) of
        Inl e \<Rightarrow> Inl e
      | Inr sources \<Rightarrow> decodeSources env sources)"

text \<open>\<open>main\<close> after flag parsing: the configuration it runs with, or the error it exits with.\<close>

definition taskRunnerConfig :: "inputEnv \<Rightarrow> int \<Rightarrow> string \<Rightarrow> string list \<Rightarrow> error + runConfig" where
  "taskRunnerConfig env port taskFile wsFiles =
     (case loadSpec env taskFile ''AX_TASK_YAML'' of
        Inl e \<Rightarrow> Inl e
      | Inr t \<Rightarrow>
          (case loadWorkspaces env wsFiles of
             Inl e \<Rightarrow> Inl e
           | Inr ws \<Rightarrow> Inr \<lparr>run_Port = port,
               run_Task = (case t of Some t \<Rightarrow> if task_Metadata t \<noteq> None then Some t else None | None \<Rightarrow> None),
               run_Workspaces = map Some ws\<rparr>))"

text \<open>The whole of \<open>main\<close>: the exit status and what the runner did.\<close>

definition axTaskRunnerFlags :: "(string \<times> flagKind) list" where
  "axTaskRunnerFlags = [(''port'', IntKind), (''task-file'', StringKind), (''workspace-file'', StringKind)]"

definition axTaskRunner_main :: "'o procEnv \<Rightarrow> inputEnv \<Rightarrow> string list \<Rightarrow> 'o \<Rightarrow> int \<times> runEvent list" where
  "axTaskRunner_main env ienv args w =
     (case parseFlags axTaskRunnerFlags [] args of
        Inl code \<Rightarrow> (code, [])
      | Inr vals \<Rightarrow>
          (case taskRunnerConfig ienv (intFlag vals ''port'' DefaultPort) (stringFlag vals ''task-file'' [])
                  (allValues vals ''workspace-file'') of
             Inl _ \<Rightarrow> (1, [])
           | Inr cfg \<Rightarrow> (case runner_Run env cfg w of (err, evs, _) \<Rightarrow> (if err = None then 0 else 1, evs))))"

section \<open>Mounts\<close>

lemma byName_find: "byName ws n = find (\<lambda>w. meta_GetName (wsp_Metadata w) = n) (rev (compactWorkspaces ws))"
proof (induction ws rule: rev_induct)
  case (snoc w ws)
  then show ?case by (cases w) (simp_all add: byName_def compactWorkspaces_def)
qed (simp add: byName_def compactWorkspaces_def)

lemma resolveMounts_fields:
  "map mnt_Ref (resolveMounts cfg) = WorkspaceRefs (Option.bind (run_Task cfg) task_Spec)"
  "map mnt_Path (resolveMounts cfg) = WorkspacePaths (Option.bind (run_Task cfg) task_Spec)"
proof -
  have "length (WorkspacePaths sp) = length (WorkspaceRefs sp)" for sp by (simp add: WorkspacePaths_def)
  then show "map mnt_Ref (resolveMounts cfg) = WorkspaceRefs (Option.bind (run_Task cfg) task_Spec)"
    "map mnt_Path (resolveMounts cfg) = WorkspacePaths (Option.bind (run_Task cfg) task_Spec)"
    by (simp_all add: resolveMounts_def Let_def comp_def case_prod_beta map_fst_zip map_snd_zip flip: fst_def snd_def)
qed

section \<open>Readiness\<close>

text \<open>The setups of a run one after the other: whether each reported an error.\<close>

fun setupErrors :: "'o osEnv \<Rightarrow> mount list \<Rightarrow> 'o \<Rightarrow> error option list" where
  "setupErrors env [] w = []"
| "setupErrors env (m # ms) w =
     (case SetupWorkspace env (mnt_Ws m) (mnt_Path m) (wref_Goal (mnt_Ref m)) w of
        ((_, e), w1) \<Rightarrow> e # setupErrors env ms w1)"

lemma setupMounts_ready: "fst (setupMounts env ms w) \<longleftrightarrow> list_all (\<lambda>e. e = None) (setupErrors env ms w)"
  by (induction ms arbitrary: w) (simp_all add: case_prod_beta Let_def)

definition readyzRequest :: metaRequest where
  "readyzRequest = \<lparr>mq_Path = ''/readyz'', mq_ProtoMajor = 1, mq_ContentType = []\<rparr>"

lemma runCommand_quiet:
  "runCommand env cfg port p w = (err, evs) \<Longrightarrow> EvReady \<notin> set evs \<and> EvShutdown \<notin> set evs \<and> EvListen a \<notin> set evs"
  by (auto simp: runCommand_def Let_def stopCommand_def reportExit_def split: if_splits sum.splits prod.splits)

text \<open>
  What a run makes of its command, by cases: nothing to run; a command that cannot be started; a command
  that ends by itself; one that ends after SIGTERM, or after SIGKILL as well.
\<close>

definition commandLife :: "'o procEnv \<Rightarrow> runConfig \<Rightarrow> 'o \<Rightarrow> error option \<Rightarrow> runEvent list \<Rightarrow> bool" where
  "commandLife env cfg w err cmds \<longleftrightarrow>
     (let args = GetCommand (Option.bind (run_Task cfg) task_Spec);
          dir = mnt_Path (hd (runMounts cfg)); vars = commandEnv env (run_Task cfg) (runPort cfg) w;
          w' = snd (pr_Start env args dir vars w)
      in if args = [] then cmds = [] \<and> err = None
         else case fst (pr_Start env args dir vars w) of
                Inl e \<Rightarrow> cmds = [EvStart args dir vars] \<and> err \<noteq> None
              | Inr pid \<Rightarrow> err = None \<and>
                  cmds = [EvStart args dir vars] @
                    (case pr_Ending env w' of Finished \<Rightarrow> [] | Stopped \<Rightarrow> [EvTerm pid] | Killed \<Rightarrow> [EvTerm pid, EvKill pid]) @
                    [EvExit \<lparr>ce_Pid = pid, ce_ExitCode = (case pr_State env w' of None \<Rightarrow> -1 | Some c \<Rightarrow> c), ce_Err = pr_Wait env w'\<rparr>])"

lemma runCommand_life:
  "runCommand env cfg (runPort cfg) (mnt_Path (hd (runMounts cfg))) w = (err, evs) \<Longrightarrow> commandLife env cfg w err evs"
  by (auto simp: runCommand_def commandLife_def Let_def stopCommand_def reportExit_def case_prod_beta
      split: if_splits sum.splits ending.splits)

text \<open>C25: The life of a task runner. Once it listens, it reports ready exactly when the setup of
  every mount, in declaration order, reported no error; that happens before the command starts and
  is what \<open>/readyz\<close> answers. Then a command, if the task has one, is started in the first mount's
  directory with the runner's variables, whether or not the run is ready; a failed start ends the run
  with an error, a started command is reported with its exit, after a SIGTERM when it was still running
  at the end and a SIGKILL when it outlived the grace period too. Shutting the server down is the last
  thing the run does.
\<close>

theorem runner_lifecycle:
  assumes "runner_Run env cfg w = (err, evs, server)" and "EvListen addr \<in> set evs"
  shows "\<exists>cmds. evs = map (\<lambda>(n, v). EvSetenv n v) (runVars cfg) @ [EvListen addr] @
      (if meta_ready server then [EvReady] else []) @ cmds @ [EvShutdown] \<and>
    (let w1 = snd (pr_Listen env addr (setVars env (runVars cfg) w)) in
     (meta_ready server \<longleftrightarrow> list_all (\<lambda>e. e = None) (setupErrors (pr_os env) (runMounts cfg) w1)) \<and>
     commandLife env cfg (snd (setupMounts (pr_os env) (runMounts cfg) w1)) err cmds) \<and>
    (serveHTTP y server readyzRequest = okResponse \<longleftrightarrow> meta_ready server)"
proof -
  define pre where "pre = map (\<lambda>(n, v). EvSetenv n v) (runVars cfg)"
  let ?addr = "'':'' @ itoa (meta_port (runServer env cfg))"
  have npre: "EvListen a \<notin> set pre" for a by (auto simp: pre_def)
  obtain le w2 where l: "pr_Listen env ?addr (setVars env (runVars cfg) w) = (le, w2)" by fastforce
  obtain ready w3 where s: "setupMounts (pr_os env) (runMounts cfg) w2 = (ready, w3)" by fastforce
  obtain cerr cmds where c: "runCommand env cfg (runPort cfg) (mnt_Path (hd (runMounts cfg))) w3 = (cerr, cmds)" by fastforce
  have run: "runner_Run env cfg w = (case le of
      Some e \<Rightarrow> (Some (EWrap ''starting metadata server'' (EWrap (''metadata server listening on '' @ ?addr) e)), pre, runServer env cfg)
    | None \<Rightarrow> (cerr, pre @ [EvListen ?addr] @ (if ready then [EvReady] else []) @ cmds @ [EvShutdown],
        if ready then SetWorkspaceReady True (runServer env cfg) else runServer env cfg))"
    using l s c unfolding runner_Run_def Let_def pre_def [symmetric] by (simp split: option.split)
  have le: "le = None" using run assms npre by (cases le) auto
  have addr: "addr = ?addr"
    using run assms le npre runCommand_quiet [OF c] by (auto split: if_splits)
  have ready: "meta_ready server \<longleftrightarrow> ready"
    using run assms(1) le by (auto simp: SetWorkspaceReady_def runServer_def meta_NewServer_def Let_def)
  have "ready \<longleftrightarrow> list_all (\<lambda>e. e = None) (setupErrors (pr_os env) (runMounts cfg) w2)"
    using setupMounts_ready [of "pr_os env" "runMounts cfg" w2] s by simp
  moreover have "serveHTTP y server readyzRequest = okResponse \<longleftrightarrow> meta_ready server"
    by (simp add: serveHTTP_def readyzRequest_def handleReadyz_def okResponse_def httpError_def)
  ultimately show ?thesis
    using run assms(1) le addr ready runCommand_life [OF c] l s
    by (intro exI [of _ cmds]) (auto simp: pre_def Let_def)
qed

section \<open>The guest services\<close>

text \<open>The states of a server: as created, then updated and marked ready in any order.\<close>

inductive meta_reachable :: "guestLib \<Rightarrow> task option \<Rightarrow> metaServer \<Rightarrow> bool" for lib task where
  created: "meta_reachable lib task (meta_NewServer lib port task workspaces workspacePath logDir)"
| updated: "meta_reachable lib task s \<Longrightarrow> meta_reachable lib task (UpdateState task' workspaces s)"
| readied: "meta_reachable lib task s \<Longrightarrow> meta_reachable lib task (SetWorkspaceReady b s)"

lemma guest_needs_debug: "meta_reachable lib task s \<Longrightarrow> meta_guest s \<noteq> None \<Longrightarrow> GetDebug (Option.bind task task_Spec)"
  by (induction rule: meta_reachable.induct)
    (auto simp: meta_NewServer_def UpdateState_def SetWorkspaceReady_def Let_def split: if_splits)

text \<open>C26: The guest services, which run processes and access files in the container, are reachable only
  for a task that asked for them: whatever happened to the server since, a request is handed to
  them only if the task it was created for has \<open>spec.debug\<close>, and only as a gRPC request over HTTP/2.
\<close>

theorem guest_only_debug:
  assumes "meta_reachable lib task s" and "serveHTTP y s r = FromGuest"
  shows "GetDebug (Option.bind task task_Spec) \<and> mq_ProtoMajor r = 2 \<and> hasPrefix (mq_ContentType r) ''application/grpc''"
  using assms guest_needs_debug [OF assms(1)]
  by (auto simp: serveHTTP_def handleHealthz_def handleReadyz_def handleTask_def handleWorkspaces_def okResponse_def httpError_def
      written_def split: if_splits option.splits)

definition exampleGuest :: guestLib where
  "exampleGuest = \<lparr>guest_Default = (''/'', ''/log''), guest_NewServer = (\<lambda>_. None)\<rparr>"

definition exampleYaml :: yamlLib where
  "exampleYaml = \<lparr>yaml_Task = (\<lambda>_. (''task'', None)), yaml_Workspace = (\<lambda>_ _. (''ws'', None)), yaml_Close = ([], None)\<rparr>"

definition debugTask :: task where
  "debugTask = exampleTask\<lparr>task_Spec := Some (exampleSpec\<lparr>ts_Debug := True, ts_Command := [''sleep'', ''1'']\<rparr>)\<rparr>"

definition grpcRequest :: metaRequest where
  "grpcRequest = \<lparr>mq_Path = ''/guest.Process/Start'', mq_ProtoMajor = 2, mq_ContentType = ''application/grpc+proto''\<rparr>"

theorem guest_only_debug_witness:
  "serveHTTP exampleYaml (meta_NewServer exampleGuest 80 (Some debugTask) [] [] []) grpcRequest = FromGuest \<and>
   GetDebug (Option.bind (Some debugTask) task_Spec)"
proof -
  have "serveHTTP exampleYaml (meta_NewServer exampleGuest 80 (Some debugTask) [] [] []) grpcRequest = FromGuest" by code_simp
  with guest_only_debug [OF created this] show ?thesis by blast
qed

text \<open>Processes that start and end by themselves, over an operating system given as an argument.\<close>

definition exampleProc :: "'o osEnv \<Rightarrow> 'o procEnv" where
  "exampleProc os = \<lparr>pr_os = os, pr_guest = exampleGuest, pr_Listen = (\<lambda>_ w. (None, w)), pr_Environ = (\<lambda>_. []), pr_Setenv = (\<lambda>_ _ w. w),
     pr_Start = (\<lambda>_ _ _ w. (Inr 7, w)), pr_Ending = (\<lambda>_. Finished), pr_Wait = (\<lambda>_. None), pr_State = (\<lambda>_. Some 0)\<rparr>"

definition exampleRun :: runConfig where
  "exampleRun = \<lparr>run_Port = 0, run_Task = Some debugTask, run_Workspaces = [Some exampleWorkspace]\<rparr>"

theorem runner_lifecycle_witness:
  "\<exists>pre post vars. fst (snd (runner_Run (exampleProc rememberOs) exampleRun [])) =
     pre @ [EvListen '':80'', EvReady, EvStart [''sleep'', ''1''] (mnt_Path (hd (runMounts exampleRun))) vars,
       EvExit \<lparr>ce_Pid = 7, ce_ExitCode = 0, ce_Err = None\<rparr>, EvShutdown]"
proof -
  obtain err evs server where r: "runner_Run (exampleProc rememberOs) exampleRun [] = (err, evs, server)" by (metis surj_pair)
  have "EvListen '':80'' \<in> set (fst (snd (runner_Run (exampleProc rememberOs) exampleRun [])))"
    "meta_ready (snd (snd (runner_Run (exampleProc rememberOs) exampleRun [])))" by code_simp+
  then have l: "EvListen '':80'' \<in> set evs" "meta_ready server" using r by simp_all
  have c: "GetCommand (Option.bind (run_Task exampleRun) task_Spec) = [''sleep'', ''1'']" by code_simp
  have p: "pr_Start (exampleProc os) as d vs v = (Inr 7, v)" "pr_Ending (exampleProc os) v = Finished"
    "pr_Wait (exampleProc os) v = None" "pr_State (exampleProc os) v = Some 0" for os :: "'z osEnv" and as d vs v
    by (simp_all add: exampleProc_def)
  from runner_lifecycle [OF r l(1), of exampleYaml] l(2) show ?thesis
    by (auto simp: r commandLife_def Let_def c p)
qed

text \<open>An operating system on which git always fails.\<close>

definition noGitOs :: "string list osEnv" where
  "noGitOs = rememberOs\<lparr>os_Git := (\<lambda>_ _ w. ((''no network'', Some (ENew ''exit status 128'')), w))\<rparr>"

text \<open>The runner reports ready although the workspace could not be fetched: a failed clone is no
  error of the setup, so the run becomes ready and starts the command in a workspace without its
  repository.
\<close>

theorem runner_ready_without_clone:
  "EvReady \<in> set (fst (snd (runner_Run (exampleProc noGitOs) exampleRun []))) \<and>
   snd (fst (SetupWorkspace noGitOs (Some exampleWorkspace) ''/workspace/code'' [] [])) = None \<and>
   map_option sr_ClonedRepos (fst (fst (SetupWorkspace noGitOs (Some exampleWorkspace) ''/workspace/code'' [] []))) = Some []"
  by code_simp

end
