(* ===== verification/Cli.thy ===== *)
theory Cli
  imports Api_Server Tunnel Guest_Client Task_Runner
begin

text \<open>
  \<open>cmd/ax/main.go\<close>: the command line. A command acts on a world \<open>'c\<close> and returns a result, what
  it printed, and the world; the API client it talks to is the record \<open>axClient\<close>, one call per RPC.
  \<open>serverClient\<close> is that client over the handlers of \<open>Api_Server\<close> and a store, so that the commands
  and the server can be run together. YAML, \<open>proto.Equal\<close>, \<open>text/tabwriter\<close>, the clock and the
  network are arguments. Loops that wait for the server are partial functions: None is a command
  that does not return.
\<close>

section \<open>The API client\<close>

record 'c axClient =
  ax_GetTask :: "string \<Rightarrow> string \<Rightarrow> 'c \<Rightarrow> (error + task) \<times> 'c"
  ax_GetGateway :: "string \<Rightarrow> string \<Rightarrow> 'c \<Rightarrow> (error + gateway) \<times> 'c"
  ax_GetWorkspace :: "string \<Rightarrow> string \<Rightarrow> 'c \<Rightarrow> (error + workspace) \<times> 'c"
  ax_GetModel :: "string \<Rightarrow> string \<Rightarrow> 'c \<Rightarrow> (error + model) \<times> 'c"
  ax_ListTasks :: "string \<Rightarrow> 'c \<Rightarrow> (error + task list) \<times> 'c"
  ax_ListGateways :: "string \<Rightarrow> 'c \<Rightarrow> (error + gateway list) \<times> 'c"
  ax_ListWorkspaces :: "string \<Rightarrow> 'c \<Rightarrow> (error + workspace list) \<times> 'c"
  ax_ListModels :: "string \<Rightarrow> 'c \<Rightarrow> (error + model list) \<times> 'c"
  ax_UpdateTask :: "task \<Rightarrow> 'c \<Rightarrow> (error + task) \<times> 'c"
  ax_UpdateGateway :: "gateway \<Rightarrow> 'c \<Rightarrow> (error + gateway) \<times> 'c"
  ax_UpdateWorkspace :: "workspace \<Rightarrow> 'c \<Rightarrow> (error + workspace) \<times> 'c"
  ax_UpdateModel :: "model \<Rightarrow> 'c \<Rightarrow> (error + model) \<times> 'c"
  ax_DeleteTask :: "string \<Rightarrow> string \<Rightarrow> 'c \<Rightarrow> (error + unit) \<times> 'c"
  ax_DeleteGateway :: "string \<Rightarrow> string \<Rightarrow> 'c \<Rightarrow> (error + unit) \<times> 'c"
  ax_DeleteWorkspace :: "string \<Rightarrow> string \<Rightarrow> 'c \<Rightarrow> (error + unit) \<times> 'c"
  ax_DeleteModel :: "string \<Rightarrow> string \<Rightarrow> 'c \<Rightarrow> (error + unit) \<times> 'c"
  ax_SuspendTask :: "string \<Rightarrow> string \<Rightarrow> 'c \<Rightarrow> (error + task) \<times> 'c"
  ax_ResumeTask :: "string \<Rightarrow> string \<Rightarrow> 'c \<Rightarrow> (error + task) \<times> 'c"
  ax_WatchTask :: "string \<Rightarrow> string \<Rightarrow> 'c \<Rightarrow> error option \<times> 'c"
  ax_WatchRecv :: "'c \<Rightarrow> (error option + task option) \<times> 'c"   \<comment> \<open>\<open>Inl None\<close> is the end of the stream\<close>

text \<open>A manifest document as the YAML decoder gives it, for each kind it could be decoded as.\<close>

record document =
  doc_Empty :: bool
  doc_Kind :: "error + string"
  doc_Task :: "error + task"
  doc_Gateway :: "error + gateway"
  doc_Workspace :: "error + workspace"
  doc_Model :: "error + model"

record 'c cliEnv =
  cl_NewClient :: "string \<Rightarrow> error option"
  cl_Client :: "'c axClient"
  cl_Documents :: "string \<Rightarrow> document list \<times> error option"
  cl_EqTask :: "taskSpec option \<Rightarrow> taskSpec option \<Rightarrow> bool"
  cl_EqGateway :: "gatewaySpec option \<Rightarrow> gatewaySpec option \<Rightarrow> bool"
  cl_EqWorkspace :: "workspaceSpec option \<Rightarrow> workspaceSpec option \<Rightarrow> bool"
  cl_EqModel :: "modelSpec option \<Rightarrow> modelSpec option \<Rightarrow> bool"
  cl_YamlTask :: "task \<Rightarrow> string \<times> error option"
  cl_YamlGateway :: "gateway \<Rightarrow> string \<times> error option"
  cl_YamlWorkspace :: "workspace \<Rightarrow> string \<times> error option"
  cl_YamlModel :: "model \<Rightarrow> string \<times> error option"
  cl_Tab :: "nat \<Rightarrow> string \<Rightarrow> string"   \<comment> \<open>the tab writer with a padding\<close>
  cl_Value :: "any \<Rightarrow> string"   \<comment> \<open>the \<open>%v\<close> of a value\<close>
  cl_Now :: "'c \<Rightarrow> int"
  cl_Clock :: "'c \<Rightarrow> string"   \<comment> \<open>the time of day\<close>
  cl_Date :: "int \<Rightarrow> string"
  cl_ReadFile :: "string \<Rightarrow> 'c \<Rightarrow> error + string"
  cl_ReadStdin :: "'c \<Rightarrow> error + string"
  cl_Wait :: "'c \<Rightarrow> bool \<times> 'c"   \<comment> \<open>the poll interval; False when the context is done first\<close>
  cl_tun :: "'c tunEnv"
  cl_pf :: "'c pfEnv"
  cl_Reachable :: "string \<Rightarrow> 'c \<Rightarrow> bool"
  cl_Process :: "guestConn \<Rightarrow> 'c processSvc"

type_synonym 'c ran = "unit go \<times> string \<times> 'c"

definition nl :: string where "nl = [CHR 0x0A]"
definition tab :: string where "tab = [CHR 0x09]"

definition getAXClient :: "'c cliEnv \<Rightarrow> string \<Rightarrow> error option" where
  "getAXClient env serverURL =
     (let target = trimPrefix (trimPrefix serverURL ''http://'') ''https://'' in
      case cl_NewClient env target of
        None \<Rightarrow> None
      | Some e \<Rightarrow> Some (EWrap (''connecting to '' @ target) e))"

section \<open>Apply\<close>

definition applyOutcome :: "('s \<Rightarrow> 's \<Rightarrow> bool) \<Rightarrow> error option \<Rightarrow> 's \<Rightarrow> 's \<Rightarrow> error + string" where
  "applyOutcome equal lookupErr existingSpec newSpec =
     (case lookupErr of
        Some e \<Rightarrow> if status_code e = CodeNotFound then Inr ''created'' else Inl (EWrap ''looking up existing resource'' e)
      | None \<Rightarrow> if equal existingSpec newSpec then Inr ''unchanged'' else Inr ''configured'')"

text \<open>One case of \<open>applyDocument\<close>: decode, look up, classify, submit. The four cases differ in their calls only.\<close>

definition applyKind ::
  "(string \<Rightarrow> string \<Rightarrow> 'c \<Rightarrow> (error + 'r) \<times> 'c) \<Rightarrow> ('r \<Rightarrow> 'c \<Rightarrow> (error + 'r) \<times> 'c) \<Rightarrow> ('s option \<Rightarrow> 's option \<Rightarrow> bool) \<Rightarrow>
   ('r \<Rightarrow> objectMeta option) \<Rightarrow> ('r \<Rightarrow> 's option) \<Rightarrow> string \<Rightarrow> error + 'r \<Rightarrow> 'c \<Rightarrow> (error + string \<times> string \<times> string) \<times> 'c" where
  "applyKind get update equal meta spec kind decoded c =
     (case decoded of
        Inl e \<Rightarrow> (Inl e, c)
      | Inr r \<Rightarrow>
          (case get (meta_GetAtespace (meta r)) (meta_GetName (meta r)) c of
             (looked, c1) \<Rightarrow>
               (case applyOutcome equal (case looked of Inl e \<Rightarrow> Some e | Inr _ \<Rightarrow> None)
                       (case looked of Inl _ \<Rightarrow> None | Inr old \<Rightarrow> spec old) (spec r) of
                  Inl e \<Rightarrow> (Inl e, c1)
                | Inr outcome \<Rightarrow>
                    (case update r c1 of
                       (Inl e, c2) \<Rightarrow> (Inl e, c2)
                     | (Inr res, c2) \<Rightarrow> (Inr (kind, meta_GetName (meta res), outcome), c2)))))"

definition applyDocument :: "'c cliEnv \<Rightarrow> document \<Rightarrow> 'c \<Rightarrow> (error + string \<times> string \<times> string) \<times> 'c" where
  "applyDocument env doc c =
     (case doc_Kind doc of
        Inl e \<Rightarrow> (Inl (EWrap ''reading kind'' e), c)
      | Inr kind \<Rightarrow>
          let cl = cl_Client env in
          if kind = KindTask then
            applyKind (ax_GetTask cl) (ax_UpdateTask cl) (cl_EqTask env) task_Metadata task_Spec kind (doc_Task doc) c
          else if kind = KindGateway then
            applyKind (ax_GetGateway cl) (ax_UpdateGateway cl) (cl_EqGateway env) gw_Metadata gw_Spec kind (doc_Gateway doc) c
          else if kind = KindWorkspace then
            applyKind (ax_GetWorkspace cl) (ax_UpdateWorkspace cl) (cl_EqWorkspace env) wsp_Metadata wsp_Spec kind (doc_Workspace doc) c
          else if kind = KindModel then
            applyKind (ax_GetModel cl) (ax_UpdateModel cl) (cl_EqModel env) model_Metadata model_Spec kind (doc_Model doc) c
          else if kind = [] then (Inl (ENew ''missing kind''), c)
          else (Inl (ENew (''unsupported kind '' @ quote kind @ '' (expected Task, Gateway, Workspace, or Model)'')), c))"

text \<open>The documents of a manifest in turn; \<open>end\<close> is the decoder's error after the last, if any.\<close>

fun applyDocs :: "'c cliEnv \<Rightarrow> nat \<Rightarrow> document list \<Rightarrow> error option \<Rightarrow> 'c \<Rightarrow> 'c ran" where
  "applyDocs env i [] e c =
     (case e of None \<Rightarrow> (Ok (), [], c) | Some e \<Rightarrow> (Err (EWrap (''decoding document '' @ utoa i) e), [], c))"
| "applyDocs env i (doc # docs) e c =
     (if doc_Empty doc then applyDocs env (Suc i) docs e c
      else case applyDocument env doc c of
             (Inl err, c1) \<Rightarrow> (Err (EWrap (''applying document '' @ utoa i) err), [], c1)
           | (Inr (kind, name, outcome), c1) \<Rightarrow>
               (let (r, out, c2) = applyDocs env (Suc i) docs e c1
                in (r, toLower kind @ ''.ax.io/'' @ name @ '' '' @ outcome @ nl @ out, c2)))"

text \<open>The manifest named by \<open>-f\<close>: None when there is no such flag.\<close>

fun manifestFromArgs :: "'c cliEnv \<Rightarrow> string list \<Rightarrow> 'c \<Rightarrow> error + string option" where
  "manifestFromArgs env [] c = Inr None"
| "manifestFromArgs env (arg # args) c =
     (if arg \<noteq> ''-f'' \<and> arg \<noteq> ''--file'' then manifestFromArgs env args c
      else case args of
             [] \<Rightarrow> Inl (ENew ''-f requires a file path (or - for stdin)'')
           | path # _ \<Rightarrow>
               (case (if path = ''-'' then cl_ReadStdin env c else cl_ReadFile env path c) of
                  Inl e \<Rightarrow> Inl (EWrap (''reading '' @ path) e)
                | Inr dat \<Rightarrow> Inr (Some dat)))"

definition runApply :: "'c cliEnv \<Rightarrow> string \<Rightarrow> string list \<Rightarrow> 'c \<Rightarrow> 'c ran" where
  "runApply env serverURL args c =
     (case manifestFromArgs env args c of
        Inl e \<Rightarrow> (Err e, [], c)
      | Inr None \<Rightarrow> (Err (ENew ''missing required flag: -f <file>''), [], c)
      | Inr (Some dat) \<Rightarrow>
          (case getAXClient env serverURL of
             Some e \<Rightarrow> (Err e, [], c)
           | None \<Rightarrow> (case cl_Documents env dat of (docs, e) \<Rightarrow> applyDocs env 1 docs e c)))"

section \<open>Get\<close>

definition orNone :: "string \<Rightarrow> string" where
  "orNone s = (if s = [] then ''<none>'' else s)"

definition row :: "string list \<Rightarrow> string" where
  "row cells = joinWith tab cells @ nl"

text \<open>
  The division of a duration by a unit, towards zero as Go's conversion from a float is; the
  rounding of the float itself is far below a unit for any age in question.
\<close>

definition wholeUnits :: "int \<Rightarrow> int \<Rightarrow> int" where
  "wholeUnits d unit = (if d < 0 then - ((- d) div unit) else d div unit)"

definition formatAge :: "int \<Rightarrow> string" where
  "formatAge d =
     (let second = 1000 * millisecond; minute = 60 * second; hour = 60 * minute in
      if d < minute then itoa (wholeUnits d second) @ ''s''
      else if d < hour then itoa (wholeUnits d minute) @ ''m''
      else if d < 24 * hour then itoa (wholeUnits d hour) @ ''h''
      else itoa (wholeUnits d (24 * hour)) @ ''d'')"

definition taskRow :: "int \<Rightarrow> task \<Rightarrow> string" where
  "taskRow now t =
     (let phase = (case task_Status t of None \<Rightarrow> ''Pending'' | Some st \<Rightarrow> if st_Phase st = [] then ''Pending'' else st_Phase st);
          actor = (case task_Status t of None \<Rightarrow> [] | Some st \<Rightarrow> st_Actor st);
          workerIP = (case task_Status t of None \<Rightarrow> [] | Some st \<Rightarrow> st_WorkerIp st);
          age = (case GetCreationTimestamp (task_Metadata t) of None \<Rightarrow> ''<unknown>'' | Some ts \<Rightarrow> formatAge (now - ts))
      in row [meta_GetName (task_Metadata t), meta_GetAtespace (task_Metadata t), phase, orNone actor, orNone workerIP, age])"

definition gatewayListeners :: "gateway \<Rightarrow> listener list" where
  "gatewayListeners g = (case gw_Spec g of None \<Rightarrow> [] | Some sp \<Rightarrow> gs_Listeners sp)"

definition gatewayHosts :: "gateway \<Rightarrow> hostRule list" where
  "gatewayHosts g = (case Option.bind (Option.bind (gw_Spec g) gs_Egress) ec_Allowlist of None \<Rightarrow> [] | Some al \<Rightarrow> ea_Hosts al)"

definition gatewayRow :: "gateway \<Rightarrow> string" where
  "gatewayRow g =
     row [meta_GetName (gw_Metadata g), meta_GetAtespace (gw_Metadata g),
          orNone (joinWith '','' (map (\<lambda>l. itoa (ln_Port l) @ ''/'' @ ln_Protocol l) (gatewayListeners g))),
          orNone (joinWith '','' (map hr_Host (gatewayHosts g)))]"

definition workspaceRow :: "workspace \<Rightarrow> string" where
  "workspaceRow ws =
     row [meta_GetName (wsp_Metadata ws), meta_GetAtespace (wsp_Metadata ws),
          utoa (case wsp_Spec ws of None \<Rightarrow> 0 | Some sp \<Rightarrow> length (ws_Git sp)),
          utoa (case Option.bind (wsp_Spec ws) ws_Mcp of None \<Rightarrow> 0 | Some mcp \<Rightarrow> length (mc_Servers mcp))]"

definition modelRow :: "model \<Rightarrow> string" where
  "modelRow m =
     row [meta_GetName (model_Metadata m), meta_GetAtespace (model_Metadata m),
          (case model_Spec m of None \<Rightarrow> [] | Some sp \<Rightarrow> ms_Provider sp), (case model_Spec m of None \<Rightarrow> [] | Some sp \<Rightarrow> ms_Model sp)]"

text \<open>A table of all resources of a kind, and one resource as YAML.\<close>

definition getTable ::
  "'c cliEnv \<Rightarrow> (string \<Rightarrow> 'c \<Rightarrow> (error + 'r list) \<times> 'c) \<Rightarrow> string \<Rightarrow> string list \<Rightarrow> ('c \<Rightarrow> 'r \<Rightarrow> string) \<Rightarrow> string \<Rightarrow> 'c \<Rightarrow> 'c ran" where
  "getTable env lister kinds header line atespace c =
     (case lister atespace c of
        (Inl e, c1) \<Rightarrow> (Err (EWrap (''listing '' @ kinds) e), [], c1)
      | (Inr rs, c1) \<Rightarrow> (Ok (), cl_Tab env 3 (row header @ concat (map (line c1) rs)), c1))"

definition getYaml ::
  "(string \<Rightarrow> string \<Rightarrow> 'c \<Rightarrow> (error + 'r) \<times> 'c) \<Rightarrow> ('r \<Rightarrow> string \<times> error option) \<Rightarrow> string \<Rightarrow> string \<Rightarrow> string \<Rightarrow> 'c \<Rightarrow> 'c ran" where
  "getYaml get encode kind atespace name c =
     (case get atespace name c of
        (Inl e, c1) \<Rightarrow> (Err (EWrap (''getting '' @ kind @ '' '' @ quote name) e), [], c1)
      | (Inr r, c1) \<Rightarrow>
          (case encode r of (out, None) \<Rightarrow> (Ok (), out, c1) | (out, Some e) \<Rightarrow> (Err e, out, c1)))"

definition runGet :: "'c cliEnv \<Rightarrow> string \<Rightarrow> string \<Rightarrow> string list \<Rightarrow> 'c \<Rightarrow> 'c ran" where
  "runGet env serverURL atespace args c =
     (if args = [] then (Err (ENew ''specify resource to get (e.g. 'ax get tasks' or 'ax get task <name>')''), [], c)
      else case getAXClient env serverURL of
        Some e \<Rightarrow> (Err e, [], c)
      | None \<Rightarrow>
          let resource = toLower (hd args); one = (length args = 1); cl = cl_Client env; name = hd (tl args) in
          if resource = ''tasks'' \<or> resource = ''task'' \<and> one then
            getTable env (ax_ListTasks cl) ''tasks'' [''NAME'', ''ATESPACE'', ''PHASE'', ''ACTOR'', ''WORKER-IP'', ''AGE'']
              (\<lambda>c. taskRow (cl_Now env c)) atespace c
          else if resource = ''task'' then getYaml (ax_GetTask cl) (cl_YamlTask env) ''task'' atespace name c
          else if resource = ''gateways'' \<or> resource = ''gateway'' \<and> one then
            getTable env (ax_ListGateways cl) ''gateways'' [''NAME'', ''ATESPACE'', ''LISTENERS'', ''EGRESS-HOSTS''] (\<lambda>_. gatewayRow) atespace c
          else if resource = ''gateway'' then getYaml (ax_GetGateway cl) (cl_YamlGateway env) ''gateway'' atespace name c
          else if resource = ''workspaces'' \<or> resource = ''workspace'' \<and> one then
            getTable env (ax_ListWorkspaces cl) ''workspaces'' [''NAME'', ''ATESPACE'', ''GIT-REPOS'', ''MCP-SERVERS''] (\<lambda>_. workspaceRow) atespace c
          else if resource = ''workspace'' then getYaml (ax_GetWorkspace cl) (cl_YamlWorkspace env) ''workspace'' atespace name c
          else if resource = ''models'' \<or> resource = ''model'' \<and> one then
            getTable env (ax_ListModels cl) ''models'' [''NAME'', ''ATESPACE'', ''PROVIDER'', ''MODEL''] (\<lambda>_. modelRow) atespace c
          else if resource = ''model'' then getYaml (ax_GetModel cl) (cl_YamlModel env) ''model'' atespace name c
          else (Err (ENew (''unknown resource '' @ quote resource)), [], c))"

section \<open>Describe\<close>

definition line :: "string \<Rightarrow> string \<Rightarrow> string" where
  "line label value = label @ value @ nl"

definition lineUnlessEmpty :: "string \<Rightarrow> string \<Rightarrow> string" where
  "lineUnlessEmpty label value = (if value \<noteq> [] then line label value else [])"

definition block :: "string \<Rightarrow> ('a \<Rightarrow> string) \<Rightarrow> 'a list \<Rightarrow> string" where
  "block title item xs = (if xs = [] then [] else title @ nl @ concat (map item xs))"

text \<open>\<open>%v\<close> of a list of strings.\<close>

definition bracketed :: "string list \<Rightarrow> string" where
  "bracketed xs = ''['' @ joinWith '' '' xs @ '']''"

text \<open>Keys in byte order, \<open>sort.Strings\<close>.\<close>

fun byteLess :: "string \<Rightarrow> string \<Rightarrow> bool" where
  "byteLess _ [] = False"
| "byteLess [] (_ # _) = True"
| "byteLess (a # as) (b # bs) =
     (let x = (of_char a :: nat); y = of_char b in x < y \<or> x = y \<and> byteLess as bs)"

fun insertKey :: "string \<Rightarrow> string list \<Rightarrow> string list" where
  "insertKey k [] = [k]"
| "insertKey k (x # xs) = (if byteLess x k then x # insertKey k xs else k # x # xs)"

definition sortKeys :: "string list \<Rightarrow> string list" where
  "sortKeys ks = foldr insertKey ks []"

definition describeSecret :: "secretKeyRef \<Rightarrow> string" where
  "describeSecret k =
     (let label = ''Secret Key:         '' in
      if sec_Name k \<noteq> [] \<and> sec_Key k \<noteq> [] \<and> sec_Name k \<noteq> sec_Key k then line label (sec_Name k @ '' (key: '' @ sec_Key k @ '')'')
      else if sec_Key k \<noteq> [] then line label (sec_Key k)
      else if sec_Name k \<noteq> [] then line label (sec_Name k)
      else [])"

definition describeParameters :: "(any \<Rightarrow> string) \<Rightarrow> (string \<times> any) list \<Rightarrow> string" where
  "describeParameters fmt ps =
     block ''Parameters:'' (\<lambda>k. ''  '' @ k @ '': '' @ (case map_of ps k of None \<Rightarrow> fmt ANull | Some v \<Rightarrow> fmt v) @ nl) (sortKeys (map fst ps))"

definition describeModel :: "(any \<Rightarrow> string) \<Rightarrow> model \<Rightarrow> string" where
  "describeModel fmt m =
     line ''Name:               '' (meta_GetName (model_Metadata m)) @
     line ''Atespace:           '' (meta_GetAtespace (model_Metadata m)) @
     (case model_Spec m of
        None \<Rightarrow> []
      | Some sp \<Rightarrow>
          line ''Provider:           '' (ms_Provider sp) @
          lineUnlessEmpty ''Protocol:           '' (ms_Protocol sp) @
          line ''Model:              '' (ms_Model sp) @
          lineUnlessEmpty ''Base URL:           '' (ms_BaseUrl sp) @
          lineUnlessEmpty ''API key header:     '' (ms_ApiKeyHeader sp) @
          describeParameters fmt (case ms_Parameters sp of None \<Rightarrow> [] | Some ps \<Rightarrow> ps) @
          (case ms_SecretKey sp of None \<Rightarrow> [] | Some k \<Rightarrow> describeSecret k))"

definition describeRepo :: "gitRepo \<Rightarrow> string" where
  "describeRepo g = ''  - '' @ git_Name g @ '' ('' @ git_Repo g @ '', branch: '' @
     (if git_Branch g = [] then ''main'' else git_Branch g) @ '')'' @ nl"

definition describeServer :: "mcpServer \<Rightarrow> string" where
  "describeServer s =
     (if mcp_Endpoint s \<noteq> [] then ''  - '' @ mcp_Name s @ '': '' @ mcp_Endpoint s @ nl
      else ''  - '' @ mcp_Name s @ '': '' @ mcp_Command s @ '' '' @ bracketed (mcp_Args s) @ nl)"

definition describeMcp :: "mcpConfig \<Rightarrow> string" where
  "describeMcp mcp =
     block ''MCP Registries:'' (\<lambda>r. ''  - Provider: '' @ mr_Provider r @ '', Query: '' @ quote (mr_Query r) @ nl) (mc_Registries mcp) @
     block ''MCP Servers:'' describeServer (mc_Servers mcp)"

definition describeSkills :: "skillsConfig \<Rightarrow> string" where
  "describeSkills sk =
     block ''Skill Registries:'' (\<lambda>r. ''  - Provider: '' @ sr_Provider r @ '', Query: '' @ quote (sr_Query r) @ nl) (sk_Registries sk) @
     lineUnlessEmpty ''Skills Path:      '' (sk_Path sk)"

text \<open>A nil repository, which no response of the server contains, is a nil dereference.\<close>

definition describeWorkspace :: "workspace \<Rightarrow> unit go \<times> string" where
  "describeWorkspace ws =
     (let head = line ''Name:         '' (meta_GetName (wsp_Metadata ws)) @ line ''Atespace:     '' (meta_GetAtespace (wsp_Metadata ws)) in
      case wsp_Spec ws of
        None \<Rightarrow> (Ok (), head)
      | Some sp \<Rightarrow>
          (let known = takeWhile (\<lambda>r. r \<noteq> None) (ws_Git sp);
               repos = (if ws_Git sp = [] then [] else ''Git Repositories:'' @ nl @ concat (map (describeRepo \<circ> the) known))
           in if length known < length (ws_Git sp) then (Panic, head @ repos)
              else (Ok (), head @ repos @ (case ws_Mcp sp of None \<Rightarrow> [] | Some mcp \<Rightarrow> describeMcp mcp) @
                     (case ws_Skills sp of None \<Rightarrow> [] | Some sk \<Rightarrow> describeSkills sk))))"

definition describeGateway :: "gateway \<Rightarrow> string" where
  "describeGateway gw =
     line ''Name:         '' (meta_GetName (gw_Metadata gw)) @ line ''Atespace:     '' (meta_GetAtespace (gw_Metadata gw)) @
     block ''Listeners:'' (\<lambda>l. ''  - '' @ ln_Name l @ '': '' @ itoa (ln_Port l) @ '' ('' @ ln_Protocol l @ '')'' @ nl) (gatewayListeners gw) @
     block ''Egress Allowlist:'' (\<lambda>h. ''  - '' @ hr_Host h @ '':'' @ itoa (hr_Port h) @ nl) (gatewayHosts gw)"

definition describeRef :: "workspaceRef \<times> string \<Rightarrow> string" where
  "describeRef rp = ''  - '' @ wref_Name (fst rp) @ ''  path='' @ snd rp @
     (if wref_Goal (fst rp) \<noteq> [] then ''  goal='' @ quote (wref_Goal (fst rp)) else []) @ nl"

definition describeTaskSpec :: "taskSpec \<Rightarrow> string" where
  "describeTaskSpec sp =
     (case ts_Gateway sp of None \<Rightarrow> [] | Some g \<Rightarrow> line ''Gateway:      '' (gref_Name g)) @
     block ''Workspaces:'' describeRef (zip (WorkspaceRefs (Some sp)) (WorkspacePaths (Some sp))) @
     lineUnlessEmpty ''Image:        '' (ts_Image sp) @
     (if ts_Command sp \<noteq> [] then line ''Command:      '' (bracketed (ts_Command sp)) else [])"

definition describeTask :: "(nat \<Rightarrow> string \<Rightarrow> string) \<Rightarrow> task \<Rightarrow> string" where
  "describeTask tabs t =
     (let st = (case task_Status t of None \<Rightarrow> emptyStatus | Some st \<Rightarrow> st) in
      line ''Name:         '' (meta_GetName (task_Metadata t)) @ line ''Atespace:     '' (meta_GetAtespace (task_Metadata t)) @
      line ''Phase:        '' (st_Phase st) @ line ''Actor:        '' (st_Actor st) @ line ''Worker IP:    '' (st_WorkerIp st) @
      (case task_Spec t of None \<Rightarrow> [] | Some sp \<Rightarrow> describeTaskSpec sp) @
      (if st_Conditions st = [] then []
       else nl @ ''Conditions:'' @ nl @
         tabs 2 (row [''  TYPE'', ''STATUS'', ''REASON'', ''MESSAGE''] @
           concat (map (\<lambda>cd. row [''  '' @ cond_Type cd, cond_Status cd, cond_Reason cd, cond_Message cd]) (st_Conditions st)))))"

definition describeAs ::
  "(string \<Rightarrow> string \<Rightarrow> 'c \<Rightarrow> (error + 'r) \<times> 'c) \<Rightarrow> ('r \<Rightarrow> unit go \<times> string) \<Rightarrow> string \<Rightarrow> string \<Rightarrow> string \<Rightarrow> 'c \<Rightarrow> 'c ran" where
  "describeAs get describe kind atespace name c =
     (case get atespace name c of
        (Inl e, c1) \<Rightarrow> (Err (EWrap (''getting '' @ kind @ '' '' @ quote name) e), [], c1)
      | (Inr r, c1) \<Rightarrow> (case describe r of (res, out) \<Rightarrow> (res, out, c1)))"

definition runDescribe :: "'c cliEnv \<Rightarrow> string \<Rightarrow> string \<Rightarrow> string list \<Rightarrow> 'c \<Rightarrow> 'c ran" where
  "runDescribe env serverURL atespace args c =
     (if length args < 2 then (Err (ENew ''usage: ax describe <task|gateway|workspace|model> <name>''), [], c)
      else case getAXClient env serverURL of
        Some e \<Rightarrow> (Err e, [], c)
      | None \<Rightarrow>
          let kind = toLower (args ! 0); name = args ! 1; cl = cl_Client env in
          if kind = ''model'' \<or> kind = ''models'' then
            describeAs (ax_GetModel cl) (\<lambda>m. (Ok (), describeModel (cl_Value env) m)) ''model'' atespace name c
          else if kind = ''workspace'' \<or> kind = ''workspaces'' then
            describeAs (ax_GetWorkspace cl) describeWorkspace ''workspace'' atespace name c
          else if kind = ''gateway'' \<or> kind = ''gateways'' then
            describeAs (ax_GetGateway cl) (\<lambda>g. (Ok (), describeGateway g)) ''gateway'' atespace name c
          else describeAs (ax_GetTask cl) (\<lambda>t. (Ok (), describeTask (cl_Tab env) t)) ''task'' atespace name c)"

section \<open>Watch\<close>

definition padRight :: "nat \<Rightarrow> string \<Rightarrow> string" where
  "padRight n s = s @ replicate (n - length s) CHR '' ''"

definition watchLine :: "string \<Rightarrow> taskStatus \<Rightarrow> string" where
  "watchLine clock st = ''['' @ clock @ ''] Phase: '' @ padRight 10 (st_Phase st) @ '' Actor: '' @ padRight 18 (st_Actor st) @
     '' WorkerIP: '' @ st_WorkerIp st @ nl"

definition terminalPhase :: "string \<Rightarrow> bool" where
  "terminalPhase phase \<longleftrightarrow> phase = ''Running'' \<or> phase = ''Completed'' \<or> phase = ''Failed''"

partial_function (option) watchStream :: "'c cliEnv \<Rightarrow> string \<Rightarrow> 'c \<Rightarrow> 'c ran option" where
  "watchStream env printed c =
     (case ax_WatchRecv (cl_Client env) c of
        (Inl None, c1) \<Rightarrow> Some (Ok (), printed, c1)
      | (Inl (Some e), c1) \<Rightarrow> Some (Err (EWrap ''receiving stream update'' e), printed, c1)
      | (Inr None, c1) \<Rightarrow> watchStream env printed c1
      | (Inr (Some t), c1) \<Rightarrow>
          (let st = (case task_Status t of None \<Rightarrow> emptyStatus | Some st \<Rightarrow> st);
               out = printed @ watchLine (cl_Clock env c1) st
           in if terminalPhase (st_Phase st)
              then Some (Ok (), out @ ''Task reached terminal phase '' @ quote (st_Phase st) @ ''.'' @ nl, c1)
              else watchStream env out c1))"

definition runWatch :: "'c cliEnv \<Rightarrow> string \<Rightarrow> string \<Rightarrow> string list \<Rightarrow> 'c \<Rightarrow> 'c ran option" where
  "runWatch env serverURL atespace args c =
     (if length args < 2 then Some (Err (ENew ''usage: ax watch task <name>''), [], c)
      else case getAXClient env serverURL of
        Some e \<Rightarrow> Some (Err e, [], c)
      | None \<Rightarrow>
          (case ax_WatchTask (cl_Client env) atespace (args ! 1) c of
             (Some e, c1) \<Rightarrow> Some (Err (EWrap ''watching task'' e), [], c1)
           | (None, c1) \<Rightarrow> watchStream env (''Watching task '' @ atespace @ ''/'' @ args ! 1 @ ''...'' @ nl) c1))"

section \<open>Delete\<close>

definition normalizeKind :: "string \<Rightarrow> error + string" where
  "normalizeKind kind =
     (let k = toLower (trimSuffix kind ''s'') in
      if k = ''task'' then Inr KindTask
      else if k = ''gateway'' then Inr KindGateway
      else if k = ''workspace'' then Inr KindWorkspace
      else if k = ''model'' then Inr KindModel
      else if k = [] then Inl (ENew ''missing kind'')
      else Inl (ENew (''unsupported kind '' @ quote kind @ '' (expected task, gateway, workspace, or model)'')))"

definition forget :: "(error + 'r) \<times> 'c \<Rightarrow> error option \<times> 'c" where
  "forget r = ((case fst r of Inl e \<Rightarrow> Some e | Inr _ \<Rightarrow> None), snd r)"

definition lookupKind :: "'c axClient \<Rightarrow> string \<Rightarrow> string \<Rightarrow> string \<Rightarrow> 'c \<Rightarrow> error option \<times> 'c" where
  "lookupKind cl kind atespace name c =
     (if kind = KindTask then forget (ax_GetTask cl atespace name c)
      else if kind = KindGateway then forget (ax_GetGateway cl atespace name c)
      else if kind = KindWorkspace then forget (ax_GetWorkspace cl atespace name c)
      else if kind = KindModel then forget (ax_GetModel cl atespace name c)
      else (None, c))"

text \<open>\<open>status.Code(nil)\<close> is OK. What goes to the standard error, the announcement, is left out.\<close>

partial_function (option) waitForDeletion ::
  "'c cliEnv \<Rightarrow> string \<Rightarrow> string \<Rightarrow> string \<Rightarrow> 'c \<Rightarrow> (error option \<times> 'c) option" where
  "waitForDeletion env kind atespace name c =
     (case lookupKind (cl_Client env) kind atespace name c of
        (Some e, c1) \<Rightarrow>
          if status_code e = CodeNotFound then Some (None, c1)
          else Some (Some (EWrap (''checking '' @ toLower kind @ '' '' @ atespace @ ''/'' @ name @ '' after delete'') e), c1)
      | (None, c1) \<Rightarrow>
          (case cl_Wait env c1 of
             (waited, c2) \<Rightarrow> if \<not> waited then Some (Some (ENew (''timed out waiting for '' @ toLower kind @ '' '' @ atespace @ ''/'' @ name @
                 '' to be deleted; it is still being torn down (check `ax describe` and the controller logs)'')), c2)
               else waitForDeletion env kind atespace name c2))"

definition deleteKind :: "'c axClient \<Rightarrow> string \<Rightarrow> string \<Rightarrow> string \<Rightarrow> 'c \<Rightarrow> (error option \<times> 'c) option" where
  "deleteKind cl kind atespace name c =
     (if kind = KindTask then Some (forget (ax_DeleteTask cl atespace name c))
      else if kind = KindGateway then Some (forget (ax_DeleteGateway cl atespace name c))
      else if kind = KindWorkspace then Some (forget (ax_DeleteWorkspace cl atespace name c))
      else if kind = KindModel then Some (forget (ax_DeleteModel cl atespace name c))
      else None)"

definition deleteResource :: "'c cliEnv \<Rightarrow> string \<Rightarrow> string \<Rightarrow> string \<Rightarrow> 'c \<Rightarrow> 'c ran option" where
  "deleteResource env kind atespace name c =
     (case deleteKind (cl_Client env) kind atespace name c of
        None \<Rightarrow> Some (Err (ENew (''unsupported kind '' @ quote kind)), [], c)
      | Some (Some e, c1) \<Rightarrow> Some (Err (EWrap (''deleting '' @ toLower kind @ '' '' @ atespace @ ''/'' @ name) e), [], c1)
      | Some (None, c1) \<Rightarrow>
          (case waitForDeletion env kind atespace name c1 of
             None \<Rightarrow> None
           | Some (Some e, c2) \<Rightarrow> Some (Err e, [], c2)
           | Some (None, c2) \<Rightarrow> Some (Ok (), toLower kind @ ''.ax.io/'' @ name @ '' deleted'' @ nl, c2)))"

definition runDelete :: "'c cliEnv \<Rightarrow> string \<Rightarrow> string \<Rightarrow> string list \<Rightarrow> 'c \<Rightarrow> 'c ran option" where
  "runDelete env serverURL atespace args c =
     (if length args < 2 then Some (Err (ENew ''usage: ax delete <task|gateway|workspace|model> <name>''), [], c)
      else case normalizeKind (args ! 0) of
        Inl e \<Rightarrow> Some (Err e, [], c)
      | Inr kind \<Rightarrow>
          (case getAXClient env serverURL of
             Some e \<Rightarrow> Some (Err e, [], c)
           | None \<Rightarrow> deleteResource env kind atespace (args ! 1) c))"

section \<open>Suspend and resume\<close>

definition suspendName :: "string list \<Rightarrow> string option" where
  "suspendName args =
     (case args of
        [] \<Rightarrow> None
      | [name] \<Rightarrow> Some name
      | a # b # _ \<Rightarrow> if a = ''task'' \<or> a = ''tasks'' then Some b else Some a)"

definition runSetSuspend ::
  "(string \<Rightarrow> string \<Rightarrow> 'c \<Rightarrow> (error + task) \<times> 'c) \<Rightarrow> string \<Rightarrow> string \<Rightarrow> string \<Rightarrow> 'c cliEnv \<Rightarrow> string \<Rightarrow> string \<Rightarrow> string list \<Rightarrow> 'c \<Rightarrow> 'c ran" where
  "runSetSuspend call verb doing done' env serverURL atespace args c =
     (case suspendName args of
        None \<Rightarrow> (Err (ENew (''usage: ax '' @ verb @ '' task <name>'')), [], c)
      | Some name \<Rightarrow>
          (case getAXClient env serverURL of
             Some e \<Rightarrow> (Err e, [], c)
           | None \<Rightarrow>
               (case call atespace name c of
                  (Inl e, c1) \<Rightarrow> (Err (EWrap (doing @ '' task'') e), [], c1)
                | (Inr _, c1) \<Rightarrow> (Ok (), ''task.ax.io/'' @ name @ '' '' @ done' @ nl, c1))))"

definition runSuspend :: "'c cliEnv \<Rightarrow> string \<Rightarrow> string \<Rightarrow> string list \<Rightarrow> 'c \<Rightarrow> 'c ran" where
  "runSuspend env = runSetSuspend (ax_SuspendTask (cl_Client env)) ''suspend'' ''suspending'' ''suspended'' env"

definition runResume :: "'c cliEnv \<Rightarrow> string \<Rightarrow> string \<Rightarrow> string list \<Rightarrow> 'c \<Rightarrow> 'c ran" where
  "runResume env = runSetSuspend (ax_ResumeTask (cl_Client env)) ''resume'' ''resuming'' ''resumed'' env"

section \<open>Contexts and tunnels\<close>

definition runContext :: "'c cliEnv \<Rightarrow> string \<Rightarrow> 'c \<Rightarrow> 'c ran" where
  "runContext env kubeContext c =
     (let (ctxName, e) = CurrentContext (cl_tun env) kubeContext c in
      if e \<noteq> None \<or> ctxName = [] then
        (Ok (), ''No active Kubernetes context detected.'' @ nl @
           ''Fallback server: http://localhost:8080 (or set $AX_SERVER / --server)'' @ nl, c)
      else
        let head = line ''Active Kubernetes Context: '' ctxName in
        case GetTunnel (cl_tun env) ctxName c of
          (Inl _, c1) \<Rightarrow>
            (Ok (), head @ ''AX Tunnel:                 No background tunnel running (will auto-connect on next command)'' @ nl, c1)
        | (Inr t, c1) \<Rightarrow>
            (case IsTunnelHealthy (cl_tun env) (ti_Port t) c1 of
               (healthy, c2) \<Rightarrow>
                 (Ok (), head @ ''AX Tunnel:                 '' @ localURL (ti_Port t) @ '' -> '' @ ti_Namespace t @ ''/svc/'' @ ti_Service t @
                    '':8080 (PID: '' @ itoa (ti_PID t) @ '', '' @ (if healthy then ''Healthy'' else ''Stale / Not responding'') @ '')'' @ nl, c2)))"

fun tunnelRows :: "'c cliEnv \<Rightarrow> tunnelInfo list \<Rightarrow> 'c \<Rightarrow> string \<times> 'c" where
  "tunnelRows env [] c = ([], c)"
| "tunnelRows env (t # ts) c =
     (case IsTunnelHealthy (cl_tun env) (ti_Port t) c of
        (healthy, c1) \<Rightarrow>
          (let (rest, c2) = tunnelRows env ts c1
           in (row [ti_Context t, itoa (ti_Port t), ti_Namespace t @ ''/'' @ ti_Service t, itoa (ti_PID t),
                 (if healthy then ''Active'' else ''Stale''), cl_Date env (ti_CreatedAt t)] @ rest, c2)))"

definition stopContext :: "'c cliEnv \<Rightarrow> string \<Rightarrow> 'c \<Rightarrow> 'c ran" where
  "stopContext env ctxName c =
     (case StopTunnelByContext (cl_tun env) ctxName c of
        (Some e, c1) \<Rightarrow> (Err (EWrap (''stopping tunnel for context '' @ quote ctxName) e), [], c1)
      | (None, c1) \<Rightarrow> (Ok (), ''Tunnel stopped for context '' @ quote ctxName @ nl, c1))"

definition runTunnel :: "'c cliEnv \<Rightarrow> string list \<Rightarrow> 'c \<Rightarrow> 'c ran" where
  "runTunnel env args c =
     (case args of
        [] \<Rightarrow> (Err (ENew (''specify tunnel action: 'ax tunnel list' or 'ax tunnel stop [context]'' @ [CHR 0x27])), [], c)
      | action # rest \<Rightarrow>
          if action = ''list'' then
            (case ListTunnels (cl_tun env) c of
               (Inl e, c1) \<Rightarrow> (Err e, [], c1)
             | (Inr ts, c1) \<Rightarrow>
                 if ts = [] then (Ok (), ''No active tunnels found in ~/.ax/tunnels.'' @ nl, c1)
                 else (let (rows, c2) = tunnelRows env ts c1 in
                       (Ok (), cl_Tab env 2 (row [''CONTEXT'', ''LOCAL PORT'', ''REMOTE SERVICE'', ''PID'', ''STATUS'', ''CREATED''] @ rows), c2)))
          else if action = ''stop'' then
            (case rest of
               ctxName # _ \<Rightarrow> stopContext env ctxName c
             | [] \<Rightarrow>
                 (let (cur, e) = CurrentContext (cl_tun env) [] c in
                  if e \<noteq> None \<or> cur = [] then (Err (ENew ''no current context found to stop tunnel''), [], c)
                  else stopContext env cur c))
          else (Err (ENew (''unknown tunnel subcommand: '' @ action @ '' (available: list, stop)'')), [], c))"

section \<open>Running a command in a task\<close>

definition joinHostPort :: "string \<Rightarrow> string \<Rightarrow> string" where
  "joinHostPort host port =
     (if CHR '':'' \<in> set host \<or> CHR 0x25 \<in> set host then ''['' @ host @ '']:'' @ port else host @ '':'' @ port)"

text \<open>What comes after the task's name: everything after the first \<open>--\<close>, or all of it.\<close>

fun sshCommand :: "string list \<Rightarrow> string list \<Rightarrow> string list" where
  "sshCommand cmdToRun [] = cmdToRun"
| "sshCommand cmdToRun (a # args) = (if a = ''--'' then args else sshCommand (cmdToRun @ [a]) args)"

definition sshTarget :: "string \<Rightarrow> string \<times> int" where
  "sshTarget workerIP =
     (case splitHostPort workerIP of
        None \<Rightarrow> (workerIP, 80)
      | Some (h, p) \<Rightarrow> (h, (case atoi p of None \<Rightarrow> 80 | Some n \<Rightarrow> n)))"

text \<open>\<open>os.Exit\<close> ends the program where it is called, without the deferred calls.\<close>

datatype sshResult = Returned "unit go" | Exited int

text \<open>
  The guest connection, and the port-forward to clean up with it. When the connection over the
  router fails, the port-forward is left running: the clean-up is deferred only later.
\<close>

definition sshConnect :: "'c cliEnv \<Rightarrow> string \<Rightarrow> string \<Rightarrow> string \<Rightarrow> 'c \<Rightarrow> ((error + guestConn \<times> int option) \<times> 'c) option" where
  "sshConnect env kubeContext guestEndpoint targetActor c =
     (if cl_Reachable env guestEndpoint c then
        Some (case guest_Dial (cl_NewClient env) guestEndpoint of
                Inl e \<Rightarrow> (Inl (EWrap (''connecting to guest at '' @ guestEndpoint) e), c)
              | Inr conn \<Rightarrow> (Inr (conn, None), c))
      else case PortForward (cl_pf env) kubeContext ''ate-system'' ''svc/atenet-router'' 80 c of
        (None, _) \<Rightarrow> None
      | (Some (Inl e), c1) \<Rightarrow> Some (Inl (EWrap ''establishing port-forward to atenet-router'' e), c1)
      | (Some (Inr (localPort, pid)), c1) \<Rightarrow>
          (let routerEndpoint = ''127.0.0.1:'' @ itoa localPort in
           Some (case DialTarget (cl_NewClient env) routerEndpoint targetActor of
                   Inl e \<Rightarrow> (Inl (EWrap (''connecting to guest via atenet-router at '' @ routerEndpoint) e), c1)
                 | Inr conn \<Rightarrow> (Inr (conn, Some pid), c1))))"

definition sshExec :: "'c cliEnv \<Rightarrow> string list \<Rightarrow> guestConn \<times> int option \<Rightarrow> 'c \<Rightarrow> (sshResult \<times> string \<times> 'c) option" where
  "sshExec env cmdToRun conn c =
     (let cleanup = (\<lambda>c. case snd conn of None \<Rightarrow> c | Some pid \<Rightarrow> pf_cleanup (cl_pf env) pid c) in
      case guest_Exec (cl_Process env (fst conn)) \<lparr>eo_Command = cmdToRun, eo_Cwd = [], eo_Env = [], eo_Stdout = True, eo_Stderr = True\<rparr> c of
        None \<Rightarrow> None
      | Some (r, c1) \<Rightarrow>
          Some (case ex_Err r of
                  Some e \<Rightarrow> (Returned (Err e), ex_Out r, cleanup c1)
                | None \<Rightarrow> if ex_Code r \<noteq> 0 then (Exited (ex_Code r), ex_Out r, c1) else (Returned (Ok ()), ex_Out r, cleanup c1)))"

text \<open>What must hold of a task to run a command in it: the first complaint, or its status.\<close>

definition sshCheck :: "string \<Rightarrow> task \<Rightarrow> error + taskStatus" where
  "sshCheck taskName task =
     (case task_Status task of
        None \<Rightarrow> Inl (ENew (''task '' @ quote taskName @ '' has no status available''))
      | Some st \<Rightarrow>
          if st_Phase st \<noteq> ''Running'' then
            Inl (ENew (''task '' @ quote taskName @ '' is in phase '' @ quote (st_Phase st) @ '' (must be Running to ssh)''))
          else if \<not> GetDebug (task_Spec task) then
            Inl (ENew (''task '' @ quote taskName @ '' does not expose guest services; set spec.debug: true and re-apply to enable ax ssh''))
          else if st_WorkerIp st = [] then Inl (ENew (''task '' @ quote taskName @ '' has no worker IP assigned''))
          else Inr st)"

definition runSSH :: "'c cliEnv \<Rightarrow> string \<Rightarrow> string \<Rightarrow> string \<Rightarrow> string list \<Rightarrow> 'c \<Rightarrow> (sshResult \<times> string \<times> 'c) option" where
  "runSSH env serverURL atespace kubeContext args c =
     (case args of
        [] \<Rightarrow> Some (Returned (Err (ENew ''usage: ax ssh <task-name> [-- command...]'')), [], c)
      | taskName # rest \<Rightarrow>
          (let cmdToRun = (if sshCommand [] rest = [] then [''/bin/sh''] else sshCommand [] rest) in
           case getAXClient env serverURL of
             Some e \<Rightarrow> Some (Returned (Err e), [], c)
           | None \<Rightarrow>
               (case ax_GetTask (cl_Client env) atespace taskName c of
                  (Inl e, c1) \<Rightarrow> Some (Returned (Err (EWrap (''fetching task '' @ quote taskName) e)), [], c1)
                | (Inr task, c1) \<Rightarrow>
                    (case sshCheck taskName task of
                       Inl e \<Rightarrow> Some (Returned (Err e), [], c1)
                     | Inr st \<Rightarrow>
                         (case task_Metadata task of
                            None \<Rightarrow> Some (Returned Panic, [], c1)
                          | Some m \<Rightarrow>
                              (let (host, port) = sshTarget (st_WorkerIp st);
                                   targetActor = meta_Atespace m @ ''/'' @ st_Actor st
                               in case sshConnect env kubeContext (joinHostPort host (itoa port)) targetActor c1 of
                                    None \<Rightarrow> None
                                  | Some (Inl e, c2) \<Rightarrow> Some (Returned (Err e), [], c2)
                                  | Some (Inr conn, c2) \<Rightarrow> sshExec env cmdToRun conn c2))))))"

section \<open>The command line\<close>

record cliFlags =
  fl_cmd :: string
  fl_cleanArgs :: "string list"
  fl_atespace :: string
  fl_server :: string
  fl_context :: string
  fl_namespace :: string

definition defaultFlags :: cliFlags where
  "defaultFlags = \<lparr>fl_cmd = [], fl_cleanArgs = [], fl_atespace = ''default'', fl_server = [], fl_context = [], fl_namespace = ''ax-system''\<rparr>"

text \<open>The flags that take the next argument, and those that hold their value; each with the field it sets.\<close>

definition flagPair :: "string \<Rightarrow> (string \<Rightarrow> cliFlags \<Rightarrow> cliFlags) option" where
  "flagPair arg =
     (if arg = ''-a'' \<or> arg = ''--atespace'' then Some (\<lambda>v. fl_atespace_update (\<lambda>_. v))
      else if arg = ''--server'' then Some (\<lambda>v. fl_server_update (\<lambda>_. v))
      else if arg = ''--context'' then Some (\<lambda>v. fl_context_update (\<lambda>_. v))
      else if arg = ''-n'' \<or> arg = ''--namespace'' then Some (\<lambda>v. fl_namespace_update (\<lambda>_. v))
      else None)"

definition flagInline :: "string \<Rightarrow> (cliFlags \<Rightarrow> cliFlags) option" where
  "flagInline arg =
     (if hasPrefix arg ''--atespace='' then Some (fl_atespace_update (\<lambda>_. trimPrefix arg ''--atespace=''))
      else if hasPrefix arg ''--server='' then Some (fl_server_update (\<lambda>_. trimPrefix arg ''--server=''))
      else if hasPrefix arg ''--context='' then Some (fl_context_update (\<lambda>_. trimPrefix arg ''--context=''))
      else if hasPrefix arg ''--namespace='' then Some (fl_namespace_update (\<lambda>_. trimPrefix arg ''--namespace=''))
      else None)"

definition positional :: "string \<Rightarrow> cliFlags \<Rightarrow> cliFlags" where
  "positional arg f =
     (if fl_cmd f = [] \<and> \<not> hasPrefix arg ''-'' then f\<lparr>fl_cmd := arg\<rparr> else f\<lparr>fl_cleanArgs := fl_cleanArgs f @ [arg]\<rparr>)"

text \<open>A flag without its value at the end of the line is dropped.\<close>

fun parseArgs :: "cliFlags \<Rightarrow> string list \<Rightarrow> cliFlags" where
  "parseArgs f [] = f"
| "parseArgs f [arg] =
     (if flagPair arg \<noteq> None then f else case flagInline arg of Some u \<Rightarrow> u f | None \<Rightarrow> positional arg f)"
| "parseArgs f (arg # v # args) =
     (case flagPair arg of
        Some u \<Rightarrow> parseArgs (u v f) args
      | None \<Rightarrow> parseArgs (case flagInline arg of Some u \<Rightarrow> u f | None \<Rightarrow> positional arg f) (v # args))"

definition usageText :: string where
  \<open>usageText = joinWith nl [
     ''AX CLI - Autonomous agent execution control'',
     [],
     ''Usage:'',
     ''  ax [command] [flags]'',
     [],
     ''Available Commands:'',
     ''  apply -f <file>         Apply resources (tasks, gateways, workspaces, models) from a file or stdin'',
     ''  get tasks               List tasks'',
     ''  get task <name>         Get a specific task'',
     ''  get gateways            List gateways'',
     ''  get gateway <name>      Get a specific gateway'',
     ''  get workspaces          List workspaces'',
     ''  get workspace <name>    Get a specific workspace'',
     ''  get models              List models'',
     ''  get model <name>        Get a specific model'',
     ''  describe task <name>    Show detailed information about a task'',
     ''  describe gateway <name> Show detailed information about a gateway'',
     ''  describe workspace <name> Show detailed information about a workspace'',
     ''  describe model <name>   Show detailed information about a model'',
     ''  watch task <name>       Stream live status and condition updates for a task'',
     ''  ssh <task-name> [-- cmd] Run a command or shell inside the running task container'',
     ''  suspend task <name>     Suspend execution of a task and checkpoint state'',
     ''  resume task <name>      Resume execution of a suspended task'',
     ''  delete task <name>      Delete a task'',
     ''  delete gateway <name>   Delete a gateway'',
     ''  delete workspace <name> Delete a workspace'',
     ''  delete model <name>     Delete a model'',
     ''  ctx, context            Show active Kubernetes context and AX connection'',
     ''  tunnel <list|stop>      Manage background tunnels to Kubernetes clusters'',
     ''  version                 Print AX version'',
     [],
     ''Flags:'',
     ''  -a, --atespace string       Task atespace scope (default: '' @ [CHR 0x22] @ ''default'' @ [CHR 0x22] @ '')'',
     ''  -n, --namespace string      Kubernetes namespace where AX is installed (default: '' @ [CHR 0x22] @ ''ax-system'' @ [CHR 0x22] @ '')'',
     ''  --context string            Kubernetes context (defaults to active kubectx / current-context)'',
     ''  --server string             AX API server address (default: auto-detected from kube context or $AX_SERVER)'']\<close>

text \<open>The end of the program: its exit code, what it printed and what it wrote to the standard error.\<close>

definition finish :: "'c ran \<Rightarrow> int \<times> string \<times> string \<times> 'c" where
  "finish r =
     (case r of (res, out, c) \<Rightarrow>
        (case res of
           Ok _ \<Rightarrow> (0, out, [], c)
         | Err e \<Rightarrow> (1, out, ''Error: '' @ err_msg e @ nl, c)
         | Panic \<Rightarrow> (2, out, ''panic'', c)))"

definition usageExit :: "string \<Rightarrow> 'c \<Rightarrow> int \<times> string \<times> string \<times> 'c" where
  "usageExit complaint c = (1, usageText @ nl, complaint, c)"

definition runServerCommand :: "'c cliEnv \<Rightarrow> cliFlags \<Rightarrow> string \<Rightarrow> 'c \<Rightarrow> (int \<times> string \<times> string \<times> 'c) option" where
  "runServerCommand env f serverURL c =
     (let cmd = fl_cmd f; args = fl_cleanArgs f; atespace = fl_atespace f in
      if cmd = ''apply'' then Some (finish (runApply env serverURL args c))
      else if cmd = ''get'' then Some (finish (runGet env serverURL atespace args c))
      else if cmd = ''describe'' then Some (finish (runDescribe env serverURL atespace args c))
      else if cmd = ''watch'' then map_option finish (runWatch env serverURL atespace args c)
      else if cmd = ''suspend'' then Some (finish (runSuspend env serverURL atespace args c))
      else if cmd = ''resume'' then Some (finish (runResume env serverURL atespace args c))
      else if cmd = ''delete'' then map_option finish (runDelete env serverURL atespace args c)
      else if cmd = ''ssh'' then
        map_option (\<lambda>(r, out, c1). case r of Exited code \<Rightarrow> (code, out, [], c1) | Returned res \<Rightarrow> finish (res, out, c1))
          (runSSH env serverURL atespace (fl_context f) args c)
      else Some (usageExit (''unknown command: '' @ cmd @ nl) c))"

definition serverOptions :: "cliFlags \<Rightarrow> tunOptions" where
  "serverOptions f = \<lparr>to_ServerURL = fl_server f, to_Context = fl_context f, to_Namespace = fl_namespace f,
     to_Service = [], to_Target = [], to_Port = 0\<rparr>"

definition ax_main :: "'c cliEnv \<Rightarrow> string list \<Rightarrow> 'c \<Rightarrow> (int \<times> string \<times> string \<times> 'c) option" where
  "ax_main env args c =
     (let f = parseArgs defaultFlags args; cmd = fl_cmd f in
      if args = [] \<or> cmd = [] then Some (usageExit [] c)
      else if cmd = ''version'' then Some (0, ''ax version v1alpha1 (standalone redis engine)'' @ nl, [], c)
      else if cmd = ''help'' \<or> cmd = ''-h'' \<or> cmd = ''--help'' then Some (0, usageText @ nl, [], c)
      else if cmd = ''ctx'' \<or> cmd = ''context'' then Some (finish (runContext env (fl_context f) c))
      else if cmd = ''tunnel'' then Some (finish (runTunnel env (fl_cleanArgs f) c))
      else case EnsureServerURL (cl_tun env) (serverOptions f) c of
        (None, _) \<Rightarrow> None
      | (Some (Inl e), c1) \<Rightarrow> Some (1, [], ''Error: '' @ err_msg e @ nl, c1)
      | (Some (Inr serverURL), c1) \<Rightarrow> runServerCommand env f serverURL c1)"

end
