(* ===== verification/Cli_Properties.thy ===== *)
theory Cli_Properties
  imports Cli
begin

text \<open>
  The command line on top of the API server. \<open>serverClient\<close> is the client of \<open>Cli\<close> that calls the
  handlers of \<open>Api_Server\<close> over a store. What the commands need of a kind of resource is the locale
  \<open>rpc_kind\<close>; it is interpreted for the four kinds on the server over the in-memory store.
\<close>

section \<open>The client of a server\<close>

text \<open>A handler's result as the client sees it: a server that panics is gone.\<close>

definition rpc :: "'r go \<Rightarrow> error + 'r" where
  "rpc r = (case r of Ok x \<Rightarrow> Inr x | Err e \<Rightarrow> Inl e | Panic \<Rightarrow> Inl (EStatus CodeUnavailable ''connection closed''))"

definition named :: "string \<Rightarrow> string \<Rightarrow> nameRequest option" where
  "named a n = Some \<lparr>req_Atespace = a, req_Name = n\<rparr>"

definition reads :: "('s \<Rightarrow> 'r go) \<Rightarrow> 's \<Rightarrow> (error + 'r) \<times> 's" where
  "reads h s = (rpc (h s), s)"

definition changes :: "('s \<Rightarrow> 'r go \<times> 's) \<Rightarrow> 's \<Rightarrow> (error + 'r) \<times> 's" where
  "changes h s = map_prod rpc id (h s)"

text \<open>
  The client passes its messages to the handlers as they are: the marshalling of gRPC is taken as the
  identity. It is one on messages that hold no nil element in a repeated field (on the wire such an
  element is an empty message), which those decoded by \<open>protojson\<close> from a manifest never do. The stream
  calls are arguments: the server's stream is a function of what its channel yields.
\<close>

definition serverClient ::
  "'s store \<Rightarrow> int \<Rightarrow> (string \<Rightarrow> string \<Rightarrow> 's \<Rightarrow> error option \<times> 's) \<Rightarrow> ('s \<Rightarrow> (error option + task option) \<times> 's) \<Rightarrow> 's axClient" where
  "serverClient ops now watch recv = \<lparr>
     ax_GetTask = (\<lambda>a n. reads (srv_GetTask ops (named a n))),
     ax_GetGateway = (\<lambda>a n. reads (srv_GetGateway ops (named a n))),
     ax_GetWorkspace = (\<lambda>a n. reads (srv_GetWorkspace ops (named a n))),
     ax_GetModel = (\<lambda>a n. reads (srv_GetModel ops (named a n))),
     ax_ListTasks = (\<lambda>a. reads (srv_ListTasks ops (Some \<lparr>lt_Atespace = a, lt_Limit = 0, lt_Offset = 0\<rparr>))),
     ax_ListGateways = (\<lambda>a. reads (srv_ListGateways ops (Some a))),
     ax_ListWorkspaces = (\<lambda>a. reads (srv_ListWorkspaces ops (Some a))),
     ax_ListModels = (\<lambda>a. reads (srv_ListModels ops (Some a))),
     ax_UpdateTask = (\<lambda>t. changes (srv_UpdateTask ops now (Some (Some t)))),
     ax_UpdateGateway = (\<lambda>g. changes (srv_UpdateGateway ops now (Some (Some g)))),
     ax_UpdateWorkspace = (\<lambda>w. changes (srv_UpdateWorkspace ops now (Some (Some w)))),
     ax_UpdateModel = (\<lambda>m. changes (srv_UpdateModel ops now (Some (Some m)))),
     ax_DeleteTask = (\<lambda>a n. changes (srv_DeleteTask ops now (named a n))),
     ax_DeleteGateway = (\<lambda>a n. changes (srv_DeleteGateway ops (named a n))),
     ax_DeleteWorkspace = (\<lambda>a n. changes (srv_DeleteWorkspace ops (named a n))),
     ax_DeleteModel = (\<lambda>a n. changes (srv_DeleteModel ops (named a n))),
     ax_SuspendTask = (\<lambda>a n. changes (srv_SuspendTask ops now (named a n))),
     ax_ResumeTask = (\<lambda>a n. changes (srv_ResumeTask ops now (named a n))),
     ax_WatchTask = watch, ax_WatchRecv = recv\<rparr>"

section \<open>What the commands need of a kind\<close>

locale rpc_kind =
  fixes meta :: "'r \<Rightarrow> objectMeta option"
    and spec :: "'r \<Rightarrow> 's option"
    and get :: "string \<Rightarrow> string \<Rightarrow> 'c \<Rightarrow> (error + 'r) \<times> 'c"
    and update :: "'r \<Rightarrow> 'c \<Rightarrow> (error + 'r) \<times> 'c"
    and wf :: "'c \<Rightarrow> bool"
    and accepted :: "'r \<Rightarrow> bool"
  assumes get_reads: "wf c \<Longrightarrow> snd (get a n c) = c"
    and get_error: "wf c \<Longrightarrow> fst (get a n c) = Inl e \<Longrightarrow> status_code e = CodeNotFound"
    and update_accepted: "wf c \<Longrightarrow> accepted r \<Longrightarrow> \<exists>r'. fst (update r c) = Inr r' \<and> spec r' = spec r \<and>
      meta_GetName (meta r') = meta_GetName (meta r) \<and> wf (snd (update r c)) \<and>
      fst (get (meta_GetAtespace (meta r)) (meta_GetName (meta r)) (snd (update r c))) = Inr r'"
begin

text \<open>The outcome an apply reports, from what was there before.\<close>

definition outcomeOf :: "('s option \<Rightarrow> 's option \<Rightarrow> bool) \<Rightarrow> 'r \<Rightarrow> 'c \<Rightarrow> string" where
  "outcomeOf equal r c =
     (case fst (get (meta_GetAtespace (meta r)) (meta_GetName (meta r)) c) of
        Inl _ \<Rightarrow> ''created''
      | Inr old \<Rightarrow> if equal (spec old) (spec r) then ''unchanged'' else ''configured'')"

lemma applyKind_accepted:
  assumes "wf c" and "accepted r"
  shows "applyKind get update equal meta spec kind (Inr r) c =
    (Inr (kind, meta_GetName (meta r), outcomeOf equal r c), snd (update r c))"
proof -
  obtain looked where g: "get (meta_GetAtespace (meta r)) (meta_GetName (meta r)) c = (looked, c)"
    using get_reads [OF assms(1)] by (metis prod.collapse)
  obtain r' where u: "update r c = (Inr r', snd (update r c))" "meta_GetName (meta r') = meta_GetName (meta r)"
    using update_accepted [OF assms] by (metis prod.collapse)
  have "looked = Inl e \<Longrightarrow> status_code e = CodeNotFound" for e using get_error [OF assms(1)] g by (metis fst_conv)
  with g u show ?thesis
    by (cases looked) (auto simp: applyKind_def applyOutcome_def outcomeOf_def split: prod.split)
qed

lemma applyKind_again:
  assumes "wf c" and "accepted r" and "\<And>x. equal x x"
  shows "fst (applyKind get update equal meta spec kind (Inr r) (snd (applyKind get update equal meta spec kind (Inr r) c))) =
    Inr (kind, meta_GetName (meta r), ''unchanged'')"
proof -
  obtain r' where u: "spec r' = spec r" "wf (snd (update r c))"
      "fst (get (meta_GetAtespace (meta r)) (meta_GetName (meta r)) (snd (update r c))) = Inr r'"
    using update_accepted [OF assms(1,2)] by blast
  then have "outcomeOf equal r (snd (update r c)) = ''unchanged''" using assms(3) by (simp add: outcomeOf_def)
  with u show ?thesis by (simp add: applyKind_accepted assms(1,2))
qed

lemma outcome_created:
  "outcomeOf equal r c = ''created'' \<longleftrightarrow> (\<exists>e. fst (get (meta_GetAtespace (meta r)) (meta_GetName (meta r)) c) = Inl e)"
  by (auto simp: outcomeOf_def split: sum.split)

end

section \<open>The server provides it\<close>

context resource_kind
begin

lemma rpc_kind_server:
  assumes "\<And>r m. meta (setMeta m r) = Some m" and "\<And>r m. spec (norm (setMeta m r)) = spec r" and "\<And>r. ok r"
  shows "rpc_kind meta spec (\<lambda>a n. reads (srvGet kind get (named a n)))
    (\<lambda>r. changes (srvUpdate kind meta setMeta get save now r)) wf (\<lambda>r. meta_GetName (meta r) \<noteq> [])"
proof (unfold_locales, goal_cases)
  case (1 c a n)
  show ?case by (simp add: reads_def)
next
  case (2 c a n e)
  then show ?case
    by (auto simp: reads_def named_def srvGet_view rpc_def notFoundStatus_def split: option.splits)
next
  case (3 c r)
  note st = srvUpdate_stores [where setMeta = setMeta and kind = kind and now = now, OF 3 assms(1) assms(3)]
  let ?r = "norm (setMeta (updatedMeta now r c) r)"
  have "meta_GetName (meta ?r) = meta_GetName (meta r)" by (simp add: norm_name assms(1) updatedMeta_def)
  moreover have "srvGet kind get (named (meta_GetAtespace (meta r)) (meta_GetName (meta r)))
      (snd (srvUpdate kind meta setMeta get save now r c)) = Ok ?r"
    unfolding named_def by (rule srvGet_get) (simp add: st(2))
  ultimately show ?case
    using st by (intro exI [of _ ?r]) (simp add: changes_def reads_def rpc_def assms(2))
qed

end

lemma rpc_kind_narrower:
  assumes "rpc_kind meta spec get update P accepted" and "\<And>r. accepted' r \<Longrightarrow> accepted r \<and> update' r = update r"
  shows "rpc_kind meta spec get update' P accepted'"
proof (unfold_locales, goal_cases)
  case 1 then show ?case using rpc_kind.get_reads [OF assms(1)] by blast
next
  case 2 then show ?case using rpc_kind.get_error [OF assms(1)] by blast
next
  case (3 c r) then show ?case using rpc_kind.update_accepted [OF assms(1)] assms(2) [of r] by auto
qed

interpretation rg: rpc_kind gw_Metadata gw_Spec "\<lambda>a n. reads (srv_GetGateway mem_store (named a n))"
  "\<lambda>g. changes (srv_UpdateGateway mem_store now (Some (Some g)))" mem_wf "\<lambda>g. meta_GetName (gw_Metadata g) \<noteq> []" for now
  using mg.rpc_kind_server [of "\<lambda>m g. g\<lparr>gw_Metadata := Some m\<rparr>" gw_Spec "''gateway''" now]
  by (simp add: srv_GetGateway_def [abs_def] srv_UpdateGateway_def [abs_def] mem_normGateway_def Let_def)

interpretation rw: rpc_kind wsp_Metadata wsp_Spec "\<lambda>a n. reads (srv_GetWorkspace mem_store (named a n))"
  "\<lambda>w. changes (srv_UpdateWorkspace mem_store now (Some (Some w)))" mem_wf "\<lambda>w. meta_GetName (wsp_Metadata w) \<noteq> []" for now
  using mw.rpc_kind_server [of "\<lambda>m w. w\<lparr>wsp_Metadata := Some m\<rparr>" wsp_Spec "''workspace''" now]
  by (simp add: srv_GetWorkspace_def [abs_def] srv_UpdateWorkspace_def [abs_def] mem_normWorkspace_def Let_def)

interpretation rm: rpc_kind model_Metadata model_Spec "\<lambda>a n. reads (srv_GetModel mem_store (named a n))"
  "\<lambda>m. changes (srv_UpdateModel mem_store now (Some (Some m)))" mem_wf "\<lambda>m. meta_GetName (model_Metadata m) \<noteq> []" for now
  using mm.rpc_kind_server [of "\<lambda>m d. d\<lparr>model_Metadata := Some m\<rparr>" model_Spec "''model''" now]
  by (simp add: srv_GetModel_def [abs_def] srv_UpdateModel_def [abs_def] mem_normModel_def Let_def)

interpretation rt: rpc_kind task_Metadata task_Spec "\<lambda>a n. reads (srv_GetTask mem_store (named a n))"
  "\<lambda>t. changes (srv_UpdateTask mem_store now (Some (Some t)))" mem_wf
  "\<lambda>t. meta_GetName (task_Metadata t) \<noteq> [] \<and> ValidateTask t = None" for now
proof (rule rpc_kind_narrower)
  show "rpc_kind task_Metadata task_Spec (\<lambda>a n. reads (srv_GetTask mem_store (named a n)))
    (\<lambda>t. changes (srvUpdate ''task'' task_Metadata (\<lambda>m t. t\<lparr>task_Metadata := Some m\<rparr>) mem_GetTask mem_SaveTask now t))
    mem_wf (\<lambda>t. meta_GetName (task_Metadata t) \<noteq> [])"
    using mt.rpc_kind_server [of "\<lambda>m t. t\<lparr>task_Metadata := Some m\<rparr>" task_Spec "''task''" now]
    by (simp add: srv_GetTask_def [abs_def] mem_normTask_def Let_def)
qed (simp add: srv_UpdateTask_def [abs_def])

section \<open>Applying a manifest\<close>

text \<open>A document the server accepts: of a known kind, decodable, named, and a valid task.\<close>

definition applicable :: "document \<Rightarrow> bool" where
  "applicable doc \<longleftrightarrow>
     (case doc_Kind doc of
        Inl _ \<Rightarrow> False
      | Inr k \<Rightarrow>
          if k = KindTask then (case doc_Task doc of Inl _ \<Rightarrow> False
             | Inr t \<Rightarrow> meta_GetName (task_Metadata t) \<noteq> [] \<and> ValidateTask t = None)
          else if k = KindGateway then (case doc_Gateway doc of Inl _ \<Rightarrow> False | Inr g \<Rightarrow> meta_GetName (gw_Metadata g) \<noteq> [])
          else if k = KindWorkspace then (case doc_Workspace doc of Inl _ \<Rightarrow> False | Inr w \<Rightarrow> meta_GetName (wsp_Metadata w) \<noteq> [])
          else if k = KindModel then (case doc_Model doc of Inl _ \<Rightarrow> False | Inr m \<Rightarrow> meta_GetName (model_Metadata m) \<noteq> [])
          else False)"

text \<open>\<open>proto.Equal\<close> is reflexive.\<close>

definition equal_laws :: "'c cliEnv \<Rightarrow> bool" where
  "equal_laws env \<longleftrightarrow> (\<forall>x. cl_EqTask env x x) \<and> (\<forall>x. cl_EqGateway env x x) \<and> (\<forall>x. cl_EqWorkspace env x x) \<and> (\<forall>x. cl_EqModel env x x)"

lemma serverClient_calls [simp]:
  "ax_GetTask (serverClient ops now watch recv) = (\<lambda>a n. reads (srv_GetTask ops (named a n)))"
  "ax_GetGateway (serverClient ops now watch recv) = (\<lambda>a n. reads (srv_GetGateway ops (named a n)))"
  "ax_GetWorkspace (serverClient ops now watch recv) = (\<lambda>a n. reads (srv_GetWorkspace ops (named a n)))"
  "ax_GetModel (serverClient ops now watch recv) = (\<lambda>a n. reads (srv_GetModel ops (named a n)))"
  "ax_UpdateTask (serverClient ops now watch recv) = (\<lambda>t. changes (srv_UpdateTask ops now (Some (Some t))))"
  "ax_UpdateGateway (serverClient ops now watch recv) = (\<lambda>g. changes (srv_UpdateGateway ops now (Some (Some g))))"
  "ax_UpdateWorkspace (serverClient ops now watch recv) = (\<lambda>w. changes (srv_UpdateWorkspace ops now (Some (Some w))))"
  "ax_UpdateModel (serverClient ops now watch recv) = (\<lambda>m. changes (srv_UpdateModel ops now (Some (Some m))))"
  "ax_DeleteGateway (serverClient ops now watch recv) = (\<lambda>a n. changes (srv_DeleteGateway ops (named a n)))"
  "ax_DeleteWorkspace (serverClient ops now watch recv) = (\<lambda>a n. changes (srv_DeleteWorkspace ops (named a n)))"
  "ax_DeleteModel (serverClient ops now watch recv) = (\<lambda>a n. changes (srv_DeleteModel ops (named a n)))"
  by (simp_all add: serverClient_def)

section \<open>An example world\<close>

text \<open>A world around a given client in which nothing else matters: the guest reports an exit with code 3.\<close>

definition exampleCli :: "'c axClient \<Rightarrow> 'c cliEnv" where
  "exampleCli client =
     (let tun = \<lparr>tn_Getenv = (\<lambda>_ _. []), tn_HomeDir = (\<lambda>_. Inr ''/home''), tn_MkdirAll = (\<lambda>_ w. (None, w)),
          tn_ReadFile = (\<lambda>_ _. Inl (ENew ''no such file'')), tn_WriteFile = (\<lambda>_ _ w. (None, w)), tn_Remove = (\<lambda>_ w. w),
          tn_ReadDir = (\<lambda>_ _. Inr []), tn_OpenLog = (\<lambda>_ w. (None, w)), tn_Kubectl = (\<lambda>_ _ w. (Inr 7, w)),
          tn_Output = (\<lambda>_ _. ([], Some (ENew ''no kubectl''))), tn_Signal = (\<lambda>_ _ w. (None, w)), tn_Get = (\<lambda>_ w. (Inr 200, w)),
          tn_Now = (\<lambda>_. 0), tn_Sleep = (\<lambda>_ w. w), tn_Marshal = (\<lambda>_. Inr []), tn_Unmarshal = (\<lambda>_. Inl (ENew [])),
          tn_KubeConfig = (\<lambda>_. Inr [])\<rparr>
      in \<lparr>cl_NewClient = (\<lambda>_. None), cl_Client = client, cl_Documents = (\<lambda>_. ([], None)),
          cl_EqTask = (=), cl_EqGateway = (=), cl_EqWorkspace = (=), cl_EqModel = (=),
          cl_YamlTask = (\<lambda>_. ([], None)), cl_YamlGateway = (\<lambda>_. ([], None)), cl_YamlWorkspace = (\<lambda>_. ([], None)), cl_YamlModel = (\<lambda>_. ([], None)),
          cl_Tab = (\<lambda>_ s. s), cl_Value = (\<lambda>_. []), cl_Now = (\<lambda>_. 0), cl_Clock = (\<lambda>_. []), cl_Date = (\<lambda>_. []),
          cl_ReadFile = (\<lambda>_ _. Inr []), cl_ReadStdin = (\<lambda>_. Inr []), cl_Wait = (\<lambda>c. (False, c)), cl_tun = tun,
          cl_pf = \<lparr>pf_tun = tun, pf_Pipe = (\<lambda>_. None), pf_Start = (\<lambda>_ w. (Inr 7, w)), pf_Output = (\<lambda>_. []), pf_Select = (\<lambda>_. PfTimeout)\<rparr>,
          cl_Reachable = (\<lambda>_ _. True),
          cl_Process = (\<lambda>_. \<lparr>ps_StartProcess = (\<lambda>_ _ _ g. (Inr ''p1'', g)), ps_StreamProcessOutput = (\<lambda>_ g. (None, g)),
             ps_Recv = (\<lambda>g. (Received \<lparr>po_Exit = Some 3, po_Stdout = [], po_Stderr = []\<rparr>, g)),
             ps_GetProcess = (\<lambda>_ g. (Inr (False, 0), g)), ps_Wait = (\<lambda>g. (None, g))\<rparr>)\<rparr>)"

lemma exampleCli_fields [simp]: "cl_Client (exampleCli client) = client" "equal_laws (exampleCli client)"
  by (simp_all add: exampleCli_def equal_laws_def Let_def)

definition memClient :: "memory_store axClient" where
  "memClient = serverClient mem_store 7 (\<lambda>_ _ s. (None, s)) (\<lambda>s. (Inl None, s))"

definition exampleDoc :: document where
  "exampleDoc = \<lparr>doc_Empty = False, doc_Kind = Inr KindTask, doc_Task = Inr exampleTask, doc_Gateway = Inl (ENew []),
     doc_Workspace = Inl (ENew []), doc_Model = Inl (ENew [])\<rparr>"

text \<open>The metadata of a document of a known kind.\<close>

definition docMeta :: "document \<Rightarrow> objectMeta option" where
  "docMeta doc =
     (case doc_Kind doc of
        Inl _ \<Rightarrow> None
      | Inr k \<Rightarrow>
          if k = KindTask then case_sum (\<lambda>_. None) task_Metadata (doc_Task doc)
          else if k = KindGateway then case_sum (\<lambda>_. None) gw_Metadata (doc_Gateway doc)
          else if k = KindWorkspace then case_sum (\<lambda>_. None) wsp_Metadata (doc_Workspace doc)
          else if k = KindModel then case_sum (\<lambda>_. None) model_Metadata (doc_Model doc)
          else None)"

lemma kinds_distinct:
  "KindGateway \<noteq> KindTask" "KindWorkspace \<noteq> KindTask" "KindModel \<noteq> KindTask"
  "KindWorkspace \<noteq> KindGateway" "KindModel \<noteq> KindGateway" "KindModel \<noteq> KindWorkspace"
  by (simp_all add: api_const_defs)

text \<open>C10: Applying is idempotent. On any reachable in-memory store, applying a document the server
  accepts succeeds; it reports \<open>created\<close> exactly when a lookup of the resource would have answered
  NotFound, and applying the same document again reports \<open>unchanged\<close>.\<close>

theorem apply_twice:
  assumes "mem_reachable s" and "cl_Client env = serverClient mem_store now watch recv" and "equal_laws env" and "applicable doc"
  shows "\<exists>kind outcome s1. doc_Kind doc = Inr kind \<and>
    applyDocument env doc s = (Inr (kind, meta_GetName (docMeta doc), outcome), s1) \<and>
    (outcome = ''created'' \<longleftrightarrow>
       fst (lookupKind (cl_Client env) kind (meta_GetAtespace (docMeta doc)) (meta_GetName (docMeta doc)) s) \<noteq> None) \<and>
    fst (applyDocument env doc s1) = Inr (kind, meta_GetName (docMeta doc), ''unchanged'')"
proof -
  have wf: "mem_wf s" using assms(1) by (rule mem_reachable_wf)
  have eq: "\<And>x. cl_EqTask env x x" "\<And>x. cl_EqGateway env x x" "\<And>x. cl_EqWorkspace env x x" "\<And>x. cl_EqModel env x x"
    using assms(3) by (simp_all add: equal_laws_def)
  obtain kind where k: "doc_Kind doc = Inr kind" using assms(4) by (auto simp: applicable_def split: sum.splits)
  consider (task) t where "kind = KindTask" "doc_Task doc = Inr t" "meta_GetName (task_Metadata t) \<noteq> []" "ValidateTask t = None"
    | (gateway) g where "kind = KindGateway" "doc_Gateway doc = Inr g" "meta_GetName (gw_Metadata g) \<noteq> []"
    | (workspace) w where "kind = KindWorkspace" "doc_Workspace doc = Inr w" "meta_GetName (wsp_Metadata w) \<noteq> []"
    | (model) m where "kind = KindModel" "doc_Model doc = Inr m" "meta_GetName (model_Metadata m) \<noteq> []"
    using assms(4) k by (auto simp: applicable_def split: if_splits sum.splits)
  then show ?thesis
  proof cases
    case task
    then show ?thesis
      using rt.applyKind_again [OF wf, of t "cl_EqTask env" now kind] rt.outcome_created [of "cl_EqTask env" t s]
      by (auto simp: k applyDocument_def assms(2) docMeta_def Let_def rt.applyKind_accepted [OF wf] eq lookupKind_def forget_def split: sum.splits)
  next
    case gateway
    then show ?thesis
      using rg.applyKind_again [OF wf, of g "cl_EqGateway env" now kind] rg.outcome_created [of "cl_EqGateway env" g s]
      by (auto simp: k applyDocument_def assms(2) docMeta_def Let_def rg.applyKind_accepted [OF wf] eq lookupKind_def forget_def kinds_distinct split: sum.splits)
  next
    case workspace
    then show ?thesis
      using rw.applyKind_again [OF wf, of w "cl_EqWorkspace env" now kind] rw.outcome_created [of "cl_EqWorkspace env" w s]
      by (auto simp: k applyDocument_def assms(2) docMeta_def Let_def rw.applyKind_accepted [OF wf] eq lookupKind_def forget_def kinds_distinct split: sum.splits)
  next
    case model
    then show ?thesis
      using rm.applyKind_again [OF wf, of m "cl_EqModel env" now kind] rm.outcome_created [of "cl_EqModel env" m s]
      by (auto simp: k applyDocument_def assms(2) docMeta_def Let_def rm.applyKind_accepted [OF wf] eq lookupKind_def forget_def kinds_distinct split: sum.splits)
  qed
qed

theorem apply_twice_witness:
  "\<exists>s1. fst (applyDocument (exampleCli memClient) exampleDoc s1) = Inr (KindTask, ''demo'', ''unchanged'')"
proof -
  have "ValidateTask exampleTask = None" "meta_GetName (task_Metadata exampleTask) = ''demo''" by code_simp+
  then have "applicable exampleDoc" "doc_Kind exampleDoc = Inr KindTask" "meta_GetName (docMeta exampleDoc) = ''demo''"
    by (simp_all add: applicable_def exampleDoc_def docMeta_def)
  with apply_twice [OF mem_reachable.new exampleCli_fields(1) [of memClient, unfolded memClient_def] exampleCli_fields(2) this(1)]
  show ?thesis by (auto simp: memClient_def)
qed

section \<open>Deleting\<close>

context resource_kind
begin

lemma rpc_delete:
  assumes "wf s"
  shows "\<exists>s'. changes (srvDelete kind del (named a n)) s = (Inr (), s') \<and> wf s' \<and>
    reads (srvGet kind' get (named a n)) s' = (Inl (notFoundStatus kind' n (orDefault a)), s')"
proof -
  note del = srvDelete_removes [OF assms, where kind = kind and rq = "\<lparr>req_Atespace = a, req_Name = n\<rparr>", folded named_def]
  let ?s = "snd (srvDelete kind del (named a n) s)"
  have "get (orDefault a) n ?s = Err ENotFound" by (simp add: del(2))
  then have "view ?s (key (orDefault a) n) = None" using del(3) by (simp add: get_view found_def split: option.splits)
  then have "srvGet kind' get (named a n) ?s = Err (notFoundStatus kind' n (orDefault a))"
    unfolding named_def by (simp add: srvGet_view del(3) [unfolded named_def])
  with del(1,3) show ?thesis
    by (intro exI [of _ ?s]) (simp add: changes_def reads_def rpc_def prod_eq_iff)
qed

end

lemma deleteResource_at_once:
  assumes "deleteKind (cl_Client env) kind a n c = Some (None, c1)" and "lookupKind (cl_Client env) kind a n c1 = (Some e, c2)"
    and "status_code e = CodeNotFound"
  shows "deleteResource env kind a n c = Some (Ok (), toLower kind @ ''.ax.io/'' @ n @ '' deleted'' @ nl, c2)"
proof -
  have "waitForDeletion env kind a n c1 = Some (None, c2)" by (subst waitForDeletion.simps) (simp add: assms)
  with assms show ?thesis by (simp add: deleteResource_def)
qed

text \<open>A deletion that returns no error ends with a lookup that answers NotFound, whatever the server does.\<close>

lemma waitForDeletion_ends:
  assumes "waitForDeletion env kind a n c = Some r"
  shows "fst r = None \<longrightarrow> (\<exists>e c1. lookupKind (cl_Client env) kind a n c1 = (Some e, snd r) \<and> status_code e = CodeNotFound)"
proof (rule waitForDeletion.raw_induct [OF _ assms], goal_cases)
  case (1 w env kind a n c r)
  obtain le c1 where l: "lookupKind (cl_Client env) kind a n c = (le, c1)" by fastforce
  obtain b c2 where w: "cl_Wait env c1 = (b, c2)" by fastforce
  show ?case
  proof (cases le)
    case None
    with 1(2) l w have "b \<longrightarrow> w env kind a n c2 = Some r" "\<not> b \<longrightarrow> fst r \<noteq> None" by auto
    with 1(1) show ?thesis by blast
  next
    case (Some e)
    with 1(2) l show ?thesis by (auto split: if_splits) blast
  qed
qed

text \<open>C30: A reported deletion has happened. When a deletion succeeds, the last thing it did was to look
  the resource up and be told that it is not there; and for gateways, workspaces and models on a
  server over a reachable in-memory store it always succeeds, in the state it leaves the resource is gone.\<close>

theorem delete_confirms:
  "(deleteResource env kind a n c = Some (Ok (), out, c2) \<longrightarrow>
     (\<exists>e c1. lookupKind (cl_Client env) kind a n c1 = (Some e, c2) \<and> status_code e = CodeNotFound)) \<and>
   (mem_reachable s \<and> cl_Client env' = serverClient mem_store now watch recv \<and> kind \<in> {KindGateway, KindWorkspace, KindModel} \<longrightarrow>
     (\<exists>s' e. deleteResource env' kind a n s = Some (Ok (), toLower kind @ ''.ax.io/'' @ n @ '' deleted'' @ nl, s') \<and>
        lookupKind (cl_Client env') kind a n s' = (Some e, s') \<and> status_code e = CodeNotFound))"
proof (intro conjI impI)
  assume "deleteResource env kind a n c = Some (Ok (), out, c2)"
  then obtain c1 where "waitForDeletion env kind a n c1 = Some (None, c2)"
    by (auto simp: deleteResource_def split: option.splits prod.splits)
  from waitForDeletion_ends [OF this]
  show "\<exists>e c1. lookupKind (cl_Client env) kind a n c1 = (Some e, c2) \<and> status_code e = CodeNotFound" by simp
next
  assume "mem_reachable s \<and> cl_Client env' = serverClient mem_store now watch recv \<and> kind \<in> {KindGateway, KindWorkspace, KindModel}"
  then have wf: "mem_wf s" and cl: "cl_Client env' = serverClient mem_store now watch recv"
    and k: "kind = KindGateway \<or> kind = KindWorkspace \<or> kind = KindModel" by (auto intro: mem_reachable_wf)
  have nf: "status_code (notFoundStatus x n y) = CodeNotFound" for x y by (simp add: notFoundStatus_def)
  have "\<exists>x s'. deleteKind (cl_Client env') kind a n s = Some (None, s') \<and>
      lookupKind (cl_Client env') kind a n s' = (Some (notFoundStatus x n (orDefault a)), s')"
    using k mg.rpc_delete [OF wf, of "''gateway''" a n "''gateway''"] mw.rpc_delete [OF wf, of "''workspace''" a n "''workspace''"]
      mm.rpc_delete [OF wf, of "''model''" a n "''model''"]
    by (auto simp: deleteKind_def lookupKind_def cl forget_def kinds_distinct srv_DeleteGateway_def [abs_def] srv_GetGateway_def [abs_def]
        srv_DeleteWorkspace_def [abs_def] srv_GetWorkspace_def [abs_def] srv_DeleteModel_def [abs_def] srv_GetModel_def [abs_def])
  then obtain x s' where d: "deleteKind (cl_Client env') kind a n s = Some (None, s')"
      "lookupKind (cl_Client env') kind a n s' = (Some (notFoundStatus x n (orDefault a)), s')" by blast
  from deleteResource_at_once [where env = env', OF d nf] d(2) nf
  show "\<exists>s' e. deleteResource env' kind a n s = Some (Ok (), toLower kind @ ''.ax.io/'' @ n @ '' deleted'' @ nl, s') \<and>
      lookupKind (cl_Client env') kind a n s' = (Some e, s') \<and> status_code e = CodeNotFound" by blast
qed

theorem delete_confirms_witness:
  "\<exists>s' e. deleteResource (exampleCli memClient) KindModel ''default'' ''m'' mem_NewStore =
      Some (Ok (), toLower KindModel @ ''.ax.io/'' @ ''m'' @ '' deleted'' @ nl, s') \<and>
    lookupKind (cl_Client (exampleCli memClient)) KindModel ''default'' ''m'' s' = (Some e, s') \<and> status_code e = CodeNotFound"
proof -
  have "cl_Client (exampleCli memClient) = serverClient mem_store 7 (\<lambda>_ _ s. (None, s)) (\<lambda>s. (Inl None, s))"
    by (simp add: memClient_def)
  then show ?thesis
    by (intro delete_confirms [THEN conjunct2, THEN mp] conjI mem_reachable.new) (assumption, simp)
qed

section \<open>Running commands in a task\<close>

text \<open>C27: A command runs only in a task that allows it. Whenever \<open>ax ssh\<close> prints anything, ends well or
  exits with a code, the task it looked up was Running, had \<open>spec.debug\<close> and an address; the command
  was run through the guest services, and its exit code is the one of the program.\<close>

theorem ssh_guarded:
  assumes "runSSH env url a k args c = Some (r, out, c2)" and "out \<noteq> [] \<or> r = Returned (Ok ()) \<or> (\<exists>code. r = Exited code)"
  shows "\<exists>name rest task st c1 conn c3 res c4. args = name # rest \<and> ax_GetTask (cl_Client env) a name c = (Inr task, c1) \<and>
    task_Status task = Some st \<and> st_Phase st = ''Running'' \<and> GetDebug (task_Spec task) \<and> st_WorkerIp st \<noteq> [] \<and>
    guest_Exec (cl_Process env conn) \<lparr>eo_Command = (if sshCommand [] rest = [] then [''/bin/sh''] else sshCommand [] rest),
      eo_Cwd = [], eo_Env = [], eo_Stdout = True, eo_Stderr = True\<rparr> c3 = Some (res, c4) \<and>
    out = ex_Out res \<and> (r = Returned (Ok ()) \<longrightarrow> ex_Err res = None \<and> ex_Code res = 0) \<and> (\<forall>code. r = Exited code \<longrightarrow> ex_Code res = code)"
proof -
  obtain name rest where args: "args = name # rest" using assms by (cases args) (auto simp: runSSH_def)
  let ?cmd = "if sshCommand [] rest = [] then [''/bin/sh''] else sshCommand [] rest"
  obtain task c1 st conn c3 where t: "ax_GetTask (cl_Client env) a name c = (Inr task, c1)" "sshCheck name task = Inr st"
      "sshExec env ?cmd conn c3 = Some (r, out, c2)"
    using assms unfolding runSSH_def args
    by (auto simp: Let_def split: option.splits prod.splits sum.splits)
  have "task_Status task = Some st" "st_Phase st = ''Running''" "GetDebug (task_Spec task)" "st_WorkerIp st \<noteq> []"
    using t(2) by (auto simp: sshCheck_def split: option.splits if_splits)
  moreover obtain res c4 where "guest_Exec (cl_Process env (fst conn)) \<lparr>eo_Command = ?cmd, eo_Cwd = [], eo_Env = [], eo_Stdout = True, eo_Stderr = True\<rparr> c3 =
      Some (res, c4)" "out = ex_Out res" "r = Returned (Ok ()) \<longrightarrow> ex_Err res = None \<and> ex_Code res = 0" "\<forall>code. r = Exited code \<longrightarrow> ex_Code res = code"
    using t(3) by (auto simp: sshExec_def Let_def split: option.splits if_splits)
  ultimately show ?thesis using args t(1) by blast
qed

definition runningTask :: task where
  "runningTask = exampleTask\<lparr>task_Spec := Some (exampleSpec\<lparr>ts_Debug := True\<rparr>),
     task_Status := Some (emptyStatus\<lparr>st_Phase := ''Running'', st_WorkerIp := ''10.0.0.1''\<rparr>)\<rparr>"

definition oneTaskClient :: "memory_store axClient" where
  "oneTaskClient = memClient\<lparr>ax_GetTask := (\<lambda>_ _ c. (Inr runningTask, c))\<rparr>"

theorem ssh_guarded_witness:
  "\<exists>out c2 conn c3 res c4. runSSH (exampleCli oneTaskClient) ''http://s'' ''default'' [] [''t'', ''--'', ''false''] mem_NewStore = Some (Exited 3, out, c2) \<and>
    guest_Exec (cl_Process (exampleCli oneTaskClient) conn)
      \<lparr>eo_Command = [''false''], eo_Cwd = [], eo_Env = [], eo_Stdout = True, eo_Stderr = True\<rparr> c3 = Some (res, c4) \<and> ex_Code res = 3"
proof -
  let ?svc = "\<lparr>ps_StartProcess = (\<lambda>_ _ _ g. (Inr ''p1'', g)), ps_StreamProcessOutput = (\<lambda>_ g. (None, g)),
     ps_Recv = (\<lambda>g. (Received \<lparr>po_Exit = Some 3, po_Stdout = [], po_Stderr = []\<rparr>, g)),
     ps_GetProcess = (\<lambda>_ g. (Inr (False, 0), g)), ps_Wait = (\<lambda>g. (None, g))\<rparr>"
  have loop: "streamLoop ?svc o' ws g = Some (Some (execExit 3 ws), ws, g)" for o' ws and g :: memory_store
    by (subst streamLoop.simps) simp
  have check: "sshCheck ''t'' runningTask = Inr (emptyStatus\<lparr>st_Phase := ''Running'', st_WorkerIp := ''10.0.0.1''\<rparr>)"
    "task_Metadata runningTask \<noteq> None" by code_simp+
  then obtain m where m: "task_Metadata runningTask = Some m" by blast
  have r: "runSSH (exampleCli oneTaskClient) ''http://s'' ''default'' [] [''t'', ''--'', ''false''] mem_NewStore =
      Some (Exited 3, [], mem_NewStore)"
    by (simp add: runSSH_def getAXClient_def Let_def exampleCli_def oneTaskClient_def check m sshConnect_def guest_Dial_def
        DialTarget_def sshExec_def guest_Exec_def loop execExit_def split: prod.split)
  from ssh_guarded [OF r] show ?thesis using r by (auto simp del: ex_simps)
qed

section \<open>Flags\<close>

text \<open>The command line's own flags are taken from the command to run: what follows \<open>--\<close> is not spared,
  so \<open>ax ssh t -- ls -n x\<close> runs \<open>ls\<close> alone and looks for the server in the namespace \<open>x\<close>.\<close>

theorem flags_taken_from_command:
  "let f = parseArgs defaultFlags [''ssh'', ''t'', ''--'', ''ls'', ''-n'', ''x''] in
   fl_cmd f = ''ssh'' \<and> fl_namespace f = ''x'' \<and> sshCommand [] (tl (fl_cleanArgs f)) = [''ls'']"
  by code_simp

end
