(* ===== verification/Yaml_Bridge.thy ===== *)
theory Yaml_Bridge
  imports Api_Types
begin

text \<open>
  The YAML encoding of \<open>pkg/apis/v1alpha1/types.go\<close>: a message becomes JSON by protojson, and the JSON
  becomes a tree of YAML nodes that keeps the order of the keys and tags every scalar; a document is
  decoded generically, rewritten by the normalizer of its kind, turned into JSON and decoded
  strictly. The decoder of \<open>encoding/json\<close> is the list of tokens it still has to return, followed by
  an error; \<open>readValue\<close> carries a bound on the nesting and length, and the token list's own length is
  always enough. protojson, the YAML decoder and \<open>time.Parse\<close> are arguments.
\<close>

section \<open>Tokens and nodes\<close>

datatype token = TOpen bool | TClose bool | TStr string | TNum string | TBool bool | TNull
  \<comment> \<open>a bracket of an object (True) or of an array (False)\<close>

datatype node = Scalar string string | Mapping "node list" | Sequence "node list"

text \<open>What is left of a JSON document: its tokens, and what the decoder answers after them.\<close>

type_synonym decoder = "token list \<times> error"

definition nextToken :: "decoder \<Rightarrow> (error + token) \<times> decoder" where
  "nextToken d = (case fst d of [] \<Rightarrow> (Inl (snd d), d) | t # ts \<Rightarrow> (Inr t, (ts, snd d)))"

definition hasMore :: "decoder \<Rightarrow> bool" where
  "hasMore d = (case fst d of [] \<Rightarrow> False | TClose _ # _ \<Rightarrow> False | _ \<Rightarrow> True)"

section \<open>From JSON to YAML\<close>

definition strTag :: "(string \<Rightarrow> bool) \<Rightarrow> string \<Rightarrow> string" where
  "strTag isTime v = (if isTime v then ''!!timestamp'' else ''!!str'')"

definition numTag :: "string \<Rightarrow> string" where
  "numTag n = (if CHR ''.'' \<in> set n \<or> CHR ''e'' \<in> set n \<or> CHR ''E'' \<in> set n then ''!!float'' else ''!!int'')"

text \<open>The members of an object and the elements of an array are read by the two loops.\<close>

fun readValue :: "(string \<Rightarrow> bool) \<Rightarrow> nat \<Rightarrow> decoder \<Rightarrow> (error + node) \<times> decoder"
and readMembers :: "(string \<Rightarrow> bool) \<Rightarrow> nat \<Rightarrow> decoder \<Rightarrow> (error + node list) \<times> decoder"
and readElements :: "(string \<Rightarrow> bool) \<Rightarrow> nat \<Rightarrow> decoder \<Rightarrow> (error + node list) \<times> decoder" where
  "readValue isTime 0 d = (Inl (ENew ''out of fuel''), d)"
| "readValue isTime (Suc k) d =
     (case nextToken d of
        (Inl e, d1) \<Rightarrow> (Inl e, d1)
      | (Inr tok, d1) \<Rightarrow>
          (case tok of
             TOpen obj \<Rightarrow>
               (case (if obj then readMembers isTime k d1 else readElements isTime k d1) of
                  (Inl e, d2) \<Rightarrow> (Inl e, d2)
                | (Inr ns, d2) \<Rightarrow>
                    (case nextToken d2 of
                       (Inl e, d3) \<Rightarrow> (Inl e, d3)
                     | (Inr _, d3) \<Rightarrow> (Inr (if obj then Mapping ns else Sequence ns), d3)))
           | TClose obj \<Rightarrow> (Inl (ENew (''unexpected json delimiter '' @ (if obj then [CHR 0x27, CHR 0x7D, CHR 0x27] else [CHR 0x27, CHR 0x5D, CHR 0x27]))), d1)
           | TStr v \<Rightarrow> (Inr (Scalar (strTag isTime v) v), d1)
           | TNum n \<Rightarrow> (Inr (Scalar (numTag n) n), d1)
           | TBool b \<Rightarrow> (Inr (Scalar ''!!bool'' (if b then ''true'' else ''false'')), d1)
           | TNull \<Rightarrow> (Inr (Scalar ''!!null'' ''null''), d1)))"
| "readMembers isTime 0 d = (Inl (ENew ''out of fuel''), d)"
| "readMembers isTime (Suc k) d =
     (if \<not> hasMore d then (Inr [], d)
      else case nextToken d of
        (Inl e, d1) \<Rightarrow> (Inl e, d1)
      | (Inr keyTok, d1) \<Rightarrow>
          (let key = (case keyTok of TStr s \<Rightarrow> s | _ \<Rightarrow> []) in
           case readValue isTime k d1 of
             (Inl e, d2) \<Rightarrow> (Inl e, d2)
           | (Inr val, d2) \<Rightarrow>
               (case readMembers isTime k d2 of
                  (Inl e, d3) \<Rightarrow> (Inl e, d3)
                | (Inr ns, d3) \<Rightarrow> (Inr (Scalar ''!!str'' key # val # ns), d3))))"
| "readElements isTime 0 d = (Inl (ENew ''out of fuel''), d)"
| "readElements isTime (Suc k) d =
     (if \<not> hasMore d then (Inr [], d)
      else case readValue isTime k d of
        (Inl e, d1) \<Rightarrow> (Inl e, d1)
      | (Inr val, d1) \<Rightarrow>
          (case readElements isTime k d1 of
             (Inl e, d2) \<Rightarrow> (Inl e, d2)
           | (Inr ns, d2) \<Rightarrow> (Inr (val # ns), d2)))"

definition jsonToYAMLNode :: "(string \<Rightarrow> bool) \<Rightarrow> decoder \<Rightarrow> error + node" where
  "jsonToYAMLNode isTime d = fst (readValue isTime (Suc (length (fst d))) d)"

section \<open>Encoding and decoding a message\<close>

text \<open>The libraries: protojson for a message type \<open>'m\<close>, the generic YAML decoder and \<open>json.Marshal\<close>.\<close>

record 'm yamlEnv =
  ye_Marshal :: "'m \<Rightarrow> error + decoder"
  ye_Unmarshal :: "string \<Rightarrow> error + 'm"
  ye_Decode :: "node \<Rightarrow> error + any"
  ye_Json :: "any \<Rightarrow> error + string"
  ye_IsTime :: "string \<Rightarrow> bool"   \<comment> \<open>whether \<open>time.Parse\<close> reads it as RFC 3339\<close>

definition marshalYAML :: "'m yamlEnv \<Rightarrow> 'm \<Rightarrow> error + node" where
  "marshalYAML env m = (case ye_Marshal env m of Inl e \<Rightarrow> Inl e | Inr dat \<Rightarrow> jsonToYAMLNode (ye_IsTime env) dat)"

definition unmarshalYAML ::
  "'m yamlEnv \<Rightarrow> ((string \<times> any) list \<Rightarrow> (string \<times> any) list) option \<Rightarrow> node \<Rightarrow> error + 'm" where
  "unmarshalYAML env normalizer value =
     (case ye_Decode env value of
        Inl e \<Rightarrow> Inl e
      | Inr doc0 \<Rightarrow>
          (let doc = (case doc0 of AMap obj \<Rightarrow> (case normalizer of Some f \<Rightarrow> AMap (f obj) | None \<Rightarrow> doc0) | _ \<Rightarrow> doc0) in
           case ye_Json env doc of
             Inl e \<Rightarrow> Inl (EWrap ''converting yaml to json'' e)
           | Inr dat \<Rightarrow> ye_Unmarshal env dat))"

definition task_UnmarshalYAML :: "task yamlEnv \<Rightarrow> node \<Rightarrow> error + task" where
  "task_UnmarshalYAML env n = unmarshalYAML env None n"
definition gateway_UnmarshalYAML :: "gateway yamlEnv \<Rightarrow> node \<Rightarrow> error + gateway" where
  "gateway_UnmarshalYAML env n = unmarshalYAML env None n"
definition workspace_UnmarshalYAML :: "workspace yamlEnv \<Rightarrow> node \<Rightarrow> error + workspace" where
  "workspace_UnmarshalYAML env n = unmarshalYAML env (Some normalizeWorkspace) n"
definition model_UnmarshalYAML :: "model yamlEnv \<Rightarrow> node \<Rightarrow> error + model" where
  "model_UnmarshalYAML env n = unmarshalYAML env (Some normalizeModel) n"

section \<open>The tree of a value\<close>

text \<open>The tokens of a value, and the node it should become: the same tree, every scalar tagged.\<close>

fun jsonTokens :: "any \<Rightarrow> token list" where
  "jsonTokens (AStr s) = [TStr s]"
| "jsonTokens (ANum n) = [TNum n]"
| "jsonTokens (ABool b) = [TBool b]"
| "jsonTokens ANull = [TNull]"
| "jsonTokens (ASeq vs) = TOpen False # concat (map jsonTokens vs) @ [TClose False]"
| "jsonTokens (AMap kvs) = TOpen True # concat (map (\<lambda>kv. TStr (fst kv) # jsonTokens (snd kv)) kvs) @ [TClose True]"

fun yamlTree :: "(string \<Rightarrow> bool) \<Rightarrow> any \<Rightarrow> node" where
  "yamlTree isTime (AStr s) = Scalar (strTag isTime s) s"
| "yamlTree isTime (ANum n) = Scalar (numTag n) n"
| "yamlTree isTime (ABool b) = Scalar ''!!bool'' (if b then ''true'' else ''false'')"
| "yamlTree isTime ANull = Scalar ''!!null'' ''null''"
| "yamlTree isTime (ASeq vs) = Sequence (map (yamlTree isTime) vs)"
| "yamlTree isTime (AMap kvs) = Mapping (concat (map (\<lambda>kv. [Scalar ''!!str'' (fst kv), yamlTree isTime (snd kv)]) kvs))"

lemma jsonTokens_starts: "\<exists>t ts. jsonTokens v = t # ts \<and> (\<forall>b. t \<noteq> TClose b)"
  by (cases v) simp_all

lemma more_value: "hasMore (jsonTokens v @ ts, e)"
  using jsonTokens_starts [of v] by (auto simp: hasMore_def split: token.splits)

lemma nextToken_simps [simp]: "nextToken (t # ts, e) = (Inr t, (ts, e))"
  by (simp add: nextToken_def)

lemma more_simps [simp]: "\<not> hasMore (TClose b # ts, e)" "hasMore (TStr s # ts, e)"
  by (simp_all add: hasMore_def)

lemma readElements_tokens:
  assumes "\<And>v k ts. v \<in> set vs \<Longrightarrow> length (jsonTokens v) \<le> k \<Longrightarrow> readValue isTime k (jsonTokens v @ ts, e) = (Inr (yamlTree isTime v), (ts, e))"
  shows "length (concat (map jsonTokens vs)) < k \<Longrightarrow>
    readElements isTime k (concat (map jsonTokens vs) @ TClose b # ts, e) = (Inr (map (yamlTree isTime) vs), (TClose b # ts, e))"
  using assms
proof (induction vs arbitrary: k)
  case Nil
  then show ?case by (cases k) simp_all
next
  case (Cons v vs)
  obtain t us where v: "jsonTokens v = t # us" using jsonTokens_starts by blast
  obtain k' where k: "k = Suc k'" using Cons.prems(1) by (cases k) auto
  have "length (jsonTokens v) \<le> k'" "length (concat (map jsonTokens vs)) < k'" using Cons.prems(1) v k by auto
  with Cons.prems(2) [of v k'] Cons.IH [of k'] Cons.prems(2) show ?case
    by (simp add: k more_value)
qed

lemma readMembers_tokens:
  assumes "\<And>kv k ts. kv \<in> set kvs \<Longrightarrow> length (jsonTokens (snd kv)) \<le> k \<Longrightarrow>
      readValue isTime k (jsonTokens (snd kv) @ ts, e) = (Inr (yamlTree isTime (snd kv)), (ts, e))"
  shows "length (concat (map (\<lambda>kv. TStr (fst kv) # jsonTokens (snd kv)) kvs)) < k \<Longrightarrow>
    readMembers isTime k (concat (map (\<lambda>kv. TStr (fst kv) # jsonTokens (snd kv)) kvs) @ TClose b # ts, e) =
      (Inr (concat (map (\<lambda>kv. [Scalar ''!!str'' (fst kv), yamlTree isTime (snd kv)]) kvs)), (TClose b # ts, e))"
  using assms
proof (induction kvs arbitrary: k)
  case Nil
  then show ?case by (cases k) simp_all
next
  case (Cons kv kvs)
  obtain k' where k: "k = Suc k'" using Cons.prems(1) by (cases k) auto
  have "length (jsonTokens (snd kv)) \<le> k'"
    "length (concat (map (\<lambda>kv. TStr (fst kv) # jsonTokens (snd kv)) kvs)) < k'" using Cons.prems(1) k by auto
  with Cons.prems(2) [of kv k'] Cons.IH [of k'] Cons.prems(2) show ?case
    by (simp add: k)
qed

lemma readValue_tokens:
  "length (jsonTokens v) \<le> k \<Longrightarrow> readValue isTime k (jsonTokens v @ ts, e) = (Inr (yamlTree isTime v), (ts, e))"
proof (induction v arbitrary: k ts)
  case (ASeq vs)
  then obtain k' where k: "k = Suc k'" by (cases k) auto
  from ASeq have "readElements isTime k' (concat (map jsonTokens vs) @ TClose False # ts, e) =
      (Inr (map (yamlTree isTime) vs), (TClose False # ts, e))"
    by (intro readElements_tokens) (auto simp: k)
  then show ?case by (simp add: k)
next
  case (AMap kvs)
  then obtain k' where k: "k = Suc k'" by (cases k) auto
  from AMap have "readMembers isTime k' (concat (map (\<lambda>kv. TStr (fst kv) # jsonTokens (snd kv)) kvs) @ TClose True # ts, e) =
      (Inr (concat (map (\<lambda>kv. [Scalar ''!!str'' (fst kv), yamlTree isTime (snd kv)]) kvs)), (TClose True # ts, e))"
    by (intro readMembers_tokens) (auto simp: k elim!: snds.cases)
  then show ?case by (simp add: k)
next
  case (AStr s) then show ?case by (cases k) simp_all
next
  case (ANum s) then show ?case by (cases k) simp_all
next
  case (ABool s) then show ?case by (cases k) simp_all
next
  case ANull then show ?case by (cases k) simp_all
qed

text \<open>C38: The conversion is the plain recursion over the value. For the tokens of any JSON value, however
  deep, it returns without error the same tree with every scalar tagged, keys in the order they came
  in, and a scalar's text unchanged.\<close>

theorem jsonToYAMLNode_tree:
  "jsonToYAMLNode isTime (jsonTokens v @ ts, e) = Inr (yamlTree isTime v)"
proof -
  have "length (jsonTokens v) \<le> Suc (length (jsonTokens v @ ts))" by simp
  from readValue_tokens [OF this] show ?thesis by (simp add: jsonToYAMLNode_def)
qed

end
