(* ===== verification/Spec2Isabelle.thy ===== *)
theory Spec2Isabelle
  imports Daemons Cli_Properties Yaml_Bridge
begin

text \<open>
  A verification development for AX (\<open>github.com/google/ax\<close>), which runs coding agents as tasks in
  actors of Agent Substrate. A user applies Task, Gateway, Workspace and Model manifests with the
  command line (\<open>cmd/ax\<close>); the API server (\<open>internal/server\<close>) validates and stores them
  (\<open>internal/store\<close>) and the store emits an event for every change of a task; a worker in the
  controller (\<open>internal/controller\<close>) takes the events and reconciles each task against the control
  API of Substrate (\<open>internal/substrate\<close>); in the task's container the runner (\<open>runner\<close>) sets up the
  workspaces (\<open>internal/workspace\<close>), serves metadata (\<open>internal/metadata\<close>) and runs the command.

  \<^bold>\<open>The theories and what they model.\<close>

  \<^item> \<open>Prelude\<close>: Go errors, results (\<open>'a go\<close> is a value, an error or a panic), the functions of \<open>strings\<close>,
    \<open>strconv\<close>, \<open>fmt\<close> and \<open>net\<close> the sources use, 64-bit arithmetic.
  \<^item> \<open>Api_Types\<close>: the messages of \<open>pkg/apis/v1alpha1/ax.pb.go\<close> as records, and \<open>types.go\<close>: legacy
    manifests, workspace bindings, \<open>ValidateTask\<close>. \<open>Yaml_Bridge\<close>: the JSON-to-YAML conversion of \<open>types.go\<close>.
  \<^item> \<open>Store_Spec\<close>: the interface of \<open>internal/store/store.go\<close> as a record of operations, its contract as the
    locales \<open>resource_kind\<close>, \<open>ax_store\<close>, \<open>total_store\<close>, \<open>event_queue\<close> and \<open>queued_store\<close>, and what follows from it.
  \<^item> \<open>Memory_Store\<close>: \<open>internal/store/memory/store.go\<close> over an explicit heap of task and channel objects, because
    the code shares pointers between the map and the watchers; interprets all the locales.
  \<^item> \<open>Redis_Store\<close>, \<open>Redis_Refinement\<close>: \<open>internal/store/redis/store.go\<close> over a Redis client given as a record,
    and the proof that it meets the same contract when the commands do what Redis documents (\<open>redis_laws\<close>,
    \<open>stream_laws\<close>) and protojson loses nothing (\<open>encodes\<close>).
  \<^item> \<open>Substrate_Client\<close>, \<open>Model_Config\<close>, \<open>Model_Client\<close>: \<open>internal/substrate/client.go\<close> and \<open>internal/model\<close>.
  \<^item> \<open>Reconciler\<close>, \<open>Worker\<close>: \<open>internal/controller\<close>. \<open>reconcile\<close> is split into the stages of the code and
    panics where the readiness probe sends a nil request; a run of the worker is a list of turns.
  \<^item> \<open>Api_Server\<close>: \<open>internal/server/server.go\<close>, every handler over any store.
  \<^item> \<open>Workspace_Setup\<close>, \<open>Task_Runner\<close>: \<open>internal/workspace\<close>, \<open>internal/metadata\<close>, \<open>runner\<close>, \<open>cmd/ax-task-runner\<close>.
  \<^item> \<open>Tunnel\<close>, \<open>Guest_Client\<close>, \<open>Cli\<close>: \<open>internal/tunnel\<close>, \<open>internal/guest\<close>, \<open>cmd/ax\<close>. \<open>Cli_Properties\<close> puts the
    commands on top of the server and the in-memory store.
  \<^item> \<open>Go_Flags\<close>: what the programs use of Go's \<open>flag\<close> package. \<open>Daemons\<close>: \<open>main\<close> of \<open>cmd/ax-server\<close> and
    \<open>cmd/ax-controller\<close>, from the flags and the environment to the exit status, and what the two do to
    one database.

  \<^bold>\<open>How it is modelled.\<close> State is passed explicitly; a call on the outside world takes and returns the
  world. What is not in the repository (the control API, Redis, HTTP, YAML, protojson, git, kubectl,
  the operating system) is a record of functions, an argument of every definition that uses it;
  nothing is assumed about it but what a theorem names as a hypothesis, and each such theorem has an
  instance in which the hypotheses hold. The clock, the order of map iteration, the branch a
  \<open>select\<close> takes and the reason a context ends are arguments too. Strings are byte strings; where
  the code ranges over the characters of a context name they are split by the rules of UTF-8, and the
  case mapping and trimming is that of ASCII. Calls that only log are left out.

  \<^bold>\<open>What the lemmas show.\<close> For both stores, the contract: what is saved is found under its key and
  nothing else changes, listings are complete and paged, task changes emit events, a deletion marks
  the task and the record goes away last. For the in-memory store, an invariant of the heap that every
  operation keeps and under which no operation panics. For the server, that an update followed by a
  get returns what was sent with its metadata completed and that no request panics, a listing beyond
  the range of \<open>int64\<close> apart. For the
  reconciler, what the status says after every outcome and which part of a task a run may change. For
  the worker, that it takes every event in order, what a run is given and what is stored of it, and the
  two inputs that crash it (a task without a spec, a worker address without a parsable URL). Here, the path of a
  deletion from the request to the last record. For the model client, bounds on retries and the
  equivalence of the request translation with a key-by-key specification. For the runner, its life
  cycle, and that the guest services need \<open>spec.debug\<close>. For the command line, that a manifest applied
  twice is unchanged the second time, that a deletion that is reported has happened and that a command
  runs only in a task that allows it. For the two daemons, that a task the server accepts is the next
  one the controller reconciles, and that the keys of their database keep their types.

  \<^bold>\<open>Bounds and loops.\<close> The retry loops carry the number of attempts the code allows. The polling of a
  tunnel has 101 and 31 rounds, shown to be enough for the deadlines of five and three seconds
  (\<open>ensure_returns\<close>). The wait for a deletion, the streams and the polling of a process may not end; they
  are partial functions and their theorems say when they return. JSON reading has fuel for every token.

  \<^bold>\<open>Not modelled.\<close> The generated protobuf and gRPC code beyond the messages and the getters that are used;
  the Python bootstrap script; the listening and shutting down of the HTTP servers and the delivery of
  signals, which are arguments; logging; the
  concurrency of goroutines except where an interleaving is observable (the watch channels, the
  event queue, the reader of a port-forward, the end of a task's command).
\<close>

section \<open>Properties that span components\<close>

text \<open>C1: deletion, from the API to the last record. A delete request for a stored task, on a store
  with room in its event queue whose tasks all have a spec, followed by a worker that takes every
  pending event, leaves no task behind: a get of the same name answers NotFound. The demands on the
  control service are that deleting that actor succeeds and that, while the events before the
  deletion are processed, the addresses it gives for resumed workers make URLs that can be parsed
  (\<open>addressable\<close>; any other address crashes the worker before it gets to the deletion).\<close>

theorem delete_end_to_end:
  assumes "mem_reachable s" and "mem_GetTask a n s = Ok t" and "length (mem_events s) < eventCap"
    and "\<forall>a n t. mem_GetTask a n s = Ok t \<longrightarrow> task_Spec t \<noteq> None"
    and "\<forall>c. fst (DeleteActor ctl (orDefault a) n c) = None"
    and "s1 = snd (srv_DeleteTask mem_store now (Some \<lparr>req_Atespace = a, req_Name = n\<rparr>) s)"
    and "length tns = length (mem_events s)" and "\<forall>tn \<in> set tns. addressable ctl (turn_env tn)"
  shows "\<exists>s2 c2. worker_Run mem_store (Inr mem_queue) ctl r (tns @ [tn]) (s1, c) = (WRunning, s2, c2) \<and>
    srv_GetTask mem_store (Some \<lparr>req_Atespace = a, req_Name = n\<rparr>) s2 = Err (notFoundStatus ''task'' n (orDefault a))"
proof -
  have wf: "mem_wf s" using assms(1) by (rule mem_reachable_wf)
  let ?ev = "deleteEvent now (orDefault a) n"
  have get: "mem_GetTask (orDefault a) n s = Ok t" using assms(2) by (simp add: mem_GetTask_def)
  then obtain p where p: "map_of (mem_tasks s) (mem_taskKey (orDefault a) n) = Some p"
    by (auto simp: mem_GetTask_def split: option.splits)
  note eq = mem_MarkTaskDeleting_eq [OF mem_wfD(2) [OF wf] p, of now]
  have s1: "s1 = snd (mem_MarkTaskDeleting now (orDefault a) n s)"
    unfolding assms(6) using eq by (cases "a = []") (simp_all add: srv_DeleteTask_def orDefault_def Let_def)
  have wf1: "mem_wf s1" unfolding s1 by (intro wf_intro wf)
  have evs: "mem_events s1 = mem_events s @ [?ev]"
    using assms(3) by (simp add: s1 eq mem_events_publish)
  have "mq.runnable s" using assms(4) wf by (simp add: mem_runnable_iff)
  then have run1: "mq.runnable s1"
    using ms.mark_present [OF wf, of "orDefault a" n t now] get mt.get_view [OF wf]
    by (auto simp: mq.runnable_def s1)
  from mq.loop_takes [OF wf1 run1 evs assms(7,8), of r c] obtain s' c' where
    l: "workerLoop mem_store mem_queue ctl r tns (s1, c) = (WRunning, s', c')" "mem_wf s'" "mq.runnable s'" "mem_events s' = [?ev]"
    by blast
  let ?s'' = "s'\<lparr>mem_events := []\<rparr>"
  have wf'': "mem_wf ?s''" using l(2) by (intro mem_wf_kinds) simp_all
  obtain err c2 where d: "ReconcileDelete ctl (env_done (turn_env tn)) (orDefault a) n c' = (err, c2)" by fastforce
  have "err = None"
    using d assms(5) by (auto simp: ReconcileDelete_def Let_def split: prod.splits option.splits) (metis fst_conv option.distinct(1))
  with mq.processEvent_delete [OF wf'', of ?ev ctl "turn_env tn" c' err c2 r] d
  have "processEvent mem_store ctl r (turn_env tn) ?ev (?s'', c') = (Ok (), snd (mem_DeleteTask (orDefault a) n ?s''), c2)"
    by (simp add: deleteEvent_def)
  then have "workerTurn mem_store mem_queue ctl r tn (s', c') = (WRunning, snd (mem_DeleteTask (orDefault a) n ?s''), c2)"
    by (simp add: workerTurn_def mem_queue_def mem_Next_def mem_Ack_def l(4))
  moreover have "srv_GetTask mem_store (Some \<lparr>req_Atespace = a, req_Name = n\<rparr>) (snd (mem_DeleteTask (orDefault a) n ?s'')) =
      Err (notFoundStatus ''task'' n (orDefault a))"
    unfolding srv_GetTask_def by (simp add: mt.srvGet_view [OF mt.del_wf [OF wf'']] mt.del_view [OF wf''])
  ultimately show ?thesis
    using workerLoop_append [OF l(1), of "[tn]"] by (simp add: worker_Run_def)
qed

theorem delete_end_to_end_witness:
  "\<exists>s2 c2. worker_Run mem_store (Inr mem_queue) sim_egress exampleRec [exampleTurn, exampleTurn]
      (snd (srv_DeleteTask mem_store 9 (Some \<lparr>req_Atespace = [], req_Name = ''demo''\<rparr>) exampleStore), (Map.empty, 0)) = (WRunning, s2, c2) \<and>
    srv_GetTask mem_store (Some \<lparr>req_Atespace = [], req_Name = ''demo''\<rparr>) s2 = Err (notFoundStatus ''task'' ''demo'' ''default'')"
proof -
  have e: "length (mem_events exampleStore) = 1"
    by (simp add: exampleStore_def mem_SaveTask_eq mem_wfD [OF mem_wf_NewStore] mem_events_publish)
      (simp add: mem_NewStore_def eventCap_def)
  have "\<forall>c. fst (DeleteActor sim_egress (orDefault []) ''demo'' c) = None"
    by (simp add: DeleteActor_def sim_egress_def)
  from delete_end_to_end [OF exampleStore_reachable exampleStore_get _ _ this refl, of "[exampleTurn]" exampleRec exampleTurn 9]
  show ?thesis using e exampleStore_runnable by (simp add: eventCap_def orDefault_def exampleTurn_def exampleEnv_addressable)
qed

text \<open>C22: a task without a spec is accepted by the API and crashes the worker. Updating a named task
  that has no spec succeeds, and the worker that takes the resulting event on an otherwise empty
  queue dereferences the missing spec.\<close>

theorem nil_spec_crashes_worker:
  assumes "mem_reachable s" and "mem_events s = []" and "task_Spec t = None" and "meta_GetName (task_Metadata t) \<noteq> []"
  shows "(\<exists>t'. fst (srv_UpdateTask mem_store now (Some (Some t)) s) = Ok t') \<and>
    fst (workerTurn mem_store mem_queue ctl r tn (snd (srv_UpdateTask mem_store now (Some (Some t)) s), c)) = WCrashed"
proof -
  have wf: "mem_wf s" using assms(1) by (rule mem_reachable_wf)
  let ?set = "\<lambda>m t. t\<lparr>task_Metadata := Some m\<rparr>"
  let ?t = "?set (mt.updatedMeta now t s) t"
  have n: "meta_GetName (task_Metadata ?t) \<noteq> []" using assms(4) by (simp add: mt.updatedMeta_def)
  have u: "srv_UpdateTask mem_store now (Some (Some t)) s = mem_SaveTask now ?t s"
    using assms(3) mt.defaultMetadata_eq [OF wf, of now t] mem_SaveTask_eq [OF mem_wfD(2) [OF wf] n, of now]
    by (simp add: srv_UpdateTask_def ValidateTask_def srvUpdate_def)
  let ?s1 = "snd (mem_SaveTask now ?t s)"
  have ev: "mem_events ?s1 = [reconcileEvent now ?t]"
    using assms(2) n by (simp add: mem_SaveTask_eq mem_wfD [OF wf] mem_events_publish eventCap_def)
  have g: "mem_GetTask (ev_Atespace (reconcileEvent now ?t)) (ev_Name (reconcileEvent now ?t)) (?s1\<lparr>mem_events := []\<rparr>) = Ok (mem_normTask ?t)"
    using mt.get_after_save [OF wf n, of "ev_Atespace (reconcileEvent now ?t)" "ev_Name (reconcileEvent now ?t)" now]
    by (simp add: reconcileEvent_def mem_GetTask_def cong: option.case_cong)
  have "processEvent mem_store ctl r (turn_env tn) (reconcileEvent now ?t) (?s1\<lparr>mem_events := []\<rparr>, c) = (Panic, ?s1\<lparr>mem_events := []\<rparr>, c)"
    using g assms(3) by (simp add: processEvent_def processReconcile_def reconcileEvent_def)
  then have "fst (workerTurn mem_store mem_queue ctl r tn (?s1, c)) = WCrashed"
    using ev by (simp add: workerTurn_def mem_queue_def mem_Next_def)
  then show ?thesis using n by (simp add: u mem_SaveTask_eq mem_wfD [OF wf])
qed

theorem nil_spec_crashes_worker_witness:
  "fst (workerTurn mem_store mem_queue sim_egress exampleRec exampleTurn
     (snd (srv_UpdateTask mem_store 5 (Some (Some (exampleTask\<lparr>task_Spec := None\<rparr>))) mem_NewStore), (Map.empty, 0))) = WCrashed"
  using nil_spec_crashes_worker [OF mem_reachable.new, of "exampleTask\<lparr>task_Spec := None\<rparr>" 5 sim_egress exampleRec exampleTurn "(Map.empty, 0)"]
  by (simp add: mem_NewStore_def)

end
